(* ===== verification/Prelude.thy ===== *)
theory Prelude
  imports Complex_Main "HOL-Library.Word"
begin

text \<open>
  Shared vocabulary of the development: the types every component uses (Go's 64-bit integers,
  float64 values that are only stored and compared, Go errors as values), the collections of
  facts the component theories fill, and generic lemmas on lists, maps and words.
\<close>

section \<open>Types shared by the components\<close>

text \<open>Go's \<open>int\<close> and \<open>int64\<close> (and so \<open>time.Duration\<close>) on the supported platforms.\<close>

type_synonym i64 = "64 word"
type_synonym i32 = "32 word"

text \<open>
  A float64 value is modelled by the rational number it denotes. Prices are read from JSON, copied
  and compared and never computed with; the one computation, in \<open>Informers\<close>, rounds explicitly.
\<close>

type_synonym float64 = rat

text \<open>A Go function that returns \<open>(T, error)\<close>: \<open>Inl\<close> is a non-nil error.\<close>

type_synonym ('e, 'a) result = "'e + 'a"

named_theorems codec_simps \<open>decoding rules of the JSON field combinators\<close>
named_theorems config_simps \<open>unfolding rules of the configuration operations\<close>
named_theorems kubelet_simps \<open>unfolding rules of the kubelet operations\<close>

text \<open>\<open>n * time.Second\<close> for a constant \<open>n\<close>.\<close>

definition seconds :: "int \<Rightarrow> i64" where
  "seconds n = word_of_int (n * 1000000000)"

section \<open>Lists\<close>

lemma filter_all_id [simp]: "list_all P xs \<Longrightarrow> filter P xs = xs"
  by (induction xs) auto

lemma length_le_take: "length (take n xs) \<le> n"
  by simp

lemma distinct_snoc: "distinct (xs @ [x]) \<longleftrightarrow> distinct xs \<and> x \<notin> set xs"
  by auto

section \<open>Maps\<close>

lemma map_le_delete_other: "k' \<noteq> k \<Longrightarrow> (m(k := None)) k' = m k'"
  by simp

lemma dom_delete: "dom (m(k := None)) = dom m - {k}"
  by auto

section \<open>Signed words\<close>

text \<open>Signed comparison as Go writes it, on the two's complement reading of a word.\<close>

definition slt :: "i64 \<Rightarrow> i64 \<Rightarrow> bool" where
  "slt a b \<longleftrightarrow> sint a < sint b"

definition sle :: "i64 \<Rightarrow> i64 \<Rightarrow> bool" where
  "sle a b \<longleftrightarrow> sint a \<le> sint b"

lemma sint_i64_range: "- (2 ^ 63) \<le> sint (w :: i64) \<and> sint w < 2 ^ 63"
  using sint_range_size [of w] by (simp add: word_size)

lemma sint_of_int_i64:
  assumes "- (2 ^ 63) \<le> i" and "i < 2 ^ 63"
  shows "sint (word_of_int i :: i64) = i"
  using assms by (simp add: sint_sbintrunc' signed_take_bit_int_eq_self)

lemma sint_double_i64:
  assumes "0 \<le> sint (w :: i64)" and "sint w < 2 ^ 62"
  shows "sint (w * 2) = 2 * sint w"
proof -
  have "w * 2 = word_of_int (2 * sint w)"
    by (simp add: mult.commute)
  then have "sint (w * 2) = sint (word_of_int (2 * sint w) :: i64)"
    by (rule arg_cong)
  also have "\<dots> = 2 * sint w"
    using assms by (intro sint_of_int_i64) simp_all
  finally show ?thesis .
qed

section \<open>Transition systems\<close>

text \<open>
  The concurrent parts of the program are labelled transition systems: a state can be reached if
  it is initial or one step from a reachable state; a run collects the labels of its steps.
\<close>

inductive reachable :: "('s \<Rightarrow> bool) \<Rightarrow> ('s \<Rightarrow> 'l \<Rightarrow> 's \<Rightarrow> bool) \<Rightarrow> 's \<Rightarrow> bool"
  for init step where
  reachable_init: "init s \<Longrightarrow> reachable init step s"
| reachable_step: "reachable init step s \<Longrightarrow> step s l t \<Longrightarrow> reachable init step t"

inductive run_of :: "('s \<Rightarrow> 'l \<Rightarrow> 's \<Rightarrow> bool) \<Rightarrow> 's \<Rightarrow> 'l list \<Rightarrow> 's \<Rightarrow> bool" for step where
  run_nil: "run_of step s [] s"
| run_snoc: "run_of step s ls t \<Longrightarrow> step t l u \<Longrightarrow> run_of step s (ls @ [l]) u"

lemma run_single: "step s l t \<Longrightarrow> run_of step s [l] t"
  using run_snoc [OF run_nil] by fastforce

lemma run_append:
  assumes "run_of step s ls t" and "run_of step t ms u"
  shows "run_of step s (ls @ ms) u"
  using assms(2,1)
  by (induction rule: run_of.induct) (auto intro: run_of.run_snoc simp flip: append_assoc)

lemma run_Cons: "step s l t \<Longrightarrow> run_of step t ls u \<Longrightarrow> run_of step s (l # ls) u"
  using run_append [OF run_single] by fastforce

lemma run_split: "run_of step s (ls @ ms) u \<Longrightarrow> \<exists>t. run_of step s ls t \<and> run_of step t ms u"
proof (induction ms arbitrary: u rule: rev_induct)
  case (snoc m ms)
  then obtain t where t: "run_of step s (ls @ ms) t" "step t m u"
    by (auto elim: run_of.cases simp flip: append_assoc)
  with snoc.IH obtain t' where "run_of step s ls t'" "run_of step t' ms t" by blast
  with t(2) show ?case by (blast intro: run_of.run_snoc)
qed (auto intro: run_nil)

lemma reachable_run: "reachable init step s \<Longrightarrow> run_of step s ls t \<Longrightarrow> reachable init step t"
  by (rotate_tac, induction rule: run_of.induct) (auto intro: reachable_step)

text \<open>An inductive invariant holds in every reachable state and along every run.\<close>

locale invariant_system =
  fixes init :: "'s \<Rightarrow> bool"
    and step :: "'s \<Rightarrow> 'l \<Rightarrow> 's \<Rightarrow> bool"
    and inv :: "'s \<Rightarrow> bool"
  assumes inv_init: "init s \<Longrightarrow> inv s"
    and inv_step: "inv s \<Longrightarrow> step s l t \<Longrightarrow> inv t"
begin

lemma reachable_inv: "reachable init step s \<Longrightarrow> inv s"
  by (induction rule: reachable.induct) (auto intro: inv_init inv_step)

lemma run_inv: "run_of step s ls t \<Longrightarrow> inv s \<Longrightarrow> inv t"
  by (induction rule: run_of.induct) (auto intro: inv_step)

end

text \<open>
  A specification automaton accepts or refuses each label; a simulation shows that every run of
  the detailed system is accepted.
\<close>

primrec spec_run :: "('p \<Rightarrow> 'l \<Rightarrow> 'p option) \<Rightarrow> 'p \<Rightarrow> 'l list \<Rightarrow> 'p option" where
  "spec_run spec p [] = Some p"
| "spec_run spec p (l # ls) = (case spec p l of None \<Rightarrow> None | Some q \<Rightarrow> spec_run spec q ls)"

lemma spec_run_snoc:
  "spec_run spec p (ls @ [l]) = (case spec_run spec p ls of None \<Rightarrow> None | Some q \<Rightarrow> spec q l)"
  by (induction ls arbitrary: p) (auto split: option.splits)

lemma spec_run_append:
  "spec_run spec p (ls @ ms) =
     (case spec_run spec p ls of None \<Rightarrow> None | Some q \<Rightarrow> spec_run spec q ms)"
  by (induction ls arbitrary: p) (auto split: option.splits)

locale simulation =
  fixes step :: "'s \<Rightarrow> 'l \<Rightarrow> 's \<Rightarrow> bool"
    and spec :: "'p \<Rightarrow> 'l \<Rightarrow> 'p option"
    and rel :: "'p \<Rightarrow> 's \<Rightarrow> bool"
  assumes sim_step: "rel p s \<Longrightarrow> step s l t \<Longrightarrow> \<exists>q. spec p l = Some q \<and> rel q t"
begin

lemma sim_run: "run_of step s ls t \<Longrightarrow> rel p s \<Longrightarrow> \<exists>q. spec_run spec p ls = Some q \<and> rel q t"
proof (induction rule: run_of.induct)
  case (run_snoc s ls t l u)
  then obtain q where "spec_run spec p ls = Some q" and "rel q t"
    by blast
  with sim_step [of q t l u] run_snoc.hyps(2) show ?case by (auto simp: spec_run_snoc)
qed simp

end

end
