(* ===== verification/Go_Strings.thy ===== *)
theory Go_Strings
  imports Prelude "HOL-Library.Sublist"
begin

text \<open>
  The functions of Go's packages \<open>strings\<close>, \<open>strconv\<close> and \<open>fmt\<close> that the program calls. A Go
  string is its sequence of bytes, so \<open>string\<close> (a list of 8-bit characters) is the exact type;
  where a function of the library reads UTF-8, the encodings it looks for are written out.
\<close>

section \<open>Prefixes, search and replacement\<close>

definition has_prefix :: "string \<Rightarrow> string \<Rightarrow> bool" where
  "has_prefix s p \<longleftrightarrow> take (length p) s = p"

fun contains :: "string \<Rightarrow> string \<Rightarrow> bool" where
  "contains [] sub = (sub = [])"
| "contains (c # s) sub = (has_prefix (c # s) sub \<or> contains s sub)"

text \<open>\<open>strings.Replace(s, old, new, 1)\<close> for a non-empty \<open>old\<close>: the leftmost occurrence.\<close>

fun replace_first :: "string \<Rightarrow> string \<Rightarrow> string \<Rightarrow> string" where
  "replace_first old new [] = []"
| "replace_first old new (c # s) =
     (if has_prefix (c # s) old then new @ drop (length old) (c # s)
      else c # replace_first old new s)"

text \<open>\<open>strings.Cut(s, sep)\<close> for a separator of one byte: before, after, found.\<close>

fun cut :: "char \<Rightarrow> string \<Rightarrow> string \<times> string \<times> bool" where
  "cut sep [] = ([], [], False)"
| "cut sep (c # s) =
     (if c = sep then ([], s, True)
      else (case cut sep s of (before, after, found) \<Rightarrow> (c # before, after, found)))"

text \<open>\<open>strings.Split(s, sep)\<close> for a separator of one byte.\<close>

fun split_on :: "char \<Rightarrow> string \<Rightarrow> string list" where
  "split_on sep [] = [[]]"
| "split_on sep (c # s) =
     (if c = sep then [] # split_on sep s
      else (case split_on sep s of [] \<Rightarrow> [[c]] | w # ws \<Rightarrow> (c # w) # ws))"

lemma has_prefix_append [simp]: "has_prefix (p @ s) p"
  by (simp add: has_prefix_def)

lemma has_prefix_Nil [simp]: "has_prefix s []"
  by (simp add: has_prefix_def)

lemma has_prefix_iff: "has_prefix s p \<longleftrightarrow> (\<exists>r. s = p @ r)"
proof
  assume "has_prefix s p"
  then have "s = p @ drop (length p) s"
    by (metis append_take_drop_id has_prefix_def)
  then show "\<exists>r. s = p @ r" ..
qed auto

lemma contains_iff: "contains s sub \<longleftrightarrow> (\<exists>a b. s = a @ sub @ b)"
proof (induction s)
  case (Cons c s)
  have "(\<exists>a b. c # s = a @ sub @ b) \<longleftrightarrow> has_prefix (c # s) sub \<or> (\<exists>a b. s = a @ sub @ b)"
    by (auto simp: has_prefix_iff Cons_eq_append_conv)
  with Cons show ?case by simp
qed simp

lemma replace_first_prefix [simp]:
  "old \<noteq> [] \<Longrightarrow> replace_first old new (old @ s) = new @ s"
  by (cases old) (auto simp: has_prefix_def)

lemma replace_first_absent: "\<not> contains s old \<Longrightarrow> replace_first old new s = s"
  by (induction s) auto

lemma cut_char: "cut sep (a @ sep # b) = (a, b, True)" if "sep \<notin> set a"
  using that by (induction a) auto

lemma split_on_ne [simp]: "split_on sep s \<noteq> []"
  by (cases s) (auto split: list.splits)

lemma split_on_no_sep: "w \<in> set (split_on sep s) \<Longrightarrow> sep \<notin> set w"
proof (induction s arbitrary: w)
  case (Cons c s)
  then show ?case by (cases "split_on sep s") (auto split: if_splits)
qed simp

lemma split_on_first: "sep \<notin> set w \<Longrightarrow> split_on sep (w @ sep # s) = w # split_on sep s"
  by (induction w) auto

lemma split_on_none: "sep \<notin> set w \<Longrightarrow> split_on sep w = [w]"
  by (induction w) auto

section \<open>White space\<close>

text \<open>
  The runes for which \<open>unicode.IsSpace\<close> holds, as their UTF-8 encodings: the six ASCII ones,
  U+0085, U+00A0, U+1680, U+2000 to U+200A, U+2028, U+2029, U+202F, U+205F and U+3000. UTF-8 is
  self-synchronising, so the decoder of \<open>TrimSpace\<close> sees one of these runes at an end of the
  string exactly when its bytes stand there.
\<close>

definition space_encodings :: "string list" where
  "space_encodings =
     [[CHR 0x09], [CHR 0x0A], [CHR 0x0B], [CHR 0x0C], [CHR 0x0D], [CHR 0x20],
      [CHR 0xC2, CHR 0x85], [CHR 0xC2, CHR 0xA0], [CHR 0xE1, CHR 0x9A, CHR 0x80],
      [CHR 0xE2, CHR 0x80, CHR 0x80], [CHR 0xE2, CHR 0x80, CHR 0x81],
      [CHR 0xE2, CHR 0x80, CHR 0x82], [CHR 0xE2, CHR 0x80, CHR 0x83],
      [CHR 0xE2, CHR 0x80, CHR 0x84], [CHR 0xE2, CHR 0x80, CHR 0x85],
      [CHR 0xE2, CHR 0x80, CHR 0x86], [CHR 0xE2, CHR 0x80, CHR 0x87],
      [CHR 0xE2, CHR 0x80, CHR 0x88], [CHR 0xE2, CHR 0x80, CHR 0x89],
      [CHR 0xE2, CHR 0x80, CHR 0x8A], [CHR 0xE2, CHR 0x80, CHR 0xA8],
      [CHR 0xE2, CHR 0x80, CHR 0xA9], [CHR 0xE2, CHR 0x80, CHR 0xAF],
      [CHR 0xE2, CHR 0x81, CHR 0x9F], [CHR 0xE3, CHR 0x80, CHR 0x80]]"

text \<open>Removing members of a list of encodings from the front as long as one is there.\<close>

function strip :: "string list \<Rightarrow> string \<Rightarrow> string" where
  "strip ws s =
     (case find (\<lambda>w. w \<noteq> [] \<and> has_prefix s w) ws of
        None \<Rightarrow> s
      | Some w \<Rightarrow> strip ws (drop (length w) s))"
  by pat_completeness auto
termination
proof (relation "measure (\<lambda>(ws, s). length s)", goal_cases)
  case (2 ws s w)
  then have "w \<noteq> []" and "has_prefix s w"
    by (auto simp: find_Some_iff)
  then show ?case by (auto simp: has_prefix_iff)
qed simp

declare strip.simps [simp del]

definition trim_space :: "string \<Rightarrow> string" where
  "trim_space s = rev (strip (map rev space_encodings) (rev (strip space_encodings s)))"

lemma strip_stop: "find (\<lambda>w. w \<noteq> [] \<and> has_prefix (strip ws s) w) ws = None"
proof (induction ws s rule: strip.induct)
  case (1 ws s)
  then show ?case
    by (cases "find (\<lambda>w. w \<noteq> [] \<and> has_prefix s w) ws") (simp_all add: strip.simps [of ws s])
qed

lemma strip_stopped: "find (\<lambda>w. w \<noteq> [] \<and> has_prefix s w) ws = None \<Longrightarrow> strip ws s = s"
  by (simp add: strip.simps)

lemma strip_idem [simp]: "strip ws (strip ws s) = strip ws s"
  by (rule strip_stopped) (rule strip_stop)

lemma strip_suffix: "\<exists>a. s = a @ strip ws s"
proof (induction ws s rule: strip.induct)
  case (1 ws s)
  show ?case
  proof (cases "find (\<lambda>w. w \<noteq> [] \<and> has_prefix s w) ws")
    case (Some w)
    with 1 obtain a where "drop (length w) s = a @ strip ws (drop (length w) s)" by blast
    with Some have "s = (take (length w) s @ a) @ strip ws s"
      by (simp add: strip.simps [of ws s])
    then show ?thesis ..
  qed (simp add: strip.simps)
qed

text \<open>A string that starts with no space keeps that when its end is stripped.\<close>

lemma trim_space_idem [simp]: "trim_space (trim_space s) = trim_space s"
proof -
  let ?l = "strip space_encodings s" and ?r = "strip (map rev space_encodings)"
  have none: "find (\<lambda>w. w \<noteq> [] \<and> has_prefix ?l w) space_encodings = None"
    by (rule strip_stop)
  obtain a where a: "rev ?l = a @ ?r (rev ?l)"
    using strip_suffix by blast
  then have pre: "?l = rev (?r (rev ?l)) @ rev a"
    by (metis rev_append rev_rev_ident)
  have "find (\<lambda>w. w \<noteq> [] \<and> has_prefix (rev (?r (rev ?l))) w) space_encodings = None"
    using none unfolding find_None_iff
    by (metis append.assoc has_prefix_iff pre)
  then have "strip space_encodings (rev (?r (rev ?l))) = rev (?r (rev ?l))"
    by (rule strip_stopped)
  then show ?thesis by (simp add: trim_space_def)
qed

lemma trim_space_Nil [simp]: "trim_space [] = []"
  by (simp add: trim_space_def strip.simps space_encodings_def has_prefix_def)

lemma trim_space_set: "set (trim_space s) \<subseteq> set s"
proof -
  let ?l = "strip space_encodings s"
  obtain a where "s = a @ ?l" using strip_suffix by blast
  moreover obtain b where "rev ?l = b @ strip (map rev space_encodings) (rev ?l)"
    using strip_suffix by blast
  ultimately show ?thesis
    unfolding trim_space_def by (metis Un_upper2 order_trans set_append set_rev)
qed

section \<open>Letter case\<close>

text \<open>
  ASCII letters only. The program compares lower-cased text with words that contain neither \<open>i\<close>
  nor \<open>k\<close> (the only ASCII letters that a non-ASCII rune lower-cases to) and folds against
  \<open>http\<close>, none of whose letters has a non-ASCII case variant, so nothing else can match.
\<close>

definition lower_char :: "char \<Rightarrow> char" where
  "lower_char c = (if 65 \<le> (of_char c :: nat) \<and> (of_char c :: nat) \<le> 90
     then char_of ((of_char c :: nat) + 32) else c)"

definition to_lower :: "string \<Rightarrow> string" where
  "to_lower s = map lower_char s"

definition equal_fold :: "string \<Rightarrow> string \<Rightarrow> bool" where
  "equal_fold a b \<longleftrightarrow> to_lower a = to_lower b"

section \<open>Decimal numbers\<close>

fun digits :: "nat \<Rightarrow> string" where
  "digits n = (if n < 10 then [char_of (48 + n)] else digits (n div 10) @ [char_of (48 + n mod 10)])"

declare digits.simps [simp del]

definition show_int :: "int \<Rightarrow> string" where
  "show_int i = (if i < 0 then ''-'' @ digits (nat (- i)) else digits (nat i))"

lemma digits_ne [simp]: "digits n \<noteq> []"
  by (subst digits.simps) simp

lemma show_int_ne [simp]: "show_int i \<noteq> []"
  by (simp add: show_int_def)

text \<open>
  \<open>fmt\<close>'s verb \<open>%q\<close> on a blank string, the only kind it is applied to: each white space rune
  but the ASCII space has its escape.
\<close>

definition space_escapes :: "(string \<times> string) list" where
  "space_escapes =
     [([CHR 0x09], [CHR 0x5C, CHR ''t'']), ([CHR 0x0A], [CHR 0x5C, CHR ''n'']),
      ([CHR 0x0B], [CHR 0x5C, CHR ''v'']), ([CHR 0x0C], [CHR 0x5C, CHR ''f'']),
      ([CHR 0x0D], [CHR 0x5C, CHR ''r'']), ([CHR 0x20], '' ''),
      ([CHR 0xC2, CHR 0x85], CHR 0x5C # ''u0085''), ([CHR 0xC2, CHR 0xA0], CHR 0x5C # ''u00a0''),
      ([CHR 0xE1, CHR 0x9A, CHR 0x80], CHR 0x5C # ''u1680''),
      ([CHR 0xE2, CHR 0x80, CHR 0x80], CHR 0x5C # ''u2000''),
      ([CHR 0xE2, CHR 0x80, CHR 0x81], CHR 0x5C # ''u2001''),
      ([CHR 0xE2, CHR 0x80, CHR 0x82], CHR 0x5C # ''u2002''),
      ([CHR 0xE2, CHR 0x80, CHR 0x83], CHR 0x5C # ''u2003''),
      ([CHR 0xE2, CHR 0x80, CHR 0x84], CHR 0x5C # ''u2004''),
      ([CHR 0xE2, CHR 0x80, CHR 0x85], CHR 0x5C # ''u2005''),
      ([CHR 0xE2, CHR 0x80, CHR 0x86], CHR 0x5C # ''u2006''),
      ([CHR 0xE2, CHR 0x80, CHR 0x87], CHR 0x5C # ''u2007''),
      ([CHR 0xE2, CHR 0x80, CHR 0x88], CHR 0x5C # ''u2008''),
      ([CHR 0xE2, CHR 0x80, CHR 0x89], CHR 0x5C # ''u2009''),
      ([CHR 0xE2, CHR 0x80, CHR 0x8A], CHR 0x5C # ''u200a''),
      ([CHR 0xE2, CHR 0x80, CHR 0xA8], CHR 0x5C # ''u2028''),
      ([CHR 0xE2, CHR 0x80, CHR 0xA9], CHR 0x5C # ''u2029''),
      ([CHR 0xE2, CHR 0x80, CHR 0xAF], CHR 0x5C # ''u202f''),
      ([CHR 0xE2, CHR 0x81, CHR 0x9F], CHR 0x5C # ''u205f''),
      ([CHR 0xE3, CHR 0x80, CHR 0x80], CHR 0x5C # ''u3000'')]"

function escape_blank :: "string \<Rightarrow> string" where
  "escape_blank s =
     (case find (\<lambda>(w, _). w \<noteq> [] \<and> has_prefix s w) space_escapes of
        None \<Rightarrow> s
      | Some (w, e) \<Rightarrow> e @ escape_blank (drop (length w) s))"
  by pat_completeness auto
termination
proof (relation "measure length", goal_cases)
  case (2 s we w e)
  then have "w \<noteq> []" and "has_prefix s w"
    by (auto simp: find_Some_iff)
  then show ?case by (auto simp: has_prefix_iff)
qed simp

declare escape_blank.simps [simp del]

definition quote_blank :: "string \<Rightarrow> string" where
  "quote_blank s = ''\"'' @ escape_blank s @ ''\"''"

end
