(* ===== verification/Json_Tree.thy ===== *)
theory Json_Tree
  imports Go_Strings "HOL-Library.List_Lexorder" "HOL-Library.Char_ord"
begin

text \<open>
  What the program uses of \<open>encoding/json\<close>: values as trees, Go maps with string keys, and the
  decoding of an object into a struct through its field tags. The concrete syntax (white space,
  escapes, digits) is the library's and is not modelled: a message is the tree its text denotes,
  with text in valid UTF-8.
\<close>

section \<open>Values\<close>

text \<open>
  A number literal is \<open>JInt\<close> when it is written as an integer and \<open>JFlt\<close> (with the float64 it is
  read as) otherwise; only the former can be read into a Go integer.
\<close>

datatype json =
    JNull
  | JBool bool
  | JInt int
  | JFlt float64
  | JStr string
  | JArr "json list"
  | JObj "(string \<times> json) list"

section \<open>Go maps with string keys\<close>

text \<open>
  A \<open>map[string]string\<close> is the list of its entries in the order of the keys, which is the order
  in which \<open>json.Marshal\<close> writes them. A nil map is distinguished from an empty one (\<open>option\<close>)
  where the code can tell them apart.
\<close>

type_synonym 'v gomap = "(string \<times> 'v) list"

fun map_put :: "string \<Rightarrow> 'v \<Rightarrow> 'v gomap \<Rightarrow> 'v gomap" where
  "map_put k v [] = [(k, v)]"
| "map_put k v ((k', v') # m) =
     (if k < k' then (k, v) # (k', v') # m
      else if k = k' then (k, v) # m
      else (k', v') # map_put k v m)"

definition map_get :: "'v gomap \<Rightarrow> string \<Rightarrow> 'v option" where
  "map_get m k = map_of m k"

definition gomap_ok :: "'v gomap \<Rightarrow> bool" where
  "gomap_ok m \<longleftrightarrow> sorted_wrt (<) (map fst m)"

lemma gomap_ok_Nil [simp]: "gomap_ok []"
  by (simp add: gomap_ok_def)

lemma gomap_ok_distinct: "gomap_ok m \<Longrightarrow> distinct (map fst m)"
  by (simp add: gomap_ok_def strict_sorted_iff)

lemma set_map_put: "fst ` set (map_put k v m) = insert k (fst ` set m)"
  by (induction k v m rule: map_put.induct) auto

lemma gomap_ok_Cons: "gomap_ok (e # m) \<longleftrightarrow> (\<forall>k \<in> fst ` set m. fst e < k) \<and> gomap_ok m"
  by (auto simp: gomap_ok_def)

lemma map_put_ok [simp]: "gomap_ok m \<Longrightarrow> gomap_ok (map_put k v m)"
proof (induction m)
  case (Cons e m)
  obtain k' v' where e: "e = (k', v')" by force
  consider "k < k'" | "k = k'" | "k' < k" by (rule linorder_cases)
  then show ?case
  proof cases
    case 1
    with Cons.prems show ?thesis by (auto simp: e gomap_ok_Cons intro: order.strict_trans)
  next
    case 2
    with Cons.prems show ?thesis by (simp add: e gomap_ok_Cons)
  next
    case 3
    with Cons show ?thesis
      by (simp add: e gomap_ok_Cons set_map_put order.strict_implies_not_eq
          order.strict_implies_order leD)
  qed
qed (simp add: gomap_ok_Cons)

lemma map_get_put [simp]:
  "gomap_ok m \<Longrightarrow> map_get (map_put k v m) k' = (if k' = k then Some v else map_get m k')"
  by (induction k v m rule: map_put.induct) (auto simp: map_get_def gomap_ok_def)

lemma map_put_last:
  assumes "gomap_ok (m @ [(k, v)])"
  shows "map_put k v m = m @ [(k, v)]"
  using assms
proof (induction m)
  case (Cons e m)
  obtain k' v' where e: "e = (k', v')" by force
  with Cons.prems have lt: "k' < k" and ok: "gomap_ok (m @ [(k, v)])"
    by (auto simp: gomap_ok_def sorted_wrt_append)
  from lt have "\<not> k < k'" and "k \<noteq> k'" by auto
  with Cons.IH [OF ok] show ?case by (simp add: e)
qed simp

section \<open>Decoding into a struct\<close>

text \<open>
  A field of a struct is its tag and what reading a value into it does to the struct: \<open>None\<close> is
  the type error that makes \<open>json.Unmarshal\<close> fail (it records the error and goes on, but every
  caller drops the struct then).
\<close>

type_synonym 'r field = "string \<times> (json \<Rightarrow> 'r \<Rightarrow> 'r option)"

text \<open>
  Keys are matched exactly first and then up to \<open>unicode.SimpleFold\<close>; against a tag of ASCII
  letters that is the ASCII case together with U+017F (for S) and U+212A (for K).
\<close>

function fold_name :: "string \<Rightarrow> string" where
  "fold_name s =
     (if has_prefix s [CHR 0xC5, CHR 0xBF] then CHR ''s'' # fold_name (drop 2 s)
      else if has_prefix s [CHR 0xE2, CHR 0x84, CHR 0xAA] then CHR ''k'' # fold_name (drop 3 s)
      else (case s of [] \<Rightarrow> [] | c # s' \<Rightarrow> lower_char c # fold_name s'))"
  by pat_completeness auto
termination
  by (relation "measure length") (auto simp: has_prefix_iff)

declare fold_name.simps [simp del]

definition find_field :: "'r field list \<Rightarrow> string \<Rightarrow> (json \<Rightarrow> 'r \<Rightarrow> 'r option) option" where
  "find_field fs k =
     (case map_of fs k of
        Some d \<Rightarrow> Some d
      | None \<Rightarrow> map_option snd (find (\<lambda>f. fold_name (fst f) = fold_name k) fs))"

text \<open>The members in the order of the text; an unknown key is skipped, a repeated one read again.\<close>

fun decode_members :: "'r field list \<Rightarrow> (string \<times> json) list \<Rightarrow> 'r \<Rightarrow> 'r option" where
  "decode_members fs [] r = Some r"
| "decode_members fs ((k, j) # ms) r =
     (case find_field fs k of
        None \<Rightarrow> decode_members fs ms r
      | Some d \<Rightarrow> (case d j r of None \<Rightarrow> None | Some r' \<Rightarrow> decode_members fs ms r'))"

definition decode_struct :: "'r field list \<Rightarrow> json \<Rightarrow> 'r \<Rightarrow> 'r option" where
  "decode_struct fs j r =
     (case j of JObj ms \<Rightarrow> decode_members fs ms r | JNull \<Rightarrow> Some r | _ \<Rightarrow> None)"

subsection \<open>Kinds of fields\<close>

text \<open>Each takes the record's update function. A JSON null leaves a scalar field as it is.\<close>

type_synonym ('r, 'a) upd = "('a \<Rightarrow> 'a) \<Rightarrow> 'r \<Rightarrow> 'r"

fun set_str :: "('r, string) upd \<Rightarrow> json \<Rightarrow> 'r \<Rightarrow> 'r option" where
  "set_str u (JStr s) r = Some (u (\<lambda>_. s) r)"
| "set_str u JNull r = Some r"
| "set_str u _ r = None"

fun set_bool :: "('r, bool) upd \<Rightarrow> json \<Rightarrow> 'r \<Rightarrow> 'r option" where
  "set_bool u (JBool b) r = Some (u (\<lambda>_. b) r)"
| "set_bool u JNull r = Some r"
| "set_bool u _ r = None"

fun set_int :: "('r, i64) upd \<Rightarrow> json \<Rightarrow> 'r \<Rightarrow> 'r option" where
  "set_int u (JInt i) r =
     (if - (2 ^ 63) \<le> i \<and> i < 2 ^ 63 then Some (u (\<lambda>_. word_of_int i) r) else None)"
| "set_int u JNull r = Some r"
| "set_int u _ r = None"

text \<open>
  An integer literal read as a float64: the nearest double, ties to even; \<open>None\<close> (a range
  error) from 2^1024 on.
\<close>

fun bit_length :: "nat \<Rightarrow> nat" where
  "bit_length n = (if n = 0 then 0 else Suc (bit_length (n div 2)))"

declare bit_length.simps [simp del]

definition float_of_int :: "int \<Rightarrow> float64 option" where
  "float_of_int i =
     (let a = nat \<bar>i\<bar>; b = bit_length a
      in if b \<le> 53 then Some (of_int i)
         else let u = 2 ^ (b - 53); q = a div u; r = a mod u;
                  q' = (if 2 * r > u \<or> (2 * r = u \<and> odd q) then Suc q else q)
              in if q' * u < 2 ^ 1024 then Some (of_int (sgn i * int (q' * u))) else None)"

fun set_float :: "('r, float64) upd \<Rightarrow> json \<Rightarrow> 'r \<Rightarrow> 'r option" where
  "set_float u (JFlt x) r = Some (u (\<lambda>_. x) r)"
| "set_float u (JInt i) r = map_option (\<lambda>x. u (\<lambda>_. x) r) (float_of_int i)"
| "set_float u JNull r = Some r"
| "set_float u _ r = None"

text \<open>Elements of a \<open>[]string\<close>; a null element is the empty string of a fresh slice, also
  under a repeated key, where Go reuses the elements of the slice that is there.\<close>

fun decode_strs :: "json list \<Rightarrow> string list option" where
  "decode_strs [] = Some []"
| "decode_strs (JStr s # js) = map_option ((#) s) (decode_strs js)"
| "decode_strs (JNull # js) = map_option ((#) []) (decode_strs js)"
| "decode_strs (_ # js) = None"

fun set_strs :: "('r, string list) upd \<Rightarrow> json \<Rightarrow> 'r \<Rightarrow> 'r option" where
  "set_strs u (JArr js) r = map_option (\<lambda>xs. u (\<lambda>_. xs) r) (decode_strs js)"
| "set_strs u JNull r = Some (u (\<lambda>_. []) r)"
| "set_strs u _ r = None"

text \<open>Entries of a \<open>map[string]string\<close>, stored into the map that is there.\<close>

fun decode_entries :: "(string \<times> json) list \<Rightarrow> string gomap \<Rightarrow> string gomap option" where
  "decode_entries [] m = Some m"
| "decode_entries ((k, JStr s) # ms) m = decode_entries ms (map_put k s m)"
| "decode_entries ((k, JNull) # ms) m = decode_entries ms (map_put k [] m)"
| "decode_entries (_ # ms) m = None"

definition entries_of :: "'v gomap option \<Rightarrow> 'v gomap" where
  "entries_of m = (case m of None \<Rightarrow> [] | Some es \<Rightarrow> es)"

fun set_map :: "('r \<Rightarrow> string gomap option) \<Rightarrow> ('r, string gomap option) upd \<Rightarrow>
    json \<Rightarrow> 'r \<Rightarrow> 'r option" where
  "set_map g u (JObj ms) r =
     map_option (\<lambda>m. u (\<lambda>_. Some m) r) (decode_entries ms (entries_of (g r)))"
| "set_map g u JNull r = Some (u (\<lambda>_. None) r)"
| "set_map g u _ r = None"

text \<open>A \<open>json.RawMessage\<close> keeps the value; \<open>None\<close> is the empty message of an absent field.\<close>

definition set_raw :: "('r, json option) upd \<Rightarrow> json \<Rightarrow> 'r \<Rightarrow> 'r option" where
  "set_raw u j r = Some (u (\<lambda>_. Some j) r)"

text \<open>A nested struct, and a pointer to one.\<close>

definition set_struct :: "'s field list \<Rightarrow> ('r \<Rightarrow> 's) \<Rightarrow> ('r, 's) upd \<Rightarrow> json \<Rightarrow> 'r \<Rightarrow> 'r option" where
  "set_struct fs g u j r = map_option (\<lambda>s. u (\<lambda>_. s) r) (decode_struct fs j (g r))"

definition set_ptr ::
    "'s field list \<Rightarrow> 's \<Rightarrow> ('r \<Rightarrow> 's option) \<Rightarrow> ('r, 's option) upd \<Rightarrow> json \<Rightarrow> 'r \<Rightarrow> 'r option" where
  "set_ptr fs z g u j r =
     (if j = JNull then Some (u (\<lambda>_. None) r)
      else map_option (\<lambda>s. u (\<lambda>_. Some s) r)
             (decode_struct fs j (case g r of None \<Rightarrow> z | Some s \<Rightarrow> s)))"

text \<open>A slice of structs; each element starts from the zero value.\<close>

fun decode_structs :: "'s field list \<Rightarrow> 's \<Rightarrow> json list \<Rightarrow> 's list option" where
  "decode_structs fs z [] = Some []"
| "decode_structs fs z (j # js) =
     (case decode_struct fs j z of
        None \<Rightarrow> None
      | Some s \<Rightarrow> map_option ((#) s) (decode_structs fs z js))"

fun set_structs :: "'s field list \<Rightarrow> 's \<Rightarrow> ('r, 's list) upd \<Rightarrow> json \<Rightarrow> 'r \<Rightarrow> 'r option" where
  "set_structs fs z u (JArr js) r = map_option (\<lambda>ss. u (\<lambda>_. ss) r) (decode_structs fs z js)"
| "set_structs fs z u JNull r = Some (u (\<lambda>_. []) r)"
| "set_structs fs z u _ r = None"

text \<open>Entries of a \<open>map[string]int\<close>.\<close>

fun decode_int_entries :: "(string \<times> json) list \<Rightarrow> i64 gomap \<Rightarrow> i64 gomap option" where
  "decode_int_entries [] m = Some m"
| "decode_int_entries ((k, JInt i) # ms) m =
     (if - (2 ^ 63) \<le> i \<and> i < 2 ^ 63 then decode_int_entries ms (map_put k (word_of_int i) m)
      else None)"
| "decode_int_entries ((k, JNull) # ms) m = decode_int_entries ms (map_put k 0 m)"
| "decode_int_entries (_ # ms) m = None"

fun set_int_map :: "('r \<Rightarrow> i64 gomap option) \<Rightarrow> ('r, i64 gomap option) upd \<Rightarrow>
    json \<Rightarrow> 'r \<Rightarrow> 'r option" where
  "set_int_map g u (JObj ms) r =
     map_option (\<lambda>m. u (\<lambda>_. Some m) r) (decode_int_entries ms (entries_of (g r)))"
| "set_int_map g u JNull r = Some (u (\<lambda>_. None) r)"
| "set_int_map g u _ r = None"

section \<open>Encoding a struct\<close>

text \<open>The members a field contributes; those marked \<open>omitempty\<close> contribute none when empty.\<close>

definition omit_str :: "string \<Rightarrow> string \<Rightarrow> (string \<times> json) list" where
  "omit_str t s = (if s = [] then [] else [(t, JStr s)])"

definition enc_int :: "i64 \<Rightarrow> json" where
  "enc_int w = JInt (sint w)"

definition omit_int :: "string \<Rightarrow> i64 \<Rightarrow> (string \<times> json) list" where
  "omit_int t w = (if w = 0 then [] else [(t, enc_int w)])"

text \<open>A float64 below 10^21 with an integral value is written without a fraction or exponent.\<close>

definition enc_float :: "float64 \<Rightarrow> json" where
  "enc_float x = (if of_int \<lfloor>x\<rfloor> = x \<and> \<bar>x\<bar> < 10 ^ 21 then JInt \<lfloor>x\<rfloor> else JFlt x)"

definition omit_float :: "string \<Rightarrow> float64 \<Rightarrow> (string \<times> json) list" where
  "omit_float t x = (if x = 0 then [] else [(t, enc_float x)])"

text \<open>
  The rational numbers that survive: an integral one must be the double nearest to itself, as every
  value of the Go type is.
\<close>

definition float_ok :: "float64 \<Rightarrow> bool" where
  "float_ok x \<longleftrightarrow> (of_int \<lfloor>x\<rfloor> = x \<and> \<bar>x\<bar> < 10 ^ 21 \<longrightarrow> float_of_int \<lfloor>x\<rfloor> = Some x)"

lemma float_ok_0 [simp]: "float_ok 0"
  by (simp add: float_ok_def float_of_int_def Let_def bit_length.simps)

definition enc_strs :: "string list \<Rightarrow> json" where
  "enc_strs xs = JArr (map JStr xs)"

definition omit_strs :: "string \<Rightarrow> string list \<Rightarrow> (string \<times> json) list" where
  "omit_strs t xs = (if xs = [] then [] else [(t, enc_strs xs)])"

definition enc_map :: "string gomap option \<Rightarrow> json" where
  "enc_map m = (case m of None \<Rightarrow> JNull | Some es \<Rightarrow> JObj (map (\<lambda>(k, v). (k, JStr v)) es))"

definition omit_map :: "string \<Rightarrow> string gomap option \<Rightarrow> (string \<times> json) list" where
  "omit_map t m = (if entries_of m = [] then [] else [(t, enc_map m)])"

definition enc_raw :: "json option \<Rightarrow> json" where
  "enc_raw m = (case m of None \<Rightarrow> JNull | Some j \<Rightarrow> j)"

section \<open>Decoding what was encoded\<close>

lemma decode_strs_enc [simp]: "decode_strs (map JStr xs) = Some xs"
  by (induction xs) auto

lemma decode_entries_enc:
  "gomap_ok (m @ es) \<Longrightarrow> decode_entries (map (\<lambda>(k, v). (k, JStr v)) es) m = Some (m @ es)"
proof (induction es arbitrary: m)
  case (Cons e es)
  obtain k v where e: "e = (k, v)" by force
  with Cons.prems have "gomap_ok (m @ [(k, v)])"
    by (auto simp: gomap_ok_def sorted_wrt_append)
  with Cons e show ?case by (simp add: map_put_last)
qed simp

lemma set_int_enc [simp]: "set_int u (enc_int w) r = Some (u (\<lambda>_. w) r)"
  using sint_i64_range [of w] by (simp add: enc_int_def)

text \<open>
  A member read by the field of its tag sets the field; when it was omitted because the field
  is empty, and the struct still holds the empty value there, nothing is lost.
\<close>

lemma decode_member_str [codec_simps]:
  "find_field fs t = Some (set_str u) \<Longrightarrow>
     decode_members fs ((t, JStr s) # ms) r = decode_members fs ms (u (\<lambda>_. s) r)"
  by simp

lemma decode_member_bool [codec_simps]:
  "find_field fs t = Some (set_bool u) \<Longrightarrow>
     decode_members fs ((t, JBool b) # ms) r = decode_members fs ms (u (\<lambda>_. b) r)"
  by simp

lemma decode_member_int [codec_simps]:
  "find_field fs t = Some (set_int u) \<Longrightarrow>
     decode_members fs ((t, enc_int w) # ms) r = decode_members fs ms (u (\<lambda>_. w) r)"
  by simp

lemma decode_member_float [codec_simps]:
  "find_field fs t = Some (set_float u) \<Longrightarrow> float_ok x \<Longrightarrow>
     decode_members fs ((t, enc_float x) # ms) r = decode_members fs ms (u (\<lambda>_. x) r)"
  by (simp add: enc_float_def float_ok_def)

lemma decode_member_raw [codec_simps]:
  "find_field fs t = Some (set_raw u) \<Longrightarrow>
     decode_members fs ((t, j) # ms) r = decode_members fs ms (u (\<lambda>_. Some j) r)"
  by (simp add: set_raw_def)

lemma decode_omit_str [codec_simps]:
  "find_field fs t = Some (set_str u) \<Longrightarrow> u (\<lambda>_. []) r = r \<Longrightarrow>
     decode_members fs (omit_str t s @ ms) r = decode_members fs ms (u (\<lambda>_. s) r)"
  by (simp add: omit_str_def)

lemma decode_omit_int [codec_simps]:
  "find_field fs t = Some (set_int u) \<Longrightarrow> u (\<lambda>_. 0) r = r \<Longrightarrow>
     decode_members fs (omit_int t w @ ms) r = decode_members fs ms (u (\<lambda>_. w) r)"
  by (simp add: omit_int_def)

lemma decode_omit_float [codec_simps]:
  "find_field fs t = Some (set_float u) \<Longrightarrow> u (\<lambda>_. 0) r = r \<Longrightarrow> float_ok x \<Longrightarrow>
     decode_members fs (omit_float t x @ ms) r = decode_members fs ms (u (\<lambda>_. x) r)"
  by (simp add: omit_float_def decode_member_float del: decode_members.simps)

lemma decode_omit_strs [codec_simps]:
  "find_field fs t = Some (set_strs u) \<Longrightarrow> u (\<lambda>_. []) r = r \<Longrightarrow>
     decode_members fs (omit_strs t xs @ ms) r = decode_members fs ms (u (\<lambda>_. xs) r)"
  by (simp add: omit_strs_def enc_strs_def)

lemma decode_omit_map [codec_simps]:
  assumes "find_field fs t = Some (set_map g u)" and "u (\<lambda>_. None) r = r" and "g r = None"
    and "m \<noteq> Some []" and "gomap_ok (entries_of m)"
  shows "decode_members fs (omit_map t m @ ms) r = decode_members fs ms (u (\<lambda>_. m) r)"
  using assms decode_entries_enc [of "[]" "entries_of m"]
  by (auto simp: omit_map_def enc_map_def entries_of_def split: option.splits)

end
