(* ===== verification/Timestamp.thy ===== *)
theory Timestamp
  imports Json_Tree
begin

text \<open>
  The type \<open>Timestamp\<close> of \<open>pkg/websocket/protocol.go\<close>: how an instant is written into a message
  and what is accepted when one is read. The layouts that the code names are interpreted chunk by
  chunk as package \<open>time\<close> documents and implements it.
\<close>

section \<open>Instants and the calendar\<close>

text \<open>
  An instant in nanoseconds since Go's zero time (0001-01-01T00:00:00Z); the zone a timestamp was
  written in is never looked at.
\<close>

type_synonym instant = int

definition leap :: "int \<Rightarrow> bool" where
  "leap y \<longleftrightarrow> y mod 4 = 0 \<and> (y mod 100 \<noteq> 0 \<or> y mod 400 = 0)"

definition month_lengths :: "int \<Rightarrow> nat list" where
  "month_lengths y = [31, if leap y then 29 else 28, 31, 30, 31, 30, 31, 31, 30, 31, 30, 31]"

text \<open>Days of the proleptic Gregorian calendar before the first of January of year \<open>y\<close>.\<close>

definition days_before_year :: "int \<Rightarrow> int" where
  "days_before_year y = 365 * (y - 1) + (y - 1) div 4 - (y - 1) div 100 + (y - 1) div 400"

definition days_of :: "int \<Rightarrow> nat \<Rightarrow> nat \<Rightarrow> int" where
  "days_of y m d = days_before_year y + int (sum_list (take (m - 1) (month_lengths y))) + int d - 1"

text \<open>The year of a day: an estimate by the mean length of a year is at most one too small.\<close>

definition year_of :: "int \<Rightarrow> int" where
  "year_of d =
     (let g = 400 * d div 146097 + 1 in if d < days_before_year (g + 1) then g else g + 1)"

fun month_walk :: "nat list \<Rightarrow> nat \<Rightarrow> nat \<Rightarrow> nat \<times> nat" where
  "month_walk [] m d = (m, Suc d)"
| "month_walk (l # ls) m d = (if d < l then (m, Suc d) else month_walk ls (Suc m) (d - l))"

definition date_of :: "int \<Rightarrow> int \<times> nat \<times> nat" where
  "date_of d =
     (let y = year_of d; (m, md) = month_walk (month_lengths y) 1 (nat (d - days_before_year y))
      in (y, m, md))"

subsection \<open>Days and dates\<close>

lemma div_bounds: "0 < (k::int) \<Longrightarrow> k * (z div k) \<le> z \<and> z < k * (z div k) + k"
  using mult_div_mod_eq [of k z] pos_mod_bound [of k z] pos_mod_sign [of k z] by linarith

lemma div_pred:
  assumes "0 < (k::int)"
  shows "y div k = (y - 1) div k + of_bool (y mod k = 0)"
proof (cases "y mod k = 0")
  case True
  then have "(y - 1) div k = y div k - 1"
    using assms mult_div_mod_eq [of k y]
    by (intro int_div_pos_eq [where r = "k - 1"]) (simp_all add: algebra_simps)
  with True show ?thesis by simp
next
  case False
  with assms have "0 < y mod k" and "y mod k < k"
    using pos_mod_sign [of k y] pos_mod_bound [of k y] by linarith+
  then have "(y - 1) div k = y div k"
    using mult_div_mod_eq [of k y] by (intro int_div_pos_eq [where r = "y mod k - 1"]) simp_all
  with False show ?thesis by simp
qed

lemma sum_month_lengths: "int (sum_list (month_lengths y)) = (if leap y then 366 else 365)"
  by (simp add: month_lengths_def)

lemma mod_of_multiple: "(y::int) mod (a * b) = 0 \<Longrightarrow> y mod a = 0"
  by (metis dvd_eq_mod_eq_0 dvd_mult_left)

lemma shift_terms:
  fixes y :: int
  assumes "p = q + a" and "p' = q' + b" and "p'' = q'' + c"
  shows "365 * y + p - p' + p'' = 365 * (y - 1) + q - q' + q'' + 365 + a - b + c"
  using assms by simp

lemma days_before_next:
  "days_before_year (y + 1) = days_before_year y + int (sum_list (month_lengths y))"
proof -
  have "y mod 100 = 0 \<Longrightarrow> y mod 4 = 0" and "y mod 400 = 0 \<Longrightarrow> y mod 100 = 0"
    using mod_of_multiple [of y 4 25] mod_of_multiple [of y 100 4] by simp_all
  moreover have "days_before_year (y + 1) = days_before_year y + 365 +
      of_bool (y mod 4 = 0) - of_bool (y mod 100 = 0) + of_bool (y mod 400 = 0)"
    unfolding days_before_year_def add_diff_cancel_right'
    by (rule shift_terms; rule div_pred) simp_all
  ultimately show ?thesis
    unfolding sum_month_lengths leap_def by (cases "y mod 4 = 0"; cases "y mod 100 = 0") auto
qed

lemma year_of_bounds:
  "days_before_year (year_of d) \<le> d \<and> d < days_before_year (year_of d + 1)"
proof -
  let ?z = "400 * d div 146097"
  have z: "146097 * ?z \<le> 400 * d" "400 * d < 146097 * ?z + 146097"
    using div_bounds [of 146097 "400 * d"] by simp_all
  have low: "days_before_year (?z + 1) \<le> d"
    using z div_bounds [of 4 ?z] div_bounds [of 100 ?z] div_bounds [of 400 ?z]
    unfolding days_before_year_def by simp
  have "d \<le> days_before_year (?z + 1 + 1) + 1"
    using z div_bounds [of 4 "?z + 1"] div_bounds [of 100 "?z + 1"] div_bounds [of 400 "?z + 1"]
    unfolding days_before_year_def by simp
  then have "d < days_before_year (?z + 1 + 1 + 1)"
    unfolding days_before_next [of "?z + 1 + 1"] sum_month_lengths by simp
  with low show ?thesis by (simp add: year_of_def Let_def)
qed

lemma month_walk_correct:
  assumes "d < sum_list ls" and "month_walk ls m d = (m', d')"
  shows "m \<le> m' \<and> m' < m + length ls \<and> 1 \<le> d' \<and> d' \<le> ls ! (m' - m) \<and>
    sum_list (take (m' - m) ls) + d' = Suc d"
  using assms
proof (induction ls arbitrary: m d)
  case (Cons l ls)
  show ?case
  proof (cases "d < l")
    case True
    with Cons.prems show ?thesis by auto
  next
    case False
    with Cons.prems Cons.IH [of "d - l" "Suc m"] have
      "Suc m \<le> m' \<and> m' < Suc m + length ls \<and> 1 \<le> d' \<and> d' \<le> ls ! (m' - Suc m) \<and>
       sum_list (take (m' - Suc m) ls) + d' = Suc (d - l)" by simp
    moreover from this have "m' - m = Suc (m' - Suc m)" by linarith
    moreover from False have "l + (d - l) = d" by simp
    ultimately show ?thesis by simp
  qed
qed simp

lemma date_of_correct:
  assumes "date_of d = (y, m, md)"
  shows "days_of y m md = d" and "1 \<le> m" and "m \<le> 12" and "1 \<le> md"
    and "md \<le> month_lengths y ! (m - 1)" and "y = year_of d"
proof -
  from assms have y: "y = year_of d"
    and walk: "month_walk (month_lengths y) 1 (nat (d - days_before_year y)) = (m, md)"
    by (auto simp: date_of_def Let_def split: prod.splits)
  from year_of_bounds [of d] have b: "0 \<le> d - days_before_year y"
      "d - days_before_year y < int (sum_list (month_lengths y))"
    unfolding days_before_next y by simp_all
  then have "nat (d - days_before_year y) < sum_list (month_lengths y)" by linarith
  from month_walk_correct [OF this walk]
  have m: "1 \<le> m" "m < 1 + length (month_lengths y)" "1 \<le> md"
    "md \<le> month_lengths y ! (m - 1)"
    "sum_list (take (m - 1) (month_lengths y)) + md = Suc (nat (d - days_before_year y))" by auto
  then show "1 \<le> m" "m \<le> 12" "1 \<le> md" "md \<le> month_lengths y ! (m - 1)"
    by (simp_all add: month_lengths_def)
  have "int (sum_list (take (m - 1) (month_lengths y)) + md) = 1 + (d - days_before_year y)"
    using m(5) b(1) by simp
  then show "days_of y m md = d"
    by (simp add: days_of_def)
  show "y = year_of d" by (rule y)
qed

section \<open>Clock readings\<close>

record clock =
  ck_year :: int
  ck_month :: int
  ck_day :: int
  ck_hour :: int
  ck_minute :: int
  ck_second :: int
  ck_nanos :: int
  ck_offset :: int

text \<open>The reading of a clock in UTC at an instant, and the instant of a reading.\<close>

definition clock_of :: "instant \<Rightarrow> clock" where
  "clock_of t =
     (let s = t div 1000000000; (y, m, d) = date_of (s div 86400); r = s mod 86400
      in \<lparr>ck_year = y, ck_month = int m, ck_day = int d, ck_hour = r div 3600,
          ck_minute = r div 60 mod 60, ck_second = r mod 60,
          ck_nanos = t mod 1000000000, ck_offset = 0\<rparr>)"

definition instant_of :: "clock \<Rightarrow> instant" where
  "instant_of c =
     ((days_of (ck_year c) (nat (ck_month c)) (nat (ck_day c)) * 86400 + ck_hour c * 3600 +
       ck_minute c * 60 + ck_second c - ck_offset c) * 1000000000 + ck_nanos c)"

definition day_exists :: "clock \<Rightarrow> bool" where
  "day_exists c \<longleftrightarrow>
     1 \<le> ck_day c \<and> ck_day c \<le> int (month_lengths (ck_year c) ! (nat (ck_month c) - 1))"

definition clock_ok :: "clock \<Rightarrow> bool" where
  "clock_ok c \<longleftrightarrow> 1 \<le> ck_month c \<and> ck_month c \<le> 12 \<and> 1 \<le> ck_day c \<and> ck_day c \<le> 31 \<and>
     0 \<le> ck_hour c \<and> ck_hour c < 24 \<and> 0 \<le> ck_minute c \<and> ck_minute c < 60 \<and>
     0 \<le> ck_second c \<and> ck_second c < 60 \<and> 0 \<le> ck_nanos c \<and> ck_nanos c < 1000000000 \<and>
     ck_offset c = 0 \<and> day_exists c"

lemma nested_div: "(r :: int) = q * 60 + m \<Longrightarrow> q = p * 60 + n \<Longrightarrow> r = p * 3600 + n * 60 + m"
  by simp

lemma time_of_day: "(r :: int) = r div 3600 * 3600 + r div 60 mod 60 * 60 + r mod 60"
proof -
  have "r div 60 div 60 = r div 3600"
    using zdiv_zmult2_eq [of 60 r 60] by simp
  with nested_div [OF div_mult_mod_eq [of r 60, symmetric]
      div_mult_mod_eq [of "r div 60" 60, symmetric]]
  show ?thesis by (simp only:)
qed

lemma sum_of_parts: "(s::int) = a + r \<Longrightarrow> r = b + c + d \<Longrightarrow> s = a + b + c + d"
  by simp

lemma month_length_le: "m \<in> {1..12} \<Longrightarrow> month_lengths y ! (m - 1) \<le> 31"
proof -
  assume "m \<in> {1..12}"
  then have "month_lengths y ! (m - 1) \<in> set (month_lengths y)"
    by (intro nth_mem) (auto simp: month_lengths_def)
  then show ?thesis by (auto simp: month_lengths_def split: if_splits)
qed

lemma clock_of_correct:
  shows "instant_of (clock_of t) = t" and "clock_ok (clock_of t)"
    and "ck_year (clock_of t) = year_of (t div 1000000000 div 86400)"
proof -
  let ?s = "t div 1000000000"
  let ?r = "?s mod 86400"
  obtain y m d where date: "date_of (?s div 86400) = (y, m, d)" by (metis prod_cases3)
  note c = date_of_correct [OF date]
  have sum: "?s = ?s div 86400 * 86400 + ?r div 3600 * 3600 + ?r div 60 mod 60 * 60 + ?r mod 60"
    by (rule sum_of_parts [OF div_mult_mod_eq [symmetric] time_of_day])
  have "instant_of (clock_of t) = ?s * 1000000000 + t mod 1000000000"
    by (simp only: instant_of_def clock_of_def Let_def date prod.case clock.simps nat_int c(1)
        diff_zero sum [symmetric])
  then show "instant_of (clock_of t) = t" by simp
  have "0 \<le> ?r" and "?r < 86400"
    by (rule pos_mod_sign pos_mod_bound, simp)+
  then have "0 \<le> ?r div 3600" and "?r div 3600 < 24"
    using div_bounds [of 3600 ?r] by (simp_all only: pos_imp_zdiv_nonneg_iff)
  moreover have "d \<le> 31"
    using month_length_le [of m y] c(2,3,5) by simp
  ultimately show "clock_ok (clock_of t)"
    unfolding clock_ok_def clock_of_def date Let_def day_exists_def prod.case clock.simps
    using c(2-5) by (intro conjI) simp_all
  show "ck_year (clock_of t) = year_of (?s div 86400)"
    by (simp add: clock_of_def date Let_def c(6))
qed

section \<open>Digits\<close>

definition digit_char :: "int \<Rightarrow> char" where
  "digit_char n = char_of (48 + nat n)"

definition is_digit :: "char \<Rightarrow> bool" where
  "is_digit c \<longleftrightarrow> 48 \<le> (of_char c :: nat) \<and> (of_char c :: nat) \<le> 57"

definition digit_value :: "char \<Rightarrow> int" where
  "digit_value c = int (of_char c) - 48"

definition decimal :: "string \<Rightarrow> int" where
  "decimal s = foldl (\<lambda>a c. 10 * a + digit_value c) 0 s"

text \<open>The last \<open>k\<close> digits of \<open>n\<close>, with leading zeros.\<close>

fun fixed :: "nat \<Rightarrow> int \<Rightarrow> string" where
  "fixed 0 n = []"
| "fixed (Suc k) n = fixed k (n div 10) @ [digit_char (n mod 10)]"

text \<open>\<open>appendInt\<close>: at least \<open>k\<close> digits.\<close>

definition append_int :: "nat \<Rightarrow> int \<Rightarrow> string" where
  "append_int k i =
     (let n = \<bar>i\<bar>
      in (if i < 0 then ''-'' else []) @ (if n < 10 ^ k then fixed k n else digits (nat n)))"

definition trim_zeros :: "string \<Rightarrow> string" where
  "trim_zeros s = rev (dropWhile (\<lambda>c. c = CHR ''0'') (rev s))"

lemma digit_char_simps [simp]:
  assumes "0 \<le> n" and "n < 10"
  shows "is_digit (digit_char n)" and "digit_value (digit_char n) = n"
  using assms by (simp_all add: is_digit_def digit_value_def digit_char_def)

lemma decimal_snoc: "decimal (s @ [c]) = 10 * decimal s + digit_value c"
  by (simp add: decimal_def)

lemma decimal_fixed: "decimal (fixed k n) = n mod 10 ^ k"
proof (induction k arbitrary: n)
  case (Suc k)
  have "n mod 10 ^ Suc k = 10 * (n div 10 mod 10 ^ k) + n mod 10"
    using zmod_zmult2_eq [of "10 ^ k" n 10] by simp
  with Suc show ?case by (simp add: decimal_snoc)
qed (simp add: decimal_def)

lemma length_fixed [simp]: "length (fixed k n) = k"
  by (induction k arbitrary: n) auto

lemma fixed_digits: "c \<in> set (fixed k n) \<Longrightarrow> is_digit c"
  by (induction k arbitrary: n) auto

lemma decimal_zeros: "decimal (s @ replicate j (CHR ''0'')) = decimal s * 10 ^ j"
proof (induction j)
  case (Suc j)
  have "decimal (s @ replicate (Suc j) (CHR ''0'')) =
      decimal ((s @ replicate j (CHR ''0'')) @ [CHR ''0''])"
    by (simp add: replicate_append_same)
  also have "\<dots> = decimal s * 10 ^ Suc j"
    using Suc.IH by (simp only: decimal_snoc) (simp add: digit_value_def)
  finally show ?case .
qed simp

lemma trim_zeros_split: "s = trim_zeros s @ replicate (length s - length (trim_zeros s)) (CHR ''0'')"
proof -
  have "takeWhile (\<lambda>c. c = CHR ''0'') (rev s) =
      replicate (length (takeWhile (\<lambda>c. c = CHR ''0'') (rev s))) (CHR ''0'')"
    by (rule replicate_eqI) (auto dest: set_takeWhileD)
  moreover have "s = trim_zeros s @ rev (takeWhile (\<lambda>c. c = CHR ''0'') (rev s))"
    unfolding trim_zeros_def rev_append [symmetric] takeWhile_dropWhile_id by simp
  ultimately obtain j where j: "s = trim_zeros s @ replicate j (CHR ''0'')"
    by (metis rev_replicate)
  then have "length s = length (trim_zeros s) + j"
    by (metis length_append length_replicate)
  with j show ?thesis by simp
qed

lemma trim_zeros_digits: "c \<in> set (trim_zeros s) \<Longrightarrow> c \<in> set s"
  by (auto simp: trim_zeros_def dest: set_dropWhileD)

section \<open>Layouts\<close>

text \<open>
  A layout of package \<open>time\<close> is a sequence of literal characters and of fields. \<open>Fraction\<close> is
  \<open>.999999999\<close>, \<open>Zone\<close> is \<open>Z07:00\<close>.
\<close>

datatype chunk = Lit char | Year | Month | Day | Hour | Minute | Second | Fraction | Zone

definition date_and_time :: "char \<Rightarrow> chunk list" where
  "date_and_time sep =
     [Year, Lit CHR ''-'', Month, Lit CHR ''-'', Day, Lit sep,
      Hour, Lit CHR '':'', Minute, Lit CHR '':'', Second]"

definition RFC3339Nano :: "chunk list" where
  "RFC3339Nano = date_and_time CHR ''T'' @ [Fraction, Zone]"

definition fallback_layouts :: "chunk list list" where
  "fallback_layouts =
     [date_and_time CHR ''T'' @ [Fraction], date_and_time CHR ''T'',
      date_and_time CHR '' '' @ [Fraction], date_and_time CHR '' '']"

subsection \<open>Formatting\<close>

text \<open>The values that are formatted are in UTC, for which \<open>Z07:00\<close> is \<open>Z\<close>.\<close>

fun format_chunk :: "chunk \<Rightarrow> clock \<Rightarrow> string" where
  "format_chunk (Lit x) c = [x]"
| "format_chunk Year c = append_int 4 (ck_year c)"
| "format_chunk Month c = append_int 2 (ck_month c)"
| "format_chunk Day c = append_int 2 (ck_day c)"
| "format_chunk Hour c = append_int 2 (ck_hour c)"
| "format_chunk Minute c = append_int 2 (ck_minute c)"
| "format_chunk Second c = append_int 2 (ck_second c)"
| "format_chunk Fraction c =
     (let ds = trim_zeros (fixed 9 (ck_nanos c)) in if ds = [] then [] else CHR ''.'' # ds)"
| "format_chunk Zone c = ''Z''"

fun format_layout :: "chunk list \<Rightarrow> clock \<Rightarrow> string" where
  "format_layout [] c = []"
| "format_layout (ch # l) c = format_chunk ch c @ format_layout l c"

subsection \<open>Parsing\<close>

text \<open>One or two digits (\<open>exact\<close>: two), and what follows.\<close>

fun getnum :: "bool \<Rightarrow> string \<Rightarrow> (int \<times> string) option" where
  "getnum exact [] = None"
| "getnum exact [a] = (if is_digit a \<and> \<not> exact then Some (digit_value a, []) else None)"
| "getnum exact (a # b # s) =
     (if \<not> is_digit a then None
      else if is_digit b then Some (10 * digit_value a + digit_value b, s)
      else if exact then None else Some (digit_value a, b # s))"

text \<open>Reading a number into a field, if it is within the field's bounds.\<close>

definition read_num ::
    "bool \<Rightarrow> int \<Rightarrow> int \<Rightarrow> (int \<Rightarrow> clock) \<Rightarrow> string \<Rightarrow> (string \<times> clock) option" where
  "read_num exact lo hi put s =
     (case getnum exact s of
        None \<Rightarrow> None
      | Some (n, r) \<Rightarrow> if lo \<le> n \<and> n \<le> hi then Some (r, put n) else None)"

definition read_year :: "string \<Rightarrow> clock \<Rightarrow> (string \<times> clock) option" where
  "read_year s c =
     (if length s < 4 \<or> \<not> list_all is_digit (take 4 s) then None
      else Some (drop 4 s, c\<lparr>ck_year := decimal (take 4 s)\<rparr>))"

fun fraction_at :: "string \<Rightarrow> bool" where
  "fraction_at (p # d # s) \<longleftrightarrow> (p = CHR ''.'' \<or> p = CHR '','') \<and> is_digit d"
| "fraction_at _ \<longleftrightarrow> False"

text \<open>A fraction, if one is there; digits after the ninth are dropped.\<close>

definition read_fraction :: "string \<Rightarrow> clock \<Rightarrow> string \<times> clock" where
  "read_fraction s c =
     (if fraction_at s then
        (let ds = take 9 (takeWhile is_digit (tl s))
         in (dropWhile is_digit (tl s), c\<lparr>ck_nanos := decimal ds * 10 ^ (9 - length ds)\<rparr>))
      else (s, c))"

definition read_zone :: "string \<Rightarrow> clock \<Rightarrow> (string \<times> clock) option" where
  "read_zone s c =
     (if s \<noteq> [] \<and> hd s = CHR ''Z'' then Some (tl s, c)
      else if length s < 6 \<or> s ! 3 \<noteq> CHR '':'' then None
      else (case (getnum True (take 2 (drop 1 s)), getnum True (take 2 (drop 4 s))) of
              (Some (h, _), Some (m, _)) \<Rightarrow>
                (let off = (h * 60 + m) * 60
                 in if 24 < h \<or> 60 < m then None
                    else if hd s = CHR ''+'' then Some (drop 6 s, c\<lparr>ck_offset := off\<rparr>)
                    else if hd s = CHR ''-'' then Some (drop 6 s, c\<lparr>ck_offset := - off\<rparr>)
                    else None)
            | _ \<Rightarrow> None))"

text \<open>
  One chunk. Seconds take a fraction along that the layout does not announce (\<open>announced\<close>); a
  space of the layout stands for any number of spaces.
\<close>

fun read_chunk :: "bool \<Rightarrow> chunk \<Rightarrow> string \<Rightarrow> clock \<Rightarrow> (string \<times> clock) option" where
  "read_chunk announced (Lit x) s c =
     (if x = CHR '' '' \<and> (s = [] \<or> hd s = CHR '' '') then Some (dropWhile (\<lambda>y. y = CHR '' '') s, c)
      else if s \<noteq> [] \<and> hd s = x then Some (tl s, c) else None)"
| "read_chunk announced Year s c = read_year s c"
| "read_chunk announced Month s c = read_num True 1 12 (\<lambda>n. c\<lparr>ck_month := n\<rparr>) s"
| "read_chunk announced Day s c = read_num True 0 99 (\<lambda>n. c\<lparr>ck_day := n\<rparr>) s"
| "read_chunk announced Hour s c = read_num False 0 23 (\<lambda>n. c\<lparr>ck_hour := n\<rparr>) s"
| "read_chunk announced Minute s c = read_num True 0 59 (\<lambda>n. c\<lparr>ck_minute := n\<rparr>) s"
| "read_chunk announced Second s c =
     (case read_num True 0 59 (\<lambda>n. c\<lparr>ck_second := n\<rparr>) s of
        None \<Rightarrow> None
      | Some (r, c') \<Rightarrow> Some (if announced then (r, c') else read_fraction r c'))"
| "read_chunk announced Fraction s c = Some (read_fraction s c)"
| "read_chunk announced Zone s c = read_zone s c"

fun is_literal :: "chunk \<Rightarrow> bool" where
  "is_literal (Lit x) = True"
| "is_literal _ = False"

fun read_layout :: "chunk list \<Rightarrow> string \<Rightarrow> clock \<Rightarrow> clock option" where
  "read_layout [] s c = (if s = [] then Some c else None)"
| "read_layout (ch # l) s c =
     (case read_chunk (find (\<lambda>x. \<not> is_literal x) l = Some Fraction) ch s c of
        None \<Rightarrow> None
      | Some (s', c') \<Rightarrow> read_layout l s' c')"

text \<open>\<open>time.Parse\<close>, and \<open>time.ParseInLocation\<close> in UTC; the last check is that the day exists.\<close>

definition blank_clock :: clock where
  "blank_clock = \<lparr>ck_year = 0, ck_month = 1, ck_day = 1, ck_hour = 0, ck_minute = 0, ck_second = 0,
     ck_nanos = 0, ck_offset = 0\<rparr>"

definition parse_time :: "chunk list \<Rightarrow> string \<Rightarrow> instant option" where
  "parse_time layout s =
     (case read_layout layout s blank_clock of
        None \<Rightarrow> None
      | Some c \<Rightarrow> if day_exists c then Some (instant_of c) else None)"

section \<open>\<open>MarshalJSON\<close> and \<open>UnmarshalJSON\<close>\<close>

definition MarshalJSON :: "instant \<Rightarrow> instant \<Rightarrow> json" where
  "MarshalJSON now t = JStr (format_layout RFC3339Nano (clock_of (if t = 0 then now else t)))"

text \<open>The layouts in the order in which they are tried.\<close>

fun first_parse :: "chunk list list \<Rightarrow> string \<Rightarrow> instant option" where
  "first_parse [] s = None"
| "first_parse (l # ls) s = (case parse_time l s of Some t \<Rightarrow> Some t | None \<Rightarrow> first_parse ls s)"

text \<open>\<open>json.Unmarshal\<close> reads a null into a string as the empty one.\<close>

fun UnmarshalJSON :: "json \<Rightarrow> instant option" where
  "UnmarshalJSON JNull = Some 0"
| "UnmarshalJSON (JStr s) = (if s = [] then Some 0 else first_parse (RFC3339Nano # fallback_layouts) s)"
| "UnmarshalJSON _ = None"

section \<open>Reading what was written\<close>

lemma div_below: "(t::int) < m * k \<Longrightarrow> 0 < k \<Longrightarrow> t div k < m"
  using div_bounds [of k t] mult_left_mono [of m "t div k" k] by (fastforce simp: mult.commute)

lemma days_before_mono: "a \<le> b \<Longrightarrow> days_before_year a \<le> days_before_year b"
proof -
  have "days_before_year a \<le> days_before_year (a + int n)" for n
  proof (induction n)
    case (Suc n)
    have "a + int (Suc n) = a + int n + 1" by simp
    with Suc days_before_next [of "a + int n"] show ?case by (simp only:)
  qed simp
  from this [of "nat (b - a)"] show "a \<le> b \<Longrightarrow> ?thesis" by simp
qed

lemma year_of_range:
  assumes "days_before_year lo \<le> d" and "d < days_before_year hi"
  shows "lo \<le> year_of d" and "year_of d < hi"
proof -
  from year_of_bounds [of d] assms
  have "\<not> days_before_year (year_of d + 1) \<le> days_before_year lo"
    and "\<not> days_before_year hi \<le> days_before_year (year_of d)" by linarith+
  then show "lo \<le> year_of d" and "year_of d < hi"
    using days_before_mono [of "year_of d + 1" lo] days_before_mono [of hi "year_of d"] by linarith+
qed

text \<open>The instants of the years 1 to 9999.\<close>

definition four_digit_year :: "instant \<Rightarrow> bool" where
  "four_digit_year t \<longleftrightarrow> 0 \<le> t \<and> t < 315537897600 * 1000000000"

lemma four_digit_year_clock:
  assumes "four_digit_year t"
  shows "1 \<le> ck_year (clock_of t)" and "ck_year (clock_of t) \<le> 9999"
proof -
  let ?d = "t div 1000000000 div 86400"
  have "days_before_year 1 = 0" and "days_before_year 10000 = 3652059"
    by (simp_all add: days_before_year_def)
  moreover have "0 \<le> ?d"
    using assms by (simp add: four_digit_year_def pos_imp_zdiv_nonneg_iff)
  moreover have "t div 1000000000 < 315537897600"
    using assms using assms by (intro div_below) (simp_all add: four_digit_year_def)
  then have "?d < 3652059"
    by (intro div_below) simp_all
  ultimately have "1 \<le> year_of ?d" and "year_of ?d < 10000"
    using year_of_range [of 1 ?d 10000] by simp_all
  then show "1 \<le> ck_year (clock_of t)" and "ck_year (clock_of t) \<le> 9999"
    by (simp_all add: clock_of_correct(3))
qed

lemma read_num_fixed:
  assumes "0 \<le> n" and "n < 100" and "lo \<le> n" and "n \<le> hi"
  shows "read_num exact lo hi put (append_int 2 n @ s) = Some (s, put n)"
proof -
  have "append_int 2 n = [digit_char (n div 10 mod 10), digit_char (n mod 10)]"
    using assms(1,2) by (simp add: append_int_def numeral_2_eq_2)
  moreover have "10 * (n div 10 mod 10) + n mod 10 = n"
    using assms(1,2) by (simp add: mod_pos_pos_trivial div_pos_pos_trivial)
  ultimately show ?thesis
    using assms(3,4) by (simp add: read_num_def)
qed

lemma read_year_fixed:
  assumes "0 \<le> y" and "y \<le> 9999"
  shows "read_year (append_int 4 y @ s) c = Some (s, c\<lparr>ck_year := y\<rparr>)"
proof -
  have "append_int 4 y = fixed 4 y"
    using assms by (simp add: append_int_def)
  moreover have "list_all is_digit (fixed 4 y)"
    using fixed_digits by (auto simp: list_all_iff)
  ultimately show ?thesis
    using assms decimal_fixed [of 4 y] by (simp add: read_year_def)
qed

lemma read_literal:
  "x \<noteq> CHR '' '' \<Longrightarrow> read_chunk a (Lit x) (x # s) c = Some (s, c)"
  "s \<noteq> [] \<Longrightarrow> hd s \<noteq> CHR '' '' \<Longrightarrow> read_chunk a (Lit CHR '' '') (CHR '' '' # s) c = Some (s, c)"
  by (simp, cases s) simp_all

lemma trim_fixed:
  assumes "0 \<le> n" and "n < 10 ^ k"
  shows "decimal (trim_zeros (fixed k n)) * 10 ^ (k - length (trim_zeros (fixed k n))) = n"
    and "length (trim_zeros (fixed k n)) \<le> k"
proof -
  from trim_zeros_split [of "fixed k n"] have split:
    "fixed k n = trim_zeros (fixed k n) @
       replicate (k - length (trim_zeros (fixed k n))) (CHR ''0'')" by simp
  have "decimal (fixed k n) = n"
    using assms by (simp add: decimal_fixed)
  with split decimal_zeros show
    "decimal (trim_zeros (fixed k n)) * 10 ^ (k - length (trim_zeros (fixed k n))) = n"
    by metis
  from arg_cong [OF split, of length] show "length (trim_zeros (fixed k n)) \<le> k" by simp
qed

lemma read_fraction_written:
  assumes "0 \<le> ck_nanos c" and "ck_nanos c < 1000000000" and "ck_nanos c' = 0"
    and "s = [] \<or> \<not> is_digit (hd s) \<and> hd s \<notin> {CHR ''.'', CHR '',''}"
  shows "read_fraction (format_chunk Fraction c @ s) c' = (s, c'\<lparr>ck_nanos := ck_nanos c\<rparr>)"
proof (cases "trim_zeros (fixed 9 (ck_nanos c)) = []")
  case True
  with trim_fixed(1) [of "ck_nanos c" 9] assms(1,2) have "ck_nanos c = 0"
    by (simp add: decimal_def)
  moreover have "\<not> fraction_at s"
    using assms(4) by (cases s rule: fraction_at.cases) auto
  ultimately show ?thesis
    using True assms(3) by (simp add: read_fraction_def)
next
  case False
  let ?ds = "trim_zeros (fixed 9 (ck_nanos c))"
  have "list_all is_digit ?ds"
    using fixed_digits trim_zeros_digits by (fastforce simp: list_all_iff)
  then have tw: "takeWhile is_digit (?ds @ s) = ?ds" "dropWhile is_digit (?ds @ s) = s"
    using assms(4) by (cases s; auto simp: list_all_iff takeWhile_append dropWhile_append)+
  obtain d ds where ds: "?ds = d # ds" using False by (cases ?ds) auto
  with \<open>list_all is_digit ?ds\<close> have "fraction_at (CHR ''.'' # ?ds @ s)" by simp
  with tw trim_fixed [of "ck_nanos c" 9] assms(1,2) False show ?thesis
    by (simp add: read_fraction_def Let_def)
qed

lemma append_int_two:
  assumes "0 \<le> n" and "n < 100"
  shows "append_int 2 n = [digit_char (n div 10 mod 10), digit_char (n mod 10)]"
  using assms by (simp add: append_int_def numeral_2_eq_2)

lemma digit_not_space [simp]: "0 \<le> n \<Longrightarrow> n < 10 \<Longrightarrow> digit_char n \<noteq> CHR '' ''"
  using digit_char_simps(1) [of n] by (auto simp: is_digit_def)

text \<open>What every chunk but the fraction reads back.\<close>

lemma read_chunk_written:
  assumes "clock_ok c"
  shows "read_chunk a Month (append_int 2 (ck_month c) @ s) f = Some (s, f\<lparr>ck_month := ck_month c\<rparr>)"
    and "read_chunk a Day (append_int 2 (ck_day c) @ s) f = Some (s, f\<lparr>ck_day := ck_day c\<rparr>)"
    and "read_chunk a Hour (append_int 2 (ck_hour c) @ s) f = Some (s, f\<lparr>ck_hour := ck_hour c\<rparr>)"
    and "read_chunk a Minute (append_int 2 (ck_minute c) @ s) f = Some (s, f\<lparr>ck_minute := ck_minute c\<rparr>)"
    and "read_chunk True Second (append_int 2 (ck_second c) @ s) f =
           Some (s, f\<lparr>ck_second := ck_second c\<rparr>)"
  using assms by (simp_all add: clock_ok_def read_num_fixed)

lemma read_separator:
  assumes "clock_ok c"
  shows "read_chunk a (Lit sep) (sep # append_int 2 (ck_hour c) @ s) f =
    Some (append_int 2 (ck_hour c) @ s, f)"
  using assms by (cases "sep = CHR '' ''") (simp_all add: clock_ok_def append_int_two)

definition with_time :: "clock \<Rightarrow> clock \<Rightarrow> clock" where
  "with_time c f = f\<lparr>ck_year := ck_year c, ck_month := ck_month c, ck_day := ck_day c,
     ck_hour := ck_hour c, ck_minute := ck_minute c, ck_second := ck_second c\<rparr>"

lemma read_date_and_time:
  assumes "clock_ok c" and "0 \<le> ck_year c" and "ck_year c \<le> 9999"
  shows "read_layout (date_and_time sep @ Fraction # l) (format_layout (date_and_time sep) c @ s) f =
    read_layout (Fraction # l) s (with_time c f)"
  using assms
  by (simp add: date_and_time_def read_year_fixed read_chunk_written read_separator
      read_literal(1) with_time_def del: read_chunk.simps(1,3-7))

lemma read_other_separator:
  assumes "clock_ok c" and "0 \<le> ck_year c" and "ck_year c \<le> 9999" and "{sep, sep'} = {CHR ''T'', CHR '' ''}"
  shows "read_layout (date_and_time sep @ l) (format_layout (date_and_time sep') c @ s) f = None"
proof -
  have "read_chunk a (Lit sep) (sep' # append_int 2 (ck_hour c) @ r) g = None" for a r g
    using assms(4) by (auto simp: doubleton_eq_iff)
  with assms(1-3) show ?thesis
    by (simp add: date_and_time_def read_year_fixed read_chunk_written
        read_literal(1) with_time_def del: read_chunk.simps(1,3-7))
qed

lemma format_layout_append: "format_layout (l @ l') c = format_layout l c @ format_layout l' c"
  by (induction l) auto

lemma with_all_fields:
  "clock_ok c \<Longrightarrow> (with_time c blank_clock)\<lparr>ck_nanos := ck_nanos c\<rparr> = c"
  by (simp add: with_time_def blank_clock_def clock_ok_def)

lemma parse_written:
  assumes "clock_ok c" and "0 \<le> ck_year c" and "ck_year c \<le> 9999" and "z = [] \<or> z = [Zone]"
  shows "parse_time (date_and_time sep @ Fraction # z)
    (format_layout (date_and_time sep @ Fraction # z) c) = Some (instant_of c)"
proof -
  have "read_fraction (format_chunk Fraction c @ format_layout z c) (with_time c blank_clock) =
      (format_layout z c, (with_time c blank_clock)\<lparr>ck_nanos := ck_nanos c\<rparr>)"
    using assms(1,4) by (intro read_fraction_written) (auto simp: clock_ok_def with_time_def
        blank_clock_def is_digit_def)
  then have "read_layout (Fraction # z) (format_layout (Fraction # z) c) (with_time c blank_clock) = Some c"
    using assms(1,4) by (auto simp: with_all_fields read_zone_def simp del: format_chunk.simps(8))
  then show ?thesis
    using assms(1) unfolding parse_time_def format_layout_append read_date_and_time [OF assms(1-3)]
    by (simp add: clock_ok_def)
qed

lemma parse_naive_as_zoned:
  assumes "clock_ok c" and "0 \<le> ck_year c" and "ck_year c \<le> 9999"
  shows "parse_time RFC3339Nano (format_layout (date_and_time CHR ''T'' @ [Fraction]) c) = None"
proof -
  have "read_fraction (format_chunk Fraction c @ []) (with_time c blank_clock) =
      ([], (with_time c blank_clock)\<lparr>ck_nanos := ck_nanos c\<rparr>)"
    using assms(1) by (intro read_fraction_written) (auto simp: clock_ok_def with_time_def
        blank_clock_def is_digit_def)
  then have "read_layout [Fraction, Zone] (format_layout [Fraction] c) (with_time c blank_clock) = None"
    by (simp add: read_zone_def del: format_chunk.simps(8))
  then show ?thesis
    unfolding parse_time_def RFC3339Nano_def format_layout_append append_Cons append_Nil
      read_date_and_time [OF assms] by simp
qed

lemma parse_other_separator:
  assumes "clock_ok c" and "0 \<le> ck_year c" and "ck_year c \<le> 9999" and "{sep, sep'} = {CHR ''T'', CHR '' ''}"
  shows "parse_time (date_and_time sep @ l) (format_layout (date_and_time sep' @ l') c) = None"
  by (simp add: parse_time_def format_layout_append read_other_separator [OF assms])

lemma format_ne [simp]: "format_layout (date_and_time sep @ l) c \<noteq> []"
  by (simp add: date_and_time_def append_int_def)

lemma parse_written_instant:
  assumes "four_digit_year u" and "z = [] \<or> z = [Zone]"
  shows "parse_time (date_and_time sep @ Fraction # z)
    (format_layout (date_and_time sep @ Fraction # z) (clock_of u)) = Some u"
  using parse_written [OF clock_of_correct(2) _ _ assms(2)] four_digit_year_clock [OF assms(1)]
    clock_of_correct(1) by simp

lemma timestamp_read:
  assumes "four_digit_year t" and "four_digit_year now"
  shows "UnmarshalJSON (MarshalJSON now t) = Some (if t = 0 then now else t)"
  using parse_written_instant [of _ "[Zone]" "CHR ''T''"] assms
  by (simp add: MarshalJSON_def RFC3339Nano_def)

text \<open>C27. A timestamp that the kubelet writes is read back as the same instant, to the nanosecond;
  the zero time is written as the current time. A peer that leaves out the zone, with a \<open>T\<close> or with
  a space before the time of day, is read as giving that instant in UTC.\<close>

theorem timestamp_roundtrip:
  assumes "four_digit_year t" and "four_digit_year now"
  shows "UnmarshalJSON (MarshalJSON now t) = Some (if t = 0 then now else t) \<and>
    UnmarshalJSON (JStr (format_layout (date_and_time CHR ''T'' @ [Fraction]) (clock_of t))) = Some t \<and>
    UnmarshalJSON (JStr (format_layout (date_and_time CHR '' '' @ [Fraction]) (clock_of t))) = Some t"
proof -
  note written = parse_written_instant [OF assms(1), of "[]", simplified]
  have year: "0 \<le> ck_year (clock_of t)" "ck_year (clock_of t) \<le> 9999"
    using four_digit_year_clock [OF assms(1)] by simp_all
  note other = parse_other_separator [OF clock_of_correct(2) year, of "CHR ''T''" "CHR '' ''" _ "[Fraction]", simplified]
  have "UnmarshalJSON (JStr (format_layout (date_and_time CHR ''T'' @ [Fraction]) (clock_of t))) = Some t"
    using written parse_naive_as_zoned [OF clock_of_correct(2) year] by (simp add: fallback_layouts_def)
  moreover have
    "UnmarshalJSON (JStr (format_layout (date_and_time CHR '' '' @ [Fraction]) (clock_of t))) = Some t"
    using written other other [of "[]"] by (simp add: fallback_layouts_def RFC3339Nano_def)
  ultimately show ?thesis using timestamp_read [OF assms] by blast
qed

text \<open>A moment of the year 2025, in Python's notation.\<close>

lemma sample_timestamp:
  "format_layout (date_and_time CHR ''T'' @ [Fraction]) (clock_of 63890070400123456000) =
     ''2025-08-06T09:46:40.123456''"
  by code_simp

theorem timestamp_roundtrip_witness:
  "UnmarshalJSON (MarshalJSON 63890070400000000000 63890070400123456000) = Some 63890070400123456000 \<and>
   UnmarshalJSON (JStr ''2025-08-06T09:46:40.123456'') = Some 63890070400123456000"
  using timestamp_roundtrip [of 63890070400123456000 63890070400000000000, unfolded sample_timestamp]
  by (simp add: four_digit_year_def)

end
