(* ===== verification/Protocol.thy ===== *)
theory Protocol
  imports Timestamp
begin

text \<open>
  The kubelet protocol of \<open>pkg/websocket/protocol.go\<close>: envelopes, commands and their parameters,
  results, responses and events, the decoding of a command through the struct tags, and \<open>PodKey\<close>.
\<close>

section \<open>Names of the protocol\<close>

text \<open>The Go types \<open>EnvelopeType\<close>, \<open>CommandType\<close>, \<open>EventType\<close> are strings: any value can arrive.\<close>

definition ProtocolVersion :: string where "ProtocolVersion = ''2.0.0''"
definition KubeletType :: string where "KubeletType = ''conduit-kubelet''"

definition EnvelopeCommand :: string where "EnvelopeCommand = ''command''"
definition EnvelopeResponse :: string where "EnvelopeResponse = ''response''"
definition EnvelopeEvent :: string where "EnvelopeEvent = ''event''"
definition EnvelopeHeartbeat :: string where "EnvelopeHeartbeat = ''heartbeat''"
definition EnvelopeRegistration :: string where
  "EnvelopeRegistration = ''kubelet_registration''"

lemmas envelope_type_defs =
  EnvelopeCommand_def EnvelopeResponse_def EnvelopeEvent_def EnvelopeHeartbeat_def
  EnvelopeRegistration_def

definition CommandDeploy :: string where "CommandDeploy = ''deploy''"
definition CommandTerminate :: string where "CommandTerminate = ''terminate''"
definition CommandStatus :: string where "CommandStatus = ''status''"
definition CommandPing :: string where "CommandPing = ''ping''"
definition CommandReject :: string where "CommandReject = ''reject''"

lemmas command_type_defs =
  CommandDeploy_def CommandTerminate_def CommandStatus_def CommandPing_def CommandReject_def

definition EventPodCreated :: string where "EventPodCreated = ''pod_created''"
definition EventPodDeleted :: string where "EventPodDeleted = ''pod_deleted''"
definition EventKubeletReady :: string where "EventKubeletReady = ''kubelet_ready''"

section \<open>Envelopes and commands\<close>

text \<open>
  \<open>Payload\<close> is a \<open>json.RawMessage\<close>; the payload type is a parameter because an outgoing payload
  is kept as the Go value it was marshalled from.
\<close>

record 'p envelope =
  env_id :: string
  env_type :: string
  env_payload :: 'p
  env_timestamp :: instant
  env_kubelet_id :: string

record command =
  cmd_type :: string
  cmd_data :: "json option"

definition NewEnvelopeWithID ::
    "string \<Rightarrow> string \<Rightarrow> 'p \<Rightarrow> string \<Rightarrow> instant \<Rightarrow> 'p envelope" where
  "NewEnvelopeWithID i ty payload kubelet now =
     \<lparr>env_id = i, env_type = ty, env_payload = payload, env_timestamp = now,
      env_kubelet_id = kubelet\<rparr>"

text \<open>An error of the protocol package, by its message with the \<open>encoding/json\<close> part left out.\<close>

datatype decode_error = EmptyMessage string | BadMessage string

text \<open>
  The guard \<open>len(raw) == 0 || string(raw) == "null"\<close> and then \<open>DecodePayload\<close> and
  \<open>DecodeData\<close>, for a struct type given by its fields and zero value.
\<close>

definition is_empty_message :: "json option \<Rightarrow> bool" where
  "is_empty_message m \<longleftrightarrow> m = None \<or> m = Some JNull"

definition DecodePayload ::
    "'r field list \<Rightarrow> 'r \<Rightarrow> json option envelope \<Rightarrow> (decode_error, 'r) result" where
  "DecodePayload fs zero e =
     (if is_empty_message (env_payload e)
      then Inl (EmptyMessage (''envelope '' @ env_type e @ '' has empty payload''))
      else (case decode_struct fs (the (env_payload e)) zero of
              None \<Rightarrow> Inl (BadMessage (''failed to decode '' @ env_type e @ '' payload: ''))
            | Some r \<Rightarrow> Inr r))"

definition DecodeData :: "'r field list \<Rightarrow> 'r \<Rightarrow> command \<Rightarrow> (decode_error, 'r) result" where
  "DecodeData fs zero c =
     (if is_empty_message (cmd_data c)
      then Inl (EmptyMessage (cmd_type c @ '' command has no data''))
      else (case decode_struct fs (the (cmd_data c)) zero of
              None \<Rightarrow> Inl (BadMessage (''failed to decode '' @ cmd_type c @ '' command data: ''))
            | Some r \<Rightarrow> Inr r))"

fun decode_error_text :: "decode_error \<Rightarrow> string" where
  "decode_error_text (EmptyMessage m) = m"
| "decode_error_text (BadMessage m) = m"

section \<open>Parameters and results of the commands\<close>

record deploy_params =
  dp_pod_name :: string
  dp_namespace :: string
  dp_provider :: string
  dp_api_key :: string
  dp_image :: string
  dp_name :: string
  dp_env :: "string gomap option"
  dp_ports :: "string list"
  dp_container_disk :: i64
  dp_volume :: i64
  dp_gpu_type_ids :: "string list"
  dp_gpu_count :: i64
  dp_min_ram :: i64
  dp_cloud_type :: string
  dp_datacenter_ids :: "string list"
  dp_template_id :: string
  dp_container_auth_id :: string
  dp_max_price :: float64
  dp_command :: "string list"
  dp_args :: "string list"

record deploy_result =
  dr_provider_pod_id :: string
  dr_provider :: string
  dr_status :: string
  dr_cost_per_hour :: float64
  dr_gpu_type :: string
  dr_machine_id :: string
  dr_datacenter_id :: string
  dr_ports :: "string gomap option"

text \<open>\<open>TerminateParams\<close> and \<open>StatusParams\<close> have the same fields and tags.\<close>

record instance_params =
  ip_pod_name :: string
  ip_namespace :: string
  ip_provider :: string
  ip_provider_pod_id :: string
  ip_api_key :: string

type_synonym terminate_params = instance_params
type_synonym status_params = instance_params

record status_result =
  sr_pod_name :: string
  sr_provider_pod_id :: string
  sr_provider :: string
  sr_status :: string
  sr_phase :: string
  sr_is_running :: bool
  sr_is_terminated :: bool
  sr_exit_code :: i64
  sr_message :: string

record reject_params =
  rp_pod_name :: string
  rp_namespace :: string
  rp_code :: string
  rp_message :: string
  rp_upgrade_url :: string

definition zero_command :: command where
  "zero_command = \<lparr>cmd_type = [], cmd_data = None\<rparr>"

definition zero_deploy_params :: deploy_params where
  "zero_deploy_params =
     \<lparr>dp_pod_name = [], dp_namespace = [], dp_provider = [], dp_api_key = [], dp_image = [],
      dp_name = [], dp_env = None, dp_ports = [], dp_container_disk = 0, dp_volume = 0,
      dp_gpu_type_ids = [], dp_gpu_count = 0, dp_min_ram = 0, dp_cloud_type = [],
      dp_datacenter_ids = [], dp_template_id = [], dp_container_auth_id = [],
      dp_max_price = 0, dp_command = [], dp_args = []\<rparr>"

definition zero_instance_params :: instance_params where
  "zero_instance_params =
     \<lparr>ip_pod_name = [], ip_namespace = [], ip_provider = [], ip_provider_pod_id = [],
      ip_api_key = []\<rparr>"

definition zero_status_result :: status_result where
  "zero_status_result =
     \<lparr>sr_pod_name = [], sr_provider_pod_id = [], sr_provider = [], sr_status = [],
      sr_phase = [], sr_is_running = False, sr_is_terminated = False, sr_exit_code = 0,
      sr_message = []\<rparr>"

definition zero_reject_params :: reject_params where
  "zero_reject_params =
     \<lparr>rp_pod_name = [], rp_namespace = [], rp_code = [], rp_message = [], rp_upgrade_url = []\<rparr>"

subsection \<open>Struct tags\<close>

definition command_fields :: "command field list" where
  "command_fields = [(''type'', set_str cmd_type_update), (''data'', set_raw cmd_data_update)]"

definition deploy_params_fields :: "deploy_params field list" where
  "deploy_params_fields =
     [(''pod_name'', set_str dp_pod_name_update),
      (''namespace'', set_str dp_namespace_update),
      (''provider'', set_str dp_provider_update),
      (''api_key'', set_str dp_api_key_update),
      (''image'', set_str dp_image_update),
      (''name'', set_str dp_name_update),
      (''env'', set_map dp_env dp_env_update),
      (''ports'', set_strs dp_ports_update),
      (''container_disk_in_gb'', set_int dp_container_disk_update),
      (''volume_in_gb'', set_int dp_volume_update),
      (''gpu_type_ids'', set_strs dp_gpu_type_ids_update),
      (''gpu_count'', set_int dp_gpu_count_update),
      (''min_ram_per_gpu'', set_int dp_min_ram_update),
      (''cloud_type'', set_str dp_cloud_type_update),
      (''datacenter_ids'', set_strs dp_datacenter_ids_update),
      (''template_id'', set_str dp_template_id_update),
      (''container_auth_id'', set_str dp_container_auth_id_update),
      (''max_price'', set_float dp_max_price_update),
      (''command'', set_strs dp_command_update),
      (''args'', set_strs dp_args_update)]"

definition instance_params_fields :: "instance_params field list" where
  "instance_params_fields =
     [(''pod_name'', set_str ip_pod_name_update),
      (''namespace'', set_str ip_namespace_update),
      (''provider'', set_str ip_provider_update),
      (''provider_pod_id'', set_str ip_provider_pod_id_update),
      (''api_key'', set_str ip_api_key_update)]"

definition status_result_fields :: "status_result field list" where
  "status_result_fields =
     [(''pod_name'', set_str sr_pod_name_update),
      (''provider_pod_id'', set_str sr_provider_pod_id_update),
      (''provider'', set_str sr_provider_update),
      (''status'', set_str sr_status_update),
      (''phase'', set_str sr_phase_update),
      (''is_running'', set_bool sr_is_running_update),
      (''is_terminated'', set_bool sr_is_terminated_update),
      (''exit_code'', set_int sr_exit_code_update),
      (''message'', set_str sr_message_update)]"

definition reject_params_fields :: "reject_params field list" where
  "reject_params_fields =
     [(''pod_name'', set_str rp_pod_name_update),
      (''namespace'', set_str rp_namespace_update),
      (''code'', set_str rp_code_update),
      (''message'', set_str rp_message_update),
      (''upgrade_url'', set_str rp_upgrade_url_update)]"

subsection \<open>Marshalling\<close>

definition enc_command :: "command \<Rightarrow> json" where
  "enc_command c = JObj [(''type'', JStr (cmd_type c)), (''data'', enc_raw (cmd_data c))]"

definition enc_deploy_params :: "deploy_params \<Rightarrow> json" where
  "enc_deploy_params p = JObj (
     (''pod_name'', JStr (dp_pod_name p)) # (''namespace'', JStr (dp_namespace p)) #
     (''provider'', JStr (dp_provider p)) # omit_str ''api_key'' (dp_api_key p) @
     (''image'', JStr (dp_image p)) # (''name'', JStr (dp_name p)) #
     omit_map ''env'' (dp_env p) @ omit_strs ''ports'' (dp_ports p) @
     omit_int ''container_disk_in_gb'' (dp_container_disk p) @
     omit_int ''volume_in_gb'' (dp_volume p) @
     omit_strs ''gpu_type_ids'' (dp_gpu_type_ids p) @
     omit_int ''gpu_count'' (dp_gpu_count p) @
     omit_int ''min_ram_per_gpu'' (dp_min_ram p) @
     omit_str ''cloud_type'' (dp_cloud_type p) @
     omit_strs ''datacenter_ids'' (dp_datacenter_ids p) @
     omit_str ''template_id'' (dp_template_id p) @
     omit_str ''container_auth_id'' (dp_container_auth_id p) @
     omit_float ''max_price'' (dp_max_price p) @
     omit_strs ''command'' (dp_command p) @ omit_strs ''args'' (dp_args p) @ [])"

definition enc_instance_params :: "instance_params \<Rightarrow> json" where
  "enc_instance_params p = JObj (
     (''pod_name'', JStr (ip_pod_name p)) # (''namespace'', JStr (ip_namespace p)) #
     (''provider'', JStr (ip_provider p)) #
     (''provider_pod_id'', JStr (ip_provider_pod_id p)) # omit_str ''api_key'' (ip_api_key p) @ [])"

definition enc_status_result :: "status_result \<Rightarrow> json" where
  "enc_status_result s = JObj (
     (''pod_name'', JStr (sr_pod_name s)) #
     (''provider_pod_id'', JStr (sr_provider_pod_id s)) #
     (''provider'', JStr (sr_provider s)) # (''status'', JStr (sr_status s)) #
     (''phase'', JStr (sr_phase s)) # (''is_running'', JBool (sr_is_running s)) #
     (''is_terminated'', JBool (sr_is_terminated s)) #
     (''exit_code'', enc_int (sr_exit_code s)) # omit_str ''message'' (sr_message s) @ [])"

definition enc_reject_params :: "reject_params \<Rightarrow> json" where
  "enc_reject_params p = JObj (
     (''pod_name'', JStr (rp_pod_name p)) # (''namespace'', JStr (rp_namespace p)) #
     (''code'', JStr (rp_code p)) # (''message'', JStr (rp_message p)) #
     omit_str ''upgrade_url'' (rp_upgrade_url p) @ [])"

text \<open>\<open>NewCommand\<close>: marshalling these parameter types cannot fail.\<close>

definition NewCommand :: "string \<Rightarrow> json \<Rightarrow> command" where
  "NewCommand ty data = \<lparr>cmd_type = ty, cmd_data = Some data\<rparr>"

section \<open>Responses\<close>

record error_details =
  ed_code :: string
  ed_message :: string
  ed_provider_error :: string

text \<open>The dynamic types that the program stores in the \<open>interface{}\<close> field \<open>Data\<close>.\<close>

datatype resp_data =
    NilData
  | EmptyData
  | DeployData deploy_result
  | TerminateData bool
  | StatusData status_result

datatype resp_status = StatusSuccess | StatusError

record response =
  rs_command_id :: string
  rs_status :: resp_status
  rs_data :: resp_data
  rs_error :: "error_details option"

definition NewSuccessResponse :: "string \<Rightarrow> resp_data \<Rightarrow> response" where
  "NewSuccessResponse cid d =
     \<lparr>rs_command_id = cid, rs_status = StatusSuccess,
      rs_data = (if d = NilData then EmptyData else d), rs_error = None\<rparr>"

definition NewErrorResponse :: "string \<Rightarrow> string \<Rightarrow> string \<Rightarrow> string \<Rightarrow> response" where
  "NewErrorResponse cid code message provider_error =
     \<lparr>rs_command_id = cid, rs_status = StatusError, rs_data = NilData,
      rs_error = Some \<lparr>ed_code = code, ed_message = message,
                       ed_provider_error = provider_error\<rparr>\<rparr>"

text \<open>\<open>(*Response).Success\<close> has a pointer receiver: \<open>None\<close> is the nil response.\<close>

definition Success :: "response option \<Rightarrow> bool" where
  "Success r = (case r of None \<Rightarrow> False | Some r' \<Rightarrow> rs_status r' = StatusSuccess)"

text \<open>The shape every response has: data exactly on success, error details exactly on failure.\<close>

definition response_ok :: "response \<Rightarrow> bool" where
  "response_ok r \<longleftrightarrow>
     (case rs_status r of
        StatusSuccess \<Rightarrow> rs_error r = None \<and> rs_data r \<noteq> NilData
      | StatusError \<Rightarrow> rs_error r \<noteq> None \<and> rs_data r = NilData)"

lemma response_ok_success [simp]: "response_ok (NewSuccessResponse cid d)"
  by (simp add: response_ok_def NewSuccessResponse_def)

lemma response_ok_error [simp]: "response_ok (NewErrorResponse cid c m p)"
  by (simp add: response_ok_def NewErrorResponse_def)

section \<open>Decoding lemmas\<close>

lemmas field_tables =
  command_fields_def deploy_params_fields_def instance_params_fields_def
  status_result_fields_def reject_params_fields_def

lemma decode_enc_command:
  "decode_struct command_fields (enc_command c) zero_command = Some (c\<lparr>cmd_data := Some (enc_raw (cmd_data c))\<rparr>)"
  by (simp add: decode_struct_def enc_command_def zero_command_def command_fields_def
      find_field_def set_raw_def)

lemma decode_enc_instance_params:
  "decode_struct instance_params_fields (enc_instance_params p) zero_instance_params = Some p"
  by (simp add: decode_struct_def enc_instance_params_def zero_instance_params_def
      codec_simps instance_params_fields_def find_field_def
      del: decode_members.simps(2) append_Nil2)

lemma decode_enc_status_result:
  "decode_struct status_result_fields (enc_status_result r) zero_status_result = Some r"
  by (simp add: decode_struct_def enc_status_result_def zero_status_result_def
      codec_simps status_result_fields_def find_field_def
      del: decode_members.simps(2) append_Nil2)

lemma decode_enc_reject_params:
  "decode_struct reject_params_fields (enc_reject_params p) zero_reject_params = Some p"
  by (simp add: decode_struct_def enc_reject_params_def zero_reject_params_def
      codec_simps reject_params_fields_def find_field_def
      del: decode_members.simps(2) append_Nil2)

text \<open>
  An empty non-nil environment map is the one value that does not survive: \<open>omitempty\<close> drops it
  and it comes back as a nil map.
\<close>

definition deploy_params_ok :: "deploy_params \<Rightarrow> bool" where
  "deploy_params_ok p \<longleftrightarrow>
     dp_env p \<noteq> Some [] \<and> gomap_ok (entries_of (dp_env p)) \<and> float_ok (dp_max_price p)"

lemma decode_enc_deploy_params:
  "deploy_params_ok p \<Longrightarrow>
     decode_struct deploy_params_fields (enc_deploy_params p) zero_deploy_params = Some p"
  by (simp add: decode_struct_def enc_deploy_params_def zero_deploy_params_def deploy_params_ok_def
      codec_simps deploy_params_fields_def find_field_def
      del: decode_members.simps(2) append_Nil2)

section \<open>The contract of a message type\<close>

text \<open>
  A message type is given by its marshaller, its field table and its zero value; what a peer may
  rely on is that decoding an encoded value returns it, for the values \<open>ok\<close> allows. The
  consequences for commands and envelopes are proved once, from the contract alone.
\<close>

locale codec =
  fixes enc :: "'a \<Rightarrow> json"
    and fs :: "'a field list"
    and zero :: 'a
    and ok :: "'a \<Rightarrow> bool"
  assumes decode_enc: "ok x \<Longrightarrow> decode_struct fs (enc x) zero = Some x"
    and enc_not_null: "enc x \<noteq> JNull"
begin

lemma enc_inj: "ok x \<Longrightarrow> ok y \<Longrightarrow> enc x = enc y \<Longrightarrow> x = y"
  using decode_enc by (metis option.inject)

lemma decode_data: "ok x \<Longrightarrow> DecodeData fs zero (NewCommand ty (enc x)) = Inr x"
  by (simp add: DecodeData_def NewCommand_def is_empty_message_def decode_enc enc_not_null)

lemma decode_data_type:
  "DecodeData fs zero c = Inr x \<Longrightarrow> DecodeData fs zero (c\<lparr>cmd_type := ty\<rparr>) = Inr x"
  by (auto simp: DecodeData_def split: option.splits if_splits)

lemma through_envelope:
  "DecodePayload command_fields zero_command
     (NewEnvelopeWithID i EnvelopeCommand (Some (enc_command (NewCommand ty (enc x)))) kid now)
   = Inr (NewCommand ty (enc x))"
proof -
  have "decode_struct command_fields (enc_command (NewCommand ty (enc x))) zero_command
      = Some (NewCommand ty (enc x))"
    by (simp add: decode_enc_command NewCommand_def enc_raw_def)
  then show ?thesis
    by (simp add: DecodePayload_def NewEnvelopeWithID_def is_empty_message_def enc_command_def)
qed

end

interpretation deploy_codec: codec enc_deploy_params deploy_params_fields zero_deploy_params
    deploy_params_ok
  by unfold_locales (erule decode_enc_deploy_params, simp add: enc_deploy_params_def)

interpretation instance_codec: codec enc_instance_params instance_params_fields
    zero_instance_params "\<lambda>_. True"
  by unfold_locales (rule decode_enc_instance_params, simp add: enc_instance_params_def)

interpretation status_codec: codec enc_status_result status_result_fields zero_status_result
    "\<lambda>_. True"
  by unfold_locales (rule decode_enc_status_result, simp add: enc_status_result_def)

interpretation reject_codec: codec enc_reject_params reject_params_fields zero_reject_params
    "\<lambda>_. True"
  by unfold_locales (rule decode_enc_reject_params, simp add: enc_reject_params_def)

section \<open>Pod keys\<close>

definition PodKey :: "string \<Rightarrow> string \<Rightarrow> string" where
  "PodKey namespace name = trim_space namespace @ ''/'' @ trim_space name"

text \<open>A name as Kubernetes admits it: no slash and no white space at either end.\<close>

definition k8s_name :: "string \<Rightarrow> bool" where
  "k8s_name s \<longleftrightarrow> CHR ''/'' \<notin> set s \<and> trim_space s = s"

lemma append_sep_inj:
  fixes c :: char
  assumes "a @ c # b = a' @ c # b'" and "c \<notin> set a" and "c \<notin> set a'"
  shows "a = a' \<and> b = b'"
proof -
  have "cut c (a @ c # b) = cut c (a' @ c # b')"
    by (rule arg_cong [OF assms(1)])
  then show ?thesis
    by (simp only: cut_char [OF assms(2)] cut_char [OF assms(3)] prod.inject simp_thms)
qed

lemma PodKey_inj:
  assumes "PodKey ns n = PodKey ns' n'" and "CHR ''/'' \<notin> set ns" and "CHR ''/'' \<notin> set ns'"
  shows "trim_space ns = trim_space ns' \<and> trim_space n = trim_space n'"
proof (rule append_sep_inj)
  show "trim_space ns @ CHR ''/'' # trim_space n = trim_space ns' @ CHR ''/'' # trim_space n'"
    using assms(1) by (simp add: PodKey_def)
qed (use assms trim_space_set in blast)+

end
