(* ===== verification/Providers.thy ===== *)
theory Providers
  imports Protocol
begin

text \<open>
  \<open>pkg/providers\<close>: errors of the program, the status vocabulary with its mapping to pod phases
  (\<open>interface.go\<close>), the provider interface, and the manager that routes a command to a provider
  by name (\<open>manager.go\<close>).
\<close>

section \<open>Errors\<close>

record provider_error =
  pe_provider :: string
  pe_code :: string
  pe_message :: string
  pe_retry :: bool

definition NewProviderError :: "string \<Rightarrow> string \<Rightarrow> string \<Rightarrow> bool \<Rightarrow> provider_error" where
  "NewProviderError provider code message retry =
     \<lparr>pe_provider = provider, pe_code = code, pe_message = message, pe_retry = retry\<rparr>"

definition provider_error_text :: "provider_error \<Rightarrow> string" where
  "provider_error_text e =
     (if pe_code e \<noteq> [] then pe_provider e @ '' error '' @ pe_code e @ '': '' @ pe_message e
      else pe_provider e @ '' error: '' @ pe_message e)"

text \<open>
  A Go error value: one made from text, a \<open>*ProviderError\<close>, or one that wraps another behind a
  prefix (\<open>fmt.Errorf\<close> with \<open>%w\<close>), through which \<open>errors.As\<close> looks.
\<close>

datatype go_error = ErrText string | ErrProvider provider_error | ErrWrap string go_error

fun error_text :: "go_error \<Rightarrow> string" where
  "error_text (ErrText s) = s"
| "error_text (ErrProvider e) = provider_error_text e"
| "error_text (ErrWrap pre e) = pre @ error_text e"

fun as_provider_error :: "go_error \<Rightarrow> provider_error option" where
  "as_provider_error (ErrText s) = None"
| "as_provider_error (ErrProvider e) = Some e"
| "as_provider_error (ErrWrap pre e) = as_provider_error e"

section \<open>Status vocabulary\<close>

definition StatusPending :: string where "StatusPending = ''PENDING''"
definition StatusStarting :: string where "StatusStarting = ''STARTING''"
definition StatusRunning :: string where "StatusRunning = ''RUNNING''"
definition StatusTerminating :: string where "StatusTerminating = ''TERMINATING''"
definition StatusTerminated :: string where "StatusTerminated = ''TERMINATED''"
definition StatusFailed :: string where "StatusFailed = ''FAILED''"
definition StatusExited :: string where "StatusExited = ''EXITED''"

definition PhasePending :: string where "PhasePending = ''Pending''"
definition PhaseRunning :: string where "PhaseRunning = ''Running''"
definition PhaseSucceeded :: string where "PhaseSucceeded = ''Succeeded''"
definition PhaseFailed :: string where "PhaseFailed = ''Failed''"
definition PhaseUnknown :: string where "PhaseUnknown = ''Unknown''"

lemmas status_defs =
  StatusPending_def StatusStarting_def StatusRunning_def StatusTerminating_def
  StatusTerminated_def StatusFailed_def StatusExited_def

lemmas phase_defs =
  PhasePending_def PhaseRunning_def PhaseSucceeded_def PhaseFailed_def PhaseUnknown_def

definition PhaseForStatus :: "string \<Rightarrow> bool \<Rightarrow> string" where
  "PhaseForStatus standardStatus successful =
     (if standardStatus = StatusPending \<or> standardStatus = StatusStarting then PhasePending
      else if standardStatus = StatusRunning \<or> standardStatus = StatusTerminating then PhaseRunning
      else if standardStatus = StatusTerminated \<or> standardStatus = StatusExited
        then (if successful then PhaseSucceeded else PhaseFailed)
      else if standardStatus = StatusFailed then PhaseFailed
      else PhaseUnknown)"

definition mapRunPodStatus :: "string \<Rightarrow> string" where
  "mapRunPodStatus status =
     (if status = ''STARTING'' then StatusStarting
      else if status = ''RUNNING'' then StatusRunning
      else if status = ''TERMINATING'' then StatusTerminating
      else if status = ''TERMINATED'' then StatusTerminated
      else if status = ''EXITED'' then StatusExited
      else status)"

definition mapVastAIStatus :: "string \<Rightarrow> string" where
  "mapVastAIStatus status =
     (if status = ''loading'' then StatusStarting
      else if status = ''running'' then StatusRunning
      else if status = ''exited'' then StatusExited
      else status)"

definition GetStandardStatus :: "string \<Rightarrow> string \<Rightarrow> string" where
  "GetStandardStatus providerStatus provider =
     (if provider = ''runpod'' then mapRunPodStatus providerStatus
      else if provider = ''vastai'' then mapVastAIStatus providerStatus
      else providerStatus)"

lemma mapRunPodStatus_id [simp]: "mapRunPodStatus s = s"
  by (simp add: mapRunPodStatus_def status_defs)

section \<open>The provider interface\<close>

text \<open>
  A value of the Go interface \<open>Provider\<close>: its methods, each acting on the outside world \<open>'w\<close>
  (the provider's API). A method that returns no error returns a non-nil result.
\<close>

record 'w provider =
  pv_name :: string
  pv_deploy :: "deploy_params \<Rightarrow> 'w \<Rightarrow> (go_error, deploy_result) result \<times> 'w"
  pv_get_status :: "status_params \<Rightarrow> 'w \<Rightarrow> (go_error, status_result) result \<times> 'w"
  pv_terminate :: "terminate_params \<Rightarrow> 'w \<Rightarrow> go_error option \<times> 'w"
  pv_ping :: "'w \<Rightarrow> go_error option \<times> 'w"

text \<open>
  What the command handler relies on: a failing method says which provider failed and with which
  code, a deployed instance carries an id and the provider's name, and a status is about the
  instance that was asked for.
\<close>

locale provider_contract =
  fixes P :: "'w provider"
  assumes deploy_error: "pv_deploy P p w = (Inl e, w') \<Longrightarrow>
      \<exists>pe. as_provider_error e = Some pe \<and> pe_provider pe = pv_name P \<and> pe_code pe \<noteq> []"
    and status_error: "pv_get_status P sp w = (Inl e, w') \<Longrightarrow>
      \<exists>pe. as_provider_error e = Some pe \<and> pe_provider pe = pv_name P \<and> pe_code pe \<noteq> []"
    and terminate_error: "pv_terminate P tp w = (Some e, w') \<Longrightarrow>
      \<exists>pe. as_provider_error e = Some pe \<and> pe_provider pe = pv_name P \<and> pe_code pe \<noteq> []"
    and deploy_result: "pv_deploy P p w = (Inr r, w') \<Longrightarrow>
      dr_provider r = pv_name P \<and> dr_provider_pod_id r \<noteq> []"
    and status_result: "pv_get_status P sp w = (Inr s, w') \<Longrightarrow>
      sr_provider s = pv_name P \<and> sr_provider_pod_id s = ip_provider_pod_id sp"

section \<open>The manager\<close>

text \<open>
  The registry is a Go map. Where the code ranges over it, the order is the runtime's choice and
  is an argument of the model, a list that enumerates the keys.
\<close>

type_synonym 'w manager = "string \<rightharpoonup> 'w provider"

definition NewManager :: "'w manager" where
  "NewManager = Map.empty"

definition RegisterProvider :: "'w provider \<Rightarrow> 'w manager \<Rightarrow> (go_error, 'w manager) result" where
  "RegisterProvider p m =
     (let name = pv_name p
      in if m name \<noteq> None then Inl (ErrText (''provider '' @ name @ '' is already registered''))
         else Inr (m(name \<mapsto> p)))"

definition GetProvider :: "'w manager \<Rightarrow> string \<Rightarrow> (go_error, 'w provider) result" where
  "GetProvider m name =
     (case m name of
        None \<Rightarrow> Inl (ErrText (''provider '' @ name @ '' not found''))
      | Some p \<Rightarrow> Inr p)"

definition enumerates :: "string list \<Rightarrow> 'w manager \<Rightarrow> bool" where
  "enumerates ord m \<longleftrightarrow> distinct ord \<and> set ord = dom m"

text \<open>\<open>None\<close> is the nil slice that \<open>ListProviders\<close> returns for an empty registry.\<close>

definition ListProviders :: "string list \<Rightarrow> 'w manager \<Rightarrow> string list option" where
  "ListProviders ord m = (if ord = [] then None else Some ord)"

definition ManagerDeploy ::
    "'w manager \<Rightarrow> string \<Rightarrow> deploy_params \<Rightarrow> 'w \<Rightarrow> (go_error, deploy_result) result \<times> 'w" where
  "ManagerDeploy m name params w =
     (case GetProvider m name of
        Inl e \<Rightarrow> (Inl e, w)
      | Inr p \<Rightarrow> pv_deploy p params w)"

definition ManagerGetStatus ::
    "'w manager \<Rightarrow> string \<Rightarrow> status_params \<Rightarrow> 'w \<Rightarrow> (go_error, status_result) result \<times> 'w" where
  "ManagerGetStatus m name params w =
     (case GetProvider m name of
        Inl e \<Rightarrow> (Inl e, w)
      | Inr p \<Rightarrow> pv_get_status p params w)"

definition ManagerTerminate ::
    "'w manager \<Rightarrow> string \<Rightarrow> terminate_params \<Rightarrow> 'w \<Rightarrow> go_error option \<times> 'w" where
  "ManagerTerminate m name params w =
     (case GetProvider m name of
        Inl e \<Rightarrow> (Some e, w)
      | Inr p \<Rightarrow> pv_terminate p params w)"

text \<open>
  \<open>PingAll\<close> copies the registry and pings every provider in a goroutine of its own; \<open>ord\<close> is the
  order in which the pings take effect. The result map has an entry per provider.
\<close>

fun PingAll :: "'w manager \<Rightarrow> string list \<Rightarrow> 'w \<Rightarrow> (string \<rightharpoonup> go_error option) \<times> 'w" where
  "PingAll m [] w = (Map.empty, w)"
| "PingAll m (n # ord) w =
     (case m n of
        None \<Rightarrow> PingAll m ord w
      | Some p \<Rightarrow>
          (case pv_ping p w of (err, w1) \<Rightarrow>
             (case PingAll m ord w1 of (results, w2) \<Rightarrow> (results(n \<mapsto> err), w2))))"

definition HealthCheck :: "'w manager \<Rightarrow> string list \<Rightarrow> 'w \<Rightarrow> (string \<rightharpoonup> bool) \<times> 'w" where
  "HealthCheck m ord w =
     (case PingAll m ord w of (results, w') \<Rightarrow>
        (\<lambda>n. map_option (\<lambda>err. err = None) (results n), w'))"

lemma GetProvider_register:
  "RegisterProvider p m = Inr m' \<Longrightarrow>
     GetProvider m' n = (if n = pv_name p then Inr p else GetProvider m n)"
  by (auto simp: RegisterProvider_def GetProvider_def Let_def split: if_splits)

lemma PingAll_None:
  "fst (PingAll m ord w) n = None \<longleftrightarrow> n \<notin> set ord \<or> m n = None"
  by (induction ord arbitrary: w) (auto simp: split_beta split: option.splits)

lemma dom_PingAll: "dom (fst (PingAll m ord w)) = set ord \<inter> dom m"
  by (simp add: dom_def PingAll_None Collect_conj_eq)

lemma HealthCheck_None:
  "fst (HealthCheck m ord w) n = None \<longleftrightarrow> n \<notin> set ord \<or> m n = None"
  by (simp add: HealthCheck_def PingAll_None split_beta)

end
