(* ===== verification/Runpod.thy ===== *)
theory Runpod
  imports Providers "HOL-Library.Multiset"
begin

text \<open>
  The RunPod client, \<open>pkg/providers/runpod/client.go\<close>: the requests it makes, how it reads the
  answers, and the provider value it is used as. HTTP and the RunPod service are outside: a
  transport is an argument that answers requests and changes the world.
\<close>

section \<open>HTTP\<close>

record http_request =
  rq_method :: string
  rq_url :: string
  rq_authorization :: string
  rq_body :: "json option"
  rq_timeout :: int

text \<open>
  A response body: the bytes that \<open>io.ReadAll\<close> returns, its error, what \<open>json.Unmarshal\<close> makes of
  the bytes (an error message or a value) and what a \<open>json.Decoder\<close> reads as the first value.
\<close>

record http_body =
  hb_text :: string
  hb_read_error :: "string option"
  hb_json :: "(string, json) result"
  hb_first :: "(string, json) result"

record http_response =
  rsp_status :: int
  rsp_body :: http_body

text \<open>
  \<open>http.NewRequest\<close> refuses some URLs with a message; otherwise the client sends the request and
  gets an error or a response.
\<close>

record 'w transport =
  tr_refuses :: "string \<Rightarrow> string option"
  tr_do :: "http_request \<Rightarrow> 'w \<Rightarrow> (string, http_response) result \<times> 'w"

text \<open>The environment of the process, as \<open>os.Getenv\<close> reads it: empty for an unset variable.\<close>

type_synonym environment = "string \<Rightarrow> string"

section \<open>The client and its types\<close>

record runpod_client =
  rc_api_key :: string
  rc_graphql_url :: string
  rc_rest_url :: string

record machine_info =
  mi_gpu_type_id :: string
  mi_location :: string
  mi_data_center_id :: string

record container_info =
  ci_exit_code :: i64
  ci_message :: string

record runtime_info =
  ri_container :: container_info
  ri_completion_status :: string

record detailed_status =
  ds_id :: string
  ds_name :: string
  ds_desired_status :: string
  ds_current_status :: string
  ds_cost_per_hr :: float64
  ds_image :: string
  ds_env :: "string gomap option"
  ds_machine_id :: string
  ds_port_mappings :: "i64 gomap option"
  ds_runtime :: "runtime_info option"
  ds_machine :: "machine_info option"
  ds_last_error :: string
  ds_registry_auth :: string
  ds_template_id :: string

record create_pod_response =
  cp_id :: string
  cp_cost_per_hr :: float64
  cp_desired_status :: string
  cp_machine_id :: string
  cp_machine :: "machine_info option"

definition zero_machine :: machine_info where
  "zero_machine = \<lparr>mi_gpu_type_id = [], mi_location = [], mi_data_center_id = []\<rparr>"

definition zero_runtime :: runtime_info where
  "zero_runtime =
     \<lparr>ri_container = \<lparr>ci_exit_code = 0, ci_message = []\<rparr>, ri_completion_status = []\<rparr>"

definition zero_detailed :: detailed_status where
  "zero_detailed =
     \<lparr>ds_id = [], ds_name = [], ds_desired_status = [], ds_current_status = [],
      ds_cost_per_hr = 0, ds_image = [], ds_env = None, ds_machine_id = [],
      ds_port_mappings = None, ds_runtime = None, ds_machine = None, ds_last_error = [],
      ds_registry_auth = [], ds_template_id = []\<rparr>"

definition zero_create :: create_pod_response where
  "zero_create =
     \<lparr>cp_id = [], cp_cost_per_hr = 0, cp_desired_status = [], cp_machine_id = [],
      cp_machine = None\<rparr>"

definition machine_fields :: "machine_info field list" where
  "machine_fields =
     [(''gpuTypeId'', set_str mi_gpu_type_id_update),
      (''location'', set_str mi_location_update),
      (''dataCenterId'', set_str mi_data_center_id_update)]"

definition container_fields :: "container_info field list" where
  "container_fields =
     [(''exitCode'', set_int ci_exit_code_update), (''message'', set_str ci_message_update)]"

definition runtime_fields :: "runtime_info field list" where
  "runtime_fields =
     [(''container'', set_struct container_fields ri_container ri_container_update),
      (''podCompletionStatus'', set_str ri_completion_status_update)]"

definition detailed_fields :: "detailed_status field list" where
  "detailed_fields =
     [(''id'', set_str ds_id_update),
      (''name'', set_str ds_name_update),
      (''desiredStatus'', set_str ds_desired_status_update),
      (''currentStatus'', set_str ds_current_status_update),
      (''costPerHr'', set_float ds_cost_per_hr_update),
      (''image'', set_str ds_image_update),
      (''env'', set_map ds_env ds_env_update),
      (''machineId'', set_str ds_machine_id_update),
      (''portMappings'', set_int_map ds_port_mappings ds_port_mappings_update),
      (''runtime'', set_ptr runtime_fields zero_runtime ds_runtime ds_runtime_update),
      (''machine'', set_ptr machine_fields zero_machine ds_machine ds_machine_update),
      (''lastError'', set_str ds_last_error_update),
      (''containerRegistryAuthId'', set_str ds_registry_auth_update),
      (''templateId'', set_str ds_template_id_update)]"

definition create_fields :: "create_pod_response field list" where
  "create_fields =
     [(''id'', set_str cp_id_update),
      (''costPerHr'', set_float cp_cost_per_hr_update),
      (''desiredStatus'', set_str cp_desired_status_update),
      (''machineId'', set_str cp_machine_id_update),
      (''machine'', set_ptr machine_fields zero_machine cp_machine cp_machine_update)]"

definition RUNPOD_API_KEY :: string where "RUNPOD_API_KEY = ''RUNPOD_API_KEY''"

definition NewRunpodClient :: "environment \<Rightarrow> runpod_client" where
  "NewRunpodClient env =
     \<lparr>rc_api_key = env RUNPOD_API_KEY,
      rc_graphql_url = ''https://api.runpod.io/graphql'',
      rc_rest_url = ''https://rest.runpod.io/v1/''\<rparr>"

definition getAPIKey :: "environment \<Rightarrow> runpod_client \<Rightarrow> string \<Rightarrow> string" where
  "getAPIKey env c paramKey =
     (if paramKey \<noteq> [] then paramKey
      else if rc_api_key c \<noteq> [] then rc_api_key c
      else env RUNPOD_API_KEY)"

section \<open>Requests\<close>

text \<open>The error that decoding reports for a value of the wrong type; its text is the library's.\<close>

definition json_type_error :: go_error where
  "json_type_error = ErrText ''json: cannot unmarshal''"

definition makeRESTRequestWithKey ::
    "'w transport \<Rightarrow> runpod_client \<Rightarrow> string \<Rightarrow> string \<Rightarrow> json option \<Rightarrow> string \<Rightarrow> 'w \<Rightarrow>
     (go_error, http_response) result \<times> 'w" where
  "makeRESTRequestWithKey tr c meth endpoint body key w =
     (let url = rc_rest_url c @ endpoint
      in case tr_refuses tr url of
           Some e \<Rightarrow> (Inl (ErrWrap ''failed to create request: '' (ErrText e)), w)
         | None \<Rightarrow>
             (let req = \<lparr>rq_method = meth, rq_url = url, rq_authorization = ''Bearer '' @ key,
                         rq_body = body,
                         rq_timeout = (if meth = ''POST'' \<and> endpoint = ''pods'' then 60 else 30)\<rparr>
              in case tr_do tr req w of
                   (Inl e, w') \<Rightarrow> (Inl (ErrWrap ''failed to execute request: '' (ErrText e)), w')
                 | (Inr resp, w') \<Rightarrow> (Inr resp, w')))"

text \<open>\<open>fmt.Errorf("API returned error: %d %s", resp.StatusCode, string(body))\<close>\<close>

definition api_error :: "http_response \<Rightarrow> go_error" where
  "api_error resp =
     ErrText (''API returned error: '' @ show_int (rsp_status resp) @ '' '' @
              hb_text (rsp_body resp))"

text \<open>Reading a body to the end and unmarshalling it into a struct.\<close>

definition read_body :: "string \<Rightarrow> http_response \<Rightarrow> (go_error, http_body) result" where
  "read_body msg resp =
     (case hb_read_error (rsp_body resp) of
        Some e \<Rightarrow> Inl (ErrWrap msg (ErrText e))
      | None \<Rightarrow> Inr (rsp_body resp))"

definition unmarshal ::
    "string \<Rightarrow> 'r field list \<Rightarrow> 'r \<Rightarrow> (string, json) result \<Rightarrow> (go_error, 'r) result" where
  "unmarshal msg fs zero j =
     (case j of
        Inl e \<Rightarrow> Inl (ErrWrap msg (ErrText e))
      | Inr v \<Rightarrow>
          (case decode_struct fs v zero of
             None \<Rightarrow> Inl (ErrWrap msg json_type_error)
           | Some r \<Rightarrow> Inr r))"

definition deployPodRESTWithKey ::
    "'w transport \<Rightarrow> runpod_client \<Rightarrow> json gomap \<Rightarrow> string \<Rightarrow> 'w \<Rightarrow>
     (go_error, create_pod_response) result \<times> 'w" where
  "deployPodRESTWithKey tr c params key w =
     (case makeRESTRequestWithKey tr c ''POST'' ''pods'' (Some (JObj params)) key w of
        (Inl e, w') \<Rightarrow> (Inl (ErrWrap ''API request failed: '' e), w')
      | (Inr resp, w') \<Rightarrow>
          (case read_body ''failed to read response body: '' resp of
             Inl e \<Rightarrow> (Inl e, w')
           | Inr body \<Rightarrow>
               if rsp_status resp \<ge> 400 then (Inl (api_error resp), w')
               else (case unmarshal ''failed to parse response: '' create_fields zero_create
                            (hb_json body) of
                       Inl e \<Rightarrow> (Inl e, w')
                     | Inr r \<Rightarrow>
                         if cp_id r = []
                         then (Inl (ErrText (''pod deployment failed: '' @ hb_text body)), w')
                         else (Inr r, w'))))"

text \<open>\<open>None\<close> is the nil status of a pod that RunPod does not know.\<close>

definition getDetailedPodStatusWithKey ::
    "'w transport \<Rightarrow> runpod_client \<Rightarrow> string \<Rightarrow> string \<Rightarrow> 'w \<Rightarrow>
     (go_error, detailed_status option) result \<times> 'w" where
  "getDetailedPodStatusWithKey tr c podID key w =
     (case makeRESTRequestWithKey tr c ''GET'' (''pods/'' @ podID) None key w of
        (Inl e, w') \<Rightarrow> (Inl (ErrWrap ''failed to get pod details: '' e), w')
      | (Inr resp, w') \<Rightarrow>
          if rsp_status resp = 404 then (Inr None, w')
          else if rsp_status resp \<noteq> 200 then (Inl (api_error resp), w')
          else (case read_body ''error reading response body: '' resp of
                  Inl e \<Rightarrow> (Inl e, w')
                | Inr body \<Rightarrow>
                    (case unmarshal ''failed to parse pod status: '' detailed_fields zero_detailed
                            (hb_json body) of
                       Inl e \<Rightarrow> (Inl e, w')
                     | Inr s \<Rightarrow> (Inr (Some s), w'))))"

definition terminatePodWithKey ::
    "'w transport \<Rightarrow> runpod_client \<Rightarrow> string \<Rightarrow> string \<Rightarrow> 'w \<Rightarrow> go_error option \<times> 'w" where
  "terminatePodWithKey tr c podID key w =
     (if trim_space podID = [] then (Some (ErrText (''invalid pod ID: '' @ quote_blank podID)), w)
      else (case makeRESTRequestWithKey tr c ''DELETE'' (''pods/'' @ podID) None key w of
              (Inl e, w') \<Rightarrow> (Some e, w')
            | (Inr resp, w') \<Rightarrow>
                if rsp_status resp = 404 then (None, w')
                else if rsp_status resp \<noteq> 200 \<and> rsp_status resp \<noteq> 204
                then (Some (ErrText (''failed to terminate pod, status: '' @
                        show_int (rsp_status resp) @ '', response: '' @
                        hb_text (rsp_body resp))), w')
                else (None, w')))"

section \<open>Parameters of a deployment\<close>

definition applyContainerSpec :: "deploy_params \<Rightarrow> json gomap \<Rightarrow> json gomap" where
  "applyContainerSpec p m =
     (let m1 = (if dp_command p \<noteq> [] then map_put ''dockerEntrypoint'' (enc_strs (dp_command p)) m
                else m);
          m2 = (if dp_args p \<noteq> [] then map_put ''dockerStartCmd'' (enc_strs (dp_args p)) m1
                else m1)
      in if slt 0 (dp_gpu_count p) then map_put ''gpuCount'' (enc_int (dp_gpu_count p)) m2 else m2)"

text \<open>The entries that are always there, in the order of the map literal.\<close>

definition base_params :: "deploy_params \<Rightarrow> json gomap" where
  "base_params p =
     map_put ''env'' (enc_map (dp_env p))
       (map_put ''volumeInGb'' (enc_int (dp_volume p))
         (map_put ''containerDiskInGb'' (enc_int (dp_container_disk p))
           (map_put ''imageName'' (JStr (dp_image p))
             (map_put ''name'' (JStr (dp_name p)) []))))"

definition put_if :: "bool \<Rightarrow> string \<Rightarrow> json \<Rightarrow> json gomap \<Rightarrow> json gomap" where
  "put_if b k v m = (if b then map_put k v m else m)"

definition convertDeployParams :: "deploy_params \<Rightarrow> json gomap" where
  "convertDeployParams p =
     applyContainerSpec p
       (put_if (slt 0 (dp_min_ram p)) ''minRAMPerGPU'' (enc_int (dp_min_ram p))
         (put_if (dp_container_auth_id p \<noteq> []) ''containerRegistryAuthId''
             (JStr (dp_container_auth_id p))
           (put_if (dp_template_id p \<noteq> []) ''templateId'' (JStr (dp_template_id p))
             (put_if (dp_cloud_type p \<noteq> []) ''cloudType'' (JStr (dp_cloud_type p))
               (put_if (dp_datacenter_ids p \<noteq> []) ''dataCenterIds''
                   (enc_strs (dp_datacenter_ids p))
                 (put_if (dp_ports p \<noteq> []) ''ports'' (enc_strs (dp_ports p))
                   (put_if (dp_gpu_type_ids p \<noteq> []) ''gpuTypeIds''
                       (enc_strs (dp_gpu_type_ids p))
                     (base_params p))))))))"

text \<open>The loop of \<open>proxyPortURLs\<close> over the port specifications.\<close>

definition proxy_url :: "string \<Rightarrow> string \<Rightarrow> string" where
  "proxy_url podID port = ''https://'' @ podID @ ''-'' @ port @ ''.proxy.runpod.net''"

definition http_port :: "string \<Rightarrow> string option" where
  "http_port spec =
     (case cut (CHR ''/'') spec of (before, proto, _) \<Rightarrow>
        let port = trim_space before
        in if port = [] \<or> \<not> equal_fold (trim_space proto) ''http'' then None else Some port)"

fun collect_urls :: "string \<Rightarrow> string list \<Rightarrow> string gomap \<Rightarrow> string gomap" where
  "collect_urls podID [] urls = urls"
| "collect_urls podID (spec # ports) urls =
     (case http_port spec of
        None \<Rightarrow> collect_urls podID ports urls
      | Some port \<Rightarrow> collect_urls podID ports (map_put port (proxy_url podID port) urls))"

definition proxyPortURLs :: "string \<Rightarrow> string list \<Rightarrow> string gomap option" where
  "proxyPortURLs podID ports =
     (if podID = [] \<or> ports = [] then None
      else let urls = collect_urls podID ports []
           in if urls = [] then None else Some urls)"

section \<open>The provider's methods\<close>

definition PodRunning :: string where "PodRunning = ''RUNNING''"
definition PodStarting :: string where "PodStarting = ''STARTING''"
definition PodTerminated :: string where "PodTerminated = ''TERMINATED''"
definition PodNotFound :: string where "PodNotFound = ''NOT_FOUND''"
definition PodExited :: string where "PodExited = ''EXITED''"

lemmas pod_status_defs =
  PodRunning_def PodStarting_def PodTerminated_def PodNotFound_def PodExited_def

definition missing_key :: go_error where
  "missing_key = ErrProvider (NewProviderError ''runpod'' ''missing_api_key''
     ''no API key provided and RUNPOD_API_KEY not set'' False)"

definition Deploy ::
    "'w transport \<Rightarrow> environment \<Rightarrow> runpod_client \<Rightarrow> deploy_params \<Rightarrow> 'w \<Rightarrow>
     (go_error, deploy_result) result \<times> 'w" where
  "Deploy tr env c p w =
     (let key = getAPIKey env c (dp_api_key p)
      in if key = [] then (Inl missing_key, w)
         else (case deployPodRESTWithKey tr c (convertDeployParams p) key w of
                 (Inl e, w') \<Rightarrow>
                   (Inl (ErrProvider (NewProviderError ''runpod'' ''deployment_failed''
                           (error_text e) True)), w')
               | (Inr created, w') \<Rightarrow>
                   (let status = (if cp_desired_status created = [] then PodStarting
                                  else cp_desired_status created)
                    in (Inr \<lparr>dr_provider_pod_id = cp_id created,
                             dr_provider = ''runpod'',
                             dr_status = GetStandardStatus status ''runpod'',
                             dr_cost_per_hour = cp_cost_per_hr created,
                             dr_gpu_type = (case cp_machine created of None \<Rightarrow> []
                                            | Some mi \<Rightarrow> mi_gpu_type_id mi),
                             dr_machine_id = cp_machine_id created,
                             dr_datacenter_id = (case cp_machine created of None \<Rightarrow> []
                                                 | Some mi \<Rightarrow> mi_data_center_id mi),
                             dr_ports = proxyPortURLs (cp_id created) (dp_ports p)\<rparr>, w'))))"

definition isSuccessfulCompletion :: "detailed_status \<Rightarrow> bool" where
  "isSuccessfulCompletion s =
     (case ds_runtime s of
        None \<Rightarrow> False
      | Some rt \<Rightarrow>
          if ci_exit_code (ri_container rt) = 0 then True
          else if ri_completion_status rt \<noteq> []
          then contains (to_lower (ri_completion_status rt)) ''success'' \<or>
               contains (to_lower (ri_completion_status rt)) ''completed''
          else False)"

text \<open>The result of \<open>GetStatus\<close> for an instance that RunPod does not know, and for one it does.\<close>

definition not_found_result :: "status_params \<Rightarrow> status_result" where
  "not_found_result p =
     \<lparr>sr_pod_name = [], sr_provider_pod_id = ip_provider_pod_id p, sr_provider = ''runpod'',
      sr_status = PodNotFound, sr_phase = PhaseFailed, sr_is_running = False,
      sr_is_terminated = True, sr_exit_code = 0, sr_message = ''pod not found on RunPod''\<rparr>"

definition found_result :: "status_params \<Rightarrow> detailed_status \<Rightarrow> status_result" where
  "found_result p s =
     (let standard = GetStandardStatus (ds_desired_status s) ''runpod'';
          result = \<lparr>sr_pod_name = [], sr_provider_pod_id = ip_provider_pod_id p,
                    sr_provider = ''runpod'', sr_status = standard,
                    sr_phase = PhaseForStatus standard (isSuccessfulCompletion s),
                    sr_is_running = (ds_desired_status s = PodRunning),
                    sr_is_terminated = (ds_desired_status s = PodTerminated \<or>
                                        ds_desired_status s = PodExited),
                    sr_exit_code = 0, sr_message = []\<rparr>
      in case ds_runtime s of
           None \<Rightarrow> result
         | Some rt \<Rightarrow>
             result\<lparr>sr_exit_code := ci_exit_code (ri_container rt),
                    sr_message := (if ci_message (ri_container rt) = [] then ds_last_error s
                                   else ci_message (ri_container rt))\<rparr>)"

definition GetStatus ::
    "'w transport \<Rightarrow> environment \<Rightarrow> runpod_client \<Rightarrow> status_params \<Rightarrow> 'w \<Rightarrow>
     (go_error, status_result) result \<times> 'w" where
  "GetStatus tr env c p w =
     (let key = getAPIKey env c (ip_api_key p)
      in if key = [] then (Inl missing_key, w)
         else (case getDetailedPodStatusWithKey tr c (ip_provider_pod_id p) key w of
                 (Inl e, w') \<Rightarrow>
                   (Inl (ErrProvider (NewProviderError ''runpod'' ''status_check_failed''
                           (error_text e) True)), w')
               | (Inr None, w') \<Rightarrow> (Inr (not_found_result p), w')
               | (Inr (Some s), w') \<Rightarrow> (Inr (found_result p s), w')))"

definition Terminate ::
    "'w transport \<Rightarrow> environment \<Rightarrow> runpod_client \<Rightarrow> terminate_params \<Rightarrow> 'w \<Rightarrow>
     go_error option \<times> 'w" where
  "Terminate tr env c p w =
     (let key = getAPIKey env c (ip_api_key p)
      in if key = [] then (Some missing_key, w)
         else (case terminatePodWithKey tr c (ip_provider_pod_id p) key w of
                 (Some e, w') \<Rightarrow>
                   (Some (ErrProvider (NewProviderError ''runpod'' ''termination_failed''
                            (error_text e) True)), w')
               | (None, w') \<Rightarrow> (None, w')))"

section \<open>GraphQL\<close>

definition executeGraphQL ::
    "'w transport \<Rightarrow> runpod_client \<Rightarrow> string \<Rightarrow> 'r field list \<Rightarrow> 'r \<Rightarrow> 'w \<Rightarrow>
     (go_error, 'r) result \<times> 'w" where
  "executeGraphQL tr c query fs zero w =
     (case tr_refuses tr (rc_graphql_url c) of
        Some e \<Rightarrow> (Inl (ErrWrap ''failed to create request: '' (ErrText e)), w)
      | None \<Rightarrow>
          (let req = \<lparr>rq_method = ''POST'', rq_url = rc_graphql_url c,
                      rq_authorization = ''Bearer '' @ rc_api_key c,
                      rq_body = Some (JObj [(''query'', JStr query), (''variables'', JNull)]),
                      rq_timeout = 10\<rparr>
           in case tr_do tr req w of
                (Inl e, w') \<Rightarrow> (Inl (ErrWrap ''API request failed: '' (ErrText e)), w')
              | (Inr resp, w') \<Rightarrow>
                  if rsp_status resp \<ge> 400 then (Inl (api_error resp), w')
                  else (unmarshal [] fs zero (hb_first (rsp_body resp)), w')))"

record gpu_type =
  gt_id :: string
  gt_display_name :: string
  gt_memory :: i64
  gt_secure_cloud :: bool
  gt_secure_price :: float64
  gt_community_cloud :: bool
  gt_community_price :: float64

definition zero_gpu :: gpu_type where
  "zero_gpu =
     \<lparr>gt_id = [], gt_display_name = [], gt_memory = 0, gt_secure_cloud = False,
      gt_secure_price = 0, gt_community_cloud = False, gt_community_price = 0\<rparr>"

definition gpu_fields :: "gpu_type field list" where
  "gpu_fields =
     [(''id'', set_str gt_id_update),
      (''displayName'', set_str gt_display_name_update),
      (''memoryInGb'', set_int gt_memory_update),
      (''secureCloud'', set_bool gt_secure_cloud_update),
      (''securePrice'', set_float gt_secure_price_update),
      (''communityCloud'', set_bool gt_community_cloud_update),
      (''communityPrice'', set_float gt_community_price_update)]"

text \<open>
  The two anonymous response structs, \<open>{data: {gpuTypes: [...]}}\<close>; \<open>Ping\<close> reads only the ids.
\<close>

record 'g gpu_data = gd_types :: "'g list"
record 'g gpu_response = gr_data :: "'g gpu_data"

definition gpu_response_fields :: "'g field list \<Rightarrow> 'g \<Rightarrow> 'g gpu_response field list" where
  "gpu_response_fields fs z =
     [(''data'', set_struct [(''gpuTypes'', set_structs fs z gd_types_update)]
                   gr_data gr_data_update)]"

record gpu_id = gi_id :: string

definition Ping :: "'w transport \<Rightarrow> runpod_client \<Rightarrow> 'w \<Rightarrow> go_error option \<times> 'w" where
  "Ping tr c w =
     (if rc_api_key c = []
      then (Some (ErrProvider (NewProviderError ''runpod'' ''auth_failed''
                                 ''API key not configured'' False)), w)
      else (case executeGraphQL tr c ''query { gpuTypes { id } }''
                   (gpu_response_fields [(''id'', set_str gi_id_update)] \<lparr>gi_id = []\<rparr>)
                   \<lparr>gr_data = \<lparr>gd_types = []\<rparr>\<rparr> w of
              (Inl e, w') \<Rightarrow>
                (Some (ErrProvider (NewProviderError ''runpod'' ''connectivity_failed''
                         (error_text e) True)), w')
            | (Inr _, w') \<Rightarrow> (None, w')))"

definition runpod_provider ::
    "'w transport \<Rightarrow> environment \<Rightarrow> runpod_client \<Rightarrow> 'w provider" where
  "runpod_provider tr env c =
     \<lparr>pv_name = ''runpod'', pv_deploy = Deploy tr env c, pv_get_status = GetStatus tr env c,
      pv_terminate = Terminate tr env c, pv_ping = Ping tr c\<rparr>"

end
