(* ===== verification/Gpu_Selection.thy ===== *)
theory Gpu_Selection
  imports Runpod
begin

text \<open>
  \<open>getGPUTypes\<close> of the RunPod client: the GPU types of the service that fit a memory and price
  limit in a cloud, cheapest first. \<open>sort.Slice\<close> is not stable and its algorithm is not part of
  its contract, so the sorting function is a parameter of which only that contract is used.
\<close>

section \<open>The contract of sort.Slice\<close>

text \<open>
  For a strict weak order given by a key, \<open>sort.Slice\<close> permutes the slice so that no element is
  less than one before it.
\<close>

locale slice_sort =
  fixes srt :: "('a \<Rightarrow> 'a \<Rightarrow> bool) \<Rightarrow> 'a list \<Rightarrow> 'a list"
  assumes mset_srt: "mset (srt (\<lambda>x y. f x < (f y :: float64)) xs) = mset xs"
    and sorted_srt: "sorted (map f (srt (\<lambda>x y. f x < (f y :: float64)) xs))"
begin

lemma count_srt: "count_list (srt (\<lambda>x y. f x < (f y :: float64)) xs) z = count_list xs z"
  using arg_cong [OF mset_srt, of "\<lambda>m. count m z"] by (simp add: count_mset)

end

text \<open>
  Insertion as \<open>sort.Slice\<close> does it on at most twelve elements: an element moves left while it is
  less than its neighbour. The sorted part is kept reversed.
\<close>

fun insert_back :: "('a \<Rightarrow> 'a \<Rightarrow> bool) \<Rightarrow> 'a \<Rightarrow> 'a list \<Rightarrow> 'a list" where
  "insert_back lt x [] = [x]"
| "insert_back lt x (y # ys) = (if lt x y then y # insert_back lt x ys else x # y # ys)"

definition insertion_sort :: "('a \<Rightarrow> 'a \<Rightarrow> bool) \<Rightarrow> 'a list \<Rightarrow> 'a list" where
  "insertion_sort lt xs = rev (fold (insert_back lt) xs [])"

lemma mset_insert_back: "mset (insert_back lt x ys) = add_mset x (mset ys)"
  by (induction lt x ys rule: insert_back.induct) auto

lemma mset_fold_insert: "mset (fold (insert_back lt) xs acc) = mset xs + mset acc"
  by (induction xs arbitrary: acc) (auto simp: mset_insert_back)

lemma sorted_insert_back:
  "sorted_wrt (\<lambda>a b. (f b :: float64) \<le> f a) ys \<Longrightarrow>
     sorted_wrt (\<lambda>a b. f b \<le> f a) (insert_back (\<lambda>x y. f x < f y) x ys)"
proof (induction ys)
  case (Cons y ys)
  have "set (insert_back (\<lambda>x y. f x < f y) x ys) = insert x (set ys)"
    by (metis mset_insert_back set_mset_add_mset_insert set_mset_mset)
  with Cons show ?case by (auto simp: not_less)
qed simp

lemma sorted_fold_insert:
  "sorted_wrt (\<lambda>a b. (f b :: float64) \<le> f a) acc \<Longrightarrow>
     sorted_wrt (\<lambda>a b. f b \<le> f a) (fold (insert_back (\<lambda>x y. f x < f y)) xs acc)"
  by (induction xs arbitrary: acc) (auto intro: sorted_insert_back)

interpretation go_sort: slice_sort insertion_sort
proof (unfold_locales, goal_cases)
  case (1 f xs)
  show ?case by (simp add: insertion_sort_def mset_fold_insert)
next
  case (2 f xs)
  show ?case
    using sorted_fold_insert [of f "[]" xs]
    by (simp add: insertion_sort_def sorted_map sorted_wrt_rev)
qed

section \<open>getGPUTypes\<close>

text \<open>One round of the filter loop: the price and the availability in the asked-for cloud are zero
  values for any other cloud.\<close>

definition keep_gpu ::
    "i64 \<Rightarrow> float64 \<Rightarrow> string \<Rightarrow> gpu_type \<Rightarrow> gpu_type list \<Rightarrow> gpu_type list" where
  "keep_gpu minRAM maxPrice cloud g filtered =
     (let (price, cloud_check) =
            (if cloud = ''SECURE'' then (gt_secure_price g, gt_secure_cloud g)
             else if cloud = ''COMMUNITY'' then (gt_community_price g, gt_community_cloud g)
             else (0, False))
      in if cloud_check \<and> price > 0 \<and> price < maxPrice \<and> sle minRAM (gt_memory g)
         then filtered @ [g] else filtered)"

text \<open>The price that the sort compares.\<close>

definition sort_price :: "string \<Rightarrow> gpu_type \<Rightarrow> float64" where
  "sort_price cloud g = (if cloud = ''COMMUNITY'' then gt_community_price g else gt_secure_price g)"

definition select_gpus ::
    "((gpu_type \<Rightarrow> gpu_type \<Rightarrow> bool) \<Rightarrow> gpu_type list \<Rightarrow> gpu_type list) \<Rightarrow>
     i64 \<Rightarrow> float64 \<Rightarrow> string \<Rightarrow> gpu_type list \<Rightarrow> gpu_type list" where
  "select_gpus srt minRAM maxPrice cloud gpus =
     srt (\<lambda>a b. sort_price cloud a < sort_price cloud b)
       (fold (keep_gpu minRAM maxPrice cloud) gpus [])"

definition nl :: char where "nl = CHR 0x0A"

definition gpu_query :: string where
  "gpu_query =
     nl # ''        query GpuTypes {'' @ nl # ''            gpuTypes {'' @
     nl # ''                id'' @ nl # ''                displayName'' @
     nl # ''                memoryInGb'' @ nl # ''                secureCloud'' @
     nl # ''                securePrice'' @ nl # ''                communityCloud'' @
     nl # ''                communityPrice'' @ nl # ''            }'' @
     nl # ''        }'' @ nl # ''    ''"

definition getGPUTypes ::
    "((gpu_type \<Rightarrow> gpu_type \<Rightarrow> bool) \<Rightarrow> gpu_type list \<Rightarrow> gpu_type list) \<Rightarrow> 'w transport \<Rightarrow>
     runpod_client \<Rightarrow> i64 \<Rightarrow> float64 \<Rightarrow> string \<Rightarrow> 'w \<Rightarrow>
     (go_error, gpu_type list) result \<times> 'w" where
  "getGPUTypes srt tr c minRAM maxPrice cloud w =
     (case executeGraphQL tr c gpu_query (gpu_response_fields gpu_fields zero_gpu)
             \<lparr>gr_data = \<lparr>gd_types = []\<rparr>\<rparr> w of
        (Inl e, w') \<Rightarrow> (Inl e, w')
      | (Inr resp, w') \<Rightarrow> (Inr (select_gpus srt minRAM maxPrice cloud (gd_types (gr_data resp))), w'))"

section \<open>The answer of the service\<close>

text \<open>The request, and an answer that lists some GPU types, each with all its fields.\<close>

definition gpu_request :: "runpod_client \<Rightarrow> http_request" where
  "gpu_request c =
     \<lparr>rq_method = ''POST'', rq_url = rc_graphql_url c, rq_authorization = ''Bearer '' @ rc_api_key c,
      rq_body = Some (JObj [(''query'', JStr gpu_query), (''variables'', JNull)]), rq_timeout = 10\<rparr>"

definition enc_gpu :: "gpu_type \<Rightarrow> json" where
  "enc_gpu g =
     JObj [(''id'', JStr (gt_id g)), (''displayName'', JStr (gt_display_name g)),
           (''memoryInGb'', enc_int (gt_memory g)),
           (''secureCloud'', JBool (gt_secure_cloud g)), (''securePrice'', enc_float (gt_secure_price g)),
           (''communityCloud'', JBool (gt_community_cloud g)),
           (''communityPrice'', enc_float (gt_community_price g))]"

definition gpu_answer :: "gpu_type list \<Rightarrow> json" where
  "gpu_answer offers = JObj [(''data'', JObj [(''gpuTypes'', JArr (map enc_gpu offers))])]"

lemma decode_gpu:
  assumes "float_ok (gt_secure_price g)" and "float_ok (gt_community_price g)"
  shows "decode_struct gpu_fields (enc_gpu g) zero_gpu = Some g"
proof (cases g)
  case (fields i d m s sp t tp)
  with assms show ?thesis
    by (simp add: decode_struct_def enc_gpu_def codec_simps gpu_fields_def find_field_def zero_gpu_def
        del: decode_members.simps(2))
qed

lemma decode_gpus:
  assumes "\<forall>g \<in> set offers. float_ok (gt_secure_price g) \<and> float_ok (gt_community_price g)"
  shows "decode_structs gpu_fields zero_gpu (map enc_gpu offers) = Some offers"
  using assms by (induction offers) (simp_all add: decode_gpu)

lemma decode_answer:
  assumes "\<forall>g \<in> set offers. float_ok (gt_secure_price g) \<and> float_ok (gt_community_price g)"
  shows "decode_struct (gpu_response_fields gpu_fields zero_gpu) (gpu_answer offers) \<lparr>gr_data = \<lparr>gd_types = []\<rparr>\<rparr>
    = Some \<lparr>gr_data = \<lparr>gd_types = offers\<rparr>\<rparr>"
  by (simp add: decode_struct_def gpu_answer_def gpu_response_fields_def find_field_def set_struct_def
      decode_gpus [OF assms])

lemma getGPUTypes_answer:
  assumes "tr_refuses tr (rc_graphql_url c) = None" and "tr_do tr (gpu_request c) w = (Inr resp, w')"
    and "rsp_status resp < 400" and "hb_first (rsp_body resp) = Inr (gpu_answer offers)"
    and "\<forall>g \<in> set offers. float_ok (gt_secure_price g) \<and> float_ok (gt_community_price g)"
  shows "getGPUTypes srt tr c minRAM maxPrice cloud w = (Inr (select_gpus srt minRAM maxPrice cloud offers), w')"
  using assms(1-4) decode_answer [OF assms(5)]
  by (simp add: getGPUTypes_def executeGraphQL_def gpu_request_def unmarshal_def)

section \<open>What is selected\<close>

lemma keep_gpu_append:
  "fold (keep_gpu minRAM maxPrice cloud) gpus acc = acc @ fold (keep_gpu minRAM maxPrice cloud) gpus []"
proof (induction gpus arbitrary: acc)
  case (Cons g gpus)
  have "keep_gpu minRAM maxPrice cloud g acc = acc @ keep_gpu minRAM maxPrice cloud g []"
    by (simp add: keep_gpu_def)
  with Cons [of "keep_gpu minRAM maxPrice cloud g acc"] Cons [of "keep_gpu minRAM maxPrice cloud g []"]
  show ?case by simp
qed simp

lemma count_kept:
  "count_list (fold (keep_gpu minRAM maxPrice cloud) gpus []) g =
     (if keep_gpu minRAM maxPrice cloud g [] = [] then 0 else count_list gpus g)"
proof (induction gpus)
  case (Cons h gpus)
  have "keep_gpu minRAM maxPrice cloud h [] \<in> {[], [h]}" by (simp add: keep_gpu_def split_beta)
  with Cons keep_gpu_append [of minRAM maxPrice cloud gpus "keep_gpu minRAM maxPrice cloud h []"]
  show ?case by auto
qed simp

lemma kept_iff:
  "keep_gpu minRAM maxPrice cloud g [] \<noteq> [] \<longleftrightarrow>
     (cloud = ''SECURE'' \<and> gt_secure_cloud g \<and> 0 < gt_secure_price g \<and> gt_secure_price g < maxPrice \<or>
      cloud = ''COMMUNITY'' \<and> gt_community_cloud g \<and> 0 < gt_community_price g \<and>
        gt_community_price g < maxPrice) \<and> sint minRAM \<le> sint (gt_memory g)"
  by (auto simp: keep_gpu_def sle_def)

text \<open>C38. When the service answers the query with a list of offers, the caller gets, each as often as
it was offered, exactly the GPU types that are available in the asked-for cloud, at a price of that
cloud that is positive and below the limit, and with at least the memory asked for; for a cloud that
is neither SECURE nor COMMUNITY none. They come in the order of that cloud's price, so that the first
one is no dearer than any offer that meets the conditions. This holds for every sort that permutes
the slice so that no element is less than one before it. Exactly one request is made.\<close>

theorem select_gpus_correct:
  assumes "slice_sort srt"
    and "tr_refuses tr (rc_graphql_url c) = None" and "tr_do tr (gpu_request c) w = (Inr resp, w')"
    and "rsp_status resp < 400" and "hb_first (rsp_body resp) = Inr (gpu_answer offers)"
    and "\<forall>g \<in> set offers. float_ok (gt_secure_price g) \<and> float_ok (gt_community_price g)"
  shows "let price = (if cloud = ''SECURE'' then gt_secure_price else gt_community_price);
             wanted = (\<lambda>g :: gpu_type. (cloud = ''SECURE'' \<and> gt_secure_cloud g \<or>
                             cloud = ''COMMUNITY'' \<and> gt_community_cloud g) \<and>
                           0 < price g \<and> price g < maxPrice \<and> sint minRAM \<le> sint (gt_memory g))
         in \<exists>sel. getGPUTypes srt tr c minRAM maxPrice cloud w = (Inr sel, w') \<and>
              (\<forall>g. count_list sel g = (if wanted g then count_list offers g else 0)) \<and>
              sorted (map price sel) \<and>
              (\<forall>g \<in> set offers. wanted g \<longrightarrow> sel \<noteq> [] \<and> price (hd sel) \<le> price g)"
proof -
  define price :: "gpu_type \<Rightarrow> float64" where "price = (if cloud = ''SECURE'' then gt_secure_price else gt_community_price)"
  define wanted where "wanted = (\<lambda>g :: gpu_type. (cloud = ''SECURE'' \<and> gt_secure_cloud g \<or>
      cloud = ''COMMUNITY'' \<and> gt_community_cloud g) \<and>
      0 < price g \<and> price g < maxPrice \<and> sint minRAM \<le> sint (gt_memory g))"
  let ?sel = "select_gpus srt minRAM maxPrice cloud offers"
  have count: "count_list ?sel g = (if wanted g then count_list offers g else 0)" for g
    using kept_iff [of minRAM maxPrice cloud g]
    by (auto simp: select_gpus_def slice_sort.count_srt [OF assms(1)] count_kept wanted_def price_def)
  have mem: "g \<in> set ?sel \<longleftrightarrow> g \<in> set offers \<and> wanted g" for g
    using count [of g] by (metis count_list_0_iff)
  then have "map (sort_price cloud) ?sel = map price ?sel"
    by (auto simp: wanted_def sort_price_def price_def)
  with slice_sort.sorted_srt [OF assms(1), of "sort_price cloud"] have sorted: "sorted (map price ?sel)"
    by (metis select_gpus_def)
  have first: "\<forall>g \<in> set offers. wanted g \<longrightarrow> ?sel \<noteq> [] \<and> price (hd ?sel) \<le> price g"
  proof (intro ballI impI)
    fix g assume "g \<in> set offers" "wanted g"
    then have "g \<in> set ?sel" by (simp add: mem)
    with sorted show "?sel \<noteq> [] \<and> price (hd ?sel) \<le> price g" by (cases ?sel) auto
  qed
  have all: "\<forall>g. count_list ?sel g = (if wanted g then count_list offers g else 0)"
    using count by simp
  show ?thesis
    unfolding Let_def price_def [symmetric] wanted_def [symmetric]
    by (rule exI [of _ ?sel]) (intro conjI getGPUTypes_answer [OF assms(2-6)] sorted first [unfolded wanted_def]
      all [unfolded wanted_def])
qed

theorem select_gpus_correct_witness:
  "let g = zero_gpu\<lparr>gt_id := ''a'', gt_secure_cloud := True, gt_secure_price := 1/2, gt_memory := 24\<rparr>;
       cheap = g\<lparr>gt_id := ''b'', gt_secure_price := 1/4\<rparr>; free = g\<lparr>gt_secure_price := 0\<rparr>;
       body = \<lparr>hb_text = [], hb_read_error = None, hb_json = Inl [], hb_first = Inr (gpu_answer [g, cheap, free])\<rparr>;
       tr = \<lparr>tr_refuses = (\<lambda>_. None),
             tr_do = (\<lambda>req sent. (Inr \<lparr>rsp_status = 200, rsp_body = body\<rparr>, sent @ [req]))\<rparr>;
       c = \<lparr>rc_api_key = ''k'', rc_graphql_url = ''u'', rc_rest_url = ''r''\<rparr>
   in \<exists>sel. getGPUTypes insertion_sort tr c 16 1 ''SECURE'' [] = (Inr sel, [gpu_request c]) \<and>
        count_list sel g = 1 \<and> count_list sel cheap = 1 \<and> count_list sel free = 0 \<and>
        gt_secure_price (hd sel) \<le> 1/4"
proof -
  let ?g = "zero_gpu\<lparr>gt_id := ''a'', gt_secure_cloud := True, gt_secure_price := 1/2, gt_memory := 24\<rparr>"
  let ?cheap = "?g\<lparr>gt_id := ''b'', gt_secure_price := 1/4\<rparr>" and ?free = "?g\<lparr>gt_secure_price := 0\<rparr>"
  let ?body = "\<lparr>hb_text = [], hb_read_error = None, hb_json = Inl [],
      hb_first = Inr (gpu_answer [?g, ?cheap, ?free])\<rparr>"
  let ?tr = "\<lparr>tr_refuses = (\<lambda>_. None),
      tr_do = (\<lambda>req sent. (Inr \<lparr>rsp_status = 200, rsp_body = ?body\<rparr>, sent @ [req]))\<rparr>"
  let ?c = "\<lparr>rc_api_key = ''k'', rc_graphql_url = ''u'', rc_rest_url = ''r''\<rparr>"
  have "\<lfloor>1 / 2 :: float64\<rfloor> = 0" "\<lfloor>1 / 4 :: float64\<rfloor> = 0" by (simp_all add: floor_eq_iff)
  then have "float_ok (1 / 2)" "float_ok (1 / 4)" by (simp_all add: float_ok_def)
  then have ok: "\<forall>g \<in> set [?g, ?cheap, ?free]. float_ok (gt_secure_price g) \<and> float_ok (gt_community_price g)"
    by (simp add: zero_gpu_def)
  have "\<exists>sel. getGPUTypes insertion_sort ?tr ?c 16 1 ''SECURE'' [] = (Inr sel, [gpu_request ?c]) \<and>
      count_list sel ?g = 1 \<and> count_list sel ?cheap = 1 \<and> count_list sel ?free = 0 \<and>
      gt_secure_price (hd sel) \<le> 1/4"
    using select_gpus_correct [OF go_sort.slice_sort_axioms, of ?tr ?c "[]" "\<lparr>rsp_status = 200, rsp_body = ?body\<rparr>"
        "[gpu_request ?c]" "[?g, ?cheap, ?free]" "''SECURE''" 1 16] ok
    by (auto simp: zero_gpu_def)
  then show ?thesis unfolding Let_def .
qed

end
