(* ===== verification/Outbound.thy ===== *)
theory Outbound
  imports Protocol
begin

text \<open>
  What the kubelet sends (\<open>pkg/websocket/protocol.go\<close>): events, the registration, heartbeats and
  responses, and the part of a Kubernetes pod that the program reads or writes.
\<close>

section \<open>Pods\<close>

text \<open>
  A \<open>v1.Pod\<close> as the program uses it: it reads and writes these fields; everything else (the rest
  of the specification and of the metadata) is carried along in \<open>p_rest\<close> and never looked at.
\<close>

record pod =
  p_namespace :: string
  p_name :: string
  p_uid :: string
  p_annotations :: "string gomap option"
  p_api_version :: string
  p_kind :: string
  p_containers :: "string list"
  p_phase :: string
  p_reason :: string
  p_message :: string
  p_rest :: json

section \<open>Events\<close>

record pod_created_event =
  pc_pod_name :: string
  pc_namespace :: string
  pc_uid :: string
  pc_pod_spec :: pod
  pc_annotations :: "string gomap option"

record pod_deleted_event =
  pd_pod_name :: string
  pd_namespace :: string
  pd_uid :: string
  pd_provider_pod_id :: string
  pd_reason :: string

text \<open>The dynamic types of the \<open>Data\<close> field of the events that the program sends.\<close>

datatype event_data =
    PodCreatedData pod_created_event
  | PodDeletedData pod_deleted_event
  | KubeletReadyData string

record event =
  ev_type :: string
  ev_data :: event_data

section \<open>Registration, heartbeat and payloads\<close>

record registration_metadata =
  rm_version :: string
  rm_internal_ip :: string
  rm_key_mode :: string

record registration =
  rg_id :: string
  rg_type :: string
  rg_cluster_name :: string
  rg_node_name :: string
  rg_namespace :: string
  rg_capabilities :: "string list"
  rg_metadata :: registration_metadata

record heartbeat =
  hb_timestamp :: instant
  hb_kubelet_id :: string
  hb_status :: string

definition NewHeartbeat :: "string \<Rightarrow> instant \<Rightarrow> heartbeat" where
  "NewHeartbeat kid now = \<lparr>hb_timestamp = now, hb_kubelet_id = kid, hb_status = ''alive''\<rparr>"

text \<open>The Go values that are marshalled into the payload of an outgoing envelope.\<close>

datatype payload =
    ResponsePayload response
  | EventPayload event
  | RegistrationPayload registration
  | HeartbeatPayload heartbeat

text \<open>The envelope type under which a payload is sent.\<close>

fun payload_type :: "payload \<Rightarrow> string" where
  "payload_type (ResponsePayload _) = EnvelopeResponse"
| "payload_type (EventPayload _) = EnvelopeEvent"
| "payload_type (RegistrationPayload _) = EnvelopeRegistration"
| "payload_type (HeartbeatPayload _) = EnvelopeHeartbeat"

type_synonym outgoing = "payload envelope"
type_synonym incoming = "json option envelope"

end
