(* ===== verification/Wire.thy ===== *)
theory Wire
  imports Outbound
begin

text \<open>
  Messages as they travel (\<open>pkg/websocket/protocol.go\<close>): how the payloads and the envelope around
  them are marshalled by their struct tags (\<open>ToJSON\<close>), and what is accepted from the other side
  (\<open>ParseEnvelope\<close>). A \<open>v1.Pod\<close> is marshalled by the Kubernetes library, given as \<open>enc_pod\<close>.
\<close>

section \<open>Payloads\<close>

definition enc_deploy_result :: "deploy_result \<Rightarrow> json" where
  "enc_deploy_result d = JObj (
     [(''provider_pod_id'', JStr (dr_provider_pod_id d)), (''provider'', JStr (dr_provider d)),
      (''status'', JStr (dr_status d)), (''cost_per_hour'', enc_float (dr_cost_per_hour d))] @
     omit_str ''gpu_type'' (dr_gpu_type d) @ omit_str ''machine_id'' (dr_machine_id d) @
     omit_str ''datacenter_id'' (dr_datacenter_id d) @ omit_map ''ports'' (dr_ports d))"

definition enc_terminate_result :: "bool \<Rightarrow> json" where
  "enc_terminate_result b = JObj [(''terminated'', JBool b)]"

fun enc_resp_data :: "resp_data \<Rightarrow> json" where
  "enc_resp_data NilData = JNull"
| "enc_resp_data EmptyData = JObj []"
| "enc_resp_data (DeployData d) = enc_deploy_result d"
| "enc_resp_data (TerminateData b) = enc_terminate_result b"
| "enc_resp_data (StatusData s) = enc_status_result s"

definition enc_error_details :: "error_details \<Rightarrow> json" where
  "enc_error_details e = JObj (
     [(''code'', JStr (ed_code e)), (''message'', JStr (ed_message e))] @
     omit_str ''provider_error'' (ed_provider_error e))"

fun enc_resp_status :: "resp_status \<Rightarrow> string" where
  "enc_resp_status StatusSuccess = ''success''"
| "enc_resp_status StatusError = ''error''"

definition enc_response :: "response \<Rightarrow> json" where
  "enc_response r = JObj
     [(''command_id'', JStr (rs_command_id r)), (''status'', JStr (enc_resp_status (rs_status r))),
      (''data'', enc_resp_data (rs_data r)),
      (''error'', case rs_error r of None \<Rightarrow> JNull | Some e \<Rightarrow> enc_error_details e)]"

definition enc_pod_created :: "(pod \<Rightarrow> json) \<Rightarrow> pod_created_event \<Rightarrow> json" where
  "enc_pod_created enc_pod e = JObj
     [(''pod_name'', JStr (pc_pod_name e)), (''namespace'', JStr (pc_namespace e)),
      (''uid'', JStr (pc_uid e)), (''pod_spec'', enc_pod (pc_pod_spec e)),
      (''annotations'', enc_map (pc_annotations e))]"

definition enc_pod_deleted :: "pod_deleted_event \<Rightarrow> json" where
  "enc_pod_deleted e = JObj (
     [(''pod_name'', JStr (pd_pod_name e)), (''namespace'', JStr (pd_namespace e)),
      (''uid'', JStr (pd_uid e))] @ omit_str ''provider_pod_id'' (pd_provider_pod_id e) @
     [(''reason'', JStr (pd_reason e))])"

definition enc_kubelet_ready :: "string \<Rightarrow> json" where
  "enc_kubelet_ready node = JObj [(''node_name'', JStr node)]"

fun enc_event_data :: "(pod \<Rightarrow> json) \<Rightarrow> event_data \<Rightarrow> json" where
  "enc_event_data enc_pod (PodCreatedData e) = enc_pod_created enc_pod e"
| "enc_event_data enc_pod (PodDeletedData e) = enc_pod_deleted e"
| "enc_event_data enc_pod (KubeletReadyData node) = enc_kubelet_ready node"

definition enc_event :: "(pod \<Rightarrow> json) \<Rightarrow> event \<Rightarrow> json" where
  "enc_event enc_pod ev =
     JObj [(''type'', JStr (ev_type ev)), (''data'', enc_event_data enc_pod (ev_data ev))]"

definition enc_registration_metadata :: "registration_metadata \<Rightarrow> json" where
  "enc_registration_metadata m = JObj
     [(''version'', JStr (rm_version m)), (''internal_ip'', JStr (rm_internal_ip m)),
      (''key_mode'', JStr (rm_key_mode m))]"

definition enc_registration :: "registration \<Rightarrow> json" where
  "enc_registration r = JObj
     [(''id'', JStr (rg_id r)), (''type'', JStr (rg_type r)),
      (''cluster_name'', JStr (rg_cluster_name r)), (''node_name'', JStr (rg_node_name r)),
      (''namespace'', JStr (rg_namespace r)), (''capabilities'', enc_strs (rg_capabilities r)),
      (''metadata'', enc_registration_metadata (rg_metadata r))]"

definition enc_heartbeat :: "instant \<Rightarrow> heartbeat \<Rightarrow> json" where
  "enc_heartbeat now h = JObj
     [(''timestamp'', MarshalJSON now (hb_timestamp h)), (''kubelet_id'', JStr (hb_kubelet_id h)),
      (''status'', JStr (hb_status h))]"

fun enc_payload :: "(pod \<Rightarrow> json) \<Rightarrow> instant \<Rightarrow> payload \<Rightarrow> json" where
  "enc_payload enc_pod now (ResponsePayload r) = enc_response r"
| "enc_payload enc_pod now (EventPayload ev) = enc_event enc_pod ev"
| "enc_payload enc_pod now (RegistrationPayload r) = enc_registration r"
| "enc_payload enc_pod now (HeartbeatPayload h) = enc_heartbeat now h"

text \<open>The envelope with the message that \<open>NewEnvelopeWithID\<close> marshals its payload to.\<close>

definition marshalled :: "(pod \<Rightarrow> json) \<Rightarrow> outgoing \<Rightarrow> json option envelope" where
  "marshalled enc_pod e =
     \<lparr>env_id = env_id e, env_type = env_type e,
      env_payload = Some (enc_payload enc_pod (env_timestamp e) (env_payload e)),
      env_timestamp = env_timestamp e, env_kubelet_id = env_kubelet_id e\<rparr>"

section \<open>Envelopes\<close>

definition ToJSON :: "instant \<Rightarrow> json option envelope \<Rightarrow> json" where
  "ToJSON now e = JObj (
     (''id'', JStr (env_id e)) # (''type'', JStr (env_type e)) #
     (''payload'', enc_raw (env_payload e)) #
     (''timestamp'', MarshalJSON now (env_timestamp e)) #
     omit_str ''kubelet_id'' (env_kubelet_id e) @ [])"

text \<open>A field with its own \<open>UnmarshalJSON\<close>.\<close>

definition set_time :: "('r, instant) upd \<Rightarrow> json \<Rightarrow> 'r \<Rightarrow> 'r option" where
  "set_time u j r = map_option (\<lambda>t. u (\<lambda>_. t) r) (UnmarshalJSON j)"

definition envelope_fields :: "json option envelope field list" where
  "envelope_fields =
     [(''id'', set_str env_id_update), (''type'', set_str env_type_update),
      (''payload'', set_raw env_payload_update), (''timestamp'', set_time env_timestamp_update),
      (''kubelet_id'', set_str env_kubelet_id_update)]"

definition zero_envelope :: "json option envelope" where
  "zero_envelope =
     \<lparr>env_id = [], env_type = [], env_payload = None, env_timestamp = 0, env_kubelet_id = []\<rparr>"

text \<open>A message is the JSON value of its text, \<open>None\<close> when the text is not JSON.\<close>

definition ParseEnvelope :: "json option \<Rightarrow> (string, json option envelope) result" where
  "ParseEnvelope m =
     (case m of
        None \<Rightarrow> Inl ''failed to parse envelope: ''
      | Some j \<Rightarrow>
          (case decode_struct envelope_fields j zero_envelope of
             None \<Rightarrow> Inl ''failed to parse envelope: ''
           | Some e \<Rightarrow> if env_type e = [] then Inl ''envelope has no type'' else Inr e))"

section \<open>What was written is read\<close>

lemma decode_member_time [codec_simps]:
  "find_field fs t = Some (set_time u) \<Longrightarrow> UnmarshalJSON j = Some v \<Longrightarrow>
     decode_members fs ((t, j) # ms) r = decode_members fs ms (u (\<lambda>_. v) r)"
  by (simp add: set_time_def)

lemma parse_written_envelope:
  assumes "four_digit_year (env_timestamp e)" and "four_digit_year now" and "env_type e \<noteq> []"
  shows "ParseEnvelope (Some (ToJSON now e)) =
    Inr (e\<lparr>env_payload := Some (enc_raw (env_payload e)),
           env_timestamp := (if env_timestamp e = 0 then now else env_timestamp e)\<rparr>)"
  using assms(3) timestamp_read [OF assms(1,2)]
  by (simp add: ParseEnvelope_def decode_struct_def ToJSON_def zero_envelope_def
      codec_simps envelope_fields_def find_field_def
      del: decode_members.simps(2) append_Nil2)

lemma parse_untyped_envelope:
  assumes "four_digit_year (env_timestamp e)" and "four_digit_year now" and "env_type e = []"
  shows "ParseEnvelope (Some (ToJSON now e)) = Inl ''envelope has no type''"
  using assms(3) timestamp_read [OF assms(1,2)]
  by (simp add: ParseEnvelope_def decode_struct_def ToJSON_def zero_envelope_def
      codec_simps envelope_fields_def find_field_def
      del: decode_members.simps(2) append_Nil2)

text \<open>C26. An envelope that one side writes is the one that the other side reads: id, type, payload,
  kubelet id and the instant of the timestamp (the current time when it was not set); an envelope
  without a type is refused.\<close>

theorem envelope_roundtrip:
  assumes "four_digit_year (env_timestamp e)" and "four_digit_year now"
  shows "ParseEnvelope (Some (ToJSON now e)) =
    (if env_type e = [] then Inl ''envelope has no type''
     else Inr (e\<lparr>env_payload := Some (enc_raw (env_payload e)),
                 env_timestamp := (if env_timestamp e = 0 then now else env_timestamp e)\<rparr>))"
  using assms by (simp add: parse_written_envelope parse_untyped_envelope)

text \<open>A heartbeat on its way to the platform.\<close>

theorem envelope_roundtrip_witness:
  "let e = marshalled (\<lambda>p. JNull) (NewEnvelopeWithID ''id-1'' EnvelopeHeartbeat
       (HeartbeatPayload (NewHeartbeat ''k1'' 63890070400123456000)) ''k1'' 63890070400123456000)
   in ParseEnvelope (Some (ToJSON 63890070400123456000 e)) = Inr e"
  using envelope_roundtrip [of "marshalled (\<lambda>p. JNull) (NewEnvelopeWithID ''id-1'' EnvelopeHeartbeat
       (HeartbeatPayload (NewHeartbeat ''k1'' 63890070400123456000)) ''k1'' 63890070400123456000)"
       63890070400123456000]
  by (simp add: marshalled_def NewEnvelopeWithID_def EnvelopeHeartbeat_def enc_raw_def
      four_digit_year_def Let_def)

section \<open>The members of an object\<close>

fun member :: "string \<Rightarrow> json \<Rightarrow> json option" where
  "member k (JObj ms) = map_of ms k"
| "member k _ = None"

lemma enc_response_members [simp]:
  "member ''command_id'' (enc_response r) = Some (JStr (rs_command_id r))"
  "member ''status'' (enc_response r) = Some (JStr (enc_resp_status (rs_status r)))"
  "member ''data'' (enc_response r) = Some (enc_resp_data (rs_data r))"
  "member ''error'' (enc_response r) = Some JNull \<longleftrightarrow> rs_error r = None"
  by (auto simp: enc_response_def enc_error_details_def split: option.splits)

lemma enc_resp_data_null [simp]: "enc_resp_data d = JNull \<longleftrightarrow> d = NilData"
  by (cases d) (simp_all add: enc_deploy_result_def enc_terminate_result_def enc_status_result_def)

end
