(* ===== verification/Channels.thy ===== *)
theory Channels
  imports Prelude
begin

text \<open>
  Buffered Go channels used without blocking: a send in a \<open>select\<close> with a default succeeds when the
  buffer has room and is dropped otherwise; a receive takes the oldest element. The contract is a
  locale; what follows from it (capacity, order, no duplication) is proved there once.
\<close>

section \<open>The contract\<close>

text \<open>The operations of a client of a channel, in the order in which they take effect.\<close>

datatype 'a chan_op = TrySend 'a | Receive

locale bounded_channel =
  fixes contents :: "'c \<Rightarrow> 'a list"
    and capacity :: nat
    and send :: "'a \<Rightarrow> 'c \<Rightarrow> 'c option"
    and recv :: "'c \<Rightarrow> ('a \<times> 'c) option"
  assumes send_room: "length (contents c) < capacity \<Longrightarrow>
      \<exists>c'. send x c = Some c' \<and> contents c' = contents c @ [x]"
    and send_full: "capacity \<le> length (contents c) \<Longrightarrow> send x c = None"
    and recv_empty: "contents c = [] \<Longrightarrow> recv c = None"
    and recv_first: "contents c = x # xs \<Longrightarrow> \<exists>c'. recv c = Some (x, c') \<and> contents c' = xs"
begin

lemma send_Some: "send x c = Some c' \<Longrightarrow>
    contents c' = contents c @ [x] \<and> length (contents c) < capacity"
  using send_room [of c x] send_full [of c x] by (cases "length (contents c) < capacity") auto

lemma send_None: "send x c = None \<longleftrightarrow> capacity \<le> length (contents c)"
  using send_room [of c x] send_full [of c x] by (cases "length (contents c) < capacity") auto

lemma send_capacity: "send x c = Some c' \<Longrightarrow> length (contents c') \<le> capacity"
  using send_Some by fastforce

lemma recv_Some: "recv c = Some (x, c') \<Longrightarrow> contents c = x # contents c'"
  using recv_empty [of c] recv_first [of c] by (cases "contents c") auto

text \<open>A run: what was accepted, what was received, and the channel at the end.\<close>

fun run :: "'a chan_op list \<Rightarrow> 'c \<Rightarrow> 'a list \<times> 'a list \<times> 'c" where
  "run [] c = ([], [], c)"
| "run (TrySend x # ops) c =
     (case send x c of
        None \<Rightarrow> run ops c
      | Some c' \<Rightarrow> (case run ops c' of (acc, rec, e) \<Rightarrow> (x # acc, rec, e)))"
| "run (Receive # ops) c =
     (case recv c of
        None \<Rightarrow> run ops c
      | Some (x, c') \<Rightarrow> (case run ops c' of (acc, rec, e) \<Rightarrow> (acc, x # rec, e)))"

text \<open>First in, first out: the received elements are the accepted ones, in order, none twice.\<close>

lemma run_fifo: "run ops c = (acc, rec, e) \<Longrightarrow> contents c @ acc = rec @ contents e"
proof (induction ops arbitrary: c acc rec e)
  case (Cons op ops)
  show ?case
  proof (cases op)
    case (TrySend x)
    show ?thesis
    proof (cases "send x c")
      case None
      with Cons TrySend show ?thesis by simp
    next
      case (Some c')
      with Cons.prems TrySend obtain acc' where "run ops c' = (acc', rec, e)" and "acc = x # acc'"
        by (auto split: prod.splits)
      with Cons.IH [of c' acc' rec e] send_Some [OF Some] show ?thesis by simp
    qed
  next
    case Receive
    show ?thesis
    proof (cases "recv c")
      case None
      with Cons Receive show ?thesis by simp
    next
      case (Some p)
      obtain x c' where p: "p = (x, c')" by force
      with Some Cons.prems Receive obtain rec' where "run ops c' = (acc, rec', e)"
          and "rec = x # rec'"
        by (auto split: prod.splits)
      with Cons.IH [of c' acc rec' e] recv_Some [of c x c'] Some p show ?thesis by simp
    qed
  qed
qed simp

lemma run_capacity:
  "length (contents c) \<le> capacity \<Longrightarrow> length (contents (snd (snd (run ops c)))) \<le> capacity"
proof (induction ops arbitrary: c)
  case (Cons op ops)
  show ?case
  proof (cases op)
    case (TrySend x)
    with Cons send_capacity show ?thesis
      by (cases "send x c") (simp_all add: split_beta)
  next
    case Receive
    show ?thesis
    proof (cases "recv c")
      case (Some p)
      then have "contents c = fst p # contents (snd p)"
        by (intro recv_Some) simp
      with Cons Receive Some show ?thesis by (simp add: split_beta)
    qed (use Cons Receive in simp)
  qed
qed simp

end

section \<open>The buffer\<close>

definition chan_send :: "nat \<Rightarrow> 'a \<Rightarrow> 'a list \<Rightarrow> 'a list option" where
  "chan_send cap x buf = (if length buf < cap then Some (buf @ [x]) else None)"

fun chan_recv :: "'a list \<Rightarrow> ('a \<times> 'a list) option" where
  "chan_recv [] = None"
| "chan_recv (x # buf) = Some (x, buf)"

text \<open>The two channels of the WebSocket client.\<close>

definition command_capacity :: nat where "command_capacity = 100"
definition outbound_capacity :: nat where "outbound_capacity = 200"

interpretation command_chan: bounded_channel id command_capacity "chan_send command_capacity"
    chan_recv
  by unfold_locales (auto simp: chan_send_def)

interpretation outbound_chan: bounded_channel id outbound_capacity "chan_send outbound_capacity"
    chan_recv
  by unfold_locales (auto simp: chan_send_def)

end
