(* ===== verification/Ws_Client.thy ===== *)
theory Ws_Client
  imports Wire Channels
begin

text \<open>
  The data of the WebSocket client (\<open>pkg/websocket/client.go\<close>) and the operations that other
  components and its own goroutines perform on it: filling in defaults, queueing an envelope,
  routing an incoming one. The connection's life is in the theory that follows.
\<close>

section \<open>Configuration\<close>

record client_config =
  cc_url :: string
  cc_api_token :: string
  cc_kubelet_id :: string
  cc_reconnect_interval :: i64
  cc_max_reconnect_delay :: i64
  cc_heartbeat_interval :: i64
  cc_pong_timeout :: i64
  cc_write_timeout :: i64
  cc_read_timeout :: i64

definition DefaultClientConfig :: client_config where
  "DefaultClientConfig =
     \<lparr>cc_url = [], cc_api_token = [], cc_kubelet_id = [],
      cc_reconnect_interval = seconds 5, cc_max_reconnect_delay = seconds 300,
      cc_heartbeat_interval = seconds 30, cc_pong_timeout = seconds 10,
      cc_write_timeout = seconds 10, cc_read_timeout = seconds 60\<rparr>"

definition default_if_unset :: "i64 \<Rightarrow> i64 \<Rightarrow> i64" where
  "default_if_unset d v = (if sle v 0 then d else v)"

definition fill_defaults :: "client_config \<Rightarrow> client_config" where
  "fill_defaults c =
     (let d = DefaultClientConfig
      in c\<lparr>cc_heartbeat_interval :=
             default_if_unset (cc_heartbeat_interval d) (cc_heartbeat_interval c),
           cc_reconnect_interval :=
             default_if_unset (cc_reconnect_interval d) (cc_reconnect_interval c),
           cc_max_reconnect_delay :=
             default_if_unset (cc_max_reconnect_delay d) (cc_max_reconnect_delay c),
           cc_pong_timeout := default_if_unset (cc_pong_timeout d) (cc_pong_timeout c),
           cc_write_timeout := default_if_unset (cc_write_timeout d) (cc_write_timeout c),
           cc_read_timeout := default_if_unset (cc_read_timeout d) (cc_read_timeout c),
           cc_kubelet_id := (if cc_kubelet_id c = [] then cc_api_token c else cc_kubelet_id c)\<rparr>)"

section \<open>The client\<close>

text \<open>
  \<open>ws_conn\<close> says whether the connection pointer is set, \<open>ws_cancelled\<close> whether the context is
  done, \<open>ws_closed\<close> whether \<open>closeCh\<close> has been closed.
\<close>

record ws_client =
  ws_config :: client_config
  ws_conn :: bool
  ws_connected :: bool
  ws_command_ch :: "incoming list"
  ws_outbound_ch :: "outgoing list"
  ws_refused_reason :: string
  ws_on_connect :: bool
  ws_cancelled :: bool
  ws_closed :: bool

definition NewClient :: "client_config \<Rightarrow> ws_client" where
  "NewClient c =
     \<lparr>ws_config = fill_defaults c, ws_conn = False, ws_connected = False, ws_command_ch = [],
      ws_outbound_ch = [], ws_refused_reason = [], ws_on_connect = False,
      ws_cancelled = False, ws_closed = False\<rparr>"

definition SetOnConnect :: "ws_client \<Rightarrow> ws_client" where
  "SetOnConnect c = c\<lparr>ws_on_connect := True\<rparr>"

definition KubeletID :: "ws_client \<Rightarrow> string" where
  "KubeletID c = cc_kubelet_id (ws_config c)"

definition IsConnected :: "ws_client \<Rightarrow> bool" where
  "IsConnected c = ws_connected c"

datatype send_error = NotConnected | OutboundFull

definition sendEnvelope :: "outgoing \<Rightarrow> ws_client \<Rightarrow> (send_error, ws_client) result" where
  "sendEnvelope e c =
     (if \<not> IsConnected c then Inl NotConnected
      else (case chan_send outbound_capacity e (ws_outbound_ch c) of
              Some buf \<Rightarrow> Inr (c\<lparr>ws_outbound_ch := buf\<rparr>)
            | None \<Rightarrow> Inl OutboundFull))"

text \<open>
  \<open>NewEnvelope\<close> draws the id from \<open>uuid.NewString\<close> and the time from the clock: both are
  arguments. Marshalling these payloads does not fail.
\<close>

definition NewEnvelope :: "string \<Rightarrow> instant \<Rightarrow> payload \<Rightarrow> string \<Rightarrow> outgoing" where
  "NewEnvelope uuid now p kid = NewEnvelopeWithID uuid (payload_type p) p kid now"

text \<open>\<open>SendResponse\<close>, \<open>SendEvent\<close>, \<open>SendRegistration\<close> and \<open>SendHeartbeat\<close>.\<close>

definition send_payload ::
    "string \<Rightarrow> instant \<Rightarrow> payload \<Rightarrow> ws_client \<Rightarrow> (send_error, ws_client) result" where
  "send_payload uuid now p c = sendEnvelope (NewEnvelope uuid now p (KubeletID c)) c"

definition SendResponse ::
    "string \<Rightarrow> instant \<Rightarrow> response \<Rightarrow> ws_client \<Rightarrow> (send_error, ws_client) result" where
  "SendResponse uuid now r c = send_payload uuid now (ResponsePayload r) c"

definition SendEvent ::
    "string \<Rightarrow> instant \<Rightarrow> event \<Rightarrow> ws_client \<Rightarrow> (send_error, ws_client) result" where
  "SendEvent uuid now ev c = send_payload uuid now (EventPayload ev) c"

definition SendRegistration ::
    "string \<Rightarrow> instant \<Rightarrow> registration \<Rightarrow> ws_client \<Rightarrow> (send_error, ws_client) result" where
  "SendRegistration uuid now r c = send_payload uuid now (RegistrationPayload r) c"

definition SendHeartbeat ::
    "string \<Rightarrow> instant \<Rightarrow> ws_client \<Rightarrow> (send_error, ws_client) result" where
  "SendHeartbeat uuid now c =
     send_payload uuid now (HeartbeatPayload (NewHeartbeat (KubeletID c) now)) c"

text \<open>A failed send is logged and the client is unchanged.\<close>

definition after_send :: "(send_error, ws_client) result \<Rightarrow> ws_client \<Rightarrow> ws_client" where
  "after_send r c = (case r of Inl e \<Rightarrow> c | Inr c' \<Rightarrow> c')"

text \<open>One tick of the heartbeat routine.\<close>

definition heartbeat_tick :: "string \<Rightarrow> instant \<Rightarrow> ws_client \<Rightarrow> ws_client" where
  "heartbeat_tick uuid now c =
     (if IsConnected c then after_send (SendHeartbeat uuid now c) c else c)"

definition handleIncomingMessage :: "incoming \<Rightarrow> ws_client \<Rightarrow> ws_client" where
  "handleIncomingMessage e c =
     (if env_type e = EnvelopeCommand then
        (case chan_send command_capacity e (ws_command_ch c) of
           Some buf \<Rightarrow> c\<lparr>ws_command_ch := buf\<rparr>
         | None \<Rightarrow> c)
      else c)"

section \<open>Lemmas\<close>

lemma sendEnvelope_Inr:
  "sendEnvelope e c = Inr c' \<longleftrightarrow>
     ws_connected c \<and> length (ws_outbound_ch c) < outbound_capacity \<and>
     c' = c\<lparr>ws_outbound_ch := ws_outbound_ch c @ [e]\<rparr>"
  by (auto simp: sendEnvelope_def IsConnected_def chan_send_def)

lemma handleIncoming_outbound [simp]:
  "ws_outbound_ch (handleIncomingMessage e c) = ws_outbound_ch c"
  "ws_connected (handleIncomingMessage e c) = ws_connected c"
  "ws_conn (handleIncomingMessage e c) = ws_conn c"
  "ws_config (handleIncomingMessage e c) = ws_config c"
  "ws_refused_reason (handleIncomingMessage e c) = ws_refused_reason c"
  "ws_cancelled (handleIncomingMessage e c) = ws_cancelled c"
  "ws_closed (handleIncomingMessage e c) = ws_closed c"
  "ws_on_connect (handleIncomingMessage e c) = ws_on_connect c"
  by (simp_all add: handleIncomingMessage_def split: option.splits)

lemma default_if_unset_pos: "0 < sint d \<Longrightarrow> 0 < sint (default_if_unset d v)"
  by (simp add: default_if_unset_def sle_def)

text \<open>Whatever configuration the client is given, the one it runs with has only positive
  durations (so no write fails at once and no timer fires at once), keeps every positive duration
  that was set, and has a kubelet id unless there is no token either.\<close>

theorem client_config_filled:
  "let c' = ws_config (NewClient c)
   in (\<forall>d \<in> {cc_reconnect_interval, cc_max_reconnect_delay, cc_heartbeat_interval, cc_pong_timeout,
             cc_write_timeout, cc_read_timeout}.
        0 < sint (d c') \<and> (0 < sint (d c) \<longrightarrow> d c' = d c)) \<and>
      (cc_kubelet_id c' = [] \<longleftrightarrow> cc_kubelet_id c = [] \<and> cc_api_token c = []) \<and>
      cc_url c' = cc_url c \<and> cc_api_token c' = cc_api_token c"
  by (simp add: NewClient_def fill_defaults_def DefaultClientConfig_def default_if_unset_def
      sle_def seconds_def Let_def not_le)

text \<open>A client that was given only a token.\<close>

theorem client_config_filled_witness:
  "let cfg = DefaultClientConfig\<lparr>cc_api_token := ''tok'', cc_write_timeout := 0,
       cc_reconnect_interval := seconds 7\<rparr>;
     cfg' = ws_config (NewClient cfg)
   in 0 < sint (cc_write_timeout cfg') \<and> cc_reconnect_interval cfg' = cc_reconnect_interval cfg \<and>
     cc_kubelet_id cfg' \<noteq> []"
  using client_config_filled [of "DefaultClientConfig\<lparr>cc_api_token := ''tok'',
      cc_write_timeout := 0, cc_reconnect_interval := seconds 7\<rparr>"]
  by (simp add: Let_def DefaultClientConfig_def seconds_def)

end
