(* ===== verification/Ws_Connection.thy ===== *)
theory Ws_Connection
  imports Ws_Client
begin

text \<open>
  The life of the WebSocket connection (\<open>pkg/websocket/client.go\<close>): the connection manager with
  its backoff, the message loop of a session, the readers, the heartbeat routine and the senders.
  Each goroutine is a step relation over one shared state and their union is the client. A step is
  one \<open>select\<close>, one critical section or one channel operation, so that every interleaving of the
  goroutines at these points is a run. What the network, the timers and the scheduler decide is
  the label of the step.
\<close>

section \<open>State and labels\<close>

text \<open>Where the connection manager is; \<open>Returned\<close> when its goroutine has ended.\<close>

datatype manager_pc =
    AtTop
  | Waiting
  | InSession
  | SessionOver
  | RefusedWait
  | Returned

text \<open>
  \<open>cn_reader\<close>: the reader of the current session runs; \<open>cn_stale\<close>: how many readers of earlier
  sessions have not ended yet (nothing waits for them before the next dial); \<open>cn_passed\<close>: the
  envelopes whose sender has passed the \<open>IsConnected\<close> check and not yet used the channel;
  \<open>cn_spawned\<close>: how often \<open>onConnect\<close> was started.
\<close>

record connection =
  cn_client :: ws_client
  cn_pc :: manager_pc
  cn_delay :: i64
  cn_reader :: bool
  cn_stale :: nat
  cn_passed :: "outgoing list"
  cn_spawned :: nat

datatype reader_id = CurrentReader | StaleReader

datatype frame = TextFrame outgoing | PingFrame

text \<open>
  Labels. \<open>Timer d\<close>: a timer started for \<open>d\<close> fired; \<open>Judged r\<close>: the manager took and reset the
  refusal reason \<open>r\<close>; \<open>Frame\<close>: a message was read, \<open>None\<close> when it is not JSON; \<open>ReadEnd\<close>: the
  read failed, with the close text when the close code was 1008; \<open>Command\<close>: the kubelet received
  from the command channel; \<open>Checked\<close>, \<open>Queued\<close>, \<open>Dropped\<close>: a sender found the client connected,
  queued its envelope, found the channel full.
\<close>

datatype conn_label =
    Quit
  | DialFailed
  | DialOk
  | Timer i64
  | Wrote outgoing "frame list"
  | WriteFailed outgoing
  | LoopEnd
  | Judged string
  | Frame reader_id "json option"
  | ReadEnd reader_id "string option"
  | ReaderQuit reader_id
  | Checked outgoing
  | Queued outgoing
  | Dropped outgoing
  | Command incoming
  | StopCalled

section \<open>Operations of the goroutines\<close>

definition min_dur :: "i64 \<Rightarrow> i64 \<Rightarrow> i64" where
  "min_dur a b = (if slt a b then a else b)"

text \<open>\<open>connect\<close>: whether the URL parses and the dial succeeds is the environment's answer.\<close>

definition connect :: "bool \<Rightarrow> ws_client \<Rightarrow> ws_client option" where
  "connect dialled c = (if dialled then Some (c\<lparr>ws_conn := True, ws_connected := True\<rparr>) else None)"

text \<open>The deferred function of \<open>messageLoop\<close>.\<close>

definition loop_teardown :: "ws_client \<Rightarrow> ws_client" where
  "loop_teardown c = c\<lparr>ws_conn := False, ws_connected := False\<rparr>"

datatype write_error = NoConnection | WriteError

text \<open>
  \<open>writeEnvelope\<close>: \<open>written\<close> says whether serializing and writing the message succeed; the ping
  that follows a heartbeat may fail without an error.
\<close>

definition writeEnvelope ::
    "bool \<Rightarrow> bool \<Rightarrow> outgoing \<Rightarrow> ws_client \<Rightarrow> (write_error, frame list) result" where
  "writeEnvelope written pinged e c =
     (if \<not> ws_conn c then Inl NoConnection
      else if \<not> written then Inl WriteError
      else Inr (TextFrame e # (if env_type e = EnvelopeHeartbeat \<and> pinged then [PingFrame] else [])))"

text \<open>What a reader does with the error that ends it.\<close>

definition reader_error :: "string option \<Rightarrow> ws_client \<Rightarrow> ws_client" where
  "reader_error refusal c =
     (case refusal of Some txt \<Rightarrow> c\<lparr>ws_refused_reason := txt\<rparr> | None \<Rightarrow> c)"

text \<open>\<open>Stop\<close> up to its wait for the goroutines; closing the channel again would panic.\<close>

definition stop_client :: "ws_client \<Rightarrow> ws_client option" where
  "stop_client c =
     (if ws_closed c then None else Some (c\<lparr>ws_cancelled := True, ws_closed := True\<rparr>))"

text \<open>\<open>Start\<close>: the goroutines of a client begin.\<close>

definition Start :: "ws_client \<Rightarrow> connection" where
  "Start c =
     \<lparr>cn_client = c, cn_pc = AtTop, cn_delay = cc_reconnect_interval (ws_config c),
      cn_reader = False, cn_stale = 0, cn_passed = [], cn_spawned = 0\<rparr>"

text \<open>A client is started as it was created, with or without an \<open>onConnect\<close> callback.\<close>

definition conn_init :: "connection \<Rightarrow> bool" where
  "conn_init s \<longleftrightarrow> (\<exists>cfg. s = Start (NewClient cfg) \<or> s = Start (SetOnConnect (NewClient cfg)))"

abbreviation upd_client :: "(ws_client \<Rightarrow> ws_client) \<Rightarrow> connection \<Rightarrow> connection" where
  "upd_client f s \<equiv> s\<lparr>cn_client := f (cn_client s)\<rparr>"

abbreviation cn_config :: "connection \<Rightarrow> client_config" where
  "cn_config s \<equiv> ws_config (cn_client s)"

section \<open>The connection manager\<close>

inductive manager_step :: "connection \<Rightarrow> conn_label \<Rightarrow> connection \<Rightarrow> bool" where
  top_quit:
    "cn_pc s = AtTop \<Longrightarrow> ws_cancelled (cn_client s) \<or> ws_closed (cn_client s) \<Longrightarrow>
     manager_step s Quit (s\<lparr>cn_pc := Returned\<rparr>)"
| dial_failed:
    "cn_pc s = AtTop \<Longrightarrow> connect False (cn_client s) = None \<Longrightarrow>
     manager_step s DialFailed (s\<lparr>cn_pc := Waiting\<rparr>)"
| wait_quit:
    "cn_pc s = Waiting \<Longrightarrow> ws_cancelled (cn_client s) \<Longrightarrow>
     manager_step s Quit (s\<lparr>cn_pc := Returned\<rparr>)"
| wait_over:
    "cn_pc s = Waiting \<Longrightarrow>
     manager_step s (Timer (cn_delay s))
       (s\<lparr>cn_pc := AtTop,
          cn_delay := min_dur (cn_delay s * 2) (cc_max_reconnect_delay (cn_config s))\<rparr>)"
| dial_ok:
    "cn_pc s = AtTop \<Longrightarrow> connect True (cn_client s) = Some c \<Longrightarrow>
     manager_step s DialOk
       (s\<lparr>cn_client := c, cn_pc := InSession, cn_delay := cc_reconnect_interval (cn_config s),
          cn_spawned := cn_spawned s + (if ws_on_connect (cn_client s) then 1 else 0),
          cn_reader := True\<rparr>)"
| session_quit:
    "cn_pc s = SessionOver \<Longrightarrow> ws_cancelled (cn_client s) \<Longrightarrow>
     manager_step s Quit (s\<lparr>cn_pc := Returned\<rparr>)"
| session_judged:
    "cn_pc s = SessionOver \<Longrightarrow> r = ws_refused_reason (cn_client s) \<Longrightarrow>
     manager_step s (Judged r)
       (upd_client (ws_refused_reason_update (\<lambda>_. []))
          (s\<lparr>cn_pc := (if r = [] then AtTop else RefusedWait)\<rparr>))"
| refused_quit:
    "cn_pc s = RefusedWait \<Longrightarrow> ws_cancelled (cn_client s) \<Longrightarrow>
     manager_step s Quit (s\<lparr>cn_pc := Returned\<rparr>)"
| refused_over:
    "cn_pc s = RefusedWait \<Longrightarrow>
     manager_step s (Timer (cc_max_reconnect_delay (cn_config s))) (s\<lparr>cn_pc := AtTop\<rparr>)"

section \<open>The message loop\<close>

text \<open>Leaving the loop runs the deferred function and leaves a reader that still runs behind.\<close>

definition leave_loop :: "connection \<Rightarrow> connection" where
  "leave_loop s =
     s\<lparr>cn_client := loop_teardown (cn_client s), cn_pc := SessionOver, cn_reader := False,
       cn_stale := cn_stale s + (if cn_reader s then 1 else 0)\<rparr>"

inductive loop_step :: "connection \<Rightarrow> conn_label \<Rightarrow> connection \<Rightarrow> bool" where
  loop_done:
    "cn_pc s = InSession \<Longrightarrow>
     ws_cancelled (cn_client s) \<or> ws_closed (cn_client s) \<or> \<not> cn_reader s \<Longrightarrow>
     loop_step s LoopEnd (leave_loop s)"
| loop_wrote:
    "cn_pc s = InSession \<Longrightarrow> chan_recv (ws_outbound_ch (cn_client s)) = Some (e, rest) \<Longrightarrow>
     writeEnvelope True pinged e (cn_client s) = Inr fs \<Longrightarrow>
     loop_step s (Wrote e fs) (upd_client (ws_outbound_ch_update (\<lambda>_. rest)) s)"
| loop_write_failed:
    "cn_pc s = InSession \<Longrightarrow> chan_recv (ws_outbound_ch (cn_client s)) = Some (e, rest) \<Longrightarrow>
     writeEnvelope written pinged e (cn_client s) = Inl err \<Longrightarrow>
     loop_step s (WriteFailed e) (leave_loop (upd_client (ws_outbound_ch_update (\<lambda>_. rest)) s))"

section \<open>Readers\<close>

fun reader_runs :: "reader_id \<Rightarrow> connection \<Rightarrow> bool" where
  "reader_runs CurrentReader s \<longleftrightarrow> cn_reader s"
| "reader_runs StaleReader s \<longleftrightarrow> 0 < cn_stale s"

fun reader_gone :: "reader_id \<Rightarrow> connection \<Rightarrow> connection" where
  "reader_gone CurrentReader s = s\<lparr>cn_reader := False\<rparr>"
| "reader_gone StaleReader s = s\<lparr>cn_stale := cn_stale s - 1\<rparr>"

inductive reader_step :: "connection \<Rightarrow> conn_label \<Rightarrow> connection \<Rightarrow> bool" where
  reader_quit:
    "reader_runs i s \<Longrightarrow>
     ws_cancelled (cn_client s) \<or> ws_closed (cn_client s) \<or> \<not> ws_conn (cn_client s) \<Longrightarrow>
     reader_step s (ReaderQuit i) (reader_gone i s)"
| reader_failed:
    "reader_runs i s \<Longrightarrow>
     reader_step s (ReadEnd i refusal) (reader_gone i (upd_client (reader_error refusal) s))"
| reader_unparsed:
    "reader_runs i s \<Longrightarrow> ParseEnvelope m = Inl err \<Longrightarrow> reader_step s (Frame i m) s"
| reader_parsed:
    "reader_runs i s \<Longrightarrow> ParseEnvelope m = Inr e \<Longrightarrow>
     reader_step s (Frame i m) (upd_client (handleIncomingMessage e) s)"

section \<open>Senders, the heartbeat routine, the kubelet and \<open>Stop\<close>\<close>

text \<open>
  \<open>sendEnvelope\<close> with its two steps apart: the connection may go away between them. A heartbeat
  of the heartbeat routine is a sender like any other.
\<close>

inductive sender_step :: "connection \<Rightarrow> conn_label \<Rightarrow> connection \<Rightarrow> bool" where
  send_checked:
    "IsConnected (cn_client s) \<Longrightarrow>
     sender_step s (Checked e) (s\<lparr>cn_passed := e # cn_passed s\<rparr>)"
| send_queued:
    "e \<in> set (cn_passed s) \<Longrightarrow>
     chan_send outbound_capacity e (ws_outbound_ch (cn_client s)) = Some buf \<Longrightarrow>
     sender_step s (Queued e)
       (upd_client (ws_outbound_ch_update (\<lambda>_. buf)) (s\<lparr>cn_passed := remove1 e (cn_passed s)\<rparr>))"
| send_dropped:
    "e \<in> set (cn_passed s) \<Longrightarrow>
     chan_send outbound_capacity e (ws_outbound_ch (cn_client s)) = None \<Longrightarrow>
     sender_step s (Dropped e) (s\<lparr>cn_passed := remove1 e (cn_passed s)\<rparr>)"

inductive user_step :: "connection \<Rightarrow> conn_label \<Rightarrow> connection \<Rightarrow> bool" where
  take_command:
    "chan_recv (ws_command_ch (cn_client s)) = Some (e, rest) \<Longrightarrow>
     user_step s (Command e) (upd_client (ws_command_ch_update (\<lambda>_. rest)) s)"
| stop_called:
    "stop_client (cn_client s) = Some c \<Longrightarrow> user_step s StopCalled (s\<lparr>cn_client := c\<rparr>)"

text \<open>The client: any goroutine may take the next step.\<close>

inductive conn_step :: "connection \<Rightarrow> conn_label \<Rightarrow> connection \<Rightarrow> bool" where
  by_manager: "manager_step s l t \<Longrightarrow> conn_step s l t"
| by_loop: "loop_step s l t \<Longrightarrow> conn_step s l t"
| by_reader: "reader_step s l t \<Longrightarrow> conn_step s l t"
| by_sender: "sender_step s l t \<Longrightarrow> conn_step s l t"
| by_user: "user_step s l t \<Longrightarrow> conn_step s l t"

inductive_simps conn_step_iff: "conn_step s l t"
inductive_simps manager_step_iff: "manager_step s l t"
inductive_simps loop_step_iff: "loop_step s l t"
inductive_simps reader_step_iff: "reader_step s l t"
inductive_simps sender_step_iff: "sender_step s l t"
inductive_simps user_step_iff: "user_step s l t"

lemmas any_step_iff = conn_step_iff manager_step_iff loop_step_iff reader_step_iff
  sender_step_iff user_step_iff

end
