(* ===== verification/Ws_Reconnect.thy ===== *)
theory Ws_Reconnect
  imports Ws_Connection "HOL-Library.Multiset" "HOL-Library.Sublist"
begin

text \<open>
  What the WebSocket client promises: an invariant of its connection, the order in which envelopes
  reach the wire, and the reconnection policy, stated as an automaton over unbounded integers that
  knows nothing of goroutines, words or channels and that every run of the client follows.
\<close>

section \<open>The connection invariant\<close>

definition conn_inv :: "connection \<Rightarrow> bool" where
  "conn_inv s \<longleftrightarrow>
     ws_conn (cn_client s) = (cn_pc s = InSession) \<and>
     ws_connected (cn_client s) = (cn_pc s = InSession) \<and>
     (cn_reader s \<longrightarrow> cn_pc s = InSession) \<and>
     length (ws_outbound_ch (cn_client s)) \<le> outbound_capacity \<and>
     length (ws_command_ch (cn_client s)) \<le> command_capacity \<and>
     ws_closed (cn_client s) = ws_cancelled (cn_client s) \<and>
     (cn_pc s = Returned \<longrightarrow> ws_cancelled (cn_client s))"

lemma handleIncoming_capacity:
  "length (ws_command_ch c) \<le> command_capacity \<Longrightarrow>
   length (ws_command_ch (handleIncomingMessage e c)) \<le> command_capacity"
  by (auto simp: handleIncomingMessage_def dest: command_chan.send_capacity split: option.splits)

lemma chan_recv_Some: "chan_recv buf = Some (x, rest) \<longleftrightarrow> buf = x # rest"
  by (cases buf) auto

lemma connect_Some [simp]:
  "connect True c = Some c' \<longleftrightarrow> c' = c\<lparr>ws_conn := True, ws_connected := True\<rparr>"
  "connect False c = None"
  by (auto simp: connect_def)

lemma stop_client_Some:
  "stop_client c = Some c' \<longleftrightarrow> \<not> ws_closed c \<and> c' = c\<lparr>ws_cancelled := True, ws_closed := True\<rparr>"
  by (auto simp: stop_client_def)

lemma reader_error_unfold:
  "reader_error r c = c\<lparr>ws_refused_reason := (case r of Some x \<Rightarrow> x | None \<Rightarrow> ws_refused_reason c)\<rparr>"
  by (simp add: reader_error_def split: option.splits)

lemma reader_gone_unfold:
  "reader_gone i s =
     s\<lparr>cn_reader := (i \<noteq> CurrentReader \<and> cn_reader s),
       cn_stale := (if i = StaleReader then cn_stale s - 1 else cn_stale s)\<rparr>"
  by (cases i) simp_all

lemmas conn_ops = leave_loop_def loop_teardown_def chan_recv_Some stop_client_Some
  reader_error_unfold reader_gone_unfold

lemma conn_inv_manager: "manager_step s l t \<Longrightarrow> conn_inv s \<Longrightarrow> conn_inv t"
  by (induction rule: manager_step.induct) (auto simp: conn_inv_def)

lemma conn_inv_loop: "loop_step s l t \<Longrightarrow> conn_inv s \<Longrightarrow> conn_inv t"
  by (induction rule: loop_step.induct) (auto simp: conn_inv_def conn_ops)

lemma conn_inv_reader: "reader_step s l t \<Longrightarrow> conn_inv s \<Longrightarrow> conn_inv t"
  by (induction rule: reader_step.induct) (auto simp: conn_inv_def conn_ops handleIncoming_capacity)

lemma conn_inv_sender: "sender_step s l t \<Longrightarrow> conn_inv s \<Longrightarrow> conn_inv t"
  by (induction rule: sender_step.induct)
    (auto simp: conn_inv_def chan_send_def split: if_splits)

lemma conn_inv_user: "user_step s l t \<Longrightarrow> conn_inv s \<Longrightarrow> conn_inv t"
  by (induction rule: user_step.induct) (auto simp: conn_inv_def conn_ops)

lemma conn_inv_step: "conn_inv s \<Longrightarrow> conn_step s l t \<Longrightarrow> conn_inv t"
  by (auto simp: conn_step_iff
      intro: conn_inv_manager conn_inv_loop conn_inv_reader conn_inv_sender conn_inv_user)

lemma conn_inv_init: "conn_init s \<Longrightarrow> conn_inv s"
  by (auto simp: conn_init_def conn_inv_def Start_def NewClient_def SetOnConnect_def)

interpretation conn: invariant_system conn_init conn_step conn_inv
  by unfold_locales (rule conn_inv_init conn_inv_step; assumption)+

section \<open>What a run did\<close>

fun queued_of :: "conn_label \<Rightarrow> outgoing list" where
  "queued_of (Queued e) = [e]"
| "queued_of _ = []"

fun checked_of :: "conn_label \<Rightarrow> outgoing list" where
  "checked_of (Checked e) = [e]"
| "checked_of _ = []"

fun dropped_of :: "conn_label \<Rightarrow> outgoing list" where
  "dropped_of (Dropped e) = [e]"
| "dropped_of _ = []"

fun taken_of :: "conn_label \<Rightarrow> outgoing list" where
  "taken_of (Wrote e _) = [e]"
| "taken_of (WriteFailed e) = [e]"
| "taken_of _ = []"

fun failed_of :: "conn_label \<Rightarrow> outgoing list" where
  "failed_of (WriteFailed e) = [e]"
| "failed_of _ = []"

fun text_of :: "frame \<Rightarrow> outgoing list" where
  "text_of (TextFrame e) = [e]"
| "text_of PingFrame = []"

fun wire_of :: "conn_label \<Rightarrow> outgoing list" where
  "wire_of (Wrote _ fs) = concat (map text_of fs)"
| "wire_of _ = []"

fun arrived_of :: "conn_label \<Rightarrow> incoming list" where
  "arrived_of (Frame _ m) =
     (case ParseEnvelope m of
        Inl err \<Rightarrow> []
      | Inr e \<Rightarrow> if env_type e = EnvelopeCommand then [e] else [])"
| "arrived_of _ = []"

fun received_of :: "conn_label \<Rightarrow> incoming list" where
  "received_of (Command e) = [e]"
| "received_of _ = []"

abbreviation all_of :: "(conn_label \<Rightarrow> 'a list) \<Rightarrow> conn_label list \<Rightarrow> 'a list" where
  "all_of f ls \<equiv> concat (map f ls)"

definition count_dials :: "conn_label list \<Rightarrow> nat" where
  "count_dials ls = length (filter (\<lambda>l. l = DialOk) ls)"

text \<open>Conservation: what was queued was taken by the message loop, in order, or still waits.\<close>

lemma step_outbound:
  "conn_step s l t \<Longrightarrow>
     ws_outbound_ch (cn_client s) @ queued_of l = taken_of l @ ws_outbound_ch (cn_client t)"
  by (cases l) (auto simp: any_step_iff conn_ops chan_send_def split: if_splits)

lemma run_outbound:
  "run_of conn_step s ls t \<Longrightarrow>
     ws_outbound_ch (cn_client s) @ all_of queued_of ls =
     all_of taken_of ls @ ws_outbound_ch (cn_client t)"
proof (induction rule: run_of.induct)
  case (run_snoc s ls t l u)
  with step_outbound [OF run_snoc.hyps(2)] show ?case
    by (simp flip: append_assoc) (simp add: append_assoc)
qed simp

text \<open>Each envelope that was taken was written whole or its write failed.\<close>

lemma step_wire: "conn_step s l t \<Longrightarrow> wire_of l @ failed_of l = taken_of l"
  by (cases l) (auto simp: any_step_iff writeEnvelope_def split: if_splits)

lemma run_wire:
  "run_of conn_step s ls t \<Longrightarrow>
     subseq (all_of wire_of ls) (all_of taken_of ls) \<and>
     mset (all_of taken_of ls) = mset (all_of wire_of ls) + mset (all_of failed_of ls)"
proof (induction rule: run_of.induct)
  case (run_snoc s ls t l u)
  from step_wire [OF run_snoc.hyps(2)] have w: "taken_of l = wire_of l @ failed_of l" ..
  have "subseq (wire_of l) (taken_of l)"
    by (simp add: w list_emb_prefix)
  with run_snoc.IH w show ?case by (simp add: list_emb_append_mono)
qed simp

text \<open>A session ends with its first failed write, so there are no more of them than dials.\<close>

definition in_session :: "connection \<Rightarrow> nat" where
  "in_session s = (if cn_pc s = InSession then 1 else 0)"

lemma step_failed:
  "conn_step s l t \<Longrightarrow>
     length (failed_of l) + in_session t \<le> count_dials [l] + in_session s"
  by (cases l) (auto simp: any_step_iff conn_ops count_dials_def in_session_def)

lemma run_failed:
  "run_of conn_step s ls t \<Longrightarrow>
     length (all_of failed_of ls) + in_session t \<le> count_dials ls + in_session s"
proof (induction rule: run_of.induct)
  case (run_snoc s ls t l u)
  have "count_dials (ls @ [l]) = count_dials ls + count_dials [l]"
    by (simp add: count_dials_def)
  with run_snoc.IH step_failed [OF run_snoc.hyps(2)] show ?case by simp
qed simp

lemma step_passed:
  "conn_step s l t \<Longrightarrow>
     mset (cn_passed s) + mset (checked_of l) =
     mset (queued_of l) + mset (dropped_of l) + mset (cn_passed t)"
  by (cases l) (auto simp: any_step_iff conn_ops)

lemma run_passed:
  "run_of conn_step s ls t \<Longrightarrow>
     mset (cn_passed s) + mset (all_of checked_of ls) =
     mset (all_of queued_of ls) + mset (all_of dropped_of ls) + mset (cn_passed t)"
proof (induction rule: run_of.induct)
  case (run_snoc s ls t l u)
  have "mset (cn_passed s) + mset (all_of checked_of (ls @ [l])) =
      (mset (all_of queued_of ls) + mset (all_of dropped_of ls)) +
      (mset (cn_passed t) + mset (checked_of l))"
    using run_snoc.IH by (simp flip: add.assoc)
  with step_passed [OF run_snoc.hyps(2)] show ?case by (simp add: ac_simps)
qed simp

text \<open>Commands: what the kubelet receives is a part, in order, of what the backend sent.\<close>

lemma handleIncoming_command_ch:
  "ws_command_ch (handleIncomingMessage e c) =
     ws_command_ch c @
       (if env_type e = EnvelopeCommand \<and> length (ws_command_ch c) < command_capacity
        then [e] else [])"
  by (simp add: handleIncomingMessage_def chan_send_def)

lemma step_commands:
  "conn_step s l t \<Longrightarrow>
     \<exists>acc. subseq acc (arrived_of l) \<and>
       ws_command_ch (cn_client s) @ acc = received_of l @ ws_command_ch (cn_client t)"
  by (cases l) (auto simp: any_step_iff conn_ops handleIncoming_command_ch)

lemma run_commands:
  "run_of conn_step s ls t \<Longrightarrow>
     \<exists>acc. subseq acc (all_of arrived_of ls) \<and>
       ws_command_ch (cn_client s) @ acc = all_of received_of ls @ ws_command_ch (cn_client t)"
proof (induction rule: run_of.induct)
  case (run_snoc s ls t l u)
  then obtain acc where acc: "subseq acc (all_of arrived_of ls)"
      "ws_command_ch (cn_client s) @ acc = all_of received_of ls @ ws_command_ch (cn_client t)"
    by blast
  from step_commands [OF run_snoc.hyps(2)] obtain acc' where acc': "subseq acc' (arrived_of l)"
      "ws_command_ch (cn_client t) @ acc' = received_of l @ ws_command_ch (cn_client u)"
    by blast
  have "ws_command_ch (cn_client s) @ (acc @ acc') =
      all_of received_of (ls @ [l]) @ ws_command_ch (cn_client u)"
    using acc(2) acc'(2) by (simp flip: append_assoc) (simp add: append_assoc)
  moreover have "subseq (acc @ acc') (all_of arrived_of (ls @ [l]))"
    using acc(1) acc'(1) by (simp add: list_emb_append_mono)
  ultimately show ?case by blast
qed auto

lemma step_spawned:
  "conn_step s l t \<Longrightarrow>
     ws_on_connect (cn_client t) = ws_on_connect (cn_client s) \<and>
     cn_config t = cn_config s \<and>
     cn_spawned t = cn_spawned s + (if l = DialOk \<and> ws_on_connect (cn_client s) then 1 else 0)"
  by (cases l) (auto simp: any_step_iff conn_ops)

lemma run_spawned:
  "run_of conn_step s ls t \<Longrightarrow>
     ws_on_connect (cn_client t) = ws_on_connect (cn_client s) \<and>
     cn_config t = cn_config s \<and>
     cn_spawned t = cn_spawned s + (if ws_on_connect (cn_client s) then count_dials ls else 0)"
proof (induction rule: run_of.induct)
  case (run_snoc s ls t l u)
  with step_spawned [OF run_snoc.hyps(2)] show ?case by (auto simp: count_dials_def)
qed (simp add: count_dials_def)

end
