(* ===== verification/Ws_Policy.thy ===== *)
theory Ws_Policy
  imports Ws_Reconnect
begin

text \<open>
  The reconnection policy of the WebSocket client as an automaton over unbounded integers, the
  proof that every run of the client follows it, and the properties of whole runs: delays,
  refusals, delivery of envelopes and commands, shutdown.
\<close>

section \<open>The policy\<close>

text \<open>The wait after the \<open>n\<close>-th consecutive failed dial, counted from 0.\<close>

definition backoff :: "int \<Rightarrow> int \<Rightarrow> nat \<Rightarrow> int" where
  "backoff base mx n = (if n = 0 then base else min (base * 2 ^ n) mx)"

datatype phase =
    Dialing nat
  | BackingOff nat
  | Connected
  | Judging
  | Refused
  | Stopped

record policy =
  pol_phase :: phase
  pol_refusal :: string
  pol_stop :: bool

definition policy_start :: policy where
  "policy_start = \<lparr>pol_phase = Dialing 0, pol_refusal = [], pol_stop = False\<rparr>"

definition policy_phase :: "int \<Rightarrow> int \<Rightarrow> string \<Rightarrow> phase \<Rightarrow> conn_label \<Rightarrow> phase option" where
  "policy_phase base mx why p l =
     (case p of
        Dialing n \<Rightarrow>
          (case l of DialFailed \<Rightarrow> Some (BackingOff n) | DialOk \<Rightarrow> Some Connected | _ \<Rightarrow> None)
      | BackingOff n \<Rightarrow>
          (case l of
             Timer d \<Rightarrow> if sint d = backoff base mx n then Some (Dialing (Suc n)) else None
           | _ \<Rightarrow> None)
      | Connected \<Rightarrow>
          (case l of
             Wrote e fs \<Rightarrow> Some Connected
           | WriteFailed e \<Rightarrow> Some Judging
           | LoopEnd \<Rightarrow> Some Judging
           | _ \<Rightarrow> None)
      | Judging \<Rightarrow>
          (case l of
             Judged r \<Rightarrow> if r = why then Some (if r = [] then Dialing 0 else Refused) else None
           | _ \<Rightarrow> None)
      | Refused \<Rightarrow>
          (case l of Timer d \<Rightarrow> if sint d = mx then Some (Dialing 0) else None | _ \<Rightarrow> None)
      | Stopped \<Rightarrow> None)"

text \<open>
  The steps that are not the manager's own leave its phase; a refusal is remembered until it is
  judged; the manager may end only after a stop and never during a session.
\<close>

definition policy_step :: "int \<Rightarrow> int \<Rightarrow> policy \<Rightarrow> conn_label \<Rightarrow> policy option" where
  "policy_step base mx p l =
     (case l of
        ReadEnd i (Some r) \<Rightarrow> Some (p\<lparr>pol_refusal := r\<rparr>)
      | ReadEnd i None \<Rightarrow> Some p
      | StopCalled \<Rightarrow> (if pol_stop p then None else Some (p\<lparr>pol_stop := True\<rparr>))
      | Frame i m \<Rightarrow> Some p
      | ReaderQuit i \<Rightarrow> Some p
      | Checked e \<Rightarrow> (if pol_phase p = Connected then Some p else None)
      | Queued e \<Rightarrow> Some p
      | Dropped e \<Rightarrow> Some p
      | Command e \<Rightarrow> Some p
      | Quit \<Rightarrow> (if pol_stop p \<and> pol_phase p \<notin> {Connected, Stopped}
                 then Some (p\<lparr>pol_phase := Stopped\<rparr>) else None)
      | _ \<Rightarrow> map_option
               (\<lambda>q. p\<lparr>pol_phase := q, pol_refusal := (if pol_phase p = Judging then [] else pol_refusal p)\<rparr>)
               (policy_phase base mx (pol_refusal p) (pol_phase p) l))"

lemmas policy_defs = policy_step_def policy_phase_def

section \<open>Every run of the client follows the policy\<close>

fun phase_rel :: "int \<Rightarrow> int \<Rightarrow> phase \<Rightarrow> connection \<Rightarrow> bool" where
  "phase_rel base mx (Dialing n) s \<longleftrightarrow>
     cn_pc s = AtTop \<and> sint (cn_delay s) = backoff base mx n"
| "phase_rel base mx (BackingOff n) s \<longleftrightarrow>
     cn_pc s = Waiting \<and> sint (cn_delay s) = backoff base mx n"
| "phase_rel base mx Connected s \<longleftrightarrow> cn_pc s = InSession \<and> sint (cn_delay s) = base"
| "phase_rel base mx Judging s \<longleftrightarrow> cn_pc s = SessionOver \<and> sint (cn_delay s) = base"
| "phase_rel base mx Refused s \<longleftrightarrow> cn_pc s = RefusedWait \<and> sint (cn_delay s) = base"
| "phase_rel base mx Stopped s \<longleftrightarrow> cn_pc s = Returned"

text \<open>The durations of the configuration, positive and below 146 years.\<close>

definition durations :: "int \<Rightarrow> int \<Rightarrow> connection \<Rightarrow> bool" where
  "durations base mx s \<longleftrightarrow>
     sint (cc_reconnect_interval (cn_config s)) = base \<and>
     sint (cc_max_reconnect_delay (cn_config s)) = mx \<and>
     0 < base \<and> base < 2 ^ 62 \<and> 0 < mx \<and> mx < 2 ^ 62"

definition follows :: "int \<Rightarrow> int \<Rightarrow> policy \<Rightarrow> connection \<Rightarrow> bool" where
  "follows base mx p s \<longleftrightarrow>
     durations base mx s \<and> conn_inv s \<and> phase_rel base mx (pol_phase p) s \<and>
     pol_refusal p = ws_refused_reason (cn_client s) \<and> pol_stop p = ws_cancelled (cn_client s)"

lemma backoff_0 [simp]: "backoff base mx 0 = base"
  by (simp add: backoff_def)

lemma backoff_Suc:
  "0 < base \<Longrightarrow> 0 < mx \<Longrightarrow> backoff base mx (Suc n) = min (2 * backoff base mx n) mx"
  by (auto simp: backoff_def min_def)

lemma backoff_bounds:
  "0 < base \<Longrightarrow> 0 < mx \<Longrightarrow> 0 < backoff base mx n \<and> backoff base mx n \<le> max base mx"
  by (auto simp: backoff_def min_def)

lemma sint_min_dur: "sint (min_dur a b) = min (sint a) (sint b)"
  by (simp add: min_dur_def slt_def)

text \<open>The saturating doubling of the code is the arithmetic of the policy: nothing wraps.\<close>

lemma delay_doubles:
  assumes "durations base mx s" and "sint (cn_delay s) = backoff base mx n"
  shows "sint (min_dur (cn_delay s * 2) (cc_max_reconnect_delay (cn_config s))) =
         backoff base mx (Suc n)"
proof -
  from assms(1) have b: "0 < base" "base < 2 ^ 62" "0 < mx" "mx < 2 ^ 62"
      "sint (cc_max_reconnect_delay (cn_config s)) = mx"
    by (simp_all add: durations_def)
  with backoff_bounds [of base mx n] have "0 < backoff base mx n" "backoff base mx n < 2 ^ 62"
    by auto
  then have "sint (cn_delay s * 2) = 2 * backoff base mx n"
    using assms(2) by (simp add: sint_double_i64)
  with b show ?thesis by (simp add: sint_min_dur backoff_Suc)
qed

lemma durations_step: "conn_step s l t \<Longrightarrow> durations base mx s \<Longrightarrow> durations base mx t"
  by (drule step_spawned) (simp add: durations_def)

lemma follows_manager:
  assumes "manager_step s l t" and "follows base mx p s"
  shows "\<exists>q. policy_step base mx p l = Some q \<and> phase_rel base mx (pol_phase q) t \<and>
           pol_refusal q = ws_refused_reason (cn_client t) \<and> pol_stop q = ws_cancelled (cn_client t)"
proof -
  from assms(2) have d: "durations base mx s" and ph: "phase_rel base mx (pol_phase p) s"
      and f: "pol_refusal p = ws_refused_reason (cn_client s)"
        "pol_stop p = ws_cancelled (cn_client s)" "ws_closed (cn_client s) = ws_cancelled (cn_client s)"
    by (simp_all add: follows_def conn_inv_def)
  from d have c: "sint (cc_reconnect_interval (cn_config s)) = base"
      "sint (cc_max_reconnect_delay (cn_config s)) = mx"
    by (simp_all add: durations_def)
  note dd = delay_doubles [OF d]
  from assms(1) show ?thesis
  proof cases
    case wait_over
    with ph obtain n where n: "pol_phase p = BackingOff n" "sint (cn_delay s) = backoff base mx n"
      by (cases "pol_phase p") auto
    with wait_over dd [of n] f show ?thesis by (simp add: policy_defs)
  next
    case dial_failed
    with ph f show ?thesis by (cases "pol_phase p") (simp_all add: policy_defs)
  next
    case (dial_ok c)
    with ph f c show ?thesis by (cases "pol_phase p") (simp_all add: policy_defs)
  next
    case (session_judged r)
    with ph f c show ?thesis by (cases "pol_phase p") (simp_all add: policy_defs)
  next
    case refused_over
    with ph f c show ?thesis by (cases "pol_phase p") (simp_all add: policy_defs)
  qed (use ph f in \<open>cases "pol_phase p"; auto simp: policy_defs\<close>)+
qed

lemma follows_loop:
  assumes "loop_step s l t" and "follows base mx p s"
  shows "\<exists>q. policy_step base mx p l = Some q \<and> phase_rel base mx (pol_phase q) t \<and>
           pol_refusal q = ws_refused_reason (cn_client t) \<and> pol_stop q = ws_cancelled (cn_client t)"
  using assms
  by (cases rule: loop_step.cases; cases "pol_phase p")
    (simp_all add: follows_def policy_defs conn_ops)

lemma follows_reader:
  assumes "reader_step s l t" and "follows base mx p s"
  shows "\<exists>q. policy_step base mx p l = Some q \<and> phase_rel base mx (pol_phase q) t \<and>
           pol_refusal q = ws_refused_reason (cn_client t) \<and> pol_stop q = ws_cancelled (cn_client t)"
  using assms
  by (cases rule: reader_step.cases; cases "pol_phase p")
    (simp_all add: follows_def policy_defs conn_ops split: option.splits)

lemma follows_sender:
  assumes "sender_step s l t" and "follows base mx p s"
  shows "\<exists>q. policy_step base mx p l = Some q \<and> phase_rel base mx (pol_phase q) t \<and>
           pol_refusal q = ws_refused_reason (cn_client t) \<and> pol_stop q = ws_cancelled (cn_client t)"
  using assms
  by (cases rule: sender_step.cases; cases "pol_phase p")
    (simp_all add: follows_def policy_defs conn_inv_def IsConnected_def)

lemma follows_user:
  assumes "user_step s l t" and "follows base mx p s"
  shows "\<exists>q. policy_step base mx p l = Some q \<and> phase_rel base mx (pol_phase q) t \<and>
           pol_refusal q = ws_refused_reason (cn_client t) \<and> pol_stop q = ws_cancelled (cn_client t)"
  using assms
  by (cases rule: user_step.cases; cases "pol_phase p")
    (simp_all add: follows_def policy_defs conn_inv_def conn_ops)

lemma follows_step:
  assumes "follows base mx p s" and "conn_step s l t"
  shows "\<exists>q. policy_step base mx p l = Some q \<and> follows base mx q t"
proof -
  from assms have "durations base mx t" and "conn_inv t"
    by (auto simp: follows_def intro: durations_step conn_inv_step)
  with follows_manager follows_loop follows_reader follows_sender follows_user assms show ?thesis
    unfolding conn_step_iff by (metis follows_def)
qed

interpretation pol: simulation conn_step "policy_step base mx" "follows base mx" for base mx
  by unfold_locales (rule follows_step)

lemma follows_start: "conn_init s \<Longrightarrow> durations base mx s \<Longrightarrow> follows base mx policy_start s"
  by (auto simp: follows_def policy_start_def durations_def conn_inv_init)
    (auto simp: conn_init_def Start_def NewClient_def SetOnConnect_def)

lemma run_follows:
  "conn_init s \<Longrightarrow> durations base mx s \<Longrightarrow> run_of conn_step s ls t \<Longrightarrow>
     \<exists>p. spec_run (policy_step base mx) policy_start ls = Some p \<and> follows base mx p t"
  by (rule pol.sim_run [OF _ follows_start])

section \<open>Consequences of the policy\<close>

text \<open>The labels of the manager's own steps outside a session.\<close>

fun manager_label :: "conn_label \<Rightarrow> bool" where
  "manager_label Quit = True"
| "manager_label DialFailed = True"
| "manager_label DialOk = True"
| "manager_label (Timer d) = True"
| "manager_label (Judged r) = True"
| "manager_label _ = False"

definition last_refusal :: "string \<Rightarrow> conn_label list \<Rightarrow> string" where
  "last_refusal =
     foldl (\<lambda>acc l. case l of ReadEnd i (Some r) \<Rightarrow> r | Judged r \<Rightarrow> [] | _ \<Rightarrow> acc)"

definition failures :: "i64 list \<Rightarrow> conn_label list" where
  "failures ds = concat (map (\<lambda>d. [DialFailed, Timer d]) ds)"

lemma policy_refusal:
  "spec_run (policy_step base mx) p ls = Some q \<Longrightarrow> pol_refusal q = last_refusal (pol_refusal p) ls"
proof (induction ls arbitrary: p)
  case (Cons l ls)
  then obtain p' where p': "policy_step base mx p l = Some p'"
      "spec_run (policy_step base mx) p' ls = Some q"
    by (auto split: option.splits)
  from p'(1) have "pol_refusal p' = last_refusal (pol_refusal p) [l]"
    by (cases l; cases "pol_phase p")
      (auto simp: policy_defs last_refusal_def split: option.splits if_splits)
  with Cons.IH [OF p'(2)] show ?case by (simp add: last_refusal_def)
qed (simp add: last_refusal_def)

lemma policy_keeps_phase:
  "policy_step base mx p l = Some q \<Longrightarrow> \<not> manager_label l \<Longrightarrow> pol_phase p \<noteq> Connected \<Longrightarrow>
     pol_phase q = pol_phase p"
  by (cases l; cases "pol_phase p") (auto simp: policy_defs split: option.splits if_splits)

text \<open>The first step of the manager after a phase in which it is not in a session.\<close>

lemma policy_next:
  "spec_run (policy_step base mx) p ls = Some q \<Longrightarrow> pol_phase p \<noteq> Connected \<Longrightarrow>
   filter manager_label ls = l # rest \<Longrightarrow>
   l = Quit \<or> (\<exists>why. policy_phase base mx why (pol_phase p) l \<noteq> None)"
proof (induction ls arbitrary: p)
  case (Cons k ls)
  then obtain p' where p': "policy_step base mx p k = Some p'"
      "spec_run (policy_step base mx) p' ls = Some q"
    by (auto split: option.splits)
  show ?case
  proof (cases "manager_label k")
    case True
    with Cons.prems p'(1) show ?thesis by (cases k) (auto simp: policy_step_def split: if_splits)
  next
    case False
    with policy_keeps_phase [OF p'(1)] Cons.prems have "pol_phase p' = pol_phase p" by simp
    with Cons.IH [OF p'(2)] Cons.prems False p'(1) show ?thesis by simp
  qed
qed simp

lemma policy_failures:
  "spec_run (policy_step base mx) p ls = Some q \<Longrightarrow> filter manager_label ls = failures ds @ es \<Longrightarrow>
     pol_phase p = Dialing n \<Longrightarrow> map sint ds = map (backoff base mx) [n..<n + length ds]"
  "spec_run (policy_step base mx) p ls = Some q \<Longrightarrow>
     filter manager_label ls = Timer d # failures ds @ es \<Longrightarrow> pol_phase p = BackingOff n \<Longrightarrow>
     map sint (d # ds) = map (backoff base mx) [n..<n + length (d # ds)]"
proof (induction ls arbitrary: p n d ds)
  case Nil
  { case 1 then show ?case by (cases ds) (simp_all add: failures_def) }
  { case 2 then show ?case by simp }
next
  case (Cons k ls)
  {
    case 1
    then obtain p' where p': "policy_step base mx p k = Some p'"
        "spec_run (policy_step base mx) p' ls = Some q"
      by (auto split: option.splits)
    show ?case
    proof (cases "manager_label k")
      case False
      with policy_keeps_phase [OF p'(1)] Cons.IH(1) [OF p'(2)] 1 show ?thesis by simp
    next
      case True
      show ?thesis
      proof (cases ds)
        case (Cons d' ds')
        with True 1 have "k = DialFailed" "filter manager_label ls = Timer d' # failures ds' @ es"
          by (simp_all add: failures_def)
        moreover from this 1 p'(1) have "pol_phase p' = BackingOff n"
          by (auto simp: policy_defs)
        ultimately show ?thesis using Cons.IH(2) [OF p'(2)] Cons by blast
      qed simp
    qed
  next
    case 2
    then obtain p' where p': "policy_step base mx p k = Some p'"
        "spec_run (policy_step base mx) p' ls = Some q"
      by (auto split: option.splits)
    show ?case
    proof (cases "manager_label k")
      case False
      with policy_keeps_phase [OF p'(1)] Cons.IH(2) [OF p'(2)] 2 show ?thesis by simp
    next
      case True
      with 2 have k: "k = Timer d" "filter manager_label ls = failures ds @ es" by simp_all
      with 2 p'(1) have "sint d = backoff base mx n" "pol_phase p' = Dialing (Suc n)"
        by (auto simp: policy_defs split: if_splits)
      with Cons.IH(1) [OF p'(2) k(2)] show ?thesis
        by (simp add: upt_conv_Cons del: upt_Suc)
    qed
  }
qed

section \<open>Properties of the client\<close>

text \<open>C11. In every state a started client can reach, whatever the interleaving of its goroutines
  and the behaviour of the network: it reports itself connected exactly while its message loop runs
  and then it has a connection; no queue exceeds its capacity; a reader of the current session runs
  only during a session; and the manager has returned only if the client was stopped (it never
  gives up on its own).\<close>

theorem connection_invariant:
  "reachable conn_init conn_step s \<Longrightarrow>
     IsConnected (cn_client s) = (cn_pc s = InSession) \<and>
     ws_conn (cn_client s) = IsConnected (cn_client s) \<and>
     length (ws_outbound_ch (cn_client s)) \<le> 200 \<and>
     length (ws_command_ch (cn_client s)) \<le> 100 \<and>
     (cn_reader s \<longrightarrow> cn_pc s = InSession) \<and>
     (cn_pc s = Returned \<longrightarrow> ws_cancelled (cn_client s))"
  by (drule conn.reachable_inv)
    (simp add: conn_inv_def IsConnected_def outbound_capacity_def command_capacity_def)

text \<open>C9. Every run of the client is a run of the reconnection policy: dial; after the \<open>n\<close>-th failure
  in a row wait exactly \<open>backoff n\<close> and dial again; after a session dial at once, or wait the
  maximum delay when the platform refused the kubelet with a reason; end only after a stop.\<close>

theorem reconnect_policy:
  assumes "conn_init s" and "durations base mx s" and "run_of conn_step s ls t"
  shows "\<exists>p. spec_run (policy_step base mx) policy_start ls = Some p \<and>
           phase_rel base mx (pol_phase p) t \<and>
           pol_refusal p = ws_refused_reason (cn_client t) \<and>
           pol_stop p = ws_cancelled (cn_client t)"
  using run_follows [OF assms] by (auto simp: follows_def)

text \<open>C13. While dials keep failing, the waits between them are the reconnect interval, then twice,
  four times, eight times that, capped at the maximum delay, whatever else happens in between; the
  doubling of the 64-bit duration never wraps.\<close>

theorem backoff_schedule:
  assumes "conn_init s" and "durations base mx s" and "run_of conn_step s ls t"
    and "filter manager_label ls = failures ds @ rest"
  shows "map sint ds = map (\<lambda>n. if n = 0 then base else min (base * 2 ^ n) mx) [0..<length ds]"
proof -
  from run_follows [OF assms(1-3)] obtain p
    where "spec_run (policy_step base mx) policy_start ls = Some p" by blast
  from policy_failures(1) [OF this assms(4), of 0] show ?thesis
    by (simp add: policy_start_def backoff_def [abs_def])
qed

text \<open>C14. When a session has ended, the reason that is judged is the text of the last 1008 close
  since the last judgement; with a reason the next thing the manager does, unless stopped, is to
  wait the full maximum delay; without one (or with an empty text) it dials again with no wait at
  all.\<close>

theorem refusal_delays:
  assumes "conn_init s" and "durations base mx s" and "run_of conn_step s (ls @ Judged r # ms) t"
  shows "r = last_refusal [] ls \<and>
    (case filter manager_label ms of
       [] \<Rightarrow> True
     | l # _ \<Rightarrow>
        (if r = [] then l = Quit \<or> l = DialFailed \<or> l = DialOk
         else l = Quit \<or> (\<exists>d. l = Timer d \<and> sint d = mx)))"
proof -
  from run_follows [OF assms] obtain q p p' where
      p: "spec_run (policy_step base mx) policy_start ls = Some p"
        "policy_step base mx p (Judged r) = Some p'" "spec_run (policy_step base mx) p' ms = Some q"
    by (auto simp: spec_run_append split: option.splits)
  from policy_refusal [OF p(1)] p(2) have r: "r = last_refusal [] ls"
    by (cases "pol_phase p") (auto simp: policy_defs policy_start_def split: if_splits)
  from p(2) have ph: "pol_phase p' = (if r = [] then Dialing 0 else Refused)"
    by (cases "pol_phase p") (auto simp: policy_defs split: if_splits)
  show ?thesis
  proof (cases "filter manager_label ms")
    case (Cons l rest)
    with policy_next [OF p(3) _ Cons] ph r show ?thesis
      by (auto simp: policy_phase_def split: conn_label.splits if_splits)
  qed (simp add: r)
qed

end
