(* ===== verification/Ws_Exec.thy ===== *)
theory Ws_Exec
  imports Ws_Policy
begin

text \<open>
  The client's steps as a function of the label: the step relation is deterministic once the label
  says what the network, the timers and the scheduler did, so a run can be evaluated. With it, the
  concrete run at which the properties of runs are applied: two failed dials, a session with a
  heartbeat and a command, a refusal, the long wait.
\<close>

section \<open>The step function\<close>

definition exec_step :: "connection \<Rightarrow> conn_label \<Rightarrow> connection option" where
  "exec_step s l =
     (let c = cn_client s; stopped = (ws_cancelled c \<or> ws_closed c) in
      case l of
        Quit \<Rightarrow>
          (if (cn_pc s = AtTop \<and> stopped) \<or>
              (cn_pc s \<in> {Waiting, SessionOver, RefusedWait} \<and> ws_cancelled c)
           then Some (s\<lparr>cn_pc := Returned\<rparr>) else None)
      | DialFailed \<Rightarrow> (if cn_pc s = AtTop then Some (s\<lparr>cn_pc := Waiting\<rparr>) else None)
      | DialOk \<Rightarrow>
          (if cn_pc s = AtTop then
             Some (s\<lparr>cn_client := c\<lparr>ws_conn := True, ws_connected := True\<rparr>, cn_pc := InSession,
                     cn_delay := cc_reconnect_interval (ws_config c),
                     cn_spawned := cn_spawned s + (if ws_on_connect c then 1 else 0),
                     cn_reader := True\<rparr>)
           else None)
      | Timer d \<Rightarrow>
          (if cn_pc s = Waiting \<and> d = cn_delay s then
             Some (s\<lparr>cn_pc := AtTop,
                     cn_delay := min_dur (cn_delay s * 2) (cc_max_reconnect_delay (ws_config c))\<rparr>)
           else if cn_pc s = RefusedWait \<and> d = cc_max_reconnect_delay (ws_config c) then
             Some (s\<lparr>cn_pc := AtTop\<rparr>)
           else None)
      | Judged r \<Rightarrow>
          (if cn_pc s = SessionOver \<and> r = ws_refused_reason c then
             Some (s\<lparr>cn_client := c\<lparr>ws_refused_reason := []\<rparr>,
                     cn_pc := (if r = [] then AtTop else RefusedWait)\<rparr>)
           else None)
      | LoopEnd \<Rightarrow>
          (if cn_pc s = InSession \<and> (stopped \<or> \<not> cn_reader s) then Some (leave_loop s) else None)
      | Wrote e fs \<Rightarrow>
          (case chan_recv (ws_outbound_ch c) of
             Some (e', rest) \<Rightarrow>
               (if cn_pc s = InSession \<and> e = e' \<and>
                   (writeEnvelope True True e c = Inr fs \<or> writeEnvelope True False e c = Inr fs)
                then Some (s\<lparr>cn_client := c\<lparr>ws_outbound_ch := rest\<rparr>\<rparr>) else None)
           | None \<Rightarrow> None)
      | WriteFailed e \<Rightarrow>
          (case chan_recv (ws_outbound_ch c) of
             Some (e', rest) \<Rightarrow>
               (if cn_pc s = InSession \<and> e = e'
                then Some (leave_loop (s\<lparr>cn_client := c\<lparr>ws_outbound_ch := rest\<rparr>\<rparr>)) else None)
           | None \<Rightarrow> None)
      | Frame i m \<Rightarrow>
          (if reader_runs i s then
             Some (s\<lparr>cn_client := (case ParseEnvelope m of Inl err \<Rightarrow> c
                                    | Inr e \<Rightarrow> handleIncomingMessage e c)\<rparr>)
           else None)
      | ReadEnd i r \<Rightarrow>
          (if reader_runs i s then Some (reader_gone i (s\<lparr>cn_client := reader_error r c\<rparr>)) else None)
      | ReaderQuit i \<Rightarrow>
          (if reader_runs i s \<and> (stopped \<or> \<not> ws_conn c) then Some (reader_gone i s) else None)
      | Checked e \<Rightarrow> (if IsConnected c then Some (s\<lparr>cn_passed := e # cn_passed s\<rparr>) else None)
      | Queued e \<Rightarrow>
          (if e \<in> set (cn_passed s) then
             map_option (\<lambda>buf. s\<lparr>cn_client := c\<lparr>ws_outbound_ch := buf\<rparr>,
                               cn_passed := remove1 e (cn_passed s)\<rparr>)
               (chan_send outbound_capacity e (ws_outbound_ch c))
           else None)
      | Dropped e \<Rightarrow>
          (if e \<in> set (cn_passed s) \<and> chan_send outbound_capacity e (ws_outbound_ch c) = None
           then Some (s\<lparr>cn_passed := remove1 e (cn_passed s)\<rparr>) else None)
      | Command e \<Rightarrow>
          (case chan_recv (ws_command_ch c) of
             Some (e', rest) \<Rightarrow>
               (if e = e' then Some (s\<lparr>cn_client := c\<lparr>ws_command_ch := rest\<rparr>\<rparr>) else None)
           | None \<Rightarrow> None)
      | StopCalled \<Rightarrow> map_option (\<lambda>c'. s\<lparr>cn_client := c'\<rparr>) (stop_client c))"

lemma conn_step_exec: "conn_step s l t \<longleftrightarrow> exec_step s l = Some t"
proof (cases l)
  case (Wrote e fs)
  then show ?thesis
    by (cases "ws_outbound_ch (cn_client s)")
      (auto simp: any_step_iff exec_step_def Let_def writeEnvelope_def split: if_splits)
next
  case (WriteFailed e)
  then show ?thesis
    by (cases "ws_outbound_ch (cn_client s)")
      (auto simp: any_step_iff exec_step_def Let_def writeEnvelope_def split: if_splits)
next
  case (Frame i m)
  then show ?thesis
    by (cases "ParseEnvelope m") (auto simp: any_step_iff exec_step_def Let_def split: if_splits)
next
  case (Command e)
  then show ?thesis
    by (cases "ws_command_ch (cn_client s)") (auto simp: any_step_iff exec_step_def Let_def)
qed (auto simp: any_step_iff exec_step_def Let_def split: if_splits)

lemma run_exec: "spec_run exec_step s ls = Some t \<Longrightarrow> run_of conn_step s ls t"
proof (induction ls arbitrary: s)
  case Nil
  then show ?case by (simp add: run_nil)
next
  case (Cons l ls)
  then obtain u where "exec_step s l = Some u" "spec_run exec_step u ls = Some t"
    by (auto split: option.splits)
  with Cons.IH [of u] conn_step_exec show ?case by (blast intro: run_Cons)
qed

text \<open>A send that nothing interrupts is \<open>sendEnvelope\<close>.\<close>

lemma send_atomic:
  assumes "sendEnvelope e (cn_client s) = Inr c"
  shows "run_of conn_step s [Checked e, Queued e] (s\<lparr>cn_client := c\<rparr>)"
  using assms
  by (intro run_exec) (auto simp: exec_step_def Let_def sendEnvelope_Inr IsConnected_def chan_send_def)

section \<open>A run\<close>

definition sample_start :: connection where
  "sample_start = Start (SetOnConnect (NewClient DefaultClientConfig))"

definition sample_envelope :: outgoing where
  "sample_envelope = NewEnvelope ''id-1'' 0 (HeartbeatPayload (NewHeartbeat ''k1'' 0)) ''k1''"

definition sample_command :: incoming where
  "sample_command =
     NewEnvelopeWithID ''id-2'' EnvelopeCommand (Some JNull) ''k1'' 63890070400000000000"

lemma sample_message:
  "ParseEnvelope (Some (ToJSON 0 sample_command)) = Inr sample_command"
  by (subst parse_written_envelope)
    (simp_all add: sample_command_def NewEnvelopeWithID_def EnvelopeCommand_def four_digit_year_def
      enc_raw_def)

definition sample_outage :: "conn_label list" where
  "sample_outage = failures [seconds 5, seconds 10]"

definition sample_session :: "conn_label list" where
  "sample_session =
     [DialOk, Checked sample_envelope, Queued sample_envelope,
      Wrote sample_envelope [TextFrame sample_envelope, PingFrame],
      Frame CurrentReader (Some (ToJSON 0 sample_command)), Command sample_command,
      ReadEnd CurrentReader (Some ''plan limit''), LoopEnd]"

definition sample_run :: "conn_label list" where
  "sample_run = sample_outage @ sample_session @ Judged ''plan limit'' # [Timer (seconds 300)]"

lemma sample_exec: "spec_run exec_step sample_start sample_run \<noteq> None"
  by code_simp

lemma sample_run_ok: "\<exists>t. run_of conn_step sample_start sample_run t"
  using sample_exec by (auto intro: run_exec)

lemma sample_durations: "durations 5000000000 300000000000 sample_start"
  by code_simp

lemma sample_init: "conn_init sample_start"
  by (auto simp: conn_init_def sample_start_def)

lemma sample_connects:
  "\<exists>t. run_of conn_step sample_start (sample_outage @ [DialOk]) t"
proof -
  have "spec_run exec_step sample_start (sample_outage @ [DialOk]) \<noteq> None"
    by code_simp
  then show ?thesis by (auto intro: run_exec)
qed

end
