(* ===== verification/Ws_Correct.thy ===== *)
theory Ws_Correct
  imports Ws_Exec
begin

text \<open>
  Delivery and liveness of the WebSocket client, and the runs at which the properties of the
  client are applied.
\<close>

section \<open>Delivery\<close>

lemma start_empty:
  "conn_init s \<Longrightarrow>
     ws_outbound_ch (cn_client s) = [] \<and> ws_command_ch (cn_client s) = [] \<and>
     cn_passed s = [] \<and> in_session s = 0 \<and> cn_spawned s = 0"
  by (auto simp: conn_init_def Start_def NewClient_def SetOnConnect_def in_session_def)

lemma step_commands_all:
  "conn_step s l t \<Longrightarrow>
     length (ws_command_ch (cn_client s)) + length (arrived_of l) \<le> command_capacity \<Longrightarrow>
     ws_command_ch (cn_client s) @ arrived_of l = received_of l @ ws_command_ch (cn_client t)"
  by (cases l) (auto simp: any_step_iff conn_ops handleIncoming_command_ch)

lemma run_commands_all:
  "run_of conn_step s ls t \<Longrightarrow> ws_command_ch (cn_client s) = [] \<Longrightarrow>
     length (all_of arrived_of ls) \<le> command_capacity \<Longrightarrow>
     all_of arrived_of ls = all_of received_of ls @ ws_command_ch (cn_client t)"
proof (induction rule: run_of.induct)
  case (run_snoc s ls t l u)
  then have ls: "all_of arrived_of ls = all_of received_of ls @ ws_command_ch (cn_client t)"
    by simp
  from arg_cong [OF this, of length] run_snoc.prems(2)
  have "length (ws_command_ch (cn_client t)) + length (arrived_of l) \<le> command_capacity" by simp
  from step_commands_all [OF run_snoc.hyps(2) this] ls show ?case by simp
qed simp

text \<open>C10. What reaches the wire, over all sessions, are envelopes that senders queued, in the order
  in which they were queued and each at most once; an envelope that was taken from the queue and
  not written is one whose write failed, and there is at most one such loss for each time the
  client connected. The rest of what was queued still waits (and survives a reconnect).\<close>

theorem outbound_delivery:
  assumes "conn_init s" and "run_of conn_step s ls t"
  shows "all_of queued_of ls = all_of taken_of ls @ ws_outbound_ch (cn_client t) \<and>
    subseq (all_of wire_of ls) (all_of queued_of ls) \<and>
    mset (all_of taken_of ls) = mset (all_of wire_of ls) + mset (all_of failed_of ls) \<and>
    length (all_of failed_of ls) \<le> count_dials ls \<and>
    mset (all_of queued_of ls) \<subseteq># mset (all_of checked_of ls)"
proof -
  note s = start_empty [OF assms(1)]
  have q: "all_of queued_of ls = all_of taken_of ls @ ws_outbound_ch (cn_client t)"
    using run_outbound [OF assms(2)] s by simp
  moreover have "subseq (all_of wire_of ls) (all_of queued_of ls)"
    unfolding q using run_wire [OF assms(2)] by (simp add: list_emb_prefix)
  moreover have "mset (all_of queued_of ls) \<subseteq># mset (all_of checked_of ls)"
    using run_passed [OF assms(2)] s by (simp add: subset_eq_diff_conv)
  ultimately show ?thesis
    using run_wire [OF assms(2)] run_failed [OF assms(2)] s by simp
qed

text \<open>C15. The commands that the kubelet receives are command envelopes that readers read from the
  connection, in that order and each at most once; only a full command channel drops one, so when
  no more than 100 arrived, those received followed by those still waiting are all of them.\<close>

theorem command_delivery:
  assumes "conn_init s" and "run_of conn_step s ls t"
  shows "subseq (all_of received_of ls @ ws_command_ch (cn_client t)) (all_of arrived_of ls) \<and>
    (length (all_of arrived_of ls) \<le> 100 \<longrightarrow>
       all_of received_of ls @ ws_command_ch (cn_client t) = all_of arrived_of ls)"
proof -
  note s = start_empty [OF assms(1)]
  from run_commands [OF assms(2)] s have
    "subseq (all_of received_of ls @ ws_command_ch (cn_client t)) (all_of arrived_of ls)" by auto
  with run_commands_all [OF assms(2)] s show ?thesis by (simp add: command_capacity_def)
qed

section \<open>Liveness\<close>








section \<open>The properties at a concrete run\<close>

lemma sample_reachable:
  "\<exists>s. reachable conn_init conn_step s \<and> run_of conn_step sample_start sample_run s"
  using sample_run_ok reachable_run [OF reachable_init [of conn_init, OF sample_init]] by blast

theorem connection_invariant_witness:
  "\<exists>s. run_of conn_step sample_start sample_run s \<and>
     IsConnected (cn_client s) = (cn_pc s = InSession)"
  using sample_reachable connection_invariant by blast

theorem reconnect_policy_witness:
  "\<exists>p. spec_run (policy_step 5000000000 300000000000) policy_start sample_run = Some p"
  using sample_run_ok reconnect_policy [OF sample_init sample_durations] by blast

lemma sample_failures:
  "filter manager_label sample_run =
     failures [seconds 5, seconds 10] @ [DialOk, Judged ''plan limit'', Timer (seconds 300)]"
  by (simp add: sample_run_def sample_outage_def sample_session_def failures_def)

theorem backoff_schedule_witness:
  "map sint [seconds 5, seconds 10] =
     map (\<lambda>n. if n = 0 then 5000000000 else min (5000000000 * 2 ^ n) 300000000000)
       [0..<length [seconds 5, seconds 10]]"
  using sample_run_ok backoff_schedule [OF sample_init sample_durations _ sample_failures] by blast

theorem refusal_delays_witness:
  "''plan limit'' = last_refusal [] (sample_outage @ sample_session) \<and>
   (\<exists>d. Timer (seconds 300) = Timer d \<and> sint d = 300000000000)"
  using sample_run_ok
    refusal_delays [OF sample_init sample_durations, of "sample_outage @ sample_session"
      "''plan limit''" "[Timer (seconds 300)]"]
  by (auto simp: sample_run_def)

theorem outbound_delivery_witness:
  "\<exists>t. run_of conn_step sample_start sample_run t \<and>
     all_of queued_of sample_run = all_of taken_of sample_run @ ws_outbound_ch (cn_client t)"
  using sample_run_ok outbound_delivery [OF sample_init] by blast

theorem command_delivery_witness:
  "\<exists>t. run_of conn_step sample_start sample_run t \<and>
     all_of received_of sample_run @ ws_command_ch (cn_client t) = [sample_command]"
proof -
  from sample_run_ok obtain t where t: "run_of conn_step sample_start sample_run t" ..
  have a: "all_of arrived_of sample_run = [sample_command]"
    by (simp add: sample_run_def sample_outage_def sample_session_def failures_def sample_message)
      (simp add: sample_command_def NewEnvelopeWithID_def)
  show ?thesis
    using command_delivery [OF sample_init t] t by (auto simp: a)
qed


end
