(* ===== verification/Config.thy ===== *)
theory Config
  imports Go_Strings
begin

text \<open>
  The configuration of the kubelet (\<open>pkg/config/config.go\<close>) and how the program puts it together
  from defaults, environment and flags (\<open>cmd/virtual_kubelet/main.go\<close>). The \<open>yaml\<close> tags are never
  used: no configuration file is read. The environment is a function that gives the empty string
  for an unset variable, as \<open>os.Getenv\<close> does.
\<close>

section \<open>Data\<close>

record ws_settings =
  wc_reconnect_interval :: i64
  wc_max_reconnect_delay :: i64
  wc_ping_interval :: i64
  wc_pong_timeout :: i64
  wc_write_timeout :: i64
  wc_read_timeout :: i64

record runpod_settings =
  rpc_api_key :: string
  rpc_default_cloud_type :: string
  rpc_datacenter_ids :: "string list"
  rpc_max_gpu_price :: float64

record vastai_settings =
  vac_api_key :: string
  vac_datacenter_ids :: "string list"
  vac_max_gpu_price :: float64

record salad_settings =
  sac_api_key :: string
  sac_max_gpu_price :: float64

record aws_settings =
  awc_access_key_id :: string
  awc_secret_access_key :: string
  awc_region :: string
  awc_availability_zones :: "string list"
  awc_max_instance_price :: float64

record gcp_settings =
  gcc_service_account_key :: string
  gcc_project_id :: string
  gcc_zones :: "string list"
  gcc_max_instance_price :: float64

record provider_settings =
  pvc_enabled :: "string list"
  pvc_runpod :: runpod_settings
  pvc_vastai :: vastai_settings
  pvc_salad :: salad_settings
  pvc_aws :: aws_settings
  pvc_gcp :: gcp_settings

record config =
  cf_backend_url :: string
  cf_backend_api_key :: string
  cf_websocket :: ws_settings
  cf_providers :: provider_settings
  cf_cluster_name :: string
  cf_node_name :: string
  cf_operating_system :: string
  cf_internal_ip :: string
  cf_listen_port :: i64
  cf_health_address :: string
  cf_namespace :: string
  cf_reconcile_interval :: i64
  cf_log_level :: string
  cf_heartbeat_interval :: i64

definition DefaultConfig :: config where
  "DefaultConfig =
     \<lparr>cf_backend_url = ''wss://gpuconduit.io/api/kubelet/ws'',
      cf_backend_api_key = [],
      cf_websocket =
        \<lparr>wc_reconnect_interval = seconds 5, wc_max_reconnect_delay = seconds 300,
         wc_ping_interval = seconds 30, wc_pong_timeout = seconds 10,
         wc_write_timeout = seconds 10, wc_read_timeout = seconds 60\<rparr>,
      cf_providers =
        \<lparr>pvc_enabled = [''runpod''],
         pvc_runpod = \<lparr>rpc_api_key = [], rpc_default_cloud_type = ''SECURE'',
                       rpc_datacenter_ids = [], rpc_max_gpu_price = 1 / 2\<rparr>,
         pvc_vastai = \<lparr>vac_api_key = [], vac_datacenter_ids = [], vac_max_gpu_price = 1 / 2\<rparr>,
         pvc_salad = \<lparr>sac_api_key = [], sac_max_gpu_price = 1 / 2\<rparr>,
         pvc_aws = \<lparr>awc_access_key_id = [], awc_secret_access_key = [],
                    awc_region = ''us-east-1'', awc_availability_zones = [],
                    awc_max_instance_price = 2\<rparr>,
         pvc_gcp = \<lparr>gcc_service_account_key = [], gcc_project_id = [], gcc_zones = [],
                    gcc_max_instance_price = 2\<rparr>\<rparr>,
      cf_cluster_name = ''default'',
      cf_node_name = ''conduit-node'',
      cf_operating_system = ''Linux'',
      cf_internal_ip = ''127.0.0.1'',
      cf_listen_port = 10250,
      cf_health_address = '':8080'',
      cf_namespace = ''kube-system'',
      cf_reconcile_interval = seconds 30,
      cf_log_level = ''info'',
      cf_heartbeat_interval = seconds 300\<rparr>"

section \<open>Operations\<close>

definition valid_providers :: "string list" where
  "valid_providers = [''runpod'', ''vastai'', ''salad'', ''aws'', ''gcp'']"

text \<open>The error of the first check that fails, or \<open>None\<close>.\<close>

definition Validate :: "config \<Rightarrow> string option" where
  "Validate c =
     (if cf_backend_url c = [] then Some ''backend_url is required''
      else if cf_backend_api_key c = [] then Some ''backend_api_key is required''
      else if cf_node_name c = [] then Some ''node_name is required''
      else if sle (cf_listen_port c) 0 \<or> slt 65535 (cf_listen_port c)
        then Some ''listen_port must be between 1 and 65535''
      else if pvc_enabled (cf_providers c) = [] then Some ''at least one provider must be enabled''
      else (case find (\<lambda>p. p \<notin> set valid_providers) (pvc_enabled (cf_providers c)) of
              Some p \<Rightarrow> Some (''invalid provider: '' @ p)
            | None \<Rightarrow>
                if sle (wc_reconnect_interval (cf_websocket c)) 0
                then Some ''websocket reconnect_interval must be positive''
                else if sle (wc_ping_interval (cf_websocket c)) 0
                then Some ''websocket ping_interval must be positive''
                else None))"

definition KeyModeLocal :: string where "KeyModeLocal = ''local''"
definition KeyModePlatform :: string where "KeyModePlatform = ''platform''"

definition HasLocalProviderKey :: "config \<Rightarrow> bool" where
  "HasLocalProviderKey c =
     (let p = cf_providers c
      in rpc_api_key (pvc_runpod p) \<noteq> [] \<or>
         vac_api_key (pvc_vastai p) \<noteq> [] \<or>
         sac_api_key (pvc_salad p) \<noteq> [] \<or>
         (awc_access_key_id (pvc_aws p) \<noteq> [] \<and> awc_secret_access_key (pvc_aws p) \<noteq> []) \<or>
         gcc_service_account_key (pvc_gcp p) \<noteq> [])"

definition KeyMode :: "config \<Rightarrow> string" where
  "KeyMode c = (if HasLocalProviderKey c then KeyModeLocal else KeyModePlatform)"

definition IsProviderEnabled :: "string \<Rightarrow> config \<Rightarrow> bool" where
  "IsProviderEnabled provider c =
     list_ex (\<lambda>enabled. enabled = provider) (pvc_enabled (cf_providers c))"

definition GetWebSocketURL :: "config \<Rightarrow> string" where
  "GetWebSocketURL c =
     (let url = cf_backend_url c
      in if has_prefix url ''http://'' then replace_first ''http://'' ''ws://'' url
         else if has_prefix url ''https://'' then replace_first ''https://'' ''wss://'' url
         else if \<not> has_prefix url ''ws://'' \<and> \<not> has_prefix url ''wss://'' then ''wss://'' @ url
         else url)"

definition GetBackendHTTPURL :: "config \<Rightarrow> string" where
  "GetBackendHTTPURL c =
     (let url = cf_backend_url c;
          url1 = (if has_prefix url ''ws://'' then replace_first ''ws://'' ''http://'' url
                  else if has_prefix url ''wss://'' then replace_first ''wss://'' ''https://'' url
                  else if \<not> has_prefix url ''http://'' \<and> \<not> has_prefix url ''https://''
                    then ''https://'' @ url
                  else url)
      in if contains url1 ''/api/kubelet/ws'' then replace_first ''/api/kubelet/ws'' [] url1
         else url1)"

text \<open>A variable that is set and not empty replaces a value.\<close>

definition override :: "string \<Rightarrow> string \<Rightarrow> string" where
  "override new old = (if new \<noteq> [] then new else old)"

definition LoadFromEnvironment :: "(string \<Rightarrow> string) \<Rightarrow> config \<Rightarrow> config" where
  "LoadFromEnvironment getenv c =
     c\<lparr>cf_backend_url := override (getenv ''BACKEND_URL'') (cf_backend_url c),
       cf_backend_api_key := override (getenv ''BACKEND_API_KEY'') (cf_backend_api_key c),
       cf_cluster_name := override (getenv ''CLUSTER_NAME'') (cf_cluster_name c),
       cf_node_name := override (getenv ''NODE_NAME'') (cf_node_name c),
       cf_namespace := override (getenv ''NAMESPACE'') (cf_namespace c),
       cf_log_level := override (getenv ''LOG_LEVEL'') (cf_log_level c),
       cf_providers :=
         (let p = cf_providers c
          in p\<lparr>pvc_runpod := (pvc_runpod p)\<lparr>
                 rpc_api_key := override (getenv ''RUNPOD_API_KEY'') (rpc_api_key (pvc_runpod p))\<rparr>,
               pvc_vastai := (pvc_vastai p)\<lparr>
                 vac_api_key := override (getenv ''VASTAI_API_KEY'') (vac_api_key (pvc_vastai p))\<rparr>,
               pvc_salad := (pvc_salad p)\<lparr>
                 sac_api_key := override (getenv ''SALAD_API_KEY'') (sac_api_key (pvc_salad p))\<rparr>,
               pvc_aws := (pvc_aws p)\<lparr>
                 awc_access_key_id :=
                   override (getenv ''AWS_ACCESS_KEY_ID'') (awc_access_key_id (pvc_aws p)),
                 awc_secret_access_key :=
                   override (getenv ''AWS_SECRET_ACCESS_KEY'') (awc_secret_access_key (pvc_aws p)),
                 awc_region := override (getenv ''AWS_REGION'') (awc_region (pvc_aws p))\<rparr>,
               pvc_gcp := (pvc_gcp p)\<lparr>
                 gcc_service_account_key :=
                   override (getenv ''GOOGLE_APPLICATION_CREDENTIALS'')
                     (gcc_service_account_key (pvc_gcp p)),
                 gcc_project_id :=
                   override (getenv ''GCP_PROJECT_ID'') (gcc_project_id (pvc_gcp p))\<rparr>\<rparr>)\<rparr>"

section \<open>The command line\<close>

text \<open>The flags that reach the configuration; each has its zero value when it is not given.\<close>

record flags =
  fl_node_name :: string
  fl_cluster_name :: string
  fl_operating_system :: string
  fl_internal_ip :: string
  fl_listen_port :: i64
  fl_log_level :: string
  fl_backend_url :: string
  fl_backend_api_key :: string
  fl_health_address :: string
  fl_namespace :: string
  fl_reconcile_interval :: i64
  fl_enabled_providers :: string

definition no_flags :: flags where
  "no_flags =
     \<lparr>fl_node_name = [], fl_cluster_name = [], fl_operating_system = [], fl_internal_ip = [],
      fl_listen_port = 0, fl_log_level = [], fl_backend_url = [], fl_backend_api_key = [],
      fl_health_address = [], fl_namespace = [], fl_reconcile_interval = 0,
      fl_enabled_providers = []\<rparr>"

definition provider_list :: "string \<Rightarrow> string list" where
  "provider_list s = filter (\<lambda>p. p \<noteq> []) (map trim_space (split_on (CHR '','') s))"

definition overrideConfiguration :: "flags \<Rightarrow> config \<Rightarrow> config" where
  "overrideConfiguration f c =
     c\<lparr>cf_node_name := override (fl_node_name f) (cf_node_name c),
       cf_cluster_name := override (fl_cluster_name f) (cf_cluster_name c),
       cf_operating_system := override (fl_operating_system f) (cf_operating_system c),
       cf_internal_ip := override (fl_internal_ip f) (cf_internal_ip c),
       cf_listen_port := (if fl_listen_port f \<noteq> 0 then fl_listen_port f else cf_listen_port c),
       cf_backend_url := override (fl_backend_url f) (cf_backend_url c),
       cf_backend_api_key := override (fl_backend_api_key f) (cf_backend_api_key c),
       cf_health_address := override (fl_health_address f) (cf_health_address c),
       cf_namespace := override (fl_namespace f) (cf_namespace c),
       cf_log_level := override (fl_log_level f) (cf_log_level c),
       cf_reconcile_interval :=
         (if fl_reconcile_interval f \<noteq> 0 then fl_reconcile_interval f * seconds 1
          else cf_reconcile_interval c),
       cf_providers :=
         (let list = provider_list (fl_enabled_providers f)
          in if fl_enabled_providers f \<noteq> [] \<and> list \<noteq> []
             then (cf_providers c)\<lparr>pvc_enabled := list\<rparr>
             else cf_providers c)\<rparr>"

definition loadConfiguration :: "(string \<Rightarrow> string) \<Rightarrow> config" where
  "loadConfiguration getenv = LoadFromEnvironment getenv DefaultConfig"

text \<open>The configuration \<open>main\<close> works with.\<close>

definition effective_config :: "(string \<Rightarrow> string) \<Rightarrow> flags \<Rightarrow> config" where
  "effective_config getenv f = overrideConfiguration f (loadConfiguration getenv)"

section \<open>Log levels\<close>

datatype log_level = LevelDebug | LevelInfo | LevelWarn | LevelError

text \<open>The values of \<open>slog\<close>: a record is written if its level is at least the handler's.\<close>

fun level_value :: "log_level \<Rightarrow> int" where
  "level_value LevelDebug = - 4"
| "level_value LevelInfo = 0"
| "level_value LevelWarn = 4"
| "level_value LevelError = 8"

instantiation log_level :: linorder
begin

definition less_eq_log_level :: "log_level \<Rightarrow> log_level \<Rightarrow> bool" where
  "less_eq_log_level a b \<longleftrightarrow> level_value a \<le> level_value b"

definition less_log_level :: "log_level \<Rightarrow> log_level \<Rightarrow> bool" where
  "less_log_level a b \<longleftrightarrow> level_value a < level_value b"

instance
proof
  fix a b c :: log_level
  show "a < b \<longleftrightarrow> a \<le> b \<and> \<not> b \<le> a" "a \<le> a" "a \<le> b \<or> b \<le> a"
    by (auto simp: less_eq_log_level_def less_log_level_def)
  show "a \<le> b \<Longrightarrow> b \<le> c \<Longrightarrow> a \<le> c"
    by (simp add: less_eq_log_level_def)
  show "a \<le> b \<Longrightarrow> b \<le> a \<Longrightarrow> a = b"
    by (cases a; cases b) (simp_all add: less_eq_log_level_def)
qed

end

definition initializeLogger :: "string \<Rightarrow> log_level" where
  "initializeLogger level =
     (if level = ''debug'' then LevelDebug
      else if level = ''info'' then LevelInfo
      else if level = ''warn'' then LevelWarn
      else if level = ''error'' then LevelError
      else LevelInfo)"

section \<open>Lemmas\<close>

lemmas effective_defs = effective_config_def loadConfiguration_def LoadFromEnvironment_def
  overrideConfiguration_def

lemma override_Nil [simp]: "override new old = [] \<longleftrightarrow> new = [] \<and> old = []"
  by (simp add: override_def)

lemma sint_seconds:
  "\<bar>n\<bar> < 2 ^ 33 \<Longrightarrow> sint (seconds n) = n * 1000000000"
  unfolding seconds_def by (rule sint_of_int_i64) auto

lemma find_invalid: "find (\<lambda>p. p \<notin> A) xs = None \<longleftrightarrow> set xs \<subseteq> A"
  by (auto simp: find_None_iff)

lemma Validate_None [config_simps]:
  "Validate c = None \<longleftrightarrow>
     cf_backend_url c \<noteq> [] \<and> cf_backend_api_key c \<noteq> [] \<and> cf_node_name c \<noteq> [] \<and>
     0 < sint (cf_listen_port c) \<and> sint (cf_listen_port c) \<le> 65535 \<and>
     pvc_enabled (cf_providers c) \<noteq> [] \<and>
     set (pvc_enabled (cf_providers c)) \<subseteq> set valid_providers \<and>
     0 < sint (wc_reconnect_interval (cf_websocket c)) \<and>
     0 < sint (wc_ping_interval (cf_websocket c))"
  by (auto simp: Validate_def sle_def slt_def not_le not_less simp flip: find_invalid
      split: option.splits)

lemma provider_list_trimmed:
  "p \<in> set (provider_list s) \<Longrightarrow> p \<noteq> [] \<and> trim_space p = p \<and> CHR '','' \<notin> set p"
proof -
  assume "p \<in> set (provider_list s)"
  then obtain w where w: "w \<in> set (split_on (CHR '','') s)" "p = trim_space w" "p \<noteq> []"
    by (auto simp: provider_list_def)
  with split_on_no_sep [OF w(1)] trim_space_set [of w] show ?thesis by auto
qed

section \<open>Properties\<close>

text \<open>C30. The program starts with a valid configuration exactly when a token is given by flag or
  environment, the port flag (if given) is a port, and every name in the provider flag (if it
  names any) is a known provider: nothing else the environment or the flags say can make it
  invalid.\<close>

theorem effective_config_valid:
  "Validate (effective_config getenv f) = None \<longleftrightarrow>
     \<not> (fl_backend_api_key f = [] \<and> getenv ''BACKEND_API_KEY'' = []) \<and>
     (fl_listen_port f = 0 \<or> 0 < sint (fl_listen_port f) \<and> sint (fl_listen_port f) \<le> 65535) \<and>
     set (provider_list (fl_enabled_providers f)) \<subseteq> set valid_providers"
proof -
  have p: "provider_list [] = []"
    by (simp add: provider_list_def)
  have port: "sint (10250 :: i64) = 10250" by simp
  have sec: "sint (seconds 5) = 5000000000" "sint (seconds 30) = 30000000000"
    by (simp_all add: sint_seconds)
  show ?thesis
    by (auto simp: Validate_None effective_defs DefaultConfig_def Let_def sec p
        valid_providers_def)
qed

text \<open>Precedence: what a flag says wins over the environment, which wins over the default; a
  value that no flag and no variable sets is the default, and a field without a variable is the
  flag's or the default.\<close>

theorem config_precedence:
  "let c = effective_config getenv f; d = DefaultConfig;
       pick = (\<lambda>flag var def. if flag \<noteq> [] then flag else if getenv var \<noteq> [] then getenv var else def)
   in cf_backend_url c = pick (fl_backend_url f) ''BACKEND_URL'' (cf_backend_url d) \<and>
      cf_backend_api_key c = pick (fl_backend_api_key f) ''BACKEND_API_KEY'' (cf_backend_api_key d) \<and>
      cf_cluster_name c = pick (fl_cluster_name f) ''CLUSTER_NAME'' (cf_cluster_name d) \<and>
      cf_node_name c = pick (fl_node_name f) ''NODE_NAME'' (cf_node_name d) \<and>
      cf_namespace c = pick (fl_namespace f) ''NAMESPACE'' (cf_namespace d) \<and>
      cf_log_level c = pick (fl_log_level f) ''LOG_LEVEL'' (cf_log_level d) \<and>
      pvc_enabled (cf_providers c) =
        (if provider_list (fl_enabled_providers f) = [] then [''runpod'']
         else provider_list (fl_enabled_providers f)) \<and>
      cf_websocket c = cf_websocket d"
proof -
  have "provider_list [] = []"
    by (simp add: provider_list_def)
  then show ?thesis
    unfolding Let_def
    by (intro conjI) (simp_all add: effective_defs DefaultConfig_def override_def Let_def)
qed

text \<open>The kubelet announces local keys exactly when the environment holds a complete credential
  of some provider, enabled or not; no flag has a say.\<close>

theorem key_mode_environment:
  "KeyMode (effective_config getenv f) =
     (if getenv ''RUNPOD_API_KEY'' = [] \<and> getenv ''VASTAI_API_KEY'' = [] \<and>
         getenv ''SALAD_API_KEY'' = [] \<and>
         (getenv ''AWS_ACCESS_KEY_ID'' = [] \<or> getenv ''AWS_SECRET_ACCESS_KEY'' = []) \<and>
         getenv ''GOOGLE_APPLICATION_CREDENTIALS'' = []
      then ''platform'' else ''local'')"
  by (simp add: KeyMode_def HasLocalProviderKey_def effective_defs DefaultConfig_def Let_def
      KeyModeLocal_def KeyModePlatform_def)

text \<open>The part of a URL after one of the four schemes, and whether the scheme is an insecure one.\<close>

definition url_rest :: "string \<Rightarrow> string" where
  "url_rest url =
     (if has_prefix url ''http://'' then drop 7 url
      else if has_prefix url ''https://'' then drop 8 url
      else if has_prefix url ''ws://'' then drop 5 url
      else if has_prefix url ''wss://'' then drop 6 url
      else url)"

definition url_plain :: "string \<Rightarrow> bool" where
  "url_plain url \<longleftrightarrow> has_prefix url ''http://'' \<or> has_prefix url ''ws://''"

lemma has_prefix_Cons [simp]:
  "has_prefix (c # s) (d # p) \<longleftrightarrow> c = d \<and> has_prefix s p"
  "has_prefix [] (d # p) \<longleftrightarrow> False"
  by (auto simp: has_prefix_def)

lemma replace_if_contained:
  "(if contains s old then replace_first old new s else s) = replace_first old new s"
  by (simp add: replace_first_absent)

text \<open>The scheme that a URL is written with, as the code distinguishes them.\<close>

lemma url_cases:
  obtains (http) r where "url = ''http://'' @ r" | (https) r where "url = ''https://'' @ r"
    | (ws) r where "url = ''ws://'' @ r" | (wss) r where "url = ''wss://'' @ r"
    | (none) "\<not> has_prefix url ''http://''" "\<not> has_prefix url ''https://''"
      "\<not> has_prefix url ''ws://''" "\<not> has_prefix url ''wss://''"
  by (auto simp: has_prefix_iff)

lemma ws_url:
  "GetWebSocketURL c =
     (if url_plain (cf_backend_url c) then ''ws://'' else ''wss://'') @ url_rest (cf_backend_url c)"
  by (cases "cf_backend_url c" rule: url_cases)
    (simp_all add: GetWebSocketURL_def url_plain_def url_rest_def)

lemma http_url:
  "GetBackendHTTPURL c =
     replace_first ''/api/kubelet/ws'' []
       ((if url_plain (cf_backend_url c) then ''http://'' else ''https://'') @
        url_rest (cf_backend_url c))"
  unfolding GetBackendHTTPURL_def Let_def replace_if_contained
  by (rule arg_cong [where f = "replace_first ''/api/kubelet/ws'' []"],
      cases "cf_backend_url c" rule: url_cases)
    (simp_all add: url_plain_def url_rest_def)

lemma url_scheme_again:
  "url_plain (''ws://'' @ r)" "url_rest (''ws://'' @ r) = r"
  "\<not> url_plain (''wss://'' @ r)" "url_rest (''wss://'' @ r) = r"
  by (simp_all add: url_plain_def url_rest_def)

text \<open>C31. Whatever scheme the backend URL has, or none, the WebSocket URL and the HTTP URL of the
  backend have the schemes of their protocols, with TLS unless the configured scheme is http or
  ws; the WebSocket URL keeps everything after the scheme, and asking for it again changes
  nothing.\<close>

theorem backend_urls:
  "GetWebSocketURL c = (if url_plain (cf_backend_url c) then ''ws://'' else ''wss://'') @
      url_rest (cf_backend_url c) \<and>
   GetWebSocketURL (c\<lparr>cf_backend_url := GetWebSocketURL c\<rparr>) = GetWebSocketURL c \<and>
   GetBackendHTTPURL c =
     replace_first ''/api/kubelet/ws'' []
       ((if url_plain (cf_backend_url c) then ''http://'' else ''https://'') @
        url_rest (cf_backend_url c))"
proof (intro conjI)
  show "GetWebSocketURL (c\<lparr>cf_backend_url := GetWebSocketURL c\<rparr>) = GetWebSocketURL c"
    using url_scheme_again by (simp only: ws_url config.simps split: if_split) auto
qed (rule ws_url http_url)+

end
