(* ===== verification/Handler.thy ===== *)
theory Handler
  imports Providers Wire
begin

text \<open>
  The command handler, \<open>pkg/command/handler.go\<close>: decoding of a command envelope, dispatch on the
  command type, and the response that every path returns. The kubelet's state \<open>'s\<close> is changed only
  through the reject callback, the world \<open>'w\<close> only through the providers.
\<close>

section \<open>Error codes and error responses\<close>

definition ErrCodeInvalidCommand :: string where "ErrCodeInvalidCommand = ''invalid_command''"
definition ErrCodeInvalidParams :: string where "ErrCodeInvalidParams = ''invalid_params''"
definition ErrCodeUnknownCommand :: string where "ErrCodeUnknownCommand = ''unknown_command''"
definition ErrCodeDeploymentFailed :: string where
  "ErrCodeDeploymentFailed = ''deployment_failed''"
definition ErrCodeTerminationFailed :: string where
  "ErrCodeTerminationFailed = ''termination_failed''"
definition ErrCodeStatusFailed :: string where "ErrCodeStatusFailed = ''status_failed''"
definition ErrCodeRejectFailed :: string where "ErrCodeRejectFailed = ''reject_failed''"

definition errorResponse :: "string \<Rightarrow> string \<Rightarrow> go_error \<Rightarrow> response" where
  "errorResponse cid code err =
     (case as_provider_error err of
        Some pe \<Rightarrow>
          NewErrorResponse cid (if pe_code pe \<noteq> [] then pe_code pe else code)
            (provider_error_text pe) (pe_message pe)
      | None \<Rightarrow> NewErrorResponse cid code (error_text err) [])"

section \<open>The handlers\<close>

type_synonym 's reject_func = "reject_params \<Rightarrow> 's \<Rightarrow> go_error option \<times> 's"

definition handleDeploy :: "'w manager \<Rightarrow> string \<Rightarrow> command \<Rightarrow> 'w \<Rightarrow> response \<times> 'w" where
  "handleDeploy m cid cmd w =
     (case DecodeData deploy_params_fields zero_deploy_params cmd of
        Inl e \<Rightarrow>
          (NewErrorResponse cid ErrCodeInvalidParams
             (''failed to parse deploy parameters: '' @ decode_error_text e) [], w)
      | Inr params \<Rightarrow>
          (case ManagerDeploy m (dp_provider params) params w of
             (Inl err, w') \<Rightarrow> (errorResponse cid ErrCodeDeploymentFailed err, w')
           | (Inr result, w') \<Rightarrow>
               (let result' = (if dr_provider result = []
                               then result\<lparr>dr_provider := dp_provider params\<rparr> else result)
                in (NewSuccessResponse cid (DeployData result'), w'))))"

definition handleTerminate :: "'w manager \<Rightarrow> string \<Rightarrow> command \<Rightarrow> 'w \<Rightarrow> response \<times> 'w" where
  "handleTerminate m cid cmd w =
     (case DecodeData instance_params_fields zero_instance_params cmd of
        Inl e \<Rightarrow>
          (NewErrorResponse cid ErrCodeInvalidParams
             (''failed to parse terminate parameters: '' @ decode_error_text e) [], w)
      | Inr params \<Rightarrow>
          (case ManagerTerminate m (ip_provider params) params w of
             (Some err, w') \<Rightarrow> (errorResponse cid ErrCodeTerminationFailed err, w')
           | (None, w') \<Rightarrow> (NewSuccessResponse cid (TerminateData True), w')))"

definition handleStatus :: "'w manager \<Rightarrow> string \<Rightarrow> command \<Rightarrow> 'w \<Rightarrow> response \<times> 'w" where
  "handleStatus m cid cmd w =
     (case DecodeData instance_params_fields zero_instance_params cmd of
        Inl e \<Rightarrow>
          (NewErrorResponse cid ErrCodeInvalidParams
             (''failed to parse status parameters: '' @ decode_error_text e) [], w)
      | Inr params \<Rightarrow>
          (case ManagerGetStatus m (ip_provider params) params w of
             (Inl err, w') \<Rightarrow> (errorResponse cid ErrCodeStatusFailed err, w')
           | (Inr result, w') \<Rightarrow>
               (let result1 = result\<lparr>sr_pod_name := ip_pod_name params,
                                     sr_provider_pod_id := ip_provider_pod_id params\<rparr>;
                    result2 = (if sr_provider result1 = []
                               then result1\<lparr>sr_provider := ip_provider params\<rparr> else result1)
                in (NewSuccessResponse cid (StatusData result2), w'))))"

definition handlePing :: "string \<Rightarrow> response" where
  "handlePing cid = NewSuccessResponse cid EmptyData"

definition handleReject ::
    "'s reject_func option \<Rightarrow> string \<Rightarrow> command \<Rightarrow> 's \<Rightarrow> response \<times> 's" where
  "handleReject rf cid cmd s =
     (case DecodeData reject_params_fields zero_reject_params cmd of
        Inl e \<Rightarrow>
          (NewErrorResponse cid ErrCodeInvalidParams
             (''failed to parse reject parameters: '' @ decode_error_text e) [], s)
      | Inr params \<Rightarrow>
          (case rf of
             None \<Rightarrow>
               (NewErrorResponse cid ErrCodeRejectFailed ''no reject handler configured'' [], s)
           | Some f \<Rightarrow>
               (case f params s of
                  (Some err, s') \<Rightarrow>
                    (NewErrorResponse cid ErrCodeRejectFailed (error_text err) [], s')
                | (None, s') \<Rightarrow> (NewSuccessResponse cid EmptyData, s'))))"

text \<open>\<open>Handle\<close> dispatches a decoded command; kubelet state and world are threaded as a pair.\<close>

definition Handle ::
    "'w manager \<Rightarrow> 's reject_func option \<Rightarrow> string \<Rightarrow> command \<Rightarrow> 's \<times> 'w \<Rightarrow>
     response \<times> 's \<times> 'w" where
  "Handle m rf cid cmd sw =
     (case sw of (s, w) \<Rightarrow>
        if cmd_type cmd = CommandDeploy then
          (case handleDeploy m cid cmd w of (r, w') \<Rightarrow> (r, s, w'))
        else if cmd_type cmd = CommandTerminate then
          (case handleTerminate m cid cmd w of (r, w') \<Rightarrow> (r, s, w'))
        else if cmd_type cmd = CommandStatus then
          (case handleStatus m cid cmd w of (r, w') \<Rightarrow> (r, s, w'))
        else if cmd_type cmd = CommandPing then (handlePing cid, s, w)
        else if cmd_type cmd = CommandReject then
          (case handleReject rf cid cmd s of (r, s') \<Rightarrow> (r, s', w))
        else (NewErrorResponse cid ErrCodeUnknownCommand
                (''unknown command type: '' @ cmd_type cmd) [], s, w))"

definition HandleCommand ::
    "'w manager \<Rightarrow> 's reject_func option \<Rightarrow> json option envelope \<Rightarrow> 's \<times> 'w \<Rightarrow>
     response \<times> 's \<times> 'w" where
  "HandleCommand m rf env sw =
     (case DecodePayload command_fields zero_command env of
        Inl e \<Rightarrow>
          (NewErrorResponse (env_id env) ErrCodeInvalidCommand
             (''failed to parse command: '' @ decode_error_text e) [], sw)
      | Inr cmd \<Rightarrow> Handle m rf (env_id env) cmd sw)"

text \<open>\<open>ExecuteCommand\<close> adds only the measured duration to the log.\<close>

definition ExecuteCommand ::
    "'w manager \<Rightarrow> 's reject_func option \<Rightarrow> json option envelope \<Rightarrow> 's \<times> 'w \<Rightarrow>
     response \<times> 's \<times> 'w" where
  "ExecuteCommand m rf env sw = HandleCommand m rf env sw"

definition GetAvailableProviders :: "string list \<Rightarrow> 'w manager \<Rightarrow> string list option" where
  "GetAvailableProviders ord m = ListProviders ord m"

lemmas handle_defs =
  handleDeploy_def handleTerminate_def handleStatus_def handlePing_def handleReject_def

lemma commands_distinct [simp]:
  "CommandTerminate \<noteq> CommandDeploy" "CommandStatus \<noteq> CommandDeploy"
  "CommandStatus \<noteq> CommandTerminate" "CommandPing \<noteq> CommandDeploy"
  "CommandPing \<noteq> CommandTerminate" "CommandPing \<noteq> CommandStatus"
  "CommandReject \<noteq> CommandDeploy" "CommandReject \<noteq> CommandTerminate"
  "CommandReject \<noteq> CommandStatus" "CommandReject \<noteq> CommandPing"
  by (simp_all add: command_type_defs)

lemmas commands_distinct' [simp] = commands_distinct [THEN not_sym]

section \<open>Every command gets one well-formed response with its own id\<close>

definition answers :: "string \<Rightarrow> response \<Rightarrow> bool" where
  "answers cid r \<longleftrightarrow> rs_command_id r = cid \<and> response_ok r"

lemma answers_success [simp]: "answers cid (NewSuccessResponse cid d)"
  by (simp add: answers_def) (simp add: NewSuccessResponse_def)

lemma answers_error [simp]: "answers cid (NewErrorResponse cid c m p)"
  by (simp add: answers_def) (simp add: NewErrorResponse_def)

lemma answers_errorResponse [simp]: "answers cid (errorResponse cid c e)"
  by (simp add: errorResponse_def split: option.splits)

lemma answers_handlers:
  "answers cid (fst (handleDeploy m cid cmd w))"
  "answers cid (fst (handleTerminate m cid cmd w))"
  "answers cid (fst (handleStatus m cid cmd w))"
  "answers cid (handlePing cid)"
  "answers cid (fst (handleReject rf cid cmd s))"
  by (simp_all add: handle_defs Let_def split: sum.splits option.splits prod.splits)

lemma answers_Handle: "answers cid (fst (Handle m rf cid cmd sw))"
  by (simp add: Handle_def split_beta answers_handlers)

lemma answers_ExecuteCommand: "answers (env_id env) (fst (ExecuteCommand m rf env sw))"
  by (simp add: ExecuteCommand_def HandleCommand_def answers_Handle split: sum.splits)

text \<open>C22. Every command envelope, well-formed or not, of a known type or not, gets exactly one
  response, which carries the envelope's id and is well-formed: what the platform reads has data and
  a null error when the status is success, and error details and null data when it is error.\<close>

theorem response_well_formed:
  "let j = enc_response (fst (ExecuteCommand m rf env sw))
   in member ''command_id'' j = Some (JStr (env_id env)) \<and>
      (if member ''status'' j = Some (JStr ''success'')
       then member ''error'' j = Some JNull \<and> member ''data'' j \<noteq> Some JNull
       else member ''status'' j = Some (JStr ''error'') \<and>
            member ''error'' j \<noteq> Some JNull \<and> member ''data'' j = Some JNull)"
  using answers_ExecuteCommand [of env m rf sw]
  by (cases "rs_status (fst (ExecuteCommand m rf env sw))")
    (simp_all add: answers_def response_ok_def Let_def)

section \<open>What a command can change\<close>

definition command_of :: "json option envelope \<Rightarrow> command option" where
  "command_of env =
     (case DecodePayload command_fields zero_command env of Inl e \<Rightarrow> None | Inr c \<Rightarrow> Some c)"

lemma ExecuteCommand_cases:
  "ExecuteCommand m rf env sw =
     (case command_of env of
        None \<Rightarrow> (fst (ExecuteCommand m rf env sw), sw)
      | Some cmd \<Rightarrow> Handle m rf (env_id env) cmd sw)"
  by (simp add: ExecuteCommand_def HandleCommand_def command_of_def split: sum.splits)


section \<open>Malformed commands\<close>

text \<open>The parameters of a command of a known type that takes parameters do not decode.\<close>

definition bad_params :: "command \<Rightarrow> bool" where
  "bad_params cmd \<longleftrightarrow>
     (if cmd_type cmd = CommandDeploy
      then isl (DecodeData deploy_params_fields zero_deploy_params cmd)
      else if cmd_type cmd \<in> {CommandTerminate, CommandStatus}
      then isl (DecodeData instance_params_fields zero_instance_params cmd)
      else if cmd_type cmd = CommandReject
      then isl (DecodeData reject_params_fields zero_reject_params cmd)
      else False)"

text \<open>The code of the error details of a response, if it has any.\<close>

definition error_code :: "response \<Rightarrow> string option" where
  "error_code r = map_option ed_code (rs_error r)"

lemma error_code_simps [simp]:
  "error_code (NewErrorResponse cid c m p) = Some c"
  "error_code (NewSuccessResponse cid d) = None"
  by (simp_all add: error_code_def NewErrorResponse_def NewSuccessResponse_def)

lemma bad_params_Handle:
  assumes "bad_params cmd"
  shows "\<exists>r. Handle m rf cid cmd sw = (r, sw) \<and> error_code r = Some ErrCodeInvalidParams"
  using assms
  by (cases sw)
    (auto simp: bad_params_def Handle_def handle_defs split: if_splits sum.splits)

text \<open>C23. A command whose parameters cannot be decoded is answered with the code invalid_params and
  has no effect at all: no provider is called and no pod is touched.\<close>

theorem bad_params_no_effect:
  assumes "command_of env = Some cmd" and "bad_params cmd"
  shows "\<exists>r. ExecuteCommand m rf env sw = (r, sw) \<and>
             rs_command_id r = env_id env \<and> error_code r = Some ErrCodeInvalidParams"
proof -
  have h: "ExecuteCommand m rf env sw = Handle m rf (env_id env) cmd sw"
    using assms(1) by (subst ExecuteCommand_cases) simp
  obtain r where r: "Handle m rf (env_id env) cmd sw = (r, sw)"
      "error_code r = Some ErrCodeInvalidParams"
    using bad_params_Handle [OF assms(2)] by blast
  with answers_Handle [of "env_id env" m rf cmd sw] have "rs_command_id r = env_id env"
    by (simp add: answers_def)
  with h r show ?thesis by auto
qed

definition text_data_envelope :: "json option envelope" where
  "text_data_envelope =
     NewEnvelopeWithID ''cmd-4'' EnvelopeCommand
       (Some (JObj [(''type'', JStr ''deploy''), (''data'', JStr ''not-an-object'')])) [] 0"

theorem bad_params_no_effect_witness:
  "\<exists>r. ExecuteCommand (NewManager :: unit manager) None text_data_envelope ((), ()) = (r, (), ()) \<and>
       rs_command_id r = env_id text_data_envelope \<and> error_code r = Some ErrCodeInvalidParams"
  by (rule bad_params_no_effect
      [of _ "\<lparr>cmd_type = ''deploy'', cmd_data = Some (JStr ''not-an-object'')\<rparr>"])
    (simp_all add: command_of_def text_data_envelope_def NewEnvelopeWithID_def DecodePayload_def
      is_empty_message_def decode_struct_def command_fields_def find_field_def set_raw_def
      zero_command_def bad_params_def CommandDeploy_def DecodeData_def)

section \<open>The platform's parameters reach the provider unchanged\<close>

definition command_envelope :: "string \<Rightarrow> string \<Rightarrow> json \<Rightarrow> json option envelope" where
  "command_envelope i ty data =
     NewEnvelopeWithID i EnvelopeCommand (Some (enc_command (NewCommand ty data))) [] 0"

lemma execute_command_envelope:
  assumes "codec enc fs zero ok"
  shows "ExecuteCommand m rf (command_envelope i ty (enc x)) sw
       = Handle m rf i (NewCommand ty (enc x)) sw"
proof -
  have "DecodePayload command_fields zero_command
      (command_envelope i ty (enc x)) = Inr (NewCommand ty (enc x))"
    unfolding command_envelope_def by (rule codec.through_envelope [OF assms])
  then show ?thesis
    by (simp add: ExecuteCommand_def HandleCommand_def command_envelope_def NewEnvelopeWithID_def)
qed

lemma execute_deploy_command:
  assumes "deploy_params_ok p"
  shows "ExecuteCommand m rf (command_envelope i CommandDeploy (enc_deploy_params p)) (s, w) =
     (case ManagerDeploy m (dp_provider p) p w of
        (Inl err, w') \<Rightarrow> (errorResponse i ErrCodeDeploymentFailed err, s, w')
      | (Inr r, w') \<Rightarrow>
          (NewSuccessResponse i (DeployData
             (if dr_provider r = [] then r\<lparr>dr_provider := dp_provider p\<rparr> else r)), s, w'))"
proof -
  have "DecodeData deploy_params_fields zero_deploy_params
      (NewCommand CommandDeploy (enc_deploy_params p)) = Inr p"
    by (rule deploy_codec.decode_data [OF assms])
  moreover have "cmd_type (NewCommand ty d) = ty" for ty d
    by (simp add: NewCommand_def)
  ultimately show ?thesis
    by (simp add: execute_command_envelope [OF deploy_codec.codec_axioms] Handle_def
        handleDeploy_def Let_def split: prod.splits sum.splits)
qed

text \<open>The time and the sender of an envelope do not matter, nor an explicit null payload.\<close>

lemma execute_read_envelope:
  assumes "env_type env = EnvelopeCommand" and "four_digit_year (env_timestamp env)"
    and "four_digit_year now" and "env_payload env \<noteq> None"
  obtains env' where "ParseEnvelope (Some (ToJSON now env)) = Inr env'"
    and "ExecuteCommand m rf env' sw = ExecuteCommand m rf env sw"
    and "command_of env' = command_of env" and "env_type env' = env_type env"
proof -
  let ?env = "env\<lparr>env_payload := Some (enc_raw (env_payload env)),
      env_timestamp := (if env_timestamp env = 0 then now else env_timestamp env)\<rparr>"
  have "ParseEnvelope (Some (ToJSON now env)) = Inr ?env"
    using assms by (intro parse_written_envelope) (simp_all add: EnvelopeCommand_def)
  moreover obtain j where "env_payload env = Some j" using assms(4) by blast
  then have decoded: "DecodePayload command_fields zero_command ?env = DecodePayload command_fields zero_command env"
    by (simp add: DecodePayload_def enc_raw_def split: option.split)
  then have "ExecuteCommand m rf ?env sw = ExecuteCommand m rf env sw"
    by (simp only: ExecuteCommand_def HandleCommand_def) (simp split: sum.split)
  moreover from decoded have "command_of ?env = command_of env" by (simp add: command_of_def)
  ultimately show ?thesis by (rule that) simp
qed

text \<open>C25. A deploy command that the platform builds from some parameters is carried out with exactly
  those parameters: after the trip through the message text and the envelope the named provider is called with them in
  the current world, and the response reports its result (with the provider's name filled in where
  the provider left it empty) or its error.\<close>

theorem deploy_command_roundtrip:
  assumes "deploy_params_ok p" and "four_digit_year now"
  shows "\<exists>env. ParseEnvelope (Some (ToJSON now
        (command_envelope i CommandDeploy (enc_deploy_params p)))) = Inr env \<and>
    ExecuteCommand m rf env (s, w) =
     (case ManagerDeploy m (dp_provider p) p w of
        (Inl err, w') \<Rightarrow> (errorResponse i ErrCodeDeploymentFailed err, s, w')
      | (Inr r, w') \<Rightarrow>
          (NewSuccessResponse i (DeployData
             (if dr_provider r = [] then r\<lparr>dr_provider := dp_provider p\<rparr> else r)), s, w'))"
proof -
  let ?env = "command_envelope i CommandDeploy (enc_deploy_params p)"
  have "env_type ?env = EnvelopeCommand" "four_digit_year (env_timestamp ?env)"
    "env_payload ?env \<noteq> None"
    by (simp_all add: command_envelope_def NewEnvelopeWithID_def four_digit_year_def)
  with assms(2) obtain env where "ParseEnvelope (Some (ToJSON now ?env)) = Inr env"
    and "ExecuteCommand m rf env (s, w) = ExecuteCommand m rf ?env (s, w)"
    by (metis execute_read_envelope)
  then show ?thesis
    using execute_deploy_command [OF assms(1)] by auto
qed

definition sample_params :: deploy_params where
  "sample_params = zero_deploy_params\<lparr>dp_pod_name := ''gpu-job-1'', dp_namespace := ''default'',
     dp_provider := ''vastai'', dp_env := Some [(''K'', ''V'')], dp_gpu_count := 2\<rparr>"

theorem deploy_command_roundtrip_witness:
  "\<exists>env. ParseEnvelope (Some (ToJSON 63890070400000000000
       (command_envelope ''d-1'' CommandDeploy (enc_deploy_params sample_params)))) = Inr env \<and>
   ExecuteCommand (NewManager :: unit manager) None env ((), ()) =
   (errorResponse ''d-1'' ErrCodeDeploymentFailed (ErrText ''provider vastai not found''), (), ())"
proof -
  have "deploy_params_ok sample_params"
    by (simp add: deploy_params_ok_def sample_params_def zero_deploy_params_def entries_of_def
        gomap_ok_def)
  moreover have "dp_provider sample_params = ''vastai''"
    by (simp add: sample_params_def)
  ultimately show ?thesis
    using deploy_command_roundtrip [of sample_params 63890070400000000000 "''d-1''"
        "NewManager :: unit manager" None "()" "()"]
    by (simp add: ManagerDeploy_def GetProvider_def NewManager_def four_digit_year_def)
qed


section \<open>Provider errors are surfaced\<close>

text \<open>For any provider that keeps its contract, a failure is reported under the provider's code.\<close>

context provider_contract
begin

lemma failed_deploy_response:
  assumes "pv_deploy P params w = (Inl e, w')"
  obtains pe where "as_provider_error e = Some pe" and "pe_code pe \<noteq> []"
    and "errorResponse cid code e
         = NewErrorResponse cid (pe_code pe) (provider_error_text pe) (pe_message pe)"
  using deploy_error [OF assms] by (auto simp: errorResponse_def)

lemma deploy_through_manager:
  assumes "m n = Some P"
  shows "ManagerDeploy m n params w = pv_deploy P params w"
  using assms by (simp add: ManagerDeploy_def GetProvider_def)

lemma deploy_command_outcome:
  assumes "m (dp_provider p) = Some P" and "deploy_params_ok p"
  shows "let r = fst (ExecuteCommand m rf
             (command_envelope i CommandDeploy (enc_deploy_params p)) (s, w))
         in (\<exists>d. rs_data r = DeployData d \<and> dr_provider d \<in> {pv_name P, dp_provider p} \<and>
                 dr_provider_pod_id d \<noteq> []) \<or>
            (\<exists>c. error_code r = Some c \<and> c \<noteq> [])"
proof (cases "pv_deploy P p w")
  case (Pair res w')
  have x: "fst (ExecuteCommand m rf
        (command_envelope i CommandDeploy (enc_deploy_params p)) (s, w)) =
      (case res of Inl err \<Rightarrow> errorResponse i ErrCodeDeploymentFailed err
       | Inr r \<Rightarrow> NewSuccessResponse i (DeployData
           (if dr_provider r = [] then r\<lparr>dr_provider := dp_provider p\<rparr> else r)))"
    by (simp add: execute_deploy_command [OF assms(2)] deploy_through_manager [where m = m, OF assms(1)]
        Pair split: sum.splits)
  show ?thesis
  proof (cases res)
    case (Inl e)
    with Pair have "pv_deploy P p w = (Inl e, w')" by simp
    then obtain pe where "pe_code pe \<noteq> []" and "errorResponse i ErrCodeDeploymentFailed e
        = NewErrorResponse i (pe_code pe) (provider_error_text pe) (pe_message pe)"
      by (rule failed_deploy_response)
    with x Inl show ?thesis by (simp add: Let_def)
  next
    case (Inr d)
    with Pair have "dr_provider d = pv_name P \<and> dr_provider_pod_id d \<noteq> []"
      using deploy_result by simp
    with x Inr show ?thesis by (simp add: Let_def NewSuccessResponse_def)
  qed
qed

end

end
