(* ===== verification/Kubelet.thy ===== *)
theory Kubelet
  imports Config Handler Runpod Ws_Connection
begin

text \<open>
  The virtual-kubelet provider, \<open>pkg/virtual_kubelet/kubelet.go\<close>: the pod cache, the events and
  the registration that it sends, and what the platform's commands do to it. Each operation is a
  function on the kubelet's state; the clock and the ids that \<open>uuid\<close> draws are arguments. A pod
  that the code reaches through a pointer into the cache and mutates is written back to the cache.
\<close>

section \<open>State\<close>

record instance_info =
  ii_pod_id :: string
  ii_provider_pod_id :: string
  ii_provider :: string
  ii_status :: string
  ii_cost_per_hour :: float64
  ii_machine_id :: string
  ii_location :: string
  ii_creation_time :: instant
  ii_last_status_check :: instant
  ii_status_result :: "status_result option"
  ii_reject_code :: string
  ii_reject_message :: string

text \<open>
  \<open>kb_conn\<close> is the WebSocket client with its goroutines, \<open>kb_notify\<close> says whether a notification
  callback is set, \<open>kb_notified\<close> logs the pods it was called with.
\<close>

record 'w kubelet =
  kb_node_name :: string
  kb_operating_system :: string
  kb_internal_ip :: string
  kb_port :: i64
  kb_config :: config
  kb_conn :: connection
  kb_manager :: "'w manager"
  kb_pods :: "string \<rightharpoonup> pod"
  kb_status :: "string \<rightharpoonup> instance_info"
  kb_notify :: bool
  kb_notified :: "pod list"
  kb_cancelled :: bool

abbreviation kb_ws :: "'w kubelet \<Rightarrow> ws_client" where
  "kb_ws k \<equiv> cn_client (kb_conn k)"

section \<open>Start\<close>

definition ws_client_config :: "config \<Rightarrow> client_config" where
  "ws_client_config c =
     \<lparr>cc_url = GetWebSocketURL c, cc_api_token = cf_backend_api_key c,
      cc_kubelet_id = cf_backend_api_key c,
      cc_reconnect_interval = wc_reconnect_interval (cf_websocket c),
      cc_max_reconnect_delay = wc_max_reconnect_delay (cf_websocket c),
      cc_heartbeat_interval = wc_ping_interval (cf_websocket c),
      cc_pong_timeout = wc_pong_timeout (cf_websocket c),
      cc_write_timeout = wc_write_timeout (cf_websocket c),
      cc_read_timeout = wc_read_timeout (cf_websocket c)\<rparr>"

text \<open>The loop of \<open>initializeProviders\<close>; \<open>client\<close> is what \<open>runpod.NewClient\<close> returns.\<close>

fun init_providers ::
    "'w provider \<Rightarrow> config \<Rightarrow> string list \<Rightarrow> 'w manager \<Rightarrow> (go_error, 'w manager) result" where
  "init_providers client c [] m = Inr m"
| "init_providers client c (name # names) m =
     (if name = ''runpod'' then
        (if rpc_api_key (pvc_runpod (cf_providers c)) \<noteq> [] \<or> IsProviderEnabled ''runpod'' c then
           (case RegisterProvider client m of
              Inl err \<Rightarrow> Inl (ErrWrap ''failed to register RunPod provider: '' err)
            | Inr m' \<Rightarrow> init_providers client c names m')
         else init_providers client c names m)
      else init_providers client c names m)"

definition initializeProviders ::
    "'w provider \<Rightarrow> config \<Rightarrow> 'w manager \<Rightarrow> (go_error, 'w manager) result" where
  "initializeProviders client c m = init_providers client c (pvc_enabled (cf_providers c)) m"

definition NewProvider ::
    "'w transport \<Rightarrow> environment \<Rightarrow> string \<Rightarrow> string \<Rightarrow> string \<Rightarrow> i64 \<Rightarrow> config \<Rightarrow>
     (go_error, 'w kubelet) result" where
  "NewProvider tr env node os ip port c =
     (case initializeProviders (runpod_provider tr env (NewRunpodClient env)) c NewManager of
        Inl err \<Rightarrow> Inl (ErrWrap ''failed to initialize providers: '' err)
      | Inr m \<Rightarrow>
          Inr \<lparr>kb_node_name = node, kb_operating_system = os, kb_internal_ip = ip, kb_port = port,
               kb_config = c, kb_conn = Start (SetOnConnect (NewClient (ws_client_config c))),
               kb_manager = m, kb_pods = Map.empty, kb_status = Map.empty,
               kb_notify = False, kb_notified = [], kb_cancelled = False\<rparr>)"

section \<open>Pods\<close>

definition getPodKey :: "pod \<Rightarrow> string" where
  "getPodKey p = p_namespace p @ ''/'' @ p_name p"

text \<open>Queueing an envelope on the kubelet's client; a failure is only logged.\<close>

definition kb_send ::
    "(ws_client \<Rightarrow> (send_error, ws_client) result) \<Rightarrow> 'w kubelet \<Rightarrow>
     send_error option \<times> 'w kubelet" where
  "kb_send send k =
     (case send (kb_ws k) of
        Inl err \<Rightarrow> (Some err, k)
      | Inr c \<Rightarrow> (None, k\<lparr>kb_conn := (kb_conn k)\<lparr>cn_client := c\<rparr>\<rparr>))"

text \<open>\<open>updatePodStatus\<close>: the pod it leaves behind the pointer, and the kubelet.\<close>

definition updatePodStatus ::
    "pod \<Rightarrow> string \<Rightarrow> string \<Rightarrow> string \<Rightarrow> 'w kubelet \<Rightarrow> pod \<times> 'w kubelet" where
  "updatePodStatus p phase reason message k =
     (if kb_notify k then
        (let p' = p\<lparr>p_phase := phase, p_reason := reason, p_message := message\<rparr>
         in (p', k\<lparr>kb_notified := kb_notified k @ [p']\<rparr>))
      else (p, k))"

definition new_instance_info :: "pod \<Rightarrow> instant \<Rightarrow> instance_info" where
  "new_instance_info p now =
     \<lparr>ii_pod_id = p_uid p, ii_provider_pod_id = [], ii_provider = [], ii_status = ''PENDING'',
      ii_cost_per_hour = 0, ii_machine_id = [], ii_location = [], ii_creation_time = now,
      ii_last_status_check = 0, ii_status_result = None, ii_reject_code = [],
      ii_reject_message = []\<rparr>"

definition pod_created :: "pod \<Rightarrow> event" where
  "pod_created p =
     \<lparr>ev_type = EventPodCreated,
      ev_data = PodCreatedData
        \<lparr>pc_pod_name = p_name p, pc_namespace = p_namespace p, pc_uid = p_uid p,
         pc_pod_spec = p\<lparr>p_api_version := ''v1'', p_kind := ''Pod''\<rparr>,
         pc_annotations = p_annotations p\<rparr>\<rparr>"

text \<open>The error that \<open>CreatePod\<close>, \<open>UpdatePod\<close> and \<open>DeletePod\<close> return is always nil.\<close>

definition CreatePod :: "string \<Rightarrow> instant \<Rightarrow> pod \<Rightarrow> 'w kubelet \<Rightarrow> 'w kubelet" where
  "CreatePod uuid now p k =
     (let key = getPodKey p;
          k1 = k\<lparr>kb_pods := (kb_pods k)(key \<mapsto> p),
                 kb_status := (kb_status k)(key \<mapsto> new_instance_info p now)\<rparr>;
          k2 = snd (kb_send (SendEvent uuid now (pod_created p)) k1)
      in snd (updatePodStatus p PhasePending [] ''Pod creation event sent to backend'' k2))"

definition UpdatePod :: "pod \<Rightarrow> 'w kubelet \<Rightarrow> 'w kubelet" where
  "UpdatePod p k = k\<lparr>kb_pods := (kb_pods k)(getPodKey p \<mapsto> p)\<rparr>"

definition pod_deleted :: "pod \<Rightarrow> string \<Rightarrow> event" where
  "pod_deleted p provider_pod_id =
     \<lparr>ev_type = EventPodDeleted,
      ev_data = PodDeletedData
        \<lparr>pd_pod_name = p_name p, pd_namespace = p_namespace p, pd_uid = p_uid p,
         pd_provider_pod_id = provider_pod_id, pd_reason = ''Pod deleted by Kubernetes''\<rparr>\<rparr>"

definition known_instance :: "string \<Rightarrow> 'w kubelet \<Rightarrow> string" where
  "known_instance key k =
     (case kb_status k key of Some info \<Rightarrow> ii_provider_pod_id info | None \<Rightarrow> [])"

definition DeletePod :: "string \<Rightarrow> instant \<Rightarrow> pod \<Rightarrow> 'w kubelet \<Rightarrow> 'w kubelet" where
  "DeletePod uuid now p k =
     (let key = getPodKey p;
          k1 = snd (kb_send (SendEvent uuid now (pod_deleted p (known_instance key k))) k)
      in k1\<lparr>kb_pods := (kb_pods k1)(key := None), kb_status := (kb_status k1)(key := None)\<rparr>)"

definition GetPod :: "string \<Rightarrow> string \<Rightarrow> 'w kubelet \<Rightarrow> (go_error, pod) result" where
  "GetPod ns name k =
     (case kb_pods k (ns @ ''/'' @ name) of
        None \<Rightarrow> Inl (ErrText ''pod not found'')
      | Some p \<Rightarrow> Inr p)"

text \<open>\<open>ord\<close> is the order in which the runtime ranges over the cache.\<close>

definition GetPods :: "string list \<Rightarrow> 'w kubelet \<Rightarrow> pod list" where
  "GetPods ord k = map (\<lambda>key. the (kb_pods k key)) ord"

definition NotifyPods :: "'w kubelet \<Rightarrow> 'w kubelet" where
  "NotifyPods k = k\<lparr>kb_notify := True\<rparr>"

section \<open>Pod status\<close>

datatype 'a outcome = Panics | Fails go_error | Returns 'a

datatype container_state =
    StateTerminated i32 string
  | StateRunning instant
  | StateWaiting string string

record container_status =
  cs_name :: string
  cs_ready :: bool
  cs_started :: bool
  cs_state :: container_state

record pod_status =
  ps_phase :: string
  ps_reason :: string
  ps_message :: string
  ps_conditions :: "(string \<times> string) list"
  ps_container_statuses :: "container_status list"

definition phase_of_result :: "status_result \<Rightarrow> string" where
  "phase_of_result sr =
     (if sr_phase sr = PhaseRunning then ''Running''
      else if sr_phase sr = PhaseSucceeded then ''Succeeded''
      else if sr_phase sr = PhaseFailed then ''Failed''
      else ''Pending'')"

definition container_status_of :: "string \<Rightarrow> instance_info \<Rightarrow> status_result \<Rightarrow> container_status" where
  "container_status_of name info sr =
     (let running = (phase_of_result sr = ''Running'')
      in \<lparr>cs_name = name, cs_ready = running, cs_started = running,
          cs_state =
            (if sr_is_terminated sr then StateTerminated (ucast (sr_exit_code sr)) (sr_message sr)
             else if sr_is_running sr then StateRunning (ii_creation_time info)
             else StateWaiting (ii_status info) (sr_message sr))\<rparr>)"

text \<open>The index \<open>Containers[0]\<close> panics when the pod has no container.\<close>

definition GetPodStatus :: "string \<Rightarrow> string \<Rightarrow> 'w kubelet \<Rightarrow> pod_status outcome" where
  "GetPodStatus ns name k =
     (let key = ns @ ''/'' @ name;
          pending = \<lparr>ps_phase = ''Pending'', ps_reason = [], ps_message = [],
                     ps_conditions = [(''PodScheduled'', ''True'')], ps_container_statuses = []\<rparr>
      in case kb_pods k key of
           None \<Rightarrow> Fails (ErrText ''pod not found'')
         | Some p \<Rightarrow>
             (case kb_status k key of
                None \<Rightarrow> Returns pending
              | Some info \<Rightarrow>
                  if ii_reject_code info \<noteq> [] then
                    Returns (pending\<lparr>ps_phase := ''Failed'', ps_reason := ii_reject_code info,
                                     ps_message := ii_reject_message info\<rparr>)
                  else
                    (case ii_status_result info of
                       None \<Rightarrow> Returns pending
                     | Some sr \<Rightarrow>
                         (case p_containers p of
                            [] \<Rightarrow> Panics
                          | c # _ \<Rightarrow>
                              Returns (pending\<lparr>ps_phase := phase_of_result sr,
                                ps_conditions := ps_conditions pending @
                                  (if phase_of_result sr = ''Running''
                                   then [(''Ready'', ''True'')] else []),
                                ps_container_statuses := [container_status_of c info sr]\<rparr>)))))"

section \<open>Commands\<close>

definition handleDeploymentSuccess ::
    "instant \<Rightarrow> deploy_params \<Rightarrow> deploy_result \<Rightarrow> 'w kubelet \<Rightarrow> 'w kubelet" where
  "handleDeploymentSuccess now params result k =
     (let key = PodKey (dp_namespace params) (dp_pod_name params);
          k1 = (case kb_status k key of
                  None \<Rightarrow> k
                | Some info \<Rightarrow>
                    k\<lparr>kb_status := (kb_status k)(key \<mapsto>
                      info\<lparr>ii_provider_pod_id := dr_provider_pod_id result,
                           ii_provider := (if dr_provider result = [] then dp_provider params
                                           else dr_provider result),
                           ii_status := dr_status result,
                           ii_cost_per_hour := dr_cost_per_hour result,
                           ii_machine_id := dr_machine_id result,
                           ii_location := dr_datacenter_id result,
                           ii_last_status_check := now\<rparr>)\<rparr>)
      in case kb_pods k1 key of
           None \<Rightarrow> k1
         | Some p \<Rightarrow>
             (case updatePodStatus p PhasePending [] ''Instance deployed, waiting for startup'' k1 of
                (p', k2) \<Rightarrow> k2\<lparr>kb_pods := (kb_pods k2)(key \<mapsto> p')\<rparr>))"

text \<open>The callback that \<open>SetRejectHandler\<close> installs.\<close>

definition kb_reject :: "reject_params \<Rightarrow> 'w kubelet \<Rightarrow> go_error option \<times> 'w kubelet" where
  "kb_reject params k =
     (let key = PodKey (rp_namespace params) (rp_pod_name params);
          k1 = (case kb_status k key of
                  None \<Rightarrow> k
                | Some info \<Rightarrow>
                    k\<lparr>kb_status := (kb_status k)(key \<mapsto>
                      info\<lparr>ii_reject_code := rp_code params, ii_reject_message := rp_message params,
                           ii_status := ''REJECTED''\<rparr>)\<rparr>)
      in case kb_pods k1 key of
           None \<Rightarrow> (Some (ErrText (''pod '' @ key @ '' not found'')), k1)
         | Some p \<Rightarrow>
             (case updatePodStatus p PhaseFailed (rp_code params) (rp_message params) k1 of
                (p', k2) \<Rightarrow> (None, k2\<lparr>kb_pods := (kb_pods k2)(key \<mapsto> p')\<rparr>)))"

text \<open>The deploy parameters of an envelope, as \<open>processCommands\<close> decodes them a second time.\<close>

definition deploy_params_of :: "incoming \<Rightarrow> deploy_params option" where
  "deploy_params_of env =
     (case DecodePayload command_fields zero_command env of
        Inl err \<Rightarrow> None
      | Inr cmd \<Rightarrow>
          (if cmd_type cmd = CommandDeploy then
             (case DecodeData deploy_params_fields zero_deploy_params cmd of
                Inl err \<Rightarrow> None
              | Inr params \<Rightarrow> Some params)
           else None))"

text \<open>One round of \<open>processCommands\<close>, from the received envelope to the queued response.\<close>

definition process_command ::
    "string \<Rightarrow> instant \<Rightarrow> incoming \<Rightarrow> 'w kubelet \<times> 'w \<Rightarrow> 'w kubelet \<times> 'w" where
  "process_command uuid now env kw =
     (case ExecuteCommand (kb_manager (fst kw)) (Some kb_reject) env kw of
        (response, k1, w1) \<Rightarrow>
          (let k2 = (if Success (Some response) then
                       (case rs_data response of
                          DeployData result \<Rightarrow>
                            (case deploy_params_of env of
                               None \<Rightarrow> k1
                             | Some params \<Rightarrow> handleDeploymentSuccess now params result k1)
                        | _ \<Rightarrow> k1)
                     else k1)
           in (snd (kb_send (SendResponse uuid now response) k2), w1)))"

section \<open>Registration, health and shutdown\<close>

definition the_registration :: "string list option \<Rightarrow> 'w kubelet \<Rightarrow> registration" where
  "the_registration capabilities k =
     \<lparr>rg_id = KubeletID (kb_ws k), rg_type = KubeletType,
      rg_cluster_name = cf_cluster_name (kb_config k), rg_node_name = kb_node_name k,
      rg_namespace = cf_namespace (kb_config k),
      rg_capabilities = (case capabilities of None \<Rightarrow> [] | Some cs \<Rightarrow> cs),
      rg_metadata = \<lparr>rm_version = ProtocolVersion, rm_internal_ip = kb_internal_ip k,
                     rm_key_mode = KeyMode (kb_config k)\<rparr>\<rparr>"

definition kubelet_ready :: "'w kubelet \<Rightarrow> event" where
  "kubelet_ready k = \<lparr>ev_type = EventKubeletReady, ev_data = KubeletReadyData (kb_node_name k)\<rparr>"

definition registerWithBackend ::
    "string list \<Rightarrow> string \<times> instant \<Rightarrow> string \<times> instant \<Rightarrow> 'w kubelet \<Rightarrow> 'w kubelet" where
  "registerWithBackend ord s1 s2 k =
     (let reg = the_registration (GetAvailableProviders ord (kb_manager k)) k
      in case kb_send (SendRegistration (fst s1) (snd s1) reg) k of
           (Some err, k1) \<Rightarrow> k1
         | (None, k1) \<Rightarrow> snd (kb_send (SendEvent (fst s2) (snd s2) (kubelet_ready k)) k1))"

text \<open>\<open>Ping\<close>: unhealthy providers are logged and do not make it fail.\<close>

definition kb_ping :: "string list \<Rightarrow> 'w kubelet \<Rightarrow> 'w \<Rightarrow> go_error option \<times> 'w" where
  "kb_ping ord k w =
     (if \<not> IsConnected (kb_ws k)
      then (Some (ErrText ''WebSocket client not connected to backend''), w)
      else (None, snd (HealthCheck (kb_manager k) ord w)))"

text \<open>\<open>Cleanup\<close>; a second one panics when it closes the client's channel again.\<close>

definition Cleanup :: "'w kubelet \<Rightarrow> 'w kubelet option" where
  "Cleanup k =
     map_option (\<lambda>c. k\<lparr>kb_cancelled := True, kb_conn := (kb_conn k)\<lparr>cn_client := c\<rparr>\<rparr>)
       (stop_client (kb_ws k))"

section \<open>A kubelet to evaluate on\<close>

text \<open>A kubelet with the default configuration during its first session, with given providers.\<close>

definition sample_kubelet :: "'w manager \<Rightarrow> 'w kubelet" where
  "sample_kubelet m =
     \<lparr>kb_node_name = ''conduit-node'', kb_operating_system = ''Linux'',
      kb_internal_ip = ''127.0.0.1'', kb_port = 10250, kb_config = DefaultConfig,
      kb_conn =
        (Start (SetOnConnect (NewClient (ws_client_config DefaultConfig))))
          \<lparr>cn_client := (SetOnConnect (NewClient (ws_client_config DefaultConfig)))
              \<lparr>ws_conn := True, ws_connected := True\<rparr>,
           cn_pc := InSession, cn_reader := True, cn_spawned := 1\<rparr>,
      kb_manager = m, kb_pods = Map.empty, kb_status = Map.empty, kb_notify = True,
      kb_notified = [], kb_cancelled = False\<rparr>"

definition sample_pod :: pod where
  "sample_pod =
     \<lparr>p_namespace = ''default'', p_name = ''gpu-job-1'', p_uid = ''uid-1'', p_annotations = None,
      p_api_version = [], p_kind = [], p_containers = [''main''], p_phase = [], p_reason = [],
      p_message = [], p_rest = JNull\<rparr>"

end
