(* ===== verification/Kubelet_Ops.thy ===== *)
theory Kubelet_Ops
  imports Kubelet Ws_Exec
begin

text \<open>
  The contract that the kubelet's operations on one pod share (they touch only that pod's entries,
  keep the cache well formed and use the connection only by sending) as a locale, what follows
  from it for every other pod, and the five operations of the kubelet that keep it.
\<close>

section \<open>A well-formed cache\<close>

text \<open>
  Every pod with instance information is cached, a pod is cached under its own name, and (since no
  operation stores one) no instance has a status result.
\<close>

definition pods_ok :: "'w kubelet \<Rightarrow> bool" where
  "pods_ok k \<longleftrightarrow>
     dom (kb_status k) \<subseteq> dom (kb_pods k) \<and>
     (\<forall>key p. kb_pods k key = Some p \<longrightarrow> getPodKey p = key) \<and>
     (\<forall>key info. kb_status k key = Some info \<longrightarrow> ii_status_result info = None)"

lemma pods_okD:
  assumes "pods_ok k"
  shows "kb_status k key = Some info \<Longrightarrow> \<exists>p. kb_pods k key = Some p"
    and "kb_pods k key = Some p \<Longrightarrow> getPodKey p = key"
    and "kb_status k key = Some info \<Longrightarrow> ii_status_result info = None"
  using assms by (auto simp: pods_ok_def)

text \<open>The parts of the kubelet that never change after the start.\<close>

definition same_setup :: "'w kubelet \<Rightarrow> 'w kubelet \<Rightarrow> bool" where
  "same_setup k k' \<longleftrightarrow>
     kb_node_name k' = kb_node_name k \<and> kb_internal_ip k' = kb_internal_ip k \<and>
     kb_config k' = kb_config k \<and> kb_manager k' = kb_manager k"

lemma same_setup_refl [simp]: "same_setup k k"
  by (simp add: same_setup_def)

lemma same_setup_trans: "same_setup k k1 \<Longrightarrow> same_setup k1 k2 \<Longrightarrow> same_setup k k2"
  by (simp add: same_setup_def)

section \<open>The contract of an operation on a pod\<close>

locale pod_operation =
  fixes key :: string
    and f :: "'w kubelet \<Rightarrow> 'w kubelet"
  assumes other_pods: "j \<noteq> key \<Longrightarrow> kb_pods (f k) j = kb_pods k j"
    and other_status: "j \<noteq> key \<Longrightarrow> kb_status (f k) j = kb_status k j"
    and keeps_pods_ok: "pods_ok k \<Longrightarrow> pods_ok (f k)"
    and sends_only: "\<exists>ls. run_of conn_step (kb_conn k) ls (kb_conn (f k))"
    and keeps_setup: "same_setup k (f k)"
begin

lemma other_GetPod:
  assumes "ns @ ''/'' @ name \<noteq> key"
  shows "GetPod ns name (f k) = GetPod ns name k"
  using other_pods [OF assms] by (simp add: GetPod_def)

lemma other_GetPodStatus:
  assumes "ns @ ''/'' @ name \<noteq> key"
  shows "GetPodStatus ns name (f k) = GetPodStatus ns name k"
  using other_pods [OF assms] other_status [OF assms] by (simp add: GetPodStatus_def Let_def cong: option.case_cong)

lemma other_instance: "j \<noteq> key \<Longrightarrow> known_instance j (f k) = known_instance j k"
  by (simp add: known_instance_def other_status)

lemma keeps_connection:
  "reachable conn_init conn_step (kb_conn k) \<Longrightarrow> reachable conn_init conn_step (kb_conn (f k))"
  using sends_only [of k] by (auto intro: reachable_run)

end

section \<open>Sending\<close>

lemma kb_send_frame [simp]:
  "kb_pods (snd (kb_send g k)) = kb_pods k"
  "kb_status (snd (kb_send g k)) = kb_status k"
  "kb_notify (snd (kb_send g k)) = kb_notify k"
  "kb_notified (snd (kb_send g k)) = kb_notified k"
  "same_setup k (snd (kb_send g k))"
  "same_setup k' (snd (kb_send g k)) = same_setup k' k"
  by (simp_all add: kb_send_def same_setup_def split: sum.splits)

lemma kb_send_run:
  "\<exists>ls. run_of conn_step (kb_conn k) ls (kb_conn (snd (kb_send (sendEnvelope e) k)))"
proof (cases "sendEnvelope e (kb_ws k)")
  case (Inl err)
  then show ?thesis by (auto simp: kb_send_def intro: run_nil)
next
  case (Inr c)
  from send_atomic [OF this] Inr show ?thesis by (auto simp: kb_send_def)
qed

lemma send_is_envelope:
  "SendEvent uuid now ev c = sendEnvelope (NewEnvelope uuid now (EventPayload ev) (KubeletID c)) c"
  "SendResponse uuid now r c = sendEnvelope (NewEnvelope uuid now (ResponsePayload r) (KubeletID c)) c"
  "SendRegistration uuid now reg c =
     sendEnvelope (NewEnvelope uuid now (RegistrationPayload reg) (KubeletID c)) c"
  by (simp_all add: SendEvent_def SendResponse_def SendRegistration_def send_payload_def)

lemma kb_send_payload:
  "kb_send (SendEvent uuid now ev) k =
     kb_send (sendEnvelope (NewEnvelope uuid now (EventPayload ev) (KubeletID (kb_ws k)))) k"
  "kb_send (SendResponse uuid now r) k =
     kb_send (sendEnvelope (NewEnvelope uuid now (ResponsePayload r) (KubeletID (kb_ws k)))) k"
  "kb_send (SendRegistration uuid now reg) k =
     kb_send (sendEnvelope (NewEnvelope uuid now (RegistrationPayload reg) (KubeletID (kb_ws k)))) k"
  by (simp_all add: kb_send_def send_is_envelope)

lemma kb_send_runs [simp, intro]:
  "\<exists>ls. run_of conn_step (kb_conn k) ls (kb_conn (snd (kb_send (SendEvent uuid now ev) k)))"
  "\<exists>ls. run_of conn_step (kb_conn k) ls (kb_conn (snd (kb_send (SendResponse uuid now r) k)))"
  "\<exists>ls. run_of conn_step (kb_conn k) ls (kb_conn (snd (kb_send (SendRegistration uuid now reg) k)))"
  unfolding kb_send_payload by (rule kb_send_run)+

lemma updatePodStatus_frame [simp]:
  "kb_pods (snd (updatePodStatus p ph r m k)) = kb_pods k"
  "kb_status (snd (updatePodStatus p ph r m k)) = kb_status k"
  "kb_conn (snd (updatePodStatus p ph r m k)) = kb_conn k"
  "kb_notify (snd (updatePodStatus p ph r m k)) = kb_notify k"
  "same_setup k' (snd (updatePodStatus p ph r m k)) = same_setup k' k"
  "getPodKey (fst (updatePodStatus p ph r m k)) = getPodKey p"
  by (simp_all add: updatePodStatus_def Let_def getPodKey_def same_setup_def)

section \<open>The operations keep the contract\<close>

lemma run_refl: "\<exists>ls. run_of step s ls s"
  by (auto intro: run_nil)

interpretation create: pod_operation "getPodKey p" "CreatePod uuid now p" for uuid now p
proof
  fix k :: "'w kubelet"
  show "\<exists>ls. run_of conn_step (kb_conn k) ls (kb_conn (CreatePod uuid now p k))"
    using kb_send_runs(1) [of "k\<lparr>kb_pods := (kb_pods k)(getPodKey p \<mapsto> p),
        kb_status := (kb_status k)(getPodKey p \<mapsto> new_instance_info p now)\<rparr>" uuid now "pod_created p"]
    by (simp add: CreatePod_def Let_def)
  show "pods_ok k \<Longrightarrow> pods_ok (CreatePod uuid now p k)"
    by (auto simp: CreatePod_def pods_ok_def Let_def new_instance_info_def)
  show "same_setup k (CreatePod uuid now p k)"
    by (simp add: CreatePod_def Let_def) (simp add: same_setup_def)
qed (simp_all add: CreatePod_def Let_def)

interpretation update: pod_operation "getPodKey p" "UpdatePod p" for p
  by unfold_locales (auto simp: UpdatePod_def pods_ok_def same_setup_def intro: run_nil)

interpretation del: pod_operation "getPodKey p" "DeletePod uuid now p" for uuid now p
proof
  fix k :: "'w kubelet"
  show "\<exists>ls. run_of conn_step (kb_conn k) ls (kb_conn (DeletePod uuid now p k))"
    by (simp add: DeletePod_def Let_def)
  show "pods_ok k \<Longrightarrow> pods_ok (DeletePod uuid now p k)"
    by (auto simp: DeletePod_def pods_ok_def Let_def)
  show "same_setup k (DeletePod uuid now p k)"
    using kb_send_frame(5) by (simp add: DeletePod_def Let_def same_setup_def)
qed (simp_all add: DeletePod_def Let_def)

lemma deploy_pods:
  "kb_pods (handleDeploymentSuccess now params result k) j =
     (if j = PodKey (dp_namespace params) (dp_pod_name params) then
        map_option (\<lambda>p. fst (updatePodStatus p PhasePending []
          ''Instance deployed, waiting for startup'' k)) (kb_pods k j)
      else kb_pods k j)"
  by (auto simp: handleDeploymentSuccess_def Let_def updatePodStatus_def split: option.splits)

lemma deploy_status:
  "kb_status (handleDeploymentSuccess now params result k) j =
     (if j = PodKey (dp_namespace params) (dp_pod_name params) then
        map_option (\<lambda>info. info\<lparr>ii_provider_pod_id := dr_provider_pod_id result,
          ii_provider := (if dr_provider result = [] then dp_provider params
                          else dr_provider result),
          ii_status := dr_status result, ii_cost_per_hour := dr_cost_per_hour result,
          ii_machine_id := dr_machine_id result, ii_location := dr_datacenter_id result,
          ii_last_status_check := now\<rparr>) (kb_status k j)
      else kb_status k j)"
  by (auto simp: handleDeploymentSuccess_def Let_def updatePodStatus_def split: option.splits)

lemma deploy_frame [simp]:
  "kb_conn (handleDeploymentSuccess now params result k) = kb_conn k"
  "same_setup k (handleDeploymentSuccess now params result k)"
  by (auto simp: handleDeploymentSuccess_def Let_def updatePodStatus_def same_setup_def
      split: option.splits)

lemma reject_pods:
  "kb_pods (snd (kb_reject params k)) j =
     (if j = PodKey (rp_namespace params) (rp_pod_name params) then
        map_option (\<lambda>p. fst (updatePodStatus p PhaseFailed (rp_code params) (rp_message params) k))
          (kb_pods k j)
      else kb_pods k j)"
  by (auto simp: kb_reject_def Let_def updatePodStatus_def split: option.splits)

lemma reject_status:
  "kb_status (snd (kb_reject params k)) j =
     (if j = PodKey (rp_namespace params) (rp_pod_name params) then
        map_option (\<lambda>info. info\<lparr>ii_reject_code := rp_code params,
          ii_reject_message := rp_message params, ii_status := ''REJECTED''\<rparr>) (kb_status k j)
      else kb_status k j)"
  by (auto simp: kb_reject_def Let_def updatePodStatus_def split: option.splits)

lemma reject_frame [simp]:
  "kb_conn (snd (kb_reject params k)) = kb_conn k"
  "same_setup k (snd (kb_reject params k))"
  by (auto simp: kb_reject_def Let_def updatePodStatus_def same_setup_def split: option.splits)

lemma pods_ok_pointwise:
  assumes "pods_ok k"
    and "\<And>j. kb_pods k' j = map_option (g j) (kb_pods k j)"
    and "\<And>j. kb_status k' j = map_option (h j) (kb_status k j)"
    and "\<And>j p. getPodKey (g j p) = getPodKey p"
    and "\<And>j info. ii_status_result (h j info) = ii_status_result info"
  shows "pods_ok k'"
  using assms by (fastforce simp: pods_ok_def dom_def)

interpretation deployed: pod_operation "PodKey (dp_namespace params) (dp_pod_name params)"
    "handleDeploymentSuccess now params result" for now params result
proof
  fix k :: "'w kubelet"
  let ?key = "PodKey (dp_namespace params) (dp_pod_name params)"
  show "pods_ok k \<Longrightarrow> pods_ok (handleDeploymentSuccess now params result k)"
    by (erule pods_ok_pointwise [where g = "\<lambda>j p. if j = ?key then fst (updatePodStatus p PhasePending []
          ''Instance deployed, waiting for startup'' k) else p" and h = "\<lambda>j info. if j = ?key then
          info\<lparr>ii_provider_pod_id := dr_provider_pod_id result,
          ii_provider := (if dr_provider result = [] then dp_provider params
                          else dr_provider result),
          ii_status := dr_status result, ii_cost_per_hour := dr_cost_per_hour result,
          ii_machine_id := dr_machine_id result, ii_location := dr_datacenter_id result,
          ii_last_status_check := now\<rparr> else info"])
      (simp_all add: deploy_pods deploy_status option.map_ident)
qed (simp_all add: deploy_pods deploy_status run_refl)

interpretation rejected: pod_operation "PodKey (rp_namespace params) (rp_pod_name params)"
    "\<lambda>k. snd (kb_reject params k)" for params
proof
  fix k :: "'w kubelet"
  let ?key = "PodKey (rp_namespace params) (rp_pod_name params)"
  show "pods_ok k \<Longrightarrow> pods_ok (snd (kb_reject params k))"
    by (erule pods_ok_pointwise [where g = "\<lambda>j p. if j = ?key then
          fst (updatePodStatus p PhaseFailed (rp_code params) (rp_message params) k) else p"
        and h = "\<lambda>j info. if j = ?key then info\<lparr>ii_reject_code := rp_code params,
          ii_reject_message := rp_message params, ii_status := ''REJECTED''\<rparr> else info"])
      (simp_all add: reject_pods reject_status option.map_ident)
qed (simp_all add: reject_pods reject_status run_refl)

end
