(* ===== verification/Kubelet_System.thy ===== *)
theory Kubelet_System
  imports Kubelet_Ops
begin

text \<open>
  The kubelet as a transition system: the calls of the virtual-kubelet controllers, the command
  loop, the registration after each connect, the steps of the WebSocket client's goroutines and
  the shutdown, in any order; and what holds in every state it reaches.
\<close>

section \<open>What a command does to the kubelet\<close>

text \<open>The parameters of a reject command.\<close>

definition reject_params_of :: "incoming \<Rightarrow> reject_params option" where
  "reject_params_of env =
     (case command_of env of
        None \<Rightarrow> None
      | Some cmd \<Rightarrow>
          (if cmd_type cmd = CommandReject then
             (case DecodeData reject_params_fields zero_reject_params cmd of
                Inl err \<Rightarrow> None
              | Inr params \<Rightarrow> Some params)
           else None))"

text \<open>The key of the pod that a command is about, if it is about a pod of the kubelet.\<close>

definition command_key :: "incoming \<Rightarrow> string option" where
  "command_key env =
     (case deploy_params_of env of
        Some p \<Rightarrow> Some (PodKey (dp_namespace p) (dp_pod_name p))
      | None \<Rightarrow> map_option (\<lambda>p. PodKey (rp_namespace p) (rp_pod_name p)) (reject_params_of env))"

lemma deploy_params_of_command:
  "deploy_params_of env =
     (case command_of env of
        None \<Rightarrow> None
      | Some cmd \<Rightarrow>
          (if cmd_type cmd = CommandDeploy then
             (case DecodeData deploy_params_fields zero_deploy_params cmd of
                Inl err \<Rightarrow> None
              | Inr params \<Rightarrow> Some params)
           else None))"
  by (simp add: deploy_params_of_def command_of_def split: sum.splits)

lemma deploy_not_reject: "deploy_params_of env = Some p \<Longrightarrow> reject_params_of env = None"
  by (auto simp: deploy_params_of_command reject_params_of_def split: option.splits if_splits)

text \<open>What the handler itself changes in the kubelet: only a reject command does.\<close>

lemma execute_kubelet:
  "fst (snd (ExecuteCommand m (Some kb_reject) env (k, w))) =
     (case reject_params_of env of None \<Rightarrow> k | Some p \<Rightarrow> snd (kb_reject p k))"
proof (cases "command_of env")
  case None
  then show ?thesis
    by (subst ExecuteCommand_cases) (simp add: reject_params_of_def)
next
  case (Some cmd)
  then have "ExecuteCommand m (Some kb_reject) env (k, w) =
      Handle m (Some kb_reject) (env_id env) cmd (k, w)"
    by (subst ExecuteCommand_cases) simp
  with Some show ?thesis
    by (auto simp: Handle_def split_beta handleReject_def reject_params_of_def
        split: sum.splits option.splits)
qed

text \<open>The kubelet after a command, before the response is queued.\<close>

definition after_command :: "instant \<Rightarrow> incoming \<Rightarrow> 'w kubelet \<Rightarrow> 'w \<Rightarrow> 'w kubelet" where
  "after_command now env k w =
     (let response = fst (ExecuteCommand (kb_manager k) (Some kb_reject) env (k, w));
          k1 = fst (snd (ExecuteCommand (kb_manager k) (Some kb_reject) env (k, w)))
      in if Success (Some response) then
           (case rs_data response of
              DeployData result \<Rightarrow>
                (case deploy_params_of env of
                   None \<Rightarrow> k1
                 | Some params \<Rightarrow> handleDeploymentSuccess now params result k1)
            | _ \<Rightarrow> k1)
         else k1)"

lemma process_command_eq:
  "process_command uuid now env (k, w) =
     (snd (kb_send (SendResponse uuid now
        (fst (ExecuteCommand (kb_manager k) (Some kb_reject) env (k, w)))) (after_command now env k w)),
      snd (snd (ExecuteCommand (kb_manager k) (Some kb_reject) env (k, w))))"
  by (cases "ExecuteCommand (kb_manager k) (Some kb_reject) env (k, w)")
    (simp add: process_command_def after_command_def Let_def)

text \<open>A command is one of three things: nothing, a deployment, a rejection.\<close>

lemma after_command_cases:
  obtains (nothing) "after_command now env k w = k"
    | (deployed) p result where "deploy_params_of env = Some p"
        "after_command now env k w = handleDeploymentSuccess now p result k"
        "rs_data (fst (ExecuteCommand (kb_manager k) (Some kb_reject) env (k, w))) = DeployData result"
    | (rejected) p where "reject_params_of env = Some p"
        "after_command now env k w = snd (kb_reject p k)"
proof (cases "reject_params_of env")
  case None
  then have k1: "fst (snd (ExecuteCommand (kb_manager k) (Some kb_reject) env (k, w))) = k"
    by (simp add: execute_kubelet)
  let ?r = "fst (ExecuteCommand (kb_manager k) (Some kb_reject) env (k, w))"
  show ?thesis
  proof (cases "\<exists>p result. deploy_params_of env = Some p \<and> rs_data ?r = DeployData result \<and>
      Success (Some ?r)")
    case True
    then obtain p result where d: "deploy_params_of env = Some p" "rs_data ?r = DeployData result"
        "Success (Some ?r)" by blast
    then have "after_command now env k w = handleDeploymentSuccess now p result k"
      by (simp add: after_command_def k1 Let_def)
    with d deployed show ?thesis by blast
  next
    case False
    then have "after_command now env k w = k"
      by (auto simp: after_command_def k1 Let_def split: resp_data.splits option.splits)
    then show ?thesis by (rule nothing)
  qed
next
  case (Some p)
  then have "deploy_params_of env = None"
    using deploy_not_reject by (cases "deploy_params_of env") auto
  then have "after_command now env k w = snd (kb_reject p k)"
    using Some by (auto simp: after_command_def execute_kubelet Let_def split: resp_data.splits)
  with Some rejected show ?thesis by blast
qed

lemma after_command_other:
  assumes "command_key env \<noteq> Some j"
  shows "kb_pods (after_command now env k w) j = kb_pods k j \<and>
         kb_status (after_command now env k w) j = kb_status k j"
proof (cases rule: after_command_cases [of now env k w])
  case (deployed p result)
  with assms show ?thesis
    by (auto simp: command_key_def deployed.other_pods deployed.other_status)
next
  case (rejected p)
  moreover from this have "deploy_params_of env = None"
    using deploy_not_reject by (cases "deploy_params_of env") auto
  ultimately show ?thesis
    using assms by (auto simp: command_key_def rejected.other_pods rejected.other_status)
qed simp

lemma after_command_ok: "pods_ok k \<Longrightarrow> pods_ok (after_command now env k w)"
  by (cases rule: after_command_cases [of now env k w])
    (simp_all add: deployed.keeps_pods_ok rejected.keeps_pods_ok)

lemma after_command_frame:
  "kb_conn (after_command now env k w) = kb_conn k \<and> same_setup k (after_command now env k w)"
  by (cases rule: after_command_cases [of now env k w]) simp_all

section \<open>The system\<close>

text \<open>\<open>sy_registered\<close>: how many of the \<open>onConnect\<close> goroutines have run.\<close>

record 'w system =
  sy_kubelet :: "'w kubelet"
  sy_world :: 'w
  sy_registered :: nat

datatype kb_label =
    KCreate string instant pod
  | KUpdate pod
  | KDelete string instant pod
  | KNotify
  | KCommand string instant incoming
  | KRegister "string list" "string \<times> instant" "string \<times> instant"
  | KNet conn_label
  | KCleanup

text \<open>The steps of the client's own goroutines; the only sender among them is the heartbeat.\<close>

fun background :: "conn_label \<Rightarrow> bool" where
  "background (Command e) = False"
| "background StopCalled = False"
| "background (Checked e) = (env_type e = EnvelopeHeartbeat)"
| "background (Queued e) = (env_type e = EnvelopeHeartbeat)"
| "background (Dropped e) = (env_type e = EnvelopeHeartbeat)"
| "background l = True"

abbreviation on_kubelet :: "('w kubelet \<Rightarrow> 'w kubelet) \<Rightarrow> 'w system \<Rightarrow> 'w system" where
  "on_kubelet f s \<equiv> s\<lparr>sy_kubelet := f (sy_kubelet s)\<rparr>"

definition received_command :: "incoming list \<Rightarrow> 'w kubelet \<Rightarrow> 'w kubelet" where
  "received_command rest k = k\<lparr>kb_conn := upd_client (ws_command_ch_update (\<lambda>_. rest)) (kb_conn k)\<rparr>"

inductive system_step :: "'w system \<Rightarrow> kb_label \<Rightarrow> 'w system \<Rightarrow> bool" where
  sys_create: "system_step s (KCreate uuid now p) (on_kubelet (CreatePod uuid now p) s)"
| sys_update: "system_step s (KUpdate p) (on_kubelet (UpdatePod p) s)"
| sys_delete: "system_step s (KDelete uuid now p) (on_kubelet (DeletePod uuid now p) s)"
| sys_notify: "system_step s KNotify (on_kubelet NotifyPods s)"
| sys_command:
    "chan_recv (ws_command_ch (kb_ws (sy_kubelet s))) = Some (env, rest) \<Longrightarrow>
     process_command uuid now env (received_command rest (sy_kubelet s), sy_world s) = (k, w) \<Longrightarrow>
     system_step s (KCommand uuid now env) (s\<lparr>sy_kubelet := k, sy_world := w\<rparr>)"
| sys_register:
    "sy_registered s < cn_spawned (kb_conn (sy_kubelet s)) \<Longrightarrow>
     enumerates ord (kb_manager (sy_kubelet s)) \<Longrightarrow>
     system_step s (KRegister ord s1 s2)
       (on_kubelet (registerWithBackend ord s1 s2) s\<lparr>sy_registered := Suc (sy_registered s)\<rparr>)"
| sys_net:
    "background l \<Longrightarrow> conn_step (kb_conn (sy_kubelet s)) l c \<Longrightarrow>
     system_step s (KNet l) (on_kubelet (\<lambda>k. k\<lparr>kb_conn := c\<rparr>) s)"
| sys_cleanup:
    "Cleanup (sy_kubelet s) = Some k \<Longrightarrow> system_step s KCleanup (s\<lparr>sy_kubelet := k\<rparr>)"

inductive_cases system_stepE: "system_step s l t"

definition system_init :: "'w system \<Rightarrow> bool" where
  "system_init s \<longleftrightarrow>
     (\<exists>tr env node os ip port c.
        NewProvider tr env node os ip port c = Inr (sy_kubelet s)) \<and> sy_registered s = 0"

section \<open>Every step keeps the connection and the cache in order\<close>

definition system_inv :: "'w system \<Rightarrow> bool" where
  "system_inv s \<longleftrightarrow>
     pods_ok (sy_kubelet s) \<and> reachable conn_init conn_step (kb_conn (sy_kubelet s))"

lemma received_command_frame [simp]:
  "kb_pods (received_command rest k) = kb_pods k"
  "kb_status (received_command rest k) = kb_status k"
  "kb_manager (received_command rest k) = kb_manager k"
  "kb_notify (received_command rest k) = kb_notify k"
  "pods_ok (received_command rest k) = pods_ok k"
  "same_setup k (received_command rest k)"
  by (simp_all add: received_command_def pods_ok_def same_setup_def)

lemma pods_ok_cong:
  "kb_pods k' = kb_pods k \<Longrightarrow> kb_status k' = kb_status k \<Longrightarrow> pods_ok k' = pods_ok k"
  by (simp add: pods_ok_def)

lemma process_command_conn:
  "\<exists>ls. run_of conn_step (kb_conn k) ls (kb_conn (fst (process_command uuid now env (k, w))))"
  using kb_send_runs(2) [of "after_command now env k w"] after_command_frame [of now env k w]
  by (simp add: process_command_eq)

lemma received_command_run:
  assumes "chan_recv (ws_command_ch (kb_ws k)) = Some (env, rest)"
  shows "run_of conn_step (kb_conn k) [Command env] (kb_conn (received_command rest k))"
  using assms by (auto simp: received_command_def intro!: run_single by_user take_command)

lemma register_frame:
  "kb_pods (registerWithBackend ord s1 s2 k) = kb_pods k"
  "kb_status (registerWithBackend ord s1 s2 k) = kb_status k"
  "same_setup k (registerWithBackend ord s1 s2 k)"
  by (simp_all add: registerWithBackend_def Let_def kb_send_def same_setup_def
      split: sum.splits prod.splits option.splits)

lemma register_run:
  "\<exists>ls. run_of conn_step (kb_conn k) ls (kb_conn (registerWithBackend ord s1 s2 k))"
proof -
  let ?reg = "the_registration (GetAvailableProviders ord (kb_manager k)) k"
  obtain e k1 where k1: "kb_send (SendRegistration (fst s1) (snd s1) ?reg) k = (e, k1)"
    by force
  from kb_send_runs(3) [of k "fst s1" "snd s1" ?reg] k1
  obtain ls where ls: "run_of conn_step (kb_conn k) ls (kb_conn k1)" by auto
  from kb_send_runs(1) [of k1 "fst s2" "snd s2" "kubelet_ready k"] obtain ms
    where "run_of conn_step (kb_conn k1) ms
      (kb_conn (snd (kb_send (SendEvent (fst s2) (snd s2) (kubelet_ready k)) k1)))" by blast
  from run_append [OF ls this] ls k1 show ?thesis
    by (auto simp: registerWithBackend_def Let_def split: option.splits)
qed

text \<open>Seen from the connection, a step of the system is some run of the WebSocket client.\<close>

lemma system_step_conn:
  "system_step s l t \<Longrightarrow>
     \<exists>ls. run_of conn_step (kb_conn (sy_kubelet s)) ls (kb_conn (sy_kubelet t))"
proof (induction rule: system_step.induct)
  case (sys_command s env rest uuid now k w)
  from process_command_conn [of "received_command rest (sy_kubelet s)" uuid now env "sy_world s"]
    sys_command.hyps(2)
  obtain ls where "run_of conn_step (kb_conn (received_command rest (sy_kubelet s))) ls (kb_conn k)"
    by auto
  from run_append [OF received_command_run [OF sys_command.hyps(1)] this] show ?case by auto
next
  case (sys_cleanup s k)
  then obtain c where c: "stop_client (kb_ws (sy_kubelet s)) = Some c"
      "k = (sy_kubelet s)\<lparr>kb_cancelled := True, kb_conn := (kb_conn (sy_kubelet s))\<lparr>cn_client := c\<rparr>\<rparr>"
    by (auto simp: Cleanup_def)
  from by_user [OF stop_called [OF c(1)]] c(2)
  have "conn_step (kb_conn (sy_kubelet s)) StopCalled (kb_conn k)" by simp
  then show ?case by (auto intro: run_single)
qed (auto simp: NotifyPods_def create.sends_only update.sends_only del.sends_only register_run
    intro: run_nil run_single)

lemma system_step_setup: "system_step s l t \<Longrightarrow> same_setup (sy_kubelet s) (sy_kubelet t)"
proof (induction rule: system_step.induct)
  case (sys_command s env rest uuid now k w)
  let ?k = "received_command rest (sy_kubelet s)"
  have "same_setup ?k (fst (process_command uuid now env (?k, sy_world s)))"
    using after_command_frame [of now env ?k "sy_world s"] by (simp add: process_command_eq)
  with sys_command.hyps(2) have "same_setup ?k k" by simp
  from same_setup_trans [OF received_command_frame(6) this] show ?case by simp
next
  case (sys_cleanup s k)
  then show ?case by (auto simp: Cleanup_def same_setup_def)
next
  case (sys_register s ord s1 s2)
  show ?case using register_frame(3) by simp
qed (simp_all add: create.keeps_setup update.keeps_setup del.keeps_setup, simp_all add: NotifyPods_def same_setup_def)

lemma system_step_ok: "system_step s l t \<Longrightarrow> pods_ok (sy_kubelet s) \<Longrightarrow> pods_ok (sy_kubelet t)"
proof (induction rule: system_step.induct)
  case (sys_command s env rest uuid now k w)
  let ?k = "received_command rest (sy_kubelet s)"
  have "pods_ok (after_command now env ?k (sy_world s))"
    using sys_command.prems by (simp add: after_command_ok)
  then have "pods_ok (fst (process_command uuid now env (?k, sy_world s)))"
    by (simp add: process_command_eq pods_ok_def)
  with sys_command.hyps(2) show ?case by simp
next
  case (sys_cleanup s k)
  then have "kb_pods k = kb_pods (sy_kubelet s)" and "kb_status k = kb_status (sy_kubelet s)"
    by (auto simp: Cleanup_def)
  with sys_cleanup.prems show ?case by (simp add: pods_ok_def)
next
  case (sys_register s ord s1 s2)
  then show ?case by (simp add: pods_ok_def register_frame)
next
  case (sys_notify s)
  then show ?case by (simp add: pods_ok_def NotifyPods_def)
next
  case (sys_net l s c)
  then show ?case by (simp add: pods_ok_def)
qed (simp_all add: create.keeps_pods_ok update.keeps_pods_ok del.keeps_pods_ok)

lemma NewProvider_Inr:
  assumes "NewProvider tr env node os ip port c = Inr k"
  shows "initializeProviders (runpod_provider tr env (NewRunpodClient env)) c NewManager =
           Inr (kb_manager k)"
    and "kb_conn k = Start (SetOnConnect (NewClient (ws_client_config c)))"
    and "kb_pods k = Map.empty" and "kb_status k = Map.empty" and "kb_config k = c"
    and "kb_node_name k = node" and "kb_internal_ip k = ip" and "\<not> kb_notify k"
  using assms by (auto simp: NewProvider_def split: sum.split_asm)

lemma system_init_inv:
  assumes "system_init s"
  shows "system_inv s"
proof -
  from assms obtain tr env node os ip port c
    where "NewProvider tr env node os ip port c = Inr (sy_kubelet s)"
    by (auto simp: system_init_def)
  from NewProvider_Inr [OF this] show ?thesis
    by (auto simp: system_inv_def pods_ok_def conn_init_def intro!: reachable_init)
qed

lemma system_inv_step: "system_inv s \<Longrightarrow> system_step s l t \<Longrightarrow> system_inv t"
  unfolding system_inv_def
  using system_step_conn [of s l t] system_step_ok [of s l t] by (auto intro: reachable_run)

interpretation sys: invariant_system system_init system_step system_inv
  by unfold_locales (rule system_init_inv system_inv_step; assumption)+

end
