(* ===== verification/Runpod_Correct.thy ===== *)
theory Runpod_Correct
  imports Runpod
begin

text \<open>
  What the RunPod client does: it keeps the provider contract, it sends exactly the requests it
  should and none without a key, and the parameters, URLs and statuses it computes are the ones
  its abstract descriptions name.
\<close>

section \<open>The client keeps the provider contract\<close>

lemma Deploy_error_provider:
  "Deploy tr env c p w = (Inl e, w') \<Longrightarrow>
     \<exists>pe. as_provider_error e = Some pe \<and> pe_provider pe = ''runpod'' \<and> pe_code pe \<noteq> []"
  by (auto simp: Deploy_def missing_key_def NewProviderError_def Let_def
      split: if_splits prod.splits sum.splits)

lemma GetStatus_error_provider:
  "GetStatus tr env c p w = (Inl e, w') \<Longrightarrow>
     \<exists>pe. as_provider_error e = Some pe \<and> pe_provider pe = ''runpod'' \<and> pe_code pe \<noteq> []"
  by (auto simp: GetStatus_def missing_key_def NewProviderError_def Let_def
      split: if_splits prod.splits sum.splits option.splits)

lemma Terminate_error_provider:
  "Terminate tr env c p w = (Some e, w') \<Longrightarrow>
     \<exists>pe. as_provider_error e = Some pe \<and> pe_provider pe = ''runpod'' \<and> pe_code pe \<noteq> []"
  by (auto simp: Terminate_def missing_key_def NewProviderError_def Let_def
      split: if_splits prod.splits option.splits)

lemma deployPod_id:
  "deployPodRESTWithKey tr c ps k w = (Inr r, w') \<Longrightarrow> cp_id r \<noteq> []"
  by (auto simp: deployPodRESTWithKey_def split: if_splits prod.splits sum.splits)

lemma Deploy_result:
  "Deploy tr env c p w = (Inr r, w') \<Longrightarrow> dr_provider r = ''runpod'' \<and> dr_provider_pod_id r \<noteq> []"
  by (auto simp: Deploy_def Let_def split: if_splits prod.splits sum.splits dest: deployPod_id)

lemma found_result_ids [simp]:
  "sr_provider (found_result p s) = ''runpod''"
  "sr_provider_pod_id (found_result p s) = ip_provider_pod_id p"
  by (simp_all add: found_result_def Let_def split: option.splits)

lemma GetStatus_result:
  "GetStatus tr env c p w = (Inr r, w') \<Longrightarrow>
     sr_provider r = ''runpod'' \<and> sr_provider_pod_id r = ip_provider_pod_id p"
  by (auto simp: GetStatus_def not_found_result_def Let_def
      split: if_splits prod.splits sum.splits option.splits)

interpretation rp: provider_contract "runpod_provider tr env c" for tr env c
proof (unfold_locales, goal_cases)
  case 1 then show ?case using Deploy_error_provider by (fastforce simp: runpod_provider_def)
next
  case 2 then show ?case using GetStatus_error_provider by (fastforce simp: runpod_provider_def)
next
  case 3 then show ?case using Terminate_error_provider by (fastforce simp: runpod_provider_def)
next
  case 4 then show ?case using Deploy_result by (fastforce simp: runpod_provider_def)
next
  case 5 then show ?case using GetStatus_result by (fastforce simp: runpod_provider_def)
qed

section \<open>A transport that records\<close>

text \<open>A transport that answers from a function and records every request in the world.\<close>

definition recording ::
    "(http_request \<Rightarrow> (string, http_response) result) \<Rightarrow> http_request list transport" where
  "recording answer =
     \<lparr>tr_refuses = (\<lambda>_. None), tr_do = (\<lambda>req reqs. (answer req, reqs @ [req]))\<rparr>"

text \<open>Example answers: a body that is the given JSON text, and no connection at all.\<close>

definition json_answer :: "int \<Rightarrow> json \<Rightarrow> http_request \<Rightarrow> (string, http_response) result" where
  "json_answer status j req =
     Inr \<lparr>rsp_status = status,
          rsp_body = \<lparr>hb_text = ''{}'', hb_read_error = None, hb_json = Inr j, hb_first = Inr j\<rparr>\<rparr>"

definition no_answer :: "http_request \<Rightarrow> (string, http_response) result" where
  "no_answer req = Inl ''connection refused''"

section \<open>Keys\<close>

lemma getAPIKey_new:
  "getAPIKey env (NewRunpodClient env) k = (if k \<noteq> [] then k else env RUNPOD_API_KEY)"
  by (simp add: getAPIKey_def NewRunpodClient_def)

text \<open>C34. Without an API key (none in the command, none in the client, none in the environment)
  no operation touches the outside world: each fails with the missing-key error of the provider
  and sends no request.\<close>

theorem no_key_no_request:
  assumes "getAPIKey env c (dp_api_key dp) = []" and "getAPIKey env c (ip_api_key ip) = []"
  shows "Deploy tr env c dp w = (Inl missing_key, w) \<and>
         GetStatus tr env c ip w = (Inl missing_key, w) \<and>
         Terminate tr env c ip w = (Some missing_key, w)"
  using assms by (simp add: Deploy_def GetStatus_def Terminate_def)

theorem no_key_no_request_witness:
  "let env = (\<lambda>_. []); c = NewRunpodClient env
   in Deploy (recording no_answer) env c zero_deploy_params [] = (Inl missing_key, []) \<and>
      GetStatus (recording no_answer) env c zero_instance_params [] = (Inl missing_key, []) \<and>
      Terminate (recording no_answer) env c zero_instance_params [] = (Some missing_key, [])"
  unfolding Let_def
  by (rule no_key_no_request)
    (simp_all add: getAPIKey_new zero_deploy_params_def zero_instance_params_def)

section \<open>The requests that are sent\<close>

definition rest_request ::
    "runpod_client \<Rightarrow> string \<Rightarrow> string \<Rightarrow> json option \<Rightarrow> string \<Rightarrow> int \<Rightarrow> http_request" where
  "rest_request c meth endpoint body key timeout =
     \<lparr>rq_method = meth, rq_url = rc_rest_url c @ endpoint,
      rq_authorization = ''Bearer '' @ key, rq_body = body, rq_timeout = timeout\<rparr>"

lemma rest_recording:
  "makeRESTRequestWithKey (recording answer) c meth endpoint body key reqs =
     (let req = rest_request c meth endpoint body key
                  (if meth = ''POST'' \<and> endpoint = ''pods'' then 60 else 30)
      in (case answer req of
            Inl e \<Rightarrow> Inl (ErrWrap ''failed to execute request: '' (ErrText e))
          | Inr resp \<Rightarrow> Inr resp,
          reqs @ [req]))"
  by (simp add: makeRESTRequestWithKey_def recording_def rest_request_def Let_def
      split: sum.splits)

lemma snd_deployPod:
  "snd (deployPodRESTWithKey tr c ps key w)
   = snd (makeRESTRequestWithKey tr c ''POST'' ''pods'' (Some (JObj ps)) key w)"
  by (simp add: deployPodRESTWithKey_def split: prod.splits sum.splits)

lemma snd_getDetailed:
  "snd (getDetailedPodStatusWithKey tr c i key w)
   = snd (makeRESTRequestWithKey tr c ''GET'' (''pods/'' @ i) None key w)"
  by (simp add: getDetailedPodStatusWithKey_def split: prod.splits sum.splits)

lemma snd_Deploy:
  "getAPIKey env c (dp_api_key p) \<noteq> [] \<Longrightarrow>
   snd (Deploy tr env c p w) =
     snd (deployPodRESTWithKey tr c (convertDeployParams p) (getAPIKey env c (dp_api_key p)) w)"
  by (simp add: Deploy_def Let_def split: prod.splits sum.splits)

lemma snd_GetStatus:
  "getAPIKey env c (ip_api_key p) \<noteq> [] \<Longrightarrow>
   snd (GetStatus tr env c p w) =
     snd (getDetailedPodStatusWithKey tr c (ip_provider_pod_id p) (getAPIKey env c (ip_api_key p)) w)"
  by (simp add: GetStatus_def Let_def split: prod.splits sum.splits option.splits)

text \<open>C35. A deployment sends one request, POST to the collection of pods, with the converted
  parameters as the body, the key that takes precedence as the bearer token and a minute of time;
  without a key it sends none. So a deploy command never creates two instances.\<close>

theorem deploy_sends_one_post:
  "snd (Deploy (recording answer) env c p reqs) =
     reqs @ (let key = getAPIKey env c (dp_api_key p)
            in if key = [] then []
               else [rest_request c ''POST'' ''pods'' (Some (JObj (convertDeployParams p))) key 60])"
proof (cases "getAPIKey env c (dp_api_key p) = []")
  case True
  then show ?thesis by (simp add: Deploy_def)
next
  case False
  then show ?thesis by (simp add: snd_Deploy snd_deployPod rest_recording Let_def)
qed

lemma Terminate_recording:
  assumes "getAPIKey env c (ip_api_key p) = key" and "key \<noteq> []"
    and "trim_space (ip_provider_pod_id p) \<noteq> []"
    and "req = rest_request c ''DELETE'' (''pods/'' @ ip_provider_pod_id p) None key 30"
  shows "snd (Terminate (recording answer) env c p reqs) = reqs @ [req]"
    and "fst (Terminate (recording answer) env c p reqs) = None \<longleftrightarrow>
         (\<exists>resp. answer req = Inr resp \<and> rsp_status resp \<in> {200, 204, 404})"
  using assms
  by (auto simp: Terminate_def terminatePodWithKey_def rest_recording Let_def
      split: sum.splits)

lemma Terminate_silent:
  assumes "getAPIKey env c (ip_api_key p) = [] \<or> trim_space (ip_provider_pod_id p) = []"
  shows "snd (Terminate tr env c p w) = w" and "fst (Terminate tr env c p w) \<noteq> None"
  using assms by (auto simp: Terminate_def terminatePodWithKey_def Let_def)

text \<open>Terminating an instance sends one DELETE for exactly that instance (never a stop, never
  another id), with the key that takes precedence; with a blank id or no key it sends nothing, so
  the collection of all pods is never the target.\<close>

theorem terminate_sends_one_delete:
  "snd (Terminate (recording answer) env c p reqs) =
     reqs @ (let key = getAPIKey env c (ip_api_key p)
            in if key = [] \<or> trim_space (ip_provider_pod_id p) = [] then []
               else [rest_request c ''DELETE'' (''pods/'' @ ip_provider_pod_id p) None key 30])"
proof (cases "getAPIKey env c (ip_api_key p) = [] \<or> trim_space (ip_provider_pod_id p) = []")
  case True
  then show ?thesis by (auto simp: Terminate_silent Let_def)
next
  case False
  then show ?thesis by (simp add: Terminate_recording Let_def)
qed

text \<open>Terminating succeeds exactly when there is a key, the id is not blank and the service
  answers 200, 204 or 404: an instance that is already gone counts as terminated, and every other
  answer or a failed request is an error.\<close>

theorem terminate_succeeds_iff:
  "fst (Terminate (recording answer) env c p reqs) = None \<longleftrightarrow>
     (let key = getAPIKey env c (ip_api_key p);
          req = rest_request c ''DELETE'' (''pods/'' @ ip_provider_pod_id p) None key 30
      in key \<noteq> [] \<and> trim_space (ip_provider_pod_id p) \<noteq> [] \<and>
         (case answer req of Inl e \<Rightarrow> False | Inr resp \<Rightarrow> rsp_status resp \<in> {200, 204, 404}))"
proof (cases "getAPIKey env c (ip_api_key p) = [] \<or> trim_space (ip_provider_pod_id p) = []")
  case True
  then show ?thesis by (auto simp: Terminate_silent Let_def)
next
  case False
  then show ?thesis by (simp add: Terminate_recording Let_def split: sum.splits)
qed

section \<open>Parameters\<close>

text \<open>
  The body of a create request as a table: every key it can have, with the value or \<open>None\<close> where
  the parameter is left out.
\<close>

definition param_table :: "deploy_params \<Rightarrow> (string \<times> json option) list" where
  "param_table p =
     [(''gpuCount'', if slt 0 (dp_gpu_count p) then Some (enc_int (dp_gpu_count p)) else None),
      (''dockerStartCmd'', if dp_args p \<noteq> [] then Some (enc_strs (dp_args p)) else None),
      (''dockerEntrypoint'', if dp_command p \<noteq> [] then Some (enc_strs (dp_command p)) else None),
      (''minRAMPerGPU'', if slt 0 (dp_min_ram p) then Some (enc_int (dp_min_ram p)) else None),
      (''containerRegistryAuthId'',
         if dp_container_auth_id p \<noteq> [] then Some (JStr (dp_container_auth_id p)) else None),
      (''templateId'', if dp_template_id p \<noteq> [] then Some (JStr (dp_template_id p)) else None),
      (''cloudType'', if dp_cloud_type p \<noteq> [] then Some (JStr (dp_cloud_type p)) else None),
      (''dataCenterIds'',
         if dp_datacenter_ids p \<noteq> [] then Some (enc_strs (dp_datacenter_ids p)) else None),
      (''ports'', if dp_ports p \<noteq> [] then Some (enc_strs (dp_ports p)) else None),
      (''gpuTypeIds'',
         if dp_gpu_type_ids p \<noteq> [] then Some (enc_strs (dp_gpu_type_ids p)) else None),
      (''env'', Some (enc_map (dp_env p))),
      (''volumeInGb'', Some (enc_int (dp_volume p))),
      (''containerDiskInGb'', Some (enc_int (dp_container_disk p))),
      (''imageName'', Some (JStr (dp_image p))),
      (''name'', Some (JStr (dp_name p)))]"

definition put_opt :: "string \<times> json option \<Rightarrow> json gomap \<Rightarrow> json gomap" where
  "put_opt e m = (case snd e of None \<Rightarrow> m | Some v \<Rightarrow> map_put (fst e) v m)"

lemma put_opt_ok [simp]: "gomap_ok m \<Longrightarrow> gomap_ok (put_opt e m)"
  by (simp add: put_opt_def split: option.splits)

lemma put_opts_ok [simp]: "gomap_ok m \<Longrightarrow> gomap_ok (foldr put_opt es m)"
  by (induction es) simp_all

lemma map_get_Nil [simp]: "map_get [] k = None"
  by (simp add: map_get_def)

lemma map_get_put_opt:
  "gomap_ok m \<Longrightarrow> map_get (put_opt e m) k =
     (if k = fst e \<and> snd e \<noteq> None then snd e else map_get m k)"
  by (simp add: put_opt_def split: option.splits)

lemma map_get_put_opts:
  assumes "distinct (map fst es)"
  shows "map_get (foldr put_opt es []) k = (case map_of es k of None \<Rightarrow> None | Some v \<Rightarrow> v)"
  using assms
proof (induction es)
  case (Cons e es)
  obtain k' v where e: "e = (k', v)" by force
  have "k' = k \<Longrightarrow> map_of es k = None"
    using Cons.prems by (auto simp: e map_of_eq_None_iff)
  with Cons show ?case
    by (auto simp: e map_get_put_opt split: option.splits)
qed simp

lemma put_if_opt: "put_if b k v m = put_opt (k, if b then Some v else None) m"
  by (simp add: put_if_def put_opt_def)

lemma put_some: "map_put k v m = put_opt (k, Some v) m"
  by (simp add: put_opt_def)

lemma convert_foldr: "convertDeployParams p = foldr put_opt (param_table p) []"
proof -
  have "applyContainerSpec p m =
     put_if (slt 0 (dp_gpu_count p)) ''gpuCount'' (enc_int (dp_gpu_count p))
       (put_if (dp_args p \<noteq> []) ''dockerStartCmd'' (enc_strs (dp_args p))
         (put_if (dp_command p \<noteq> []) ''dockerEntrypoint'' (enc_strs (dp_command p)) m))" for m
    by (simp add: applyContainerSpec_def put_if_def Let_def)
  then show ?thesis
    by (simp only: convertDeployParams_def base_params_def put_if_opt put_some param_table_def
        foldr.simps comp_def id_def)
qed

lemma convertDeployParams_ok: "gomap_ok (convertDeployParams p)"
  by (simp add: convert_foldr)

text \<open>C36. The body of a create request has exactly the keys of the table, with the values it
  names: the image, name, disk, volume and environment always, each other parameter exactly when
  the command sets it, and nothing else. The maximum price of the command is not among them.\<close>

theorem convert_params_table:
  "map_get (convertDeployParams p) k =
     (case map_of (param_table p) k of None \<Rightarrow> None | Some v \<Rightarrow> v)"
proof -
  have "distinct (map fst (param_table p))"
    by (simp add: param_table_def)
  then show ?thesis by (simp only: convert_foldr map_get_put_opts)
qed

section \<open>External URLs\<close>

lemma collect_urls_ok [simp]: "gomap_ok urls \<Longrightarrow> gomap_ok (collect_urls i ports urls)"
  by (induction i ports urls rule: collect_urls.induct) (auto split: option.splits)

lemma map_get_collect_urls:
  "gomap_ok urls \<Longrightarrow>
     map_get (collect_urls i ports urls) port =
       (if \<exists>spec \<in> set ports. http_port spec = Some port then Some (proxy_url i port)
        else map_get urls port)"
  by (induction i ports urls rule: collect_urls.induct) (auto split: option.splits)

text \<open>The external URLs of an instance: a port has one exactly when the instance has an id and
  some port specification names that port with the protocol http (in any letter case, with white
  space around either part); its URL is the RunPod proxy's for that id and port.\<close>

theorem proxy_urls_exact:
  "map_get (entries_of (proxyPortURLs i ports)) port =
     (if i \<noteq> [] \<and> (\<exists>spec \<in> set ports. http_port spec = Some port)
      then Some (proxy_url i port) else None)"
proof -
  have "map_get (collect_urls i ports []) port =
     (if \<exists>spec \<in> set ports. http_port spec = Some port then Some (proxy_url i port) else None)"
    by (simp add: map_get_collect_urls)
  moreover have "map_get (entries_of (if urls = [] then None else Some urls)) port
      = map_get urls port" for urls :: "string gomap"
    by (simp add: entries_of_def)
  ultimately show ?thesis
    by (cases "i = [] \<or> ports = []") (auto simp: proxyPortURLs_def Let_def entries_of_def)
qed

section \<open>Statuses\<close>

lemma GetStatus_cases:
  assumes "fst (GetStatus tr env c p w) = Inr r"
  obtains "r = not_found_result p" | s where "r = found_result p s"
  using assms
  by (auto simp: GetStatus_def Let_def split: if_splits prod.splits sum.splits option.splits)

lemma phases_distinct [simp]:
  "PhaseRunning \<noteq> PhasePending" "PhaseRunning \<noteq> PhaseSucceeded" "PhaseRunning \<noteq> PhaseFailed"
  "PhasePending \<noteq> PhaseSucceeded" "PhasePending \<noteq> PhaseFailed" "PhaseSucceeded \<noteq> PhaseFailed"
  "PhaseUnknown \<noteq> PhaseSucceeded" "PhaseUnknown \<noteq> PhaseFailed" "PhaseFailed \<noteq> PhaseSucceeded"
  by (simp_all add: phase_defs)

lemma PhaseForStatus_terminal:
  "PhaseForStatus st b \<in> {PhaseSucceeded, PhaseFailed} \<longleftrightarrow>
     st = StatusTerminated \<or> st = StatusExited \<or> st = StatusFailed"
proof -
  have "StatusTerminated \<notin> {StatusPending, StatusStarting, StatusRunning, StatusTerminating}"
    and "StatusExited \<notin> {StatusPending, StatusStarting, StatusRunning, StatusTerminating}"
    and "StatusFailed \<notin> {StatusPending, StatusStarting, StatusRunning, StatusTerminating}"
    by (simp_all add: status_defs)
  then show ?thesis by (auto simp: PhaseForStatus_def)
qed

lemma PhaseForStatus_succeeded:
  "PhaseForStatus st b = PhaseSucceeded \<Longrightarrow> b \<and> (st = StatusTerminated \<or> st = StatusExited)"
  by (auto simp: PhaseForStatus_def split: if_splits)

lemma found_result_fields:
  "sr_phase (found_result p s) = PhaseForStatus (ds_desired_status s) (isSuccessfulCompletion s)"
  "sr_status (found_result p s) = ds_desired_status s"
  "sr_is_running (found_result p s) \<longleftrightarrow> ds_desired_status s = StatusRunning"
  "sr_is_terminated (found_result p s) \<longleftrightarrow>
     ds_desired_status s = StatusTerminated \<or> ds_desired_status s = StatusExited"
  by (simp_all add: found_result_def Let_def GetStandardStatus_def pod_status_defs
      StatusRunning_def StatusTerminated_def StatusExited_def split: option.splits)

text \<open>C37. A reported status is consistent: an instance reported as running is in phase Running and
  not terminated; the phase is terminal exactly when the instance is terminated or its status is
  FAILED; and it is Succeeded only for a terminated instance.\<close>

theorem status_consistent:
  assumes "fst (GetStatus tr env c p w) = Inr r"
  shows "(sr_is_running r \<longrightarrow> sr_phase r = PhaseRunning \<and> \<not> sr_is_terminated r) \<and>
         (sr_phase r \<in> {PhaseSucceeded, PhaseFailed} \<longleftrightarrow>
            sr_is_terminated r \<or> sr_status r = StatusFailed) \<and>
         (sr_phase r = PhaseSucceeded \<longrightarrow> sr_is_terminated r)"
  using assms
proof (cases rule: GetStatus_cases)
  case 1
  then show ?thesis by (simp add: not_found_result_def)
next
  case (2 s)
  have "PhaseForStatus StatusRunning b = PhaseRunning" for b
    by (simp add: PhaseForStatus_def status_defs)
  moreover have "StatusRunning \<noteq> StatusTerminated" and "StatusRunning \<noteq> StatusExited"
    by (simp_all add: status_defs)
  ultimately show ?thesis
    unfolding 2 found_result_fields PhaseForStatus_terminal
    using PhaseForStatus_succeeded by auto
qed

theorem status_consistent_witness:
  "let r = found_result (zero_instance_params\<lparr>ip_provider_pod_id := ''a1'', ip_api_key := ''k''\<rparr>)
             (zero_detailed\<lparr>ds_desired_status := ''RUNNING''\<rparr>)
   in (sr_is_running r \<longrightarrow> sr_phase r = PhaseRunning \<and> \<not> sr_is_terminated r) \<and>
      (sr_phase r \<in> {PhaseSucceeded, PhaseFailed} \<longleftrightarrow>
         sr_is_terminated r \<or> sr_status r = StatusFailed) \<and>
      (sr_phase r = PhaseSucceeded \<longrightarrow> sr_is_terminated r)"
  unfolding Let_def
  by (rule status_consistent [of "recording (json_answer 200
          (JObj [(''desiredStatus'', JStr ''RUNNING'')]))" "\<lambda>_. []" "NewRunpodClient (\<lambda>_. [])"
        "zero_instance_params\<lparr>ip_provider_pod_id := ''a1'', ip_api_key := ''k''\<rparr>" "[]"])
    (simp add: GetStatus_def getAPIKey_new getDetailedPodStatusWithKey_def rest_recording
      json_answer_def read_body_def unmarshal_def decode_struct_def detailed_fields_def
      find_field_def zero_detailed_def Let_def)

end
