(* ===== verification/Kubelet_Correct.thy ===== *)
theory Kubelet_Correct
  imports Kubelet_System Runpod_Correct
begin

text \<open>
  What the kubelet promises about pods: what each call of the controllers does, that operations on
  one pod leave every other alone, what the platform's commands do and how long it lasts, and the
  registration; with the runs at which the properties are applied.
\<close>

section \<open>Calls of the controllers\<close>

text \<open>What a send adds to the outbound queue.\<close>

definition sent :: "ws_client \<Rightarrow> outgoing \<Rightarrow> outgoing list" where
  "sent c e = (if ws_connected c \<and> length (ws_outbound_ch c) < outbound_capacity then [e] else [])"

lemma kb_send_outbound:
  "ws_outbound_ch (kb_ws (snd (kb_send (sendEnvelope e) k))) =
     ws_outbound_ch (kb_ws k) @ sent (kb_ws k) e"
  by (simp add: kb_send_def sendEnvelope_def IsConnected_def sent_def chan_send_def
      split: option.splits)

lemma kb_send_client [simp]:
  "ws_connected (kb_ws (snd (kb_send (sendEnvelope e) k))) = ws_connected (kb_ws k)"
  "ws_config (kb_ws (snd (kb_send (sendEnvelope e) k))) = ws_config (kb_ws k)"
  by (simp_all add: kb_send_def sendEnvelope_def chan_send_def split: option.splits)

lemma KubeletID_config: "ws_config c = ws_config c' \<Longrightarrow> KubeletID c = KubeletID c'"
  by (simp add: KubeletID_def)

lemma getPodKey_alt: "p_namespace p @ ''/'' @ p_name p = getPodKey p"
  by (simp add: getPodKey_def)

lemma CreatePod_lookup:
  "kb_pods (CreatePod uuid now p k) (getPodKey p) = Some p"
  "kb_status (CreatePod uuid now p k) (getPodKey p) = Some (new_instance_info p now)"
  by (simp_all add: CreatePod_def Let_def)

lemma DeletePod_lookup:
  "kb_pods (DeletePod uuid now p k) (getPodKey p) = None"
  "kb_status (DeletePod uuid now p k) (getPodKey p) = None"
  by (simp_all add: DeletePod_def Let_def)

lemma CreatePod_outbound:
  "ws_outbound_ch (kb_ws (CreatePod uuid now p k)) = ws_outbound_ch (kb_ws k) @
     sent (kb_ws k) (NewEnvelope uuid now (EventPayload (pod_created p)) (KubeletID (kb_ws k)))"
  by (simp add: CreatePod_def Let_def kb_send_payload kb_send_outbound)

lemma DeletePod_outbound:
  "ws_outbound_ch (kb_ws (DeletePod uuid now p k)) = ws_outbound_ch (kb_ws k) @
     sent (kb_ws k) (NewEnvelope uuid now
       (EventPayload (pod_deleted p (known_instance (getPodKey p) k))) (KubeletID (kb_ws k)))"
  by (simp add: DeletePod_def Let_def kb_send_payload kb_send_outbound)

text \<open>The status reported for a pod with no news, and for a rejected one.\<close>

definition pending_status :: pod_status where
  "pending_status =
     \<lparr>ps_phase = ''Pending'', ps_reason = [], ps_message = [],
      ps_conditions = [(''PodScheduled'', ''True'')], ps_container_statuses = []\<rparr>"

definition rejected_status :: "string \<Rightarrow> string \<Rightarrow> pod_status" where
  "rejected_status code message =
     pending_status\<lparr>ps_phase := ''Failed'', ps_reason := code, ps_message := message\<rparr>"

lemma GetPodStatus_cases:
  "GetPodStatus ns name k =
     (case kb_pods k (ns @ ''/'' @ name) of
        None \<Rightarrow> Fails (ErrText ''pod not found'')
      | Some p \<Rightarrow>
          (case kb_status k (ns @ ''/'' @ name) of
             None \<Rightarrow> Returns pending_status
           | Some info \<Rightarrow>
               if ii_reject_code info \<noteq> []
               then Returns (rejected_status (ii_reject_code info) (ii_reject_message info))
               else GetPodStatus ns name k))"
  by (auto simp: GetPodStatus_def Let_def pending_status_def rejected_status_def
      split: option.splits)

lemma GetPodStatus_ok:
  assumes "pods_ok k"
  shows "GetPodStatus ns name k =
     (case kb_pods k (ns @ ''/'' @ name) of
        None \<Rightarrow> Fails (ErrText ''pod not found'')
      | Some p \<Rightarrow>
          (case kb_status k (ns @ ''/'' @ name) of
             None \<Rightarrow> Returns pending_status
           | Some info \<Rightarrow>
               if ii_reject_code info \<noteq> []
               then Returns (rejected_status (ii_reject_code info) (ii_reject_message info))
               else Returns pending_status))"
  using pods_okD(3) [OF assms]
  by (auto simp: GetPodStatus_def Let_def pending_status_def rejected_status_def
      split: option.splits)

text \<open>C20. Creating a pod caches it, resets whatever was known of an instance under its name, and
  reports it Pending; the platform is told with the pod's full manifest exactly if the client is
  connected with room in its queue. Otherwise the event is lost, and no error is returned.\<close>

theorem create_pod:
  "let k' = CreatePod uuid now p k;
       event = \<lparr>ev_type = ''pod_created'', ev_data = PodCreatedData
         \<lparr>pc_pod_name = p_name p, pc_namespace = p_namespace p, pc_uid = p_uid p,
          pc_pod_spec = p\<lparr>p_api_version := ''v1'', p_kind := ''Pod''\<rparr>,
          pc_annotations = p_annotations p\<rparr>\<rparr>
   in GetPod (p_namespace p) (p_name p) k' = Inr p \<and>
      GetPodStatus (p_namespace p) (p_name p) k' = Returns pending_status \<and>
      known_instance (getPodKey p) k' = [] \<and>
      ws_outbound_ch (kb_ws k') = ws_outbound_ch (kb_ws k) @
        (if IsConnected (kb_ws k) \<and> length (ws_outbound_ch (kb_ws k)) < 200
         then [NewEnvelope uuid now (EventPayload event) (KubeletID (kb_ws k))] else [])"
proof -
  have "GetPod (p_namespace p) (p_name p) (CreatePod uuid now p k) = Inr p"
    unfolding GetPod_def getPodKey_alt by (simp add: CreatePod_lookup)
  moreover have "GetPodStatus (p_namespace p) (p_name p) (CreatePod uuid now p k)
      = Returns pending_status"
    unfolding GetPodStatus_def getPodKey_alt
    by (simp add: CreatePod_lookup new_instance_info_def pending_status_def)
  moreover have "known_instance (getPodKey p) (CreatePod uuid now p k) = []"
    by (simp add: known_instance_def CreatePod_lookup new_instance_info_def)
  ultimately show ?thesis
    by (simp add: CreatePod_outbound sent_def IsConnected_def outbound_capacity_def
        pod_created_def EventPodCreated_def)
qed

text \<open>C21. Deleting a pod forgets it and its instance; the event that tells the platform carries the
  provider's id of the instance if a deployment was recorded, and is sent even when none was.\<close>

theorem delete_pod:
  "let k' = DeletePod uuid now p k;
       event = \<lparr>ev_type = ''pod_deleted'', ev_data = PodDeletedData
         \<lparr>pd_pod_name = p_name p, pd_namespace = p_namespace p, pd_uid = p_uid p,
          pd_provider_pod_id = known_instance (getPodKey p) k,
          pd_reason = ''Pod deleted by Kubernetes''\<rparr>\<rparr>
   in GetPod (p_namespace p) (p_name p) k' = Inl (ErrText ''pod not found'') \<and>
      GetPodStatus (p_namespace p) (p_name p) k' = Fails (ErrText ''pod not found'') \<and>
      known_instance (getPodKey p) k' = [] \<and>
      ws_outbound_ch (kb_ws k') = ws_outbound_ch (kb_ws k) @
        (if IsConnected (kb_ws k) \<and> length (ws_outbound_ch (kb_ws k)) < 200
         then [NewEnvelope uuid now (EventPayload event) (KubeletID (kb_ws k))] else [])"
proof -
  have "GetPod (p_namespace p) (p_name p) (DeletePod uuid now p k) = Inl (ErrText ''pod not found'')"
    unfolding GetPod_def getPodKey_alt by (simp add: DeletePod_lookup)
  moreover have "GetPodStatus (p_namespace p) (p_name p) (DeletePod uuid now p k)
      = Fails (ErrText ''pod not found'')"
    unfolding GetPodStatus_def getPodKey_alt by (simp add: DeletePod_lookup)
  moreover have "known_instance (getPodKey p) (DeletePod uuid now p k) = []"
    by (simp add: known_instance_def DeletePod_lookup)
  ultimately show ?thesis
    by (simp add: DeletePod_outbound sent_def IsConnected_def outbound_capacity_def
        pod_deleted_def EventPodDeleted_def)
qed

section \<open>Isolation\<close>

text \<open>The namespace and name of the pod that a step is about.\<close>

fun pod_of_step :: "kb_label \<Rightarrow> (string \<times> string) option" where
  "pod_of_step (KCreate uuid now p) = Some (p_namespace p, p_name p)"
| "pod_of_step (KUpdate p) = Some (p_namespace p, p_name p)"
| "pod_of_step (KDelete uuid now p) = Some (p_namespace p, p_name p)"
| "pod_of_step (KCommand uuid now env) =
     (case deploy_params_of env of
        Some p \<Rightarrow> Some (trim_space (dp_namespace p), trim_space (dp_pod_name p))
      | None \<Rightarrow>
          map_option (\<lambda>p. (trim_space (rp_namespace p), trim_space (rp_pod_name p)))
            (reject_params_of env))"
| "pod_of_step _ = None"

text \<open>The key that a step may touch.\<close>

definition step_key :: "kb_label \<Rightarrow> string option" where
  "step_key l = map_option (\<lambda>(ns, name). ns @ ''/'' @ name) (pod_of_step l)"

lemma step_key_simps [simp]:
  "step_key (KCreate uuid now p) = Some (getPodKey p)"
  "step_key (KUpdate p) = Some (getPodKey p)"
  "step_key (KDelete uuid now p) = Some (getPodKey p)"
  "step_key (KCommand uuid now env) = command_key env"
  "step_key KNotify = None" "step_key (KRegister ord s1 s2) = None" "step_key (KNet n) = None"
  "step_key KCleanup = None"
  by (simp_all add: step_key_def getPodKey_def command_key_def PodKey_def comp_def
      option.map_comp split: option.splits)

lemma step_other:
  "system_step s l t \<Longrightarrow> step_key l \<noteq> Some j \<Longrightarrow>
     kb_pods (sy_kubelet t) j = kb_pods (sy_kubelet s) j \<and>
     kb_status (sy_kubelet t) j = kb_status (sy_kubelet s) j"
proof (induction rule: system_step.induct)
  case (sys_command s env rest uuid now k w)
  let ?k = "received_command rest (sy_kubelet s)"
  from sys_command.hyps(2) have "k = fst (process_command uuid now env (?k, sy_world s))" by simp
  then have "kb_pods k = kb_pods (after_command now env ?k (sy_world s))"
      "kb_status k = kb_status (after_command now env ?k (sy_world s))"
    by (simp_all add: process_command_eq)
  with after_command_other [of env j now ?k "sy_world s"] sys_command.prems show ?case by simp
next
  case (sys_create s uuid now p)
  then show ?case by (auto simp: create.other_pods create.other_status)
next
  case (sys_update s p)
  then show ?case by (auto simp: update.other_pods update.other_status)
next
  case (sys_delete s uuid now p)
  then show ?case by (auto simp: del.other_pods del.other_status)
qed (auto simp: NotifyPods_def register_frame Cleanup_def)

lemma run_other:
  "run_of system_step s ls t \<Longrightarrow> \<forall>l \<in> set ls. step_key l \<noteq> Some j \<Longrightarrow>
     kb_pods (sy_kubelet t) j = kb_pods (sy_kubelet s) j \<and>
     kb_status (sy_kubelet t) j = kb_status (sy_kubelet s) j"
proof (induction rule: run_of.induct)
  case (run_snoc s ls t l u)
  then show ?case using step_other [OF run_snoc.hyps(2), of j] by simp
qed simp

lemma pod_key_eq:
  assumes "ns @ ''/'' @ name = ns' @ ''/'' @ name'" and "CHR ''/'' \<notin> set ns" and "CHR ''/'' \<notin> set ns'"
  shows "ns = ns' \<and> name = name'"
  by (rule append_sep_inj) (use assms in simp_all)

lemma step_key_other:
  assumes "pod_of_step l \<noteq> Some (ns, name)" and "CHR ''/'' \<notin> set ns"
    and "\<And>ns' name'. pod_of_step l = Some (ns', name') \<Longrightarrow> CHR ''/'' \<notin> set ns'"
  shows "step_key l \<noteq> Some (ns @ ''/'' @ name)"
proof
  assume "step_key l = Some (ns @ ''/'' @ name)"
  then obtain ns' name' where l: "pod_of_step l = Some (ns', name')"
      and "ns' @ ''/'' @ name' = ns @ ''/'' @ name"
    by (auto simp: step_key_def)
  with pod_key_eq [of ns' name' ns name] assms show False by auto
qed

text \<open>C3. Whatever happens in a run of the kubelet to other pods (created, updated, deleted, deployed
  by or rejected by the platform), to the connection or at registration: a pod that none of the
  steps is about is still cached as it was, has the same status and the same provider instance.
  Namespaces contain no slash, as Kubernetes demands.\<close>

theorem pods_isolated:
  assumes "run_of system_step s ls t" and "CHR ''/'' \<notin> set ns"
    and "\<forall>l \<in> set ls. \<forall>ns' name'. pod_of_step l = Some (ns', name') \<longrightarrow>
           CHR ''/'' \<notin> set ns' \<and> (ns', name') \<noteq> (ns, name)"
  shows "GetPod ns name (sy_kubelet t) = GetPod ns name (sy_kubelet s) \<and>
    GetPodStatus ns name (sy_kubelet t) = GetPodStatus ns name (sy_kubelet s) \<and>
    known_instance (ns @ ''/'' @ name) (sy_kubelet t) = known_instance (ns @ ''/'' @ name) (sy_kubelet s)"
proof -
  have "\<forall>l \<in> set ls. step_key l \<noteq> Some (ns @ ''/'' @ name)"
    using assms(2,3) step_key_other by blast
  from run_other [OF assms(1) this] show ?thesis
    by (simp add: GetPod_def GetPodStatus_def known_instance_def Let_def cong: option.case_cong)
qed

section \<open>What is ever reported of a pod\<close>

text \<open>C4. In every state the kubelet can reach, the status it reports of a cached pod is Pending, or
  Failed with the code and message of a rejection; it is never Running or Succeeded and never lists
  a container, whatever the provider answered to deploy and status commands, and asking for it never
  panics.\<close>

theorem reported_status:
  assumes "reachable system_init system_step s"
  shows "case GetPod ns name (sy_kubelet s) of
      Inl err \<Rightarrow> GetPodStatus ns name (sy_kubelet s) = Fails err
    | Inr p \<Rightarrow> GetPodStatus ns name (sy_kubelet s) =
        (case kb_status (sy_kubelet s) (ns @ ''/'' @ name) of
           None \<Rightarrow> Returns pending_status
         | Some info \<Rightarrow>
             if ii_reject_code info = [] then Returns pending_status
             else Returns (rejected_status (ii_reject_code info) (ii_reject_message info)))"
proof -
  from sys.reachable_inv [OF assms] have "pods_ok (sy_kubelet s)"
    by (simp add: system_inv_def)
  from GetPodStatus_ok [OF this, of ns name] show ?thesis
    by (auto simp: GetPod_def split: option.splits)
qed

lemma step_registered:
  assumes "system_step s l t" and "sy_registered s \<le> cn_spawned (kb_conn (sy_kubelet s))"
  shows "sy_registered t \<le> cn_spawned (kb_conn (sy_kubelet t))"
proof -
  from system_step_conn [OF assms(1)] obtain ls
    where "run_of conn_step (kb_conn (sy_kubelet s)) ls (kb_conn (sy_kubelet t))" ..
  from run_spawned [OF this]
  have "cn_spawned (kb_conn (sy_kubelet s)) \<le> cn_spawned (kb_conn (sy_kubelet t))" by simp
  with assms show ?thesis by (cases rule: system_step.cases) auto
qed

interpretation registrations: invariant_system system_init system_step
    "\<lambda>s. sy_registered s \<le> cn_spawned (kb_conn (sy_kubelet s))"
  by unfold_locales (auto simp: system_init_def intro: step_registered)

text \<open>C12. Inside the kubelet, every connection property of the WebSocket client holds: whatever the
  controllers, the commands and the callbacks do, the connection is in a state that the client's
  own goroutines can reach, and there are never more registrations than connects.\<close>

theorem system_connection:
  assumes "reachable system_init system_step s"
  shows "reachable conn_init conn_step (kb_conn (sy_kubelet s)) \<and>
    sy_registered s \<le> cn_spawned (kb_conn (sy_kubelet s))"
  using sys.reachable_inv [OF assms] registrations.reachable_inv [OF assms]
  by (simp add: system_inv_def)

section \<open>Deployments\<close>

lemma process_deploy:
  assumes "deploy_params_ok p"
    and "ManagerDeploy (kb_manager k) (dp_provider p) p w = (Inr d, w')"
  shows "process_command uuid now (command_envelope i CommandDeploy (enc_deploy_params p)) (k, w) =
    (let d' = (if dr_provider d = [] then d\<lparr>dr_provider := dp_provider p\<rparr> else d)
     in (snd (kb_send (SendResponse uuid now (NewSuccessResponse i (DeployData d')))
           (handleDeploymentSuccess now p d' k)), w'))"
proof -
  let ?env = "command_envelope i CommandDeploy (enc_deploy_params p)"
  let ?d = "if dr_provider d = [] then d\<lparr>dr_provider := dp_provider p\<rparr> else d"
  have x: "ExecuteCommand (kb_manager k) (Some kb_reject) ?env (k, w) =
      (NewSuccessResponse i (DeployData ?d), k, w')"
    by (simp add: execute_deploy_command [OF assms(1)] assms(2))
  have "DecodePayload command_fields zero_command ?env
      = Inr (NewCommand CommandDeploy (enc_deploy_params p))"
    unfolding command_envelope_def
    by (rule codec.through_envelope [OF deploy_codec.codec_axioms])
  moreover have "DecodeData deploy_params_fields zero_deploy_params
      (NewCommand CommandDeploy (enc_deploy_params p)) = Inr p"
    by (rule deploy_codec.decode_data [OF assms(1)])
  ultimately have "deploy_params_of ?env = Some p"
    by (simp add: deploy_params_of_def NewCommand_def)
  then show ?thesis
    by (simp add: process_command_def x Success_def NewSuccessResponse_def Let_def)
qed

text \<open>C1. A deploy command for a pod that the kubelet knows, which its provider carries out, is
  answered with the new instance, the instance is recorded for the pod, and when Kubernetes deletes
  the pod, at once or after any steps that are not about it, the event tells the platform the id of
  exactly that instance.\<close>

theorem deploy_until_delete:
  assumes "deploy_params_ok p" and "k8s_name (dp_namespace p)" and "k8s_name (dp_pod_name p)"
    and "getPodKey q = dp_namespace p @ ''/'' @ dp_pod_name p"
    and "kb_status k (getPodKey q) \<noteq> None"
    and "ManagerDeploy (kb_manager k) (dp_provider p) p w = (Inr d, w')"
    and "process_command uuid now (command_envelope i CommandDeploy (enc_deploy_params p)) (k, w) =
           (k1, w1)"
    and "sy_kubelet s = k1" and "run_of system_step s ls t"
    and "\<forall>l \<in> set ls. step_key l \<noteq> Some (getPodKey q)"
  shows "w1 = w' \<and>
    ws_outbound_ch (kb_ws k1) = ws_outbound_ch (kb_ws k) @
      sent (kb_ws k) (NewEnvelope uuid now (ResponsePayload (NewSuccessResponse i (DeployData
        (if dr_provider d = [] then d\<lparr>dr_provider := dp_provider p\<rparr> else d)))) (KubeletID (kb_ws k))) \<and>
    ws_outbound_ch (kb_ws (DeletePod uuid' now' q (sy_kubelet t))) =
      ws_outbound_ch (kb_ws (sy_kubelet t)) @
      sent (kb_ws (sy_kubelet t)) (NewEnvelope uuid' now'
        (EventPayload (pod_deleted q (dr_provider_pod_id d))) (KubeletID (kb_ws (sy_kubelet t))))"
proof -
  let ?d = "if dr_provider d = [] then d\<lparr>dr_provider := dp_provider p\<rparr> else d"
  let ?k = "handleDeploymentSuccess now p ?d k"
  have key: "PodKey (dp_namespace p) (dp_pod_name p) = getPodKey q"
    using assms(2-4) by (simp add: PodKey_def k8s_name_def)
  from assms(7) have k1: "k1 = snd (kb_send (SendResponse uuid now
      (NewSuccessResponse i (DeployData ?d))) ?k)" and "w1 = w'"
    by (simp_all add: process_deploy [OF assms(1,6)] Let_def)
  moreover have "known_instance (getPodKey q) ?k = dr_provider_pod_id d"
    using assms(5) by (auto simp: known_instance_def deploy_status key)
  ultimately have "known_instance (getPodKey q) (sy_kubelet t) = dr_provider_pod_id d"
    using run_other [OF assms(9,10)] assms(8) by (simp add: known_instance_def)
  with k1 \<open>w1 = w'\<close> show ?thesis
    by (simp add: DeletePod_outbound kb_send_payload kb_send_outbound)
qed

section \<open>Rejections\<close>

text \<open>The steps that end a rejection: the pod is created anew, deleted, or rejected again.\<close>

fun ends_rejection :: "string \<Rightarrow> kb_label \<Rightarrow> bool" where
  "ends_rejection key (KCreate uuid now p) = (getPodKey p = key)"
| "ends_rejection key (KDelete uuid now p) = (getPodKey p = key)"
| "ends_rejection key (KCommand uuid now env) = (command_key env = Some key \<and> reject_params_of env \<noteq> None)"
| "ends_rejection key _ = False"

definition rejected_as :: "string \<Rightarrow> string \<Rightarrow> string \<Rightarrow> 'w kubelet \<Rightarrow> bool" where
  "rejected_as key code message k \<longleftrightarrow>
     kb_pods k key \<noteq> None \<and>
     (\<exists>info. kb_status k key = Some info \<and> ii_reject_code info = code \<and>
        ii_reject_message info = message)"

lemma rejected_as_cong:
  "kb_pods k' key = kb_pods k key \<Longrightarrow> kb_status k' key = kb_status k key \<Longrightarrow>
     rejected_as key code message k' = rejected_as key code message k"
  by (simp add: rejected_as_def)

lemma after_command_rejected:
  assumes "rejected_as key code message k"
    and "\<not> (command_key env = Some key \<and> reject_params_of env \<noteq> None)"
  shows "rejected_as key code message (after_command now env k w)"
proof (cases rule: after_command_cases [of now env k w])
  case nothing
  with assms(1) show ?thesis by simp
next
  case (deployed p result)
  with assms(1) show ?thesis by (auto simp: rejected_as_def deploy_pods deploy_status)
next
  case (rejected p)
  with assms(2) have "command_key env \<noteq> Some key" by simp
  from after_command_other [OF this, of now k w] assms(1) show ?thesis
    by (simp add: rejected_as_def)
qed

lemma step_rejected:
  assumes "system_step s l t" and "rejected_as key code message (sy_kubelet s)"
    and "\<not> ends_rejection key l"
  shows "rejected_as key code message (sy_kubelet t)"
proof (cases "step_key l = Some key")
  case False
  from step_other [OF assms(1) False] assms(2) show ?thesis by (simp add: rejected_as_def)
next
  case True
  from assms(1) show ?thesis
  proof cases
    case (sys_update p)
    with True assms(2) show ?thesis by (simp add: rejected_as_def UpdatePod_def)
  next
    case (sys_command env rest uuid now k w)
    let ?k = "received_command rest (sy_kubelet s)"
    from sys_command(4) have "k = fst (process_command uuid now env (?k, sy_world s))" by simp
    moreover have "rejected_as key code message (after_command now env ?k (sy_world s))"
      using assms(2,3) sys_command(1) by (intro after_command_rejected) (simp_all add: rejected_as_def)
    ultimately show ?thesis
      using sys_command(2) by (simp add: process_command_eq rejected_as_def)
  qed (use True assms(3) in simp_all)
qed

lemma run_rejected:
  "run_of system_step s ls t \<Longrightarrow> rejected_as key code message (sy_kubelet s) \<Longrightarrow>
     \<forall>l \<in> set ls. \<not> ends_rejection key l \<Longrightarrow> rejected_as key code message (sy_kubelet t)"
proof (induction rule: run_of.induct)
  case (run_snoc s ls t l u)
  then show ?case using step_rejected [OF run_snoc.hyps(2)] by simp
qed

lemma rejected_status_reported:
  assumes "rejected_as (ns @ ''/'' @ name) code message k" and "code \<noteq> []"
  shows "GetPodStatus ns name k = Returns (rejected_status code message)"
  using assms by (auto simp: rejected_as_def GetPodStatus_def Let_def rejected_status_def
      pending_status_def)

lemma process_reject:
  "process_command uuid now (command_envelope i CommandReject (enc_reject_params r)) (k, w) =
    (case kb_reject r k of
       (None, k1) \<Rightarrow> (snd (kb_send (SendResponse uuid now (NewSuccessResponse i EmptyData)) k1), w)
     | (Some e, k1) \<Rightarrow>
         (snd (kb_send (SendResponse uuid now
            (NewErrorResponse i ErrCodeRejectFailed (error_text e) [])) k1), w))"
proof -
  have "DecodeData reject_params_fields zero_reject_params
      (NewCommand CommandReject (enc_reject_params r)) = Inr r"
    by (rule reject_codec.decode_data) simp
  then show ?thesis
    by (cases "kb_reject r k"; cases "fst (kb_reject r k)")
      (simp_all add: process_command_def execute_command_envelope [OF reject_codec.codec_axioms]
        Handle_def handleReject_def NewCommand_def Success_def NewSuccessResponse_def
        NewErrorResponse_def Let_def)
qed

text \<open>C2. When the platform rejects a pod that the kubelet knows, giving a code, the pod is reported
  Failed with the code as reason and the platform's message from then on, through updates,
  deployments, reconnects and commands for other pods, until the pod is deleted, created again or
  rejected again; the rejection is acknowledged and the outside world is not touched.\<close>

theorem rejection_lasts:
  assumes "k8s_name (rp_namespace r)" and "k8s_name (rp_pod_name r)" and "rp_code r \<noteq> []"
    and "kb_pods k (rp_namespace r @ ''/'' @ rp_pod_name r) \<noteq> None"
    and "kb_status k (rp_namespace r @ ''/'' @ rp_pod_name r) \<noteq> None"
    and "process_command uuid now (command_envelope i CommandReject (enc_reject_params r)) (k, w) =
           (sy_kubelet s, w1)"
    and "run_of system_step s ls t"
    and "\<forall>l \<in> set ls. \<not> ends_rejection (rp_namespace r @ ''/'' @ rp_pod_name r) l"
  shows "GetPodStatus (rp_namespace r) (rp_pod_name r) (sy_kubelet t) =
      Returns (rejected_status (rp_code r) (rp_message r)) \<and> w1 = w \<and>
    ws_outbound_ch (kb_ws (sy_kubelet s)) = ws_outbound_ch (kb_ws k) @
      sent (kb_ws k) (NewEnvelope uuid now (ResponsePayload (NewSuccessResponse i EmptyData))
        (KubeletID (kb_ws k)))"
proof -
  let ?key = "rp_namespace r @ ''/'' @ rp_pod_name r"
  have key: "PodKey (rp_namespace r) (rp_pod_name r) = ?key"
    using assms(1,2) by (simp add: PodKey_def k8s_name_def)
  from assms(4,5) have "rejected_as ?key (rp_code r) (rp_message r) (snd (kb_reject r k))"
    by (auto simp: rejected_as_def reject_pods reject_status key)
  moreover have none: "fst (kb_reject r k) = None"
    using assms(4) by (auto simp: kb_reject_def Let_def key split: option.splits prod.splits)
  then have s: "sy_kubelet s = snd (kb_send (SendResponse uuid now (NewSuccessResponse i EmptyData))
      (snd (kb_reject r k)))" and w: "w1 = w"
    using assms(6) by (simp_all add: process_reject split_beta split: prod.splits)
  ultimately have "rejected_as ?key (rp_code r) (rp_message r) (sy_kubelet s)"
    by (simp add: rejected_as_def)
  from rejected_status_reported [OF run_rejected [OF assms(7) this assms(8)] assms(3)] s w
  show ?thesis by (simp add: kb_send_payload kb_send_outbound)
qed

text \<open>C39. A rejection without a code is acknowledged and Kubernetes is notified that the pod Failed,
  but the kubelet goes on reporting the pod as Pending.\<close>

theorem rejection_without_code:
  assumes "reachable system_init system_step s" and "k = sy_kubelet s" and "kb_notify k"
    and "rp_code r = []" and "kb_pods k (PodKey (rp_namespace r) (rp_pod_name r)) \<noteq> None"
    and "PodKey (rp_namespace r) (rp_pod_name r) = ns @ ''/'' @ name"
  shows "fst (kb_reject r k) = None \<and>
    p_phase (last (kb_notified (snd (kb_reject r k)))) = ''Failed'' \<and>
    GetPodStatus ns name (snd (kb_reject r k)) = Returns pending_status"
proof -
  from sys.reachable_inv [OF assms(1)] assms(2) have "pods_ok k"
    by (simp add: system_inv_def)
  then have "pods_ok (snd (kb_reject r k))"
    by (rule rejected.keeps_pods_ok)
  from GetPodStatus_ok [OF this, of ns name] assms
  have "GetPodStatus ns name (snd (kb_reject r k)) = Returns pending_status"
    by (auto simp: reject_pods reject_status split: option.splits)
  moreover from assms obtain p where p: "kb_pods k (PodKey (rp_namespace r) (rp_pod_name r)) = Some p"
    by auto
  have "fst (kb_reject r k) = None"
    "p_phase (last (kb_notified (snd (kb_reject r k)))) = ''Failed''"
    using p assms(3)
    by (auto simp: kb_reject_def Let_def updatePodStatus_def PhaseFailed_def split: option.splits)
  ultimately show ?thesis by simp
qed

end
