(* ===== verification/Kubelet_Startup.thy ===== *)
theory Kubelet_Startup
  imports Kubelet_Correct
begin

text \<open>
  From the configuration to the running kubelet: which providers it starts with, the timing of its
  connection, and the registration that it sends after every connect.
\<close>

section \<open>Providers\<close>

lemma enabled_guard: "''runpod'' \<in> set (pvc_enabled (cf_providers c)) \<Longrightarrow> IsProviderEnabled ''runpod'' c"
  by (auto simp: IsProviderEnabled_def list_ex_iff)

lemma init_providers_result:
  assumes "pv_name client = ''runpod''" and "set names \<subseteq> set (pvc_enabled (cf_providers c))"
  shows "init_providers client c names m =
     (if ''runpod'' \<notin> set names then Inr m
      else if count_list names ''runpod'' = 1 \<and> m ''runpod'' = None
        then Inr (m(''runpod'' \<mapsto> client))
      else Inl (ErrWrap ''failed to register RunPod provider: ''
        (ErrText ''provider runpod is already registered'')))"
  using assms(2)
proof (induction names arbitrary: m)
  case (Cons name names)
  show ?case
  proof (cases "name = ''runpod''")
    case True
    with Cons.prems enabled_guard have guard: "IsProviderEnabled ''runpod'' c" by auto
    have count: "count_list names ''runpod'' = 0 \<longleftrightarrow> ''runpod'' \<notin> set names"
      by (rule count_list_0_iff)
    from Cons.prems have "set names \<subseteq> set (pvc_enabled (cf_providers c))" by simp
    note IH = Cons.IH [OF this]
    show ?thesis
      using True guard count by (simp add: RegisterProvider_def assms(1) Let_def IH)
  next
    case False
    with Cons show ?thesis by simp
  qed
qed simp

text \<open>The kubelet starts exactly if ``runpod'' is named at most once in the list of enabled
  providers; it then has the RunPod provider if it is named, and no other provider, whatever else
  the list names.\<close>

theorem startup_providers:
  "let enabled = pvc_enabled (cf_providers c)
   in case NewProvider tr env node os ip port c of
        Inl err \<Rightarrow> 2 \<le> count_list enabled ''runpod''
      | Inr k \<Rightarrow>
          count_list enabled ''runpod'' \<le> 1 \<and>
          kb_manager k = (if ''runpod'' \<in> set enabled
            then [''runpod'' \<mapsto> runpod_provider tr env (NewRunpodClient env)] else Map.empty)"
proof -
  have name: "pv_name (runpod_provider tr env (NewRunpodClient env)) = ''runpod''"
    by (simp add: runpod_provider_def)
  have zero: "count_list xs ''runpod'' = 0 \<longleftrightarrow> ''runpod'' \<notin> set xs" for xs :: "string list"
    by (rule count_list_0_iff)
  show ?thesis
    using zero [of "pvc_enabled (cf_providers c)"]
    by (auto simp: NewProvider_def initializeProviders_def init_providers_result [OF name]
        NewManager_def Let_def)
qed

section \<open>Timing\<close>

text \<open>With the configuration the program runs with, whatever the environment and the flags, the
  client pings every 30 seconds, within the 60 seconds after which an idle connection would be
  given up, waits 5 seconds after a first failed dial and at most 300 seconds after any: the
  durations that the reconnection policy is about.\<close>

theorem connection_timing:
  "case NewProvider tr env node os ip port (effective_config getenv f) of
     Inl err \<Rightarrow> True
   | Inr k \<Rightarrow>
       conn_init (kb_conn k) \<and> durations 5000000000 300000000000 (kb_conn k) \<and>
       sint (cc_heartbeat_interval (cn_config (kb_conn k))) = 30000000000 \<and>
       sint (cc_read_timeout (cn_config (kb_conn k))) = 60000000000 \<and>
       cc_url (cn_config (kb_conn k)) = GetWebSocketURL (effective_config getenv f)"
proof (cases "NewProvider tr env node os ip port (effective_config getenv f)")
  case (Inr k)
  have ws: "cf_websocket (effective_config getenv f) = cf_websocket DefaultConfig"
    by (simp add: effective_defs)
  have cfg: "ws_config (SetOnConnect (NewClient c)) = fill_defaults c" for c
    by (simp add: SetOnConnect_def NewClient_def)
  have "conn_init (kb_conn k)"
    using NewProvider_Inr(2) [OF Inr] by (auto simp: conn_init_def)
  moreover have "cn_config (kb_conn k) = fill_defaults (ws_client_config (effective_config getenv f))"
    using NewProvider_Inr(2) [OF Inr] by (simp add: Start_def cfg)
  moreover have "wc_reconnect_interval (cf_websocket DefaultConfig) = seconds 5"
      "wc_max_reconnect_delay (cf_websocket DefaultConfig) = seconds 300"
      "wc_ping_interval (cf_websocket DefaultConfig) = seconds 30"
      "wc_read_timeout (cf_websocket DefaultConfig) = seconds 60"
    by (simp_all add: DefaultConfig_def)
  ultimately show ?thesis
    using Inr by (simp add: durations_def fill_defaults_def ws_client_config_def ws Let_def
        default_if_unset_def sle_def sint_seconds)
qed simp

section \<open>Registration\<close>

text \<open>What never changes after the start, by the configuration the kubelet was started with.\<close>

definition setup_inv :: "'w system \<Rightarrow> bool" where
  "setup_inv s \<longleftrightarrow>
     (let k = sy_kubelet s
      in dom (kb_manager k) = {''runpod''} \<inter> set (pvc_enabled (cf_providers (kb_config k))) \<and>
         cn_config (kb_conn k) = fill_defaults (ws_client_config (kb_config k)))"

lemma setup_init:
  assumes "system_init s"
  shows "setup_inv s"
proof -
  from assms obtain tr env node os ip port c
    where p: "NewProvider tr env node os ip port c = Inr (sy_kubelet s)"
    by (auto simp: system_init_def)
  have name: "pv_name (runpod_provider tr env (NewRunpodClient env)) = ''runpod''"
    by (simp add: runpod_provider_def)
  have "dom m = {''runpod''} \<inter> set (pvc_enabled (cf_providers c))"
    if "initializeProviders (runpod_provider tr env (NewRunpodClient env)) c NewManager = Inr m" for m
    using that init_providers_result [OF name, of "pvc_enabled (cf_providers c)" c NewManager]
    by (auto simp add: initializeProviders_def NewManager_def split: if_splits)
  from this [OF NewProvider_Inr(1) [OF p]] NewProvider_Inr(2,5) [OF p] show ?thesis
    by (simp add: setup_inv_def Let_def Start_def SetOnConnect_def NewClient_def)
qed

lemma setup_step: "setup_inv s \<Longrightarrow> system_step s l t \<Longrightarrow> setup_inv t"
proof -
  assume s: "setup_inv s" and l: "system_step s l t"
  from system_step_conn [OF l] obtain ls
    where "run_of conn_step (kb_conn (sy_kubelet s)) ls (kb_conn (sy_kubelet t))" ..
  from run_spawned [OF this] system_step_setup [OF l] s show "setup_inv t"
    by (simp add: setup_inv_def same_setup_def Let_def)
qed

interpretation started: invariant_system system_init system_step setup_inv
  by unfold_locales (rule setup_init setup_step; assumption)+

lemma enumerates_runpod:
  assumes "enumerates ord m" and "dom m = {''runpod''} \<inter> A"
  shows "ord = (if ''runpod'' \<in> A then [''runpod''] else [])"
proof (cases "''runpod'' \<in> A")
  case True
  with assms have d: "distinct ord" "set ord = {''runpod''}"
    by (auto simp: enumerates_def)
  then have "length ord = 1"
    using distinct_card [of ord] by simp
  with d True show ?thesis by (cases ord) auto
qed (use assms in \<open>simp add: enumerates_def\<close>)

lemma register_outbound:
  assumes "ws_connected (kb_ws k)" and "Suc (length (ws_outbound_ch (kb_ws k))) < outbound_capacity"
  shows "ws_outbound_ch (kb_ws (registerWithBackend ord s1 s2 k)) = ws_outbound_ch (kb_ws k) @
    [NewEnvelope (fst s1) (snd s1) (RegistrationPayload
       (the_registration (GetAvailableProviders ord (kb_manager k)) k)) (KubeletID (kb_ws k)),
     NewEnvelope (fst s2) (snd s2) (EventPayload (kubelet_ready k)) (KubeletID (kb_ws k))]"
  using assms
  by (simp add: registerWithBackend_def Let_def kb_send_def send_is_envelope sendEnvelope_def
      IsConnected_def chan_send_def KubeletID_def)

text \<open>C28. The registration that a connected kubelet with room in its queue sends, in any state it can
  reach, is followed by the ready event and announces: the platform token as id, the configured
  cluster, namespace and key mode, and as capabilities ``runpod'' if it is enabled and nothing else
  (an empty list, not null, if it is not).\<close>

theorem registration_content:
  assumes "reachable system_init system_step s" and "system_step s (KRegister ord s1 s2) t"
    and "IsConnected (kb_ws (sy_kubelet s))"
    and "length (ws_outbound_ch (kb_ws (sy_kubelet s))) < 199"
  shows "let k = sy_kubelet s; c = kb_config k; token = cf_backend_api_key c
    in ws_outbound_ch (kb_ws (sy_kubelet t)) = ws_outbound_ch (kb_ws k) @
      [NewEnvelope (fst s1) (snd s1) (RegistrationPayload
         \<lparr>rg_id = token, rg_type = ''conduit-kubelet'', rg_cluster_name = cf_cluster_name c,
          rg_node_name = kb_node_name k, rg_namespace = cf_namespace c,
          rg_capabilities = (if IsProviderEnabled ''runpod'' c then [''runpod''] else []),
          rg_metadata = \<lparr>rm_version = ''2.0.0'', rm_internal_ip = kb_internal_ip k,
                         rm_key_mode = KeyMode c\<rparr>\<rparr>) token,
       NewEnvelope (fst s2) (snd s2) (EventPayload
         \<lparr>ev_type = ''kubelet_ready'', ev_data = KubeletReadyData (kb_node_name k)\<rparr>) token]"
proof -
  let ?k = "sy_kubelet s" and ?c = "kb_config (sy_kubelet s)"
  from started.reachable_inv [OF assms(1)] have
    m: "dom (kb_manager ?k) = {''runpod''} \<inter> set (pvc_enabled (cf_providers ?c))" and
    cfg: "ws_config (kb_ws ?k) = fill_defaults (ws_client_config ?c)"
    by (simp_all add: setup_inv_def Let_def)
  from assms(2) have e: "enumerates ord (kb_manager ?k)" and t: "sy_kubelet t = registerWithBackend ord s1 s2 ?k"
    by (auto elim: system_stepE)
  have kid: "KubeletID (kb_ws ?k) = cf_backend_api_key ?c"
    by (simp add: KubeletID_def cfg fill_defaults_def ws_client_config_def Let_def)
  have "IsProviderEnabled ''runpod'' ?c \<longleftrightarrow> ''runpod'' \<in> set (pvc_enabled (cf_providers ?c))"
    by (auto simp: IsProviderEnabled_def list_ex_iff)
  then have "(case GetAvailableProviders ord (kb_manager ?k) of None \<Rightarrow> [] | Some cs \<Rightarrow> cs) =
      (if IsProviderEnabled ''runpod'' ?c then [''runpod''] else [])"
    by (simp add: GetAvailableProviders_def ListProviders_def enumerates_runpod [OF e m])
  with register_outbound [of ?k ord s1 s2] assms(3,4) show ?thesis
    by (simp add: t Let_def the_registration_def kubelet_ready_def kid KubeletType_def
        ProtocolVersion_def EventKubeletReady_def IsConnected_def outbound_capacity_def)
qed

end
