(* ===== verification/Node_Health.thy ===== *)
theory Node_Health
  imports Kubelet
begin

text \<open>
  What the kubelet shows to the outside: the virtual node it registers with Kubernetes
  (\<open>kubelet.go\<close>) and the health endpoints (\<open>pkg/virtual_kubelet/health.go\<close>).
\<close>

section \<open>The virtual node\<close>

text \<open>Resource quantities are kept as the texts that \<open>resource.MustParse\<close> is called on.\<close>

record node_condition =
  nc_type :: string
  nc_status :: string
  nc_reason :: string
  nc_message :: string

record node_status =
  ns_capacity :: "string gomap"
  ns_allocatable :: "string gomap"
  ns_phase :: string
  ns_conditions :: "node_condition list"
  ns_node_info :: "(string \<times> string) list"
  ns_kubelet_port :: i32
  ns_addresses :: "(string \<times> string) list"

record taint =
  ta_key :: string
  ta_value :: string
  ta_effect :: string

record node =
  nd_name :: string
  nd_labels :: "string gomap option"
  nd_taints :: "taint list"
  nd_status :: node_status

definition node_resources :: "string gomap" where
  "node_resources =
     [(''cpu'', ''1000''), (''memory'', ''1000Gi''), (''nvidia.com/gpu'', ''1000''),
      (''pods'', ''1000'')]"

definition GetNodeStatus :: "'w kubelet \<Rightarrow> node_status" where
  "GetNodeStatus k =
     \<lparr>ns_capacity = node_resources, ns_allocatable = node_resources, ns_phase = ''Running'',
      ns_conditions =
        [\<lparr>nc_type = ''Ready'', nc_status = ''True'', nc_reason = ''KubeletReady'',
          nc_message = ''proxy kubelet is posting ready status''\<rparr>,
         \<lparr>nc_type = ''MemoryPressure'', nc_status = ''False'',
          nc_reason = ''KubeletHasSufficientMemory'',
          nc_message = ''proxy kubelet has sufficient memory available''\<rparr>,
         \<lparr>nc_type = ''DiskPressure'', nc_status = ''False'', nc_reason = ''KubeletHasNoDiskPressure'',
          nc_message = ''proxy kubelet has no disk pressure''\<rparr>,
         \<lparr>nc_type = ''PIDPressure'', nc_status = ''False'', nc_reason = ''KubeletHasSufficientPID'',
          nc_message = ''proxy kubelet has sufficient PID available''\<rparr>],
      ns_node_info =
        [(''MachineID'', ''proxy-kubelet''), (''SystemUUID'', ''proxy-kubelet''),
         (''BootID'', ''proxy-kubelet''), (''KernelVersion'', ''5.4.0''),
         (''OSImage'', ''Proxy Kubelet''), (''ContainerRuntimeVersion'', ''proxy://1.0.0''),
         (''KubeletVersion'', ''v1.32.0''), (''KubeProxyVersion'', ''v1.32.0''),
         (''OperatingSystem'', ''linux''), (''Architecture'', ''amd64'')],
      ns_kubelet_port = ucast (kb_port k),
      ns_addresses = [(''InternalIP'', kb_internal_ip k)]\<rparr>"

definition NodeTaintKey :: string where "NodeTaintKey = ''virtual-kubelet.io/provider''"
definition NodeTaintValue :: string where "NodeTaintValue = ''conduit''"
definition NodeLabelKey :: string where "NodeLabelKey = ''conduit.io/provider''"
definition NodeLabelValue :: string where "NodeLabelValue = ''true''"

definition ConfigureNode :: "'w kubelet \<Rightarrow> node \<Rightarrow> node" where
  "ConfigureNode k n =
     (let labels = (case nd_labels n of None \<Rightarrow> [] | Some m \<Rightarrow> m);
          labels' = map_put NodeLabelKey NodeLabelValue
            (map_put ''kubernetes.io/os'' ''linux''
              (map_put ''kubernetes.io/hostname'' (nd_name n)
                (map_put ''kubernetes.io/role'' ''agent''
                  (map_put ''type'' ''virtual-kubelet'' labels))))
      in n\<lparr>nd_status := (nd_status n)\<lparr>ns_capacity := ns_capacity (GetNodeStatus k),
                                      ns_allocatable := ns_allocatable (GetNodeStatus k)\<rparr>,
           nd_labels := Some labels',
           nd_taints := [\<lparr>ta_key = NodeTaintKey, ta_value = NodeTaintValue,
                          ta_effect = ''NoSchedule''\<rparr>]\<rparr>)"

text \<open>The labels of a node, none for a nil map.\<close>

definition labels_of :: "node \<Rightarrow> string gomap" where
  "labels_of n = (case nd_labels n of None \<Rightarrow> [] | Some m \<Rightarrow> m)"

text \<open>However the node was labelled and tainted before, after \<open>ConfigureNode\<close> it carries the
  kubelet's own labels with their values, keeps every other label, and has the one taint that keeps
  pods away which do not tolerate it.\<close>

theorem configured_node:
  assumes "gomap_ok (labels_of n)"
  shows "map_get (labels_of (ConfigureNode k n)) = (map_get (labels_of n))
      (''type'' \<mapsto> ''virtual-kubelet'', ''kubernetes.io/role'' \<mapsto> ''agent'',
       ''kubernetes.io/hostname'' \<mapsto> nd_name n, ''kubernetes.io/os'' \<mapsto> ''linux'',
       ''conduit.io/provider'' \<mapsto> ''true'') \<and>
    gomap_ok (labels_of (ConfigureNode k n)) \<and>
    nd_taints (ConfigureNode k n) =
      [\<lparr>ta_key = ''virtual-kubelet.io/provider'', ta_value = ''conduit'', ta_effect = ''NoSchedule''\<rparr>]"
proof -
  define m where "m = labels_of n"
  have "labels_of (ConfigureNode k n) =
      map_put NodeLabelKey NodeLabelValue
        (map_put ''kubernetes.io/os'' ''linux''
          (map_put ''kubernetes.io/hostname'' (nd_name n)
            (map_put ''kubernetes.io/role'' ''agent''
              (map_put ''type'' ''virtual-kubelet'' m))))"
    by (simp add: ConfigureNode_def Let_def labels_of_def m_def del: map_put.simps)
  moreover have "gomap_ok m"
    using assms by (simp add: m_def)
  ultimately show ?thesis
    by (auto simp: fun_eq_iff NodeLabelKey_def NodeLabelValue_def m_def [symmetric]
        simp del: map_put.simps)
      (simp_all add: ConfigureNode_def NodeTaintKey_def NodeTaintValue_def Let_def)
qed

definition sample_node :: node where
  "sample_node =
     \<lparr>nd_name = ''n1'', nd_labels = Some [(''type'', ''old''), (''zone'', ''a'')], nd_taints = [],
      nd_status = GetNodeStatus (sample_kubelet (NewManager :: unit manager))\<rparr>"

theorem configured_node_witness:
  "let n = ConfigureNode (sample_kubelet (NewManager :: unit manager)) sample_node
   in map_get (labels_of n) ''zone'' = Some ''a'' \<and>
      map_get (labels_of n) ''type'' = Some ''virtual-kubelet''"
proof -
  have l: "labels_of sample_node = [(''type'', ''old''), (''zone'', ''a'')]"
    by (simp add: labels_of_def sample_node_def)
  moreover have "gomap_ok [(''type'', ''old''), (''zone'', ''a'')]"
    by code_simp
  moreover have "map_get [(''type'', ''old''), (''zone'', ''a'')] ''zone'' = Some ''a''"
    by (simp add: map_get_def)
  ultimately show ?thesis
    using configured_node [of sample_node "sample_kubelet (NewManager :: unit manager)"]
    by (simp add: Let_def)
qed

section \<open>Health endpoints\<close>

record http_reply =
  hr_code :: nat
  hr_status :: string
  hr_healthy :: "bool option"

text \<open>
  The callbacks are what they return when they are called, \<open>None\<close> a nil callback. The body of a
  reply is its status text (\<open>http.Error\<close>'s message when the check fails) and the \<open>healthy\<close> member;
  the timestamp is left out.
\<close>

record health_server =
  hs_readiness :: "bool option"
  hs_liveness :: "bool option"

definition NewHealthServer :: "bool option \<Rightarrow> health_server" where
  "NewHealthServer readiness = \<lparr>hs_readiness = readiness, hs_liveness = Some True\<rparr>"

definition SetLivenessFunc :: "bool option \<Rightarrow> health_server \<Rightarrow> health_server" where
  "SetLivenessFunc fn hs = hs\<lparr>hs_liveness := fn\<rparr>"

definition handleLiveness :: "health_server \<Rightarrow> http_reply" where
  "handleLiveness hs =
     (if hs_liveness hs = Some False
      then \<lparr>hr_code = 503, hr_status = ''Service not alive'', hr_healthy = None\<rparr>
      else \<lparr>hr_code = 200, hr_status = ''alive'', hr_healthy = None\<rparr>)"

definition handleReadiness :: "health_server \<Rightarrow> http_reply" where
  "handleReadiness hs =
     (if hs_readiness hs = Some False
      then \<lparr>hr_code = 503, hr_status = ''Service not ready'', hr_healthy = None\<rparr>
      else \<lparr>hr_code = 200, hr_status = ''ready'', hr_healthy = None\<rparr>)"

definition handleHealth :: "health_server \<Rightarrow> http_reply" where
  "handleHealth hs =
     (let healthy1 = (hs_liveness hs \<noteq> Some False);
          status1 = (if hs_liveness hs = Some False then ''not_alive'' else ''healthy'');
          healthy2 = (healthy1 \<and> hs_readiness hs \<noteq> Some False);
          status2 = (if hs_readiness hs = Some False \<and> status1 = ''healthy'' then ''not_ready''
                     else status1)
      in \<lparr>hr_code = (if \<not> healthy2 then 503 else 200), hr_status = status2,
          hr_healthy = Some healthy2\<rparr>)"

text \<open>\<open>handleStatus\<close> reports a connection that is never up.\<close>

record status_reply =
  st_status :: string
  st_version :: string
  st_ws_connected :: bool

definition handleStatusPage :: "string \<Rightarrow> status_reply" where
  "handleStatusPage version =
     \<lparr>st_status = ''running'', st_version = version, st_ws_connected = False\<rparr>"

text \<open>The readiness callback that \<open>main\<close> installs.\<close>

definition main_health_server :: "string list \<Rightarrow> 'w kubelet \<Rightarrow> 'w \<Rightarrow> health_server" where
  "main_health_server ord k w = NewHealthServer (Some (fst (kb_ping ord k w) = None))"

text \<open>C40. As \<open>main\<close> sets it up, the liveness endpoint always says 200; the readiness and the health
  endpoint say 200 exactly while the WebSocket client is connected, whether or not any provider
  can be reached, and the two agree.\<close>

theorem health_endpoints:
  "let hs = main_health_server ord k w; up = IsConnected (kb_ws k)
   in hr_code (handleLiveness hs) = 200 \<and>
      hr_code (handleReadiness hs) = (if up then 200 else 503) \<and>
      handleHealth hs = \<lparr>hr_code = (if up then 200 else 503),
        hr_status = (if up then ''healthy'' else ''not_ready''), hr_healthy = Some up\<rparr>"
  by (simp add: main_health_server_def NewHealthServer_def handleLiveness_def handleReadiness_def
      handleHealth_def kb_ping_def Let_def)

end
