(* ===== verification/Program_Main.thy ===== *)
theory Program_Main
  imports Kubelet_Startup Node_Health
begin

text \<open>
  The program from its start to its end (\<open>cmd/virtual_kubelet/main.go\<close>): which configuration of
  Kubernetes it uses, in which order it brings its parts up, what it undoes when it returns, and its
  exit code. The constructors of client-go and virtual-kubelet are parameters.
\<close>

section \<open>Paths\<close>

text \<open>\<open>path/filepath\<close> on Unix: \<open>Clean\<close> works through the components, \<open>Join\<close> cleans what it joined.\<close>

definition path_component :: "bool \<Rightarrow> string list \<Rightarrow> string \<Rightarrow> string list" where
  "path_component rooted out w =
     (if w = [] \<or> w = ''.'' then out
      else if w = ''..'' then
        (if out \<noteq> [] \<and> last out \<noteq> ''..'' then butlast out
         else if rooted then out else out @ [w])
      else out @ [w])"

fun join_with :: "string \<Rightarrow> string list \<Rightarrow> string" where
  "join_with sep [] = []"
| "join_with sep [w] = w"
| "join_with sep (w # ws) = w @ sep @ join_with sep ws"

definition clean_path :: "string \<Rightarrow> string" where
  "clean_path p =
     (let rooted = has_prefix p ''/'';
          out = join_with ''/'' (foldl (path_component rooted) [] (split_on (CHR ''/'') p))
      in if rooted then ''/'' @ out else if out = [] then ''.'' else out)"

definition join_path :: "string list \<Rightarrow> string" where
  "join_path elems =
     (case dropWhile (\<lambda>e. e = []) elems of
        [] \<Rightarrow> []
      | es \<Rightarrow> clean_path (join_with ''/'' es))"

section \<open>The Kubernetes client\<close>

definition homeDir :: "environment \<Rightarrow> string" where
  "homeDir env = (if env ''HOME'' \<noteq> [] then env ''HOME'' else env ''USERPROFILE'')"

text \<open>
  \<open>in_cluster\<close>, \<open>build\<close> and \<open>for_config\<close> are \<open>rest.InClusterConfig\<close>,
  \<open>clientcmd.BuildConfigFromFlags\<close> without a master URL and \<open>kubernetes.NewForConfig\<close>.
\<close>

definition createKubernetesClient ::
    "(go_error, 'cfg) result \<Rightarrow> (string \<Rightarrow> (go_error, 'cfg) result) \<Rightarrow>
     ('cfg \<Rightarrow> (go_error, 'cl) result) \<Rightarrow> environment \<Rightarrow> string \<Rightarrow> (go_error, 'cl) result" where
  "createKubernetesClient in_cluster build for_config env kubeconfig =
     (let (config, path) =
            (if kubeconfig = [] then
               (case in_cluster of
                  Inr c \<Rightarrow> (Some c, kubeconfig)
                | Inl e \<Rightarrow> (None, if homeDir env \<noteq> [] then join_path [homeDir env, ''.kube'', ''config'']
                                  else kubeconfig))
             else (None, kubeconfig));
          found =
            (case config of
               Some c \<Rightarrow> Inr c
             | None \<Rightarrow>
                 (case build path of
                    Inl e \<Rightarrow> Inl (ErrWrap ''failed to build kubeconfig: '' e)
                  | Inr c \<Rightarrow> Inr c))
      in case found of
           Inl e \<Rightarrow> Inl e
         | Inr c \<Rightarrow>
             (case for_config c of
                Inl e \<Rightarrow> Inl (ErrWrap ''failed to create kubernetes client: '' e)
              | Inr cl \<Rightarrow> Inr cl))"

section \<open>Controllers and the API server\<close>

text \<open>The node object that is registered: its status, then what \<open>ConfigureNode\<close> adds.\<close>

definition virtual_node :: "string \<Rightarrow> 'w kubelet \<Rightarrow> node" where
  "virtual_node name k =
     ConfigureNode k \<lparr>nd_name = name, nd_labels = None, nd_taints = [], nd_status = GetNodeStatus k\<rparr>"

text \<open>\<open>new_pod\<close> and \<open>new_node\<close>: the errors of \<open>node.NewPodController\<close> and \<open>node.NewNodeController\<close>.\<close>

definition createControllers ::
    "go_error option \<Rightarrow> (node \<Rightarrow> go_error option) \<Rightarrow> string \<Rightarrow> 'w kubelet \<Rightarrow>
     (go_error, node) result" where
  "createControllers new_pod new_node name k =
     (case new_pod of
        Some e \<Rightarrow> Inl (ErrWrap ''failed to create pod controller: '' e)
      | None \<Rightarrow>
          (case new_node (virtual_node name k) of
             Some e \<Rightarrow> Inl (ErrWrap ''failed to create node controller: '' e)
           | None \<Rightarrow> Inr (virtual_node name k)))"

text \<open>The address and the list of pods of the API server; \<open>ord\<close> as in \<open>GetPods\<close>.\<close>

definition createAPIServer ::
    "string list \<Rightarrow> 'w kubelet \<Rightarrow> string \<Rightarrow> i64 \<Rightarrow> string \<times> pod list" where
  "createAPIServer ord k ip port = (ip @ '':'' @ show_int (sint port), GetPods ord k)"

text \<open>
  Which case of the \<open>select\<close> is taken: the pod controller is ready, it ended, with or without an
  error, or the context was cancelled, by a signal or because the API server failed.
\<close>

datatype controllers_event =
    ControllersReady
  | ControllerEnded "go_error option"
  | ContextDone go_error

definition startControllers :: "controllers_event \<Rightarrow> go_error option" where
  "startControllers ev =
     (case ev of
        ControllersReady \<Rightarrow> None
      | ControllerEnded (Some e) \<Rightarrow> Some (ErrWrap ''pod controller exited before becoming ready: '' e)
      | ControllerEnded None \<Rightarrow>
          Some (ErrText ''pod controller exited before becoming ready: %!w(<nil>)'')
      | ContextDone e \<Rightarrow> Some e)"

section \<open>The program\<close>

text \<open>The surroundings of one execution.\<close>

record ('w, 'cfg, 'cl) surroundings =
  su_env :: environment
  su_transport :: "'w transport"
  su_in_cluster :: "(go_error, 'cfg) result"
  su_build :: "string \<Rightarrow> (go_error, 'cfg) result"
  su_for_config :: "'cfg \<Rightarrow> (go_error, 'cl) result"
  su_new_pod :: "go_error option"
  su_new_node :: "node \<Rightarrow> go_error option"
  su_controllers :: controllers_event

text \<open>
  What the program does, in order; the log is left out. \<open>KubeletStarted\<close> stands for what
  \<open>NewProvider\<close> starts, the WebSocket client and the command goroutine.
\<close>

datatype action =
    Printed string
  | KubeletStarted
  | InformersStarted
  | HealthServing string
  | ApiServing string
  | ControllersRunning
  | HealthStopped
  | KubeletCleanedUp
  | ContextCancelled
  | Exited nat

text \<open>\<open>os.Exit\<close> runs no deferred function; a return runs them, the last one first.\<close>

definition exits :: "action list \<Rightarrow> action list" where
  "exits done_so_far = done_so_far @ [Exited 1]"

definition returns :: "action list \<Rightarrow> action list \<Rightarrow> action list" where
  "returns done_so_far deferred = done_so_far @ rev deferred @ [Exited 0]"

definition main_program :: "('w, 'cfg, 'cl) surroundings \<Rightarrow> bool \<Rightarrow> string \<Rightarrow> string \<Rightarrow> flags \<Rightarrow> action list" where
  "main_program su show_version version kubeconfig fl =
     (if show_version then returns [Printed (''conduit-kubelet '' @ version @ [CHR 0x0A])] []
      else
        let cfg = effective_config (su_env su) fl;
            deferred = [ContextCancelled]
        in case Validate cfg of
             Some err \<Rightarrow> exits []
           | None \<Rightarrow>
             case createKubernetesClient (su_in_cluster su) (su_build su) (su_for_config su)
                    (su_env su) kubeconfig of
               Inl err \<Rightarrow> exits []
             | Inr client \<Rightarrow>
               case NewProvider (su_transport su) (su_env su) (cf_node_name cfg)
                      (cf_operating_system cfg) (cf_internal_ip cfg) (cf_listen_port cfg) cfg of
                 Inl err \<Rightarrow> exits []
               | Inr k \<Rightarrow>
                 let deferred = deferred @ [KubeletCleanedUp]
                 in case createControllers (su_new_pod su) (su_new_node su) (cf_node_name cfg) k of
                      Inl err \<Rightarrow> exits [KubeletStarted]
                    | Inr node \<Rightarrow>
                      let deferred = deferred @ [HealthStopped];
                          up = [KubeletStarted, InformersStarted, HealthServing (cf_health_address cfg),
                                ApiServing (fst (createAPIServer [] k (cf_internal_ip cfg)
                                  (cf_listen_port cfg)))]
                      in case startControllers (su_controllers su) of
                           Some err \<Rightarrow> exits up
                         | None \<Rightarrow> returns (up @ [ControllersRunning]) deferred)"

section \<open>How it ends\<close>

lemma provider_starts:
  "(\<exists>k. NewProvider tr env node os ip port c = Inr k) \<longleftrightarrow>
     count_list (pvc_enabled (cf_providers c)) ''runpod'' \<le> 1"
proof -
  have "pv_name (runpod_provider tr env (NewRunpodClient env)) = ''runpod''"
    by (simp add: runpod_provider_def)
  from init_providers_result [OF this] show ?thesis
    using count_list_0_iff [of "pvc_enabled (cf_providers c)" "''runpod''"]
    by (auto simp: le_Suc_eq NewProvider_def initializeProviders_def NewManager_def split: sum.split)
qed

text \<open>The kubelet that the program starts, if it gets that far.\<close>

definition started_with :: "('w, 'cfg, 'cl) surroundings \<Rightarrow> string \<Rightarrow> flags \<Rightarrow> 'w kubelet option" where
  "started_with su kubeconfig fl =
     (let cfg = effective_config (su_env su) fl
      in case (Validate cfg, createKubernetesClient (su_in_cluster su) (su_build su)
                 (su_for_config su) (su_env su) kubeconfig,
               NewProvider (su_transport su) (su_env su) (cf_node_name cfg) (cf_operating_system cfg)
                 (cf_internal_ip cfg) (cf_listen_port cfg) cfg) of
           (None, Inr client, Inr k) \<Rightarrow> Some k
         | _ \<Rightarrow> None)"

lemma started_with_iff:
  "(\<exists>k. started_with su kubeconfig fl = Some k) \<longleftrightarrow>
     Validate (effective_config (su_env su) fl) = None \<and>
     (\<exists>client. createKubernetesClient (su_in_cluster su) (su_build su) (su_for_config su)
        (su_env su) kubeconfig = Inr client) \<and>
     count_list (pvc_enabled (cf_providers (effective_config (su_env su) fl))) ''runpod'' \<le> 1"
  using provider_starts [of "su_transport su" "su_env su"
      "cf_node_name (effective_config (su_env su) fl)"
      "cf_operating_system (effective_config (su_env su) fl)"
      "cf_internal_ip (effective_config (su_env su) fl)"
      "cf_listen_port (effective_config (su_env su) fl)" "effective_config (su_env su) fl"]
  by (auto simp: started_with_def Let_def split: option.splits sum.splits)

lemma program_cases:
  "main_program su False version kubeconfig fl =
     (let cfg = effective_config (su_env su) fl;
          up = [KubeletStarted, InformersStarted, HealthServing (cf_health_address cfg),
                ApiServing (cf_internal_ip cfg @ '':'' @ show_int (sint (cf_listen_port cfg)))]
      in case started_with su kubeconfig fl of
           None \<Rightarrow> [Exited 1]
         | Some k \<Rightarrow>
             (case createControllers (su_new_pod su) (su_new_node su) (cf_node_name cfg) k of
                Inl err \<Rightarrow> [KubeletStarted, Exited 1]
              | Inr node \<Rightarrow>
                  (if startControllers (su_controllers su) = None
                   then up @ [ControllersRunning, HealthStopped, KubeletCleanedUp, ContextCancelled, Exited 0]
                   else up @ [Exited 1])))"
  by (simp add: main_program_def started_with_def createAPIServer_def exits_def returns_def Let_def
      split: option.split sum.split)

lemma startControllers_None: "startControllers ev = None \<longleftrightarrow> ev = ControllersReady"
  by (simp add: startControllers_def split: controllers_event.split option.split)

lemma createControllers_Inr:
  "(\<exists>n. createControllers new_pod new_node name k = Inr n) \<longleftrightarrow>
     new_pod = None \<and> new_node (virtual_node name k) = None"
  by (simp add: createControllers_def split: option.split)

text \<open>The program exits with code 0 exactly if it was asked for its version or came up: the
configuration is valid, a Kubernetes client could be made, ``runpod'' is enabled at most once, both
controllers could be created for the node it configures, and the pod controller got ready before it
ended and before a signal came. In every other case the exit code is 1.\<close>

theorem program_outcome:
  "let acts = main_program su show_version version kubeconfig fl; cfg = effective_config (su_env su) fl
   in last acts = Exited (if show_version \<or>
        Validate cfg = None \<and>
        (\<exists>client. createKubernetesClient (su_in_cluster su) (su_build su) (su_for_config su)
           (su_env su) kubeconfig = Inr client) \<and>
        count_list (pvc_enabled (cf_providers cfg)) ''runpod'' \<le> 1 \<and>
        su_new_pod su = None \<and>
        (\<exists>k. started_with su kubeconfig fl = Some k \<and>
             su_new_node su (virtual_node (cf_node_name cfg) k) = None) \<and>
        su_controllers su = ControllersReady then 0 else 1)"
proof (cases show_version)
  case True
  then show ?thesis by (simp add: main_program_def returns_def Let_def)
next
  case False
  show ?thesis
  proof (cases "started_with su kubeconfig fl")
    case None
    with False show ?thesis by (simp add: program_cases Let_def)
  next
    case (Some k)
    with started_with_iff [of su kubeconfig fl]
      createControllers_Inr [of "su_new_pod su" "su_new_node su"
        "cf_node_name (effective_config (su_env su) fl)" k] False
    show ?thesis
      by (auto simp: program_cases Let_def startControllers_None split: sum.split)
  qed
qed

text \<open>C18. The deferred clean-up (stop the health server, then the kubelet with its WebSocket client,
then cancel the context) runs exactly if the controllers came up. When they could not be created or
started, also because a shutdown signal came in between, the program leaves with code 1 and the
started kubelet is never cleaned up; when the configuration, the Kubernetes client or the providers
are at fault, nothing was started.\<close>

theorem program_shutdown:
  "let acts = main_program su False version kubeconfig fl
   in (KubeletCleanedUp \<in> set acts) = (ControllersRunning \<in> set acts) \<and>
      (last acts = Exited 0) = (ControllersRunning \<in> set acts) \<and>
      (KubeletStarted \<in> set acts) = (started_with su kubeconfig fl \<noteq> None) \<and>
      (if ControllersRunning \<in> set acts
       then \<exists>up. acts = up @ [HealthStopped, KubeletCleanedUp, ContextCancelled, Exited 0]
       else set acts \<inter> {HealthStopped, KubeletCleanedUp, ContextCancelled} = {} \<and> last acts = Exited 1)"
  by (simp add: program_cases Let_def split: option.split sum.split)

section \<open>Which cluster\<close>

text \<open>A path that starts at the root and needs no cleaning.\<close>

definition clean_absolute :: "string \<Rightarrow> bool" where
  "clean_absolute p \<longleftrightarrow>
     (\<exists>ws. ws \<noteq> [] \<and> p = concat (map (\<lambda>w. CHR ''/'' # w) ws) \<and>
        (\<forall>w \<in> set ws. w \<noteq> [] \<and> w \<noteq> ''.'' \<and> w \<noteq> ''..'' \<and> CHR ''/'' \<notin> set w))"

lemma split_on_components:
  "ws \<noteq> [] \<Longrightarrow> \<forall>w \<in> set ws. CHR ''/'' \<notin> set w \<Longrightarrow>
     split_on (CHR ''/'') (concat (map (\<lambda>w. CHR ''/'' # w) ws)) = [] # ws"
proof (induction ws)
  case (Cons w ws)
  then show ?case
    by (cases ws) (simp_all add: split_on_none split_on_first)
qed simp

lemma components_kept:
  "\<forall>w \<in> set ws. w \<noteq> [] \<and> w \<noteq> ''.'' \<and> w \<noteq> ''..'' \<Longrightarrow> foldl (path_component r) out ws = out @ ws"
  by (induction ws arbitrary: out) (simp_all add: path_component_def)

lemma join_components: "ws \<noteq> [] \<Longrightarrow> ''/'' @ join_with ''/'' ws = concat (map (\<lambda>w. CHR ''/'' # w) ws)"
proof (induction ws)
  case (Cons w ws)
  then show ?case by (cases ws) simp_all
qed simp

lemma clean_absolute_kept:
  assumes "ws \<noteq> []" and "\<forall>w \<in> set ws. w \<noteq> [] \<and> w \<noteq> ''.'' \<and> w \<noteq> ''..'' \<and> CHR ''/'' \<notin> set w"
  shows "clean_path (concat (map (\<lambda>w. CHR ''/'' # w) ws)) = concat (map (\<lambda>w. CHR ''/'' # w) ws)"
proof -
  let ?p = "concat (map (\<lambda>w. CHR ''/'' # w) ws)"
  have "has_prefix ?p ''/''" using assms(1) by (cases ws) (simp_all add: has_prefix_def)
  moreover have "split_on (CHR ''/'') ?p = [] # ws" using assms by (intro split_on_components) auto
  moreover have "foldl (path_component True) [] ([] # ws) = ws"
    using assms(2) components_kept [of ws True "[]"] by (simp add: path_component_def)
  ultimately show ?thesis
    using join_components [OF assms(1)] by (simp add: clean_path_def Let_def)
qed

text \<open>The cluster the kubelet talks to: a kubeconfig given by the flag is used whatever the
environment; without one the in-cluster configuration is, and only where there is none the file
\<open>.kube/config\<close> in the home directory (HOME, or USERPROFILE where HOME is unset); an error of reading
the file or of making the client ends in an error that says which of the two it was.\<close>

theorem kubeconfig_choice:
  assumes "clean_absolute (homeDir env)"
  shows "createKubernetesClient in_cluster build for_config env kubeconfig =
    (case (if kubeconfig \<noteq> [] then build kubeconfig
           else case in_cluster of Inr c \<Rightarrow> Inr c | Inl e \<Rightarrow> build (homeDir env @ ''/.kube/config'')) of
       Inl e \<Rightarrow> Inl (ErrWrap ''failed to build kubeconfig: '' e)
     | Inr c \<Rightarrow>
         (case for_config c of
            Inl e \<Rightarrow> Inl (ErrWrap ''failed to create kubernetes client: '' e)
          | Inr client \<Rightarrow> Inr client))"
proof -
  from assms obtain ws where ws: "ws \<noteq> []" "homeDir env = concat (map (\<lambda>w. CHR ''/'' # w) ws)"
      "\<forall>w \<in> set ws. w \<noteq> [] \<and> w \<noteq> ''.'' \<and> w \<noteq> ''..'' \<and> CHR ''/'' \<notin> set w"
    by (auto simp: clean_absolute_def)
  then have ne: "homeDir env \<noteq> []" by (cases ws) simp_all
  have "clean_path (concat (map (\<lambda>w. CHR ''/'' # w) (ws @ [''.kube'', ''config'']))) =
      concat (map (\<lambda>w. CHR ''/'' # w) (ws @ [''.kube'', ''config'']))"
    using ws by (intro clean_absolute_kept) auto
  then have "join_path [homeDir env, ''.kube'', ''config''] = homeDir env @ ''/.kube/config''"
    using ne ws(2) by (simp add: join_path_def)
  with ne show ?thesis
    by (simp add: createKubernetesClient_def Let_def split: sum.split)
qed

definition sample_home :: environment where
  "sample_home v = (if v = ''HOME'' then ''/home/u'' else [])"

theorem kubeconfig_choice_witness:
  "createKubernetesClient (Inl (ErrText ''not in a cluster'')) Inr Inr sample_home [] =
     Inr ''/home/u/.kube/config''"
proof -
  have home: "homeDir sample_home = ''/home/u''" by (simp add: homeDir_def sample_home_def)
  then have "clean_absolute (homeDir sample_home)"
    unfolding clean_absolute_def by (intro exI [of _ "[''home'', ''u'']"]) simp
  from kubeconfig_choice [OF this, where build = Inr and for_config = Inr and kubeconfig = "[]"] home
  show ?thesis by simp
qed

end
