(* ===== verification/Command_Line.thy ===== *)
theory Command_Line
  imports Program_Main
begin

text \<open>
  The command line (\<open>init\<close> and the call of \<open>flag.Parse\<close> in \<open>cmd/virtual_kubelet/main.go\<close>): how
  Go's \<open>flag\<close> and \<open>strconv\<close> read the arguments, and the program from its arguments to its exit
  code. The flags of \<open>init\<close> are the only ones.
\<close>

section \<open>Numbers and truth values\<close>

text \<open>
  \<open>strconv.ParseInt\<close> with base 0 and 64 bits. The value is accumulated without bounds: a number
  that overflows is refused as it is refused in Go, whatever follows it.
\<close>

definition digit_of :: "char \<Rightarrow> nat option" where
  "digit_of c =
     (let n = of_char c; l = of_char (lower_char c)
      in if 48 \<le> n \<and> n \<le> 57 then Some (n - 48)
         else if 97 \<le> l \<and> l \<le> 122 then Some (l - 97 + 10)
         else None)"

fun parse_digits :: "nat \<Rightarrow> nat \<Rightarrow> string \<Rightarrow> nat option" where
  "parse_digits base n [] = Some n"
| "parse_digits base n (c # s) =
     (if c = CHR ''_'' then parse_digits base n s
      else case digit_of c of
             None \<Rightarrow> None
           | Some d \<Rightarrow> if base \<le> d then None else parse_digits base (n * base + d) s)"

definition base_prefix :: "string \<Rightarrow> nat \<times> string" where
  "base_prefix s =
     (case s of
        [] \<Rightarrow> (10, [])
      | z # r \<Rightarrow>
          (if z \<noteq> CHR ''0'' then (10, s)
           else if 2 \<le> length r \<and> lower_char (hd r) = CHR ''b'' then (2, tl r)
           else if 2 \<le> length r \<and> lower_char (hd r) = CHR ''o'' then (8, tl r)
           else if 2 \<le> length r \<and> lower_char (hd r) = CHR ''x'' then (16, tl r)
           else (8, r)))"

text \<open>\<open>underscoreOK\<close>: what was seen last is a digit, an underscore or neither.\<close>

datatype seen = SawDigit | SawUnderscore | SawOther

fun underscores_between :: "bool \<Rightarrow> seen \<Rightarrow> string \<Rightarrow> bool" where
  "underscores_between hex saw [] \<longleftrightarrow> saw \<noteq> SawUnderscore"
| "underscores_between hex saw (c # s) \<longleftrightarrow>
     (if (case digit_of c of None \<Rightarrow> False | Some d \<Rightarrow> d < (if hex then 16 else 10))
      then underscores_between hex SawDigit s
      else if c = CHR ''_'' then saw = SawDigit \<and> underscores_between hex SawUnderscore s
      else saw \<noteq> SawUnderscore \<and> underscores_between hex SawOther s)"

definition underscore_ok :: "string \<Rightarrow> bool" where
  "underscore_ok s =
     (case s of
        z # c # r \<Rightarrow>
          (if z = CHR ''0'' \<and> lower_char c \<in> {CHR ''b'', CHR ''o'', CHR ''x''}
           then underscores_between (lower_char c = CHR ''x'') SawDigit r
           else underscores_between False SawOther s)
      | _ \<Rightarrow> underscores_between False SawOther s)"

definition parse_uint :: "string \<Rightarrow> nat option" where
  "parse_uint s =
     (if s = [] then None
      else case base_prefix s of (base, r) \<Rightarrow>
        case parse_digits base 0 r of
          None \<Rightarrow> None
        | Some n \<Rightarrow> if CHR ''_'' \<in> set r \<and> \<not> underscore_ok s then None else Some n)"

definition parse_int :: "string \<Rightarrow> i64 option" where
  "parse_int s =
     (let negative = (s \<noteq> [] \<and> hd s = CHR ''-'');
          u = (if s \<noteq> [] \<and> hd s \<in> {CHR ''+'', CHR ''-''} then tl s else s)
      in case parse_uint u of
           None \<Rightarrow> None
         | Some n \<Rightarrow>
             (let i = (if negative then - int n else int n)
              in if - (2 ^ 63) \<le> i \<and> i < 2 ^ 63 then Some (word_of_int i) else None))"

definition parse_bool :: "string \<Rightarrow> bool option" where
  "parse_bool s =
     (if s \<in> {''1'', ''t'', ''T'', ''true'', ''TRUE'', ''True''} then Some True
      else if s \<in> {''0'', ''f'', ''F'', ''false'', ''FALSE'', ''False''} then Some False
      else None)"

section \<open>Flags\<close>

text \<open>The variables that \<open>init\<close> binds to flags.\<close>

record command_line =
  cl_version :: bool
  cl_kubeconfig :: string
  cl_config :: string
  cl_flags :: flags

definition no_command_line :: command_line where
  "no_command_line = \<lparr>cl_version = False, cl_kubeconfig = [], cl_config = [], cl_flags = no_flags\<rparr>"

datatype flag_value =
    BoolFlag "bool \<Rightarrow> command_line \<Rightarrow> command_line"
  | StringFlag "string \<Rightarrow> command_line \<Rightarrow> command_line"
  | IntFlag "i64 \<Rightarrow> command_line \<Rightarrow> command_line"

abbreviation config_flag :: "(flags \<Rightarrow> flags) \<Rightarrow> command_line \<Rightarrow> command_line" where
  "config_flag \<equiv> cl_flags_update"

definition the_flags :: "(string \<times> flag_value) list" where
  "the_flags =
     [(''version'', BoolFlag (\<lambda>b. cl_version_update (\<lambda>_. b))),
      (''kubeconfig'', StringFlag (\<lambda>s. cl_kubeconfig_update (\<lambda>_. s))),
      (''config'', StringFlag (\<lambda>s. cl_config_update (\<lambda>_. s))),
      (''nodename'', StringFlag (\<lambda>s. config_flag (fl_node_name_update (\<lambda>_. s)))),
      (''cluster-name'', StringFlag (\<lambda>s. config_flag (fl_cluster_name_update (\<lambda>_. s)))),
      (''operating-system'', StringFlag (\<lambda>s. config_flag (fl_operating_system_update (\<lambda>_. s)))),
      (''internal-ip'', StringFlag (\<lambda>s. config_flag (fl_internal_ip_update (\<lambda>_. s)))),
      (''listen-port'', IntFlag (\<lambda>n. config_flag (fl_listen_port_update (\<lambda>_. n)))),
      (''log-level'', StringFlag (\<lambda>s. config_flag (fl_log_level_update (\<lambda>_. s)))),
      (''backend-url'', StringFlag (\<lambda>s. config_flag (fl_backend_url_update (\<lambda>_. s)))),
      (''backend-api-key'', StringFlag (\<lambda>s. config_flag (fl_backend_api_key_update (\<lambda>_. s)))),
      (''health-server-address'', StringFlag (\<lambda>s. config_flag (fl_health_address_update (\<lambda>_. s)))),
      (''namespace'', StringFlag (\<lambda>s. config_flag (fl_namespace_update (\<lambda>_. s)))),
      (''reconcile-interval'', IntFlag (\<lambda>n. config_flag (fl_reconcile_interval_update (\<lambda>_. n)))),
      (''enabled-providers'', StringFlag (\<lambda>s. config_flag (fl_enabled_providers_update (\<lambda>_. s))))]"

fun set_flag :: "flag_value \<Rightarrow> string \<Rightarrow> command_line \<Rightarrow> command_line option" where
  "set_flag (BoolFlag put) s c = map_option (\<lambda>b. put b c) (parse_bool s)"
| "set_flag (StringFlag put) s c = Some (put s c)"
| "set_flag (IntFlag put) s c = map_option (\<lambda>n. put n c) (parse_int s)"

datatype flag_error =
    HelpWanted
  | BadSyntax string
  | NotDefined string
  | NeedsArgument string
  | InvalidValue string string

text \<open>
  \<open>parseOne\<close>: the flag at the front of the arguments is set; without one there, or after the
  terminator, the rest is left alone.
\<close>

definition assign :: "flag_value \<Rightarrow> string \<Rightarrow> string \<Rightarrow> string list \<Rightarrow> command_line \<Rightarrow>
    (flag_error, (string list \<times> command_line) option) result" where
  "assign flag name value rest c =
     (case set_flag flag value c of
        None \<Rightarrow> Inl (InvalidValue name value)
      | Some c' \<Rightarrow> Inr (Some (rest, c')))"

definition read_flag :: "string \<Rightarrow> string option \<Rightarrow> string list \<Rightarrow> command_line \<Rightarrow>
    (flag_error, (string list \<times> command_line) option) result" where
  "read_flag name given rest c =
     (case map_of the_flags name of
        None \<Rightarrow> Inl (if name = ''help'' \<or> name = ''h'' then HelpWanted else NotDefined name)
      | Some (BoolFlag put) \<Rightarrow>
          assign (BoolFlag put) name (case given of Some v \<Rightarrow> v | None \<Rightarrow> ''true'') rest c
      | Some flag \<Rightarrow>
          (case (given, rest) of
             (Some v, _) \<Rightarrow> assign flag name v rest c
           | (None, v # rest') \<Rightarrow> assign flag name v rest' c
           | (None, []) \<Rightarrow> Inl (NeedsArgument name)))"

definition parse_one :: "string list \<Rightarrow> command_line \<Rightarrow>
    (flag_error, (string list \<times> command_line) option) result" where
  "parse_one args c =
     (case args of
        [] \<Rightarrow> Inr None
      | s # rest \<Rightarrow>
          (if length s < 2 \<or> hd s \<noteq> CHR ''-'' \<or> s = ''--'' then Inr None
           else
             let name = (if s ! 1 = CHR ''-'' then drop 2 s else drop 1 s)
             in if name = [] \<or> hd name = CHR ''-'' \<or> hd name = CHR ''='' then Inl (BadSyntax s)
                else case cut (CHR ''='') name of
                       (before, after, found) \<Rightarrow>
                         read_flag before (if found then Some after else None) rest c))"

lemma parse_one_shorter:
  "parse_one args c = Inr (Some (rest, c')) \<Longrightarrow> length rest < length args"
  by (auto simp: parse_one_def read_flag_def assign_def Let_def
      split: list.splits option.splits if_splits prod.splits flag_value.splits)

function parse_flags :: "string list \<Rightarrow> command_line \<Rightarrow> (flag_error, command_line) result" where
  "parse_flags args c =
     (case parse_one args c of
        Inl e \<Rightarrow> Inl e
      | Inr None \<Rightarrow> Inr c
      | Inr (Some (rest, c')) \<Rightarrow> parse_flags rest c')"
  by pat_completeness auto
termination
  by (relation "measure (\<lambda>(args, c). length args)") (auto dest: parse_one_shorter)

declare parse_flags.simps [simp del]

section \<open>Reading numbers back\<close>

lemma parse_digits_append:
  "parse_digits base n (s @ t) = Option.bind (parse_digits base n s) (\<lambda>m. parse_digits base m t)"
  by (induction base n s rule: parse_digits.induct) (auto split: option.splits)

lemma digit_of_char:
  assumes "d < 10" shows "digit_of (char_of (48 + d)) = Some d" and "char_of (48 + d) \<noteq> CHR ''_''"
proof -
  from assms have c: "(of_char (char_of (48 + d) :: char) :: nat) = 48 + d" by simp
  with assms show "digit_of (char_of (48 + d)) = Some d" by (simp add: digit_of_def)
  have "(of_char (CHR ''_'') :: nat) = 95" by simp
  with c assms show "char_of (48 + d) \<noteq> CHR ''_''" by force
qed

lemma digits_read: "parse_digits 10 0 (digits n) = Some n"
proof (induction n rule: digits.induct)
  case (1 n)
  show ?case
  proof (cases "n < 10")
    case True
    then show ?thesis by (subst digits.simps) (simp add: digit_of_char)
  next
    case False
    with 1 show ?thesis by (subst digits.simps) (simp add: parse_digits_append digit_of_char)
  qed
qed

lemma digits_chars: "c \<in> set (digits n) \<Longrightarrow> 48 \<le> (of_char c :: nat) \<and> (of_char c :: nat) \<le> 57"
proof (induction n rule: digits.induct)
  case (1 n)
  show ?case
  proof (cases "n < 10")
    case True
    with 1(2) show ?thesis by (subst (asm) digits.simps) auto
  next
    case False
    then have "digits n = digits (n div 10) @ [char_of (48 + n mod 10)]" by (subst digits.simps) simp
    moreover have "(48 + n mod 10) mod 256 = 48 + n mod 10" "n mod 10 < 10" by simp_all
    ultimately show ?thesis using 1 False by auto
  qed
qed

lemma digits_hd: "0 < n \<Longrightarrow> hd (digits n) \<noteq> CHR ''0''"
proof (induction n rule: digits.induct)
  case (1 n)
  show ?case
  proof (cases "n < 10")
    case True
    with 1(2) have "n \<in> {1, 2, 3, 4, 5, 6, 7, 8, 9}" by auto
    then show ?thesis by (subst digits.simps) (auto simp: char_of_def)
  next
    case False
    with 1 show ?thesis by (subst digits.simps) simp
  qed
qed

lemma digits_plain: "CHR ''_'' \<notin> set (digits n)" "CHR ''+'' \<notin> set (digits n)" "CHR ''-'' \<notin> set (digits n)"
  by (auto dest: digits_chars)

lemma parse_uint_digits: "parse_uint (digits n) = Some n"
proof (cases "n = 0")
  case True
  moreover have "digits 0 = ''0''" by (subst digits.simps) code_simp
  ultimately show ?thesis by (simp add: parse_uint_def base_prefix_def)
next
  case False
  then have "hd (digits n) \<noteq> CHR ''0''" by (simp add: digits_hd)
  then have "base_prefix (digits n) = (10, digits n)"
    by (cases "digits n") (simp_all add: base_prefix_def)
  then show ?thesis by (simp add: parse_uint_def digits_read digits_plain)
qed

lemma parse_int_show: "parse_int (show_int (sint w)) = Some w"
proof -
  have "hd (digits n) \<noteq> CHR ''-''" "hd (digits n) \<noteq> CHR ''+''" for n
    using digits_plain [of n] hd_in_set [OF digits_ne, of n] by metis+
  with sint_i64_range [of w] show ?thesis
    by (auto simp: parse_int_def show_int_def parse_uint_digits Let_def)
qed

section \<open>Reading a command line back\<close>

text \<open>The ways to write a flag: one or two dashes, the value behind an equals sign or as the next argument.\<close>

definition written :: "bool \<Rightarrow> bool \<Rightarrow> string \<Rightarrow> string \<Rightarrow> string list" where
  "written two joined name value =
     (let dashes = (if two then ''--'' else ''-'')
      in if joined then [dashes @ name @ ''='' @ value] else [dashes @ name, value])"

definition settings :: "command_line \<Rightarrow> (string \<times> string) list" where
  "settings c =
     (let f = cl_flags c
      in [(''version'', if cl_version c then ''true'' else ''false''),
          (''kubeconfig'', cl_kubeconfig c),
          (''config'', cl_config c),
          (''nodename'', fl_node_name f),
          (''cluster-name'', fl_cluster_name f),
          (''operating-system'', fl_operating_system f),
          (''internal-ip'', fl_internal_ip f),
          (''listen-port'', show_int (sint (fl_listen_port f))),
          (''log-level'', fl_log_level f),
          (''backend-url'', fl_backend_url f),
          (''backend-api-key'', fl_backend_api_key f),
          (''health-server-address'', fl_health_address f),
          (''namespace'', fl_namespace f),
          (''reconcile-interval'', show_int (sint (fl_reconcile_interval f))),
          (''enabled-providers'', fl_enabled_providers f)])"

definition spelled :: "(string \<Rightarrow> bool) \<Rightarrow> (string \<Rightarrow> bool) \<Rightarrow> command_line \<Rightarrow> string list" where
  "spelled two joined c =
     concat (map (\<lambda>(name, value). written (two name) (joined name \<or> name = ''version'') name value)
       (settings c))"

lemma flag_names:
  assumes "map_of the_flags name = Some flag"
  shows "name \<noteq> []" and "hd name \<noteq> CHR ''-''" and "hd name \<noteq> CHR ''=''" and "CHR ''='' \<notin> set name"
proof -
  have "name \<in> fst ` set the_flags" using assms by (metis map_of_eq_None_iff option.distinct(1))
  then show "name \<noteq> []" "hd name \<noteq> CHR ''-''" "hd name \<noteq> CHR ''=''" "CHR ''='' \<notin> set name"
    by (auto simp: the_flags_def)
qed

lemma cut_none: "sep \<notin> set s \<Longrightarrow> cut sep s = (s, [], False)"
  by (induction s) auto

lemma parse_flags_written:
  assumes "map_of the_flags name = Some flag" and "joined \<or> (\<nexists>put. flag = BoolFlag put)"
  shows "parse_flags (written two joined name v @ rest) c =
    (case set_flag flag v c of None \<Rightarrow> Inl (InvalidValue name v) | Some c' \<Rightarrow> parse_flags rest c')"
proof -
  note n = flag_names [OF assms(1)]
  obtain a r where name: "name = a # r" using n(1) by (cases name) auto
  have "parse_one (written two joined name v @ rest) c = assign flag name v rest c"
  proof (cases joined)
    case True
    have "cut (CHR ''='') (name @ CHR ''='' # v) = (name, v, True)" by (rule cut_char [OF n(4)])
    with True n assms(1) show ?thesis
      by (auto simp: parse_one_def written_def read_flag_def name split: flag_value.split)
  next
    case False
    have "cut (CHR ''='') name = (name, [], False)" by (rule cut_none [OF n(4)])
    with False n assms show ?thesis
      by (cases flag) (auto simp: parse_one_def written_def read_flag_def name Let_def)
  qed
  then show ?thesis
    by (subst parse_flags.simps) (simp add: assign_def split: option.split)
qed

primrec put_all :: "(string \<times> string) list \<Rightarrow> command_line \<Rightarrow> command_line option" where
  "put_all [] c = Some c"
| "put_all (nv # xs) c =
     Option.bind (map_of the_flags (fst nv)) (\<lambda>flag. Option.bind (set_flag flag (snd nv) c) (put_all xs))"

lemma bool_flag: "map_of the_flags name = Some (BoolFlag put) \<Longrightarrow> name = ''version''"
  by (auto simp: the_flags_def split: if_splits)

lemma parse_all:
  "put_all xs c = Some c' \<Longrightarrow>
   parse_flags (concat (map (\<lambda>(name, value).
     written (two name) (joined name \<or> name = ''version'') name value) xs) @ rest) c = parse_flags rest c'"
proof (induction xs arbitrary: c)
  case (Cons nv xs)
  obtain name v where nv: "nv = (name, v)" by force
  from Cons.prems obtain flag c1 where c1: "map_of the_flags name = Some flag" "set_flag flag v c = Some c1"
      "put_all xs c1 = Some c'" by (auto simp: nv Option.bind_eq_Some_conv)
  have "(joined name \<or> name = ''version'') \<or> (\<nexists>put. flag = BoolFlag put)"
    using bool_flag c1(1) by blast
  from parse_flags_written [OF c1(1) this] Cons.IH [OF c1(3)] show ?case by (simp add: nv c1(2))
qed simp

lemma put_settings: "put_all (settings c) no_command_line = Some c"
proof (cases c)
  case (fields v k g f)
  then show ?thesis
    by (cases f) (simp add: settings_def the_flags_def parse_int_show parse_bool_def no_command_line_def
      no_flags_def)
qed

text \<open>C29. Whatever the values of the flags are, and however they are spelled, with one dash or two,
behind an equals sign or as the next argument, the program reads exactly these values from its
command line; what stands behind the terminator is left alone.\<close>

theorem command_line_roundtrip:
  "parse_flags (spelled two joined c) no_command_line = Inr c \<and>
   parse_flags (spelled two joined c @ ''--'' # rest) no_command_line = Inr c"
proof -
  have "parse_flags (spelled two joined c @ args) no_command_line = parse_flags args c" for args
    unfolding spelled_def by (rule parse_all [OF put_settings])
  from this [of "[]"] this [of "''--'' # rest"] show ?thesis
    by (simp add: parse_flags.simps parse_one_def)
qed

section \<open>The program and its arguments\<close>

text \<open>
  \<open>flag.Parse\<close> exits at a wrong command line, with 2, and after the help text, with 0. The value of
  \<open>config\<close> is only logged.
\<close>

definition run_program :: "('w, 'cfg, 'cl) surroundings \<Rightarrow> string \<Rightarrow> string list \<Rightarrow> action list" where
  "run_program su version args =
     (case parse_flags args no_command_line of
        Inl HelpWanted \<Rightarrow> [Exited 0]
      | Inl err \<Rightarrow> [Exited 2]
      | Inr c \<Rightarrow> main_program su (cl_version c) version (cl_kubeconfig c) (cl_flags c))"

text \<open>What has to be right for the program to come up.\<close>

definition comes_up :: "('w, 'cfg, 'cl) surroundings \<Rightarrow> string \<Rightarrow> flags \<Rightarrow> bool" where
  "comes_up su kubeconfig fl \<longleftrightarrow>
     (let cfg = effective_config (su_env su) fl
      in Validate cfg = None \<and>
         (\<exists>client. createKubernetesClient (su_in_cluster su) (su_build su) (su_for_config su)
            (su_env su) kubeconfig = Inr client) \<and>
         count_list (pvc_enabled (cf_providers cfg)) ''runpod'' \<le> 1 \<and>
         su_new_pod su = None \<and>
         (\<exists>k. started_with su kubeconfig fl = Some k \<and>
              su_new_node su (virtual_node (cf_node_name cfg) k) = None) \<and>
         su_controllers su = ControllersReady)"

text \<open>C17. The exit code, from the arguments: 2 for a command line that the flags do not allow, and
nothing was started; 0 for help, for the version, and for a program that came up: its configuration
is valid, a Kubernetes client could be made, ``runpod'' is enabled at most once, both controllers
could be created for the node it configures, and the pod controller got ready before it ended and
before a signal came; 1 in every other case.\<close>

theorem program_exit:
  "last (run_program su version args) = Exited
     (case parse_flags args no_command_line of
        Inl err \<Rightarrow> if err = HelpWanted then 0 else 2
      | Inr c \<Rightarrow> if cl_version c \<or> comes_up su (cl_kubeconfig c) (cl_flags c) then 0 else 1) \<and>
   (KubeletStarted \<in> set (run_program su version args)) =
     (\<exists>c. parse_flags args no_command_line = Inr c \<and> \<not> cl_version c \<and>
          started_with su (cl_kubeconfig c) (cl_flags c) \<noteq> None)"
proof (cases "parse_flags args no_command_line")
  case (Inl err)
  then show ?thesis by (cases err) (simp_all add: run_program_def)
next
  case (Inr c)
  have "KubeletStarted \<notin> set (main_program su True version (cl_kubeconfig c) (cl_flags c))"
    by (simp add: main_program_def returns_def)
  moreover have "(KubeletStarted \<in> set (main_program su False version (cl_kubeconfig c) (cl_flags c))) =
      (started_with su (cl_kubeconfig c) (cl_flags c) \<noteq> None)"
    by (auto simp: program_cases Let_def split: option.split sum.split)
  ultimately show ?thesis
    using program_outcome [of su "cl_version c" version "cl_kubeconfig c" "cl_flags c"] Inr
    by (cases "cl_version c") (simp_all add: run_program_def comes_up_def Let_def)
qed

end
