(* ===== verification/Informers.thy ===== *)
theory Informers
  imports Program_Main "HOL-Library.Signed_Division"
begin

text \<open>
  The informers (\<open>setupInformers\<close> in \<open>cmd/virtual_kubelet/main.go\<close>): which pods they watch, and
  the resync interval, which reaches them through a \<open>float64\<close>.
\<close>

section \<open>Seconds of a duration\<close>

text \<open>
  The float64 nearest to a rational, ties to even, for zero and magnitudes from 2 to the -1022 to 2
  to the 53: scaled so that the last of its 53 bits has the value one, rounded, scaled back.
\<close>

definition round_even :: "rat \<Rightarrow> int" where
  "round_even x =
     (let n = \<lfloor>x\<rfloor>; d = x - of_int n
      in if d < 1 / 2 \<or> d = 1 / 2 \<and> even n then n else n + 1)"

definition to_float64 :: "rat \<Rightarrow> float64" where
  "to_float64 x =
     (case find (\<lambda>e. 2 ^ 52 \<le> \<bar>x\<bar> * 2 ^ e) [0..<1075] of
        None \<Rightarrow> 0
      | Some e \<Rightarrow> of_int (round_even (x * 2 ^ e)) / 2 ^ e)"

text \<open>\<open>Duration.Seconds\<close>, and the conversion of a float64 to an \<open>int\<close>, which drops the fraction.\<close>

definition Seconds :: "i64 \<Rightarrow> float64" where
  "Seconds d =
     (let sec = sint d sdiv 1000000000; nsec = sint d smod 1000000000
      in to_float64 (to_float64 (of_int sec) +
           to_float64 (to_float64 (of_int nsec) / to_float64 1000000000)))"

definition float_to_int :: "float64 \<Rightarrow> i64" where
  "float_to_int x = word_of_int (if x < 0 then - \<lfloor>- x\<rfloor> else \<lfloor>x\<rfloor>)"

section \<open>Informers\<close>

text \<open>
  An informer factory is its resync interval and the field selector its options set.
  \<open>one_term field value\<close> is the text of \<open>fields.OneTermEqualSelector(field, value)\<close>.
\<close>

record informer_factory =
  if_resync :: i64
  if_field_selector :: "string option"

definition setupInformers ::
    "(string \<Rightarrow> string \<Rightarrow> string) \<Rightarrow> string \<Rightarrow> i64 \<Rightarrow> informer_factory \<times> informer_factory" where
  "setupInformers one_term node_name reconcile_interval =
     (\<lparr>if_resync = reconcile_interval * seconds 1,
       if_field_selector = Some (one_term ''spec.nodeName'' node_name)\<rparr>,
      \<lparr>if_resync = reconcile_interval * seconds 1, if_field_selector = None\<rparr>)"

text \<open>As \<open>main\<close> calls it.\<close>

definition main_informers ::
    "(string \<Rightarrow> string \<Rightarrow> string) \<Rightarrow> config \<Rightarrow> informer_factory \<times> informer_factory" where
  "main_informers one_term c =
     setupInformers one_term (cf_node_name c) (float_to_int (Seconds (cf_reconcile_interval c)))"

section \<open>Whole seconds\<close>

lemma round_even_int [simp]: "round_even (of_int n) = n"
  by (simp add: round_even_def)

lemma to_float64_int [simp]: "to_float64 (of_int n) = of_int n"
proof (cases "find (\<lambda>e. 2 ^ 52 \<le> \<bar>of_int n :: rat\<bar> * 2 ^ e) [0..<1075]")
  case None
  have "n = 0"
  proof (rule ccontr)
    assume "n \<noteq> 0"
    then have "1 \<le> \<bar>of_int n :: rat\<bar>" by (simp flip: of_int_abs)
    then have "(2 :: rat) ^ 52 \<le> \<bar>of_int n\<bar> * 2 ^ 52" by simp
    moreover from None have "\<forall>e \<in> {0..<1075}. \<not> 2 ^ 52 \<le> \<bar>of_int n :: rat\<bar> * 2 ^ e"
      by (auto simp: find_None_iff)
    then have "\<not> 2 ^ 52 \<le> \<bar>of_int n :: rat\<bar> * 2 ^ 52" by (rule bspec) simp
    ultimately show False by blast
  qed
  with None show ?thesis by (simp add: to_float64_def)
next
  case (Some e)
  have "of_int n * (2 :: rat) ^ e = of_int (n * 2 ^ e)" by simp
  then have "round_even (of_int n * 2 ^ e) = n * 2 ^ e" by (metis round_even_int)
  with Some show ?thesis by (simp add: to_float64_def)
qed

lemma whole_seconds:
  assumes "- 9223372036 \<le> n" and "n \<le> 9223372036"
  shows "float_to_int (Seconds (seconds n)) = word_of_int n" and "sint (seconds n) = n * 1000000000"
proof -
  show d: "sint (seconds n) = n * 1000000000"
    using assms sint_of_int_i64 [of "n * 1000000000"] by (simp add: seconds_def)
  have "n * 1000000000 sdiv 1000000000 = n" "n * 1000000000 smod 1000000000 = 0"
    by (simp_all add: signed_divide_int_def signed_modulo_int_def abs_mult sgn_mult sgn_mult_abs)
  moreover have "to_float64 0 = 0" using to_float64_int [of 0] by simp
  ultimately have "Seconds (seconds n) = of_int n" by (simp add: Seconds_def d)
  then show "float_to_int (Seconds (seconds n)) = word_of_int n" by (simp add: float_to_int_def)
qed

lemma seconds_word: "word_of_int n * seconds 1 = seconds n"
  by (simp add: seconds_def)

text \<open>The informers watch the pods of the very node that is registered, and both resync with the
configured interval: the seconds of the flag, 30 without it. The way through a \<open>float64\<close> loses
nothing, for any flag whose duration fits 64 bits.\<close>

theorem informers_resync:
  fixes k :: "'w kubelet"
  assumes "\<bar>sint (fl_reconcile_interval f)\<bar> \<le> 9223372036"
  shows "let c = effective_config getenv f;
             n = (if fl_reconcile_interval f = 0 then 30 else sint (fl_reconcile_interval f));
             (pods, others) = main_informers one_term c
         in sint (if_resync pods) = n * 1000000000 \<and> if_resync others = if_resync pods \<and>
            cf_reconcile_interval c = if_resync pods \<and>
            if_field_selector pods = Some (one_term ''spec.nodeName'' (nd_name (virtual_node (cf_node_name c) k)))"
proof -
  define n where "n = (if fl_reconcile_interval f = 0 then 30 else sint (fl_reconcile_interval f))"
  have n: "- 9223372036 \<le> n" "n \<le> 9223372036" using assms by (auto simp: n_def)
  have "cf_reconcile_interval (effective_config getenv f) = seconds n"
    using seconds_word [of "sint (fl_reconcile_interval f)"]
    by (simp add: n_def effective_defs DefaultConfig_def)
  with whole_seconds [OF n] n_def show ?thesis
    by (simp add: main_informers_def setupInformers_def seconds_word Let_def virtual_node_def ConfigureNode_def)
qed

text \<open>One second more, and the interval is negative.\<close>

lemma informers_resync_wraps:
  "cf_reconcile_interval (effective_config getenv (no_flags\<lparr>fl_reconcile_interval := 9223372037\<rparr>)) =
     word_of_int (- 9223372036709551616)"
  by (simp add: effective_defs DefaultConfig_def seconds_def no_flags_def)

end
