(* ===== verification/Net_Url.thy ===== *)
theory Net_Url
  imports Json_Tree
begin

text \<open>
  Go's \<open>net/url\<close> (as of Go 1.24), as far as \<open>client.go\<close> uses it: parsing a URL, reading and writing
  its query, and printing it. A string is its bytes.
\<close>

section \<open>Escaping\<close>

datatype escape_mode =
    EncodePath | EncodeHost | EncodeZone | EncodeUserPassword | EncodeQueryComponent | EncodeFragment

definition alphanumeric :: "char \<Rightarrow> bool" where
  "alphanumeric c \<longleftrightarrow>
     (let n = of_char c :: nat in 97 \<le> n \<and> n \<le> 122 \<or> 65 \<le> n \<and> n \<le> 90 \<or> 48 \<le> n \<and> n \<le> 57)"

definition shouldEscape :: "char \<Rightarrow> escape_mode \<Rightarrow> bool" where
  "shouldEscape c mode =
     (if alphanumeric c then False
      else if mode \<in> {EncodeHost, EncodeZone} \<and> c \<in> set ''!$&()*+,;=:[]<>\"'' \<union> {CHR 0x27} then False
      else if c \<in> set ''-_.~'' then False
      else if c \<in> set ''$&+,/:;=?@'' \<and> mode = EncodePath then c = CHR ''?''
      else if c \<in> set ''$&+,/:;=?@'' \<and> mode = EncodeUserPassword then c \<in> set ''@/?:''
      else if c \<in> set ''$&+,/:;=?@'' \<and> mode = EncodeQueryComponent then True
      else if c \<in> set ''$&+,/:;=?@'' \<and> mode = EncodeFragment then False
      else if mode = EncodeFragment \<and> c \<in> set ''!()*'' then False
      else True)"

definition upper_hex :: "nat \<Rightarrow> char" where
  "upper_hex d = (if d < 10 then char_of (48 + d) else char_of (55 + d))"

definition unhex :: "char \<Rightarrow> nat option" where
  "unhex c =
     (let n = of_char c :: nat
      in if 48 \<le> n \<and> n \<le> 57 then Some (n - 48)
         else if 97 \<le> n \<and> n \<le> 102 then Some (n - 87)
         else if 65 \<le> n \<and> n \<le> 70 then Some (n - 55)
         else None)"

definition escape_char :: "escape_mode \<Rightarrow> char \<Rightarrow> string" where
  "escape_char mode c =
     (if c = CHR '' '' \<and> mode = EncodeQueryComponent then ''+''
      else if shouldEscape c mode then
        [CHR ''%'', upper_hex (of_char c div 16), upper_hex (of_char c mod 16)]
      else [c])"

definition url_escape :: "escape_mode \<Rightarrow> string \<Rightarrow> string" where
  "url_escape mode s = concat (map (escape_char mode) s)"

text \<open>Why a text is not a URL; the wording of the errors is left out.\<close>

datatype url_error =
    ControlCharacter
  | MissingScheme
  | ColonInFirstSegment
  | BadEscape string
  | BadHost string
  | BadPort string
  | MissingBracket
  | BadUserinfo

text \<open>The value of a hexadecimal escape, if its two digits are there.\<close>

fun escaped_byte :: "string \<Rightarrow> nat option" where
  "escaped_byte (a # b # s) =
     (case (unhex a, unhex b) of (Some i, Some j) \<Rightarrow> Some (16 * i + j) | _ \<Rightarrow> None)"
| "escaped_byte _ = None"

fun unescape :: "escape_mode \<Rightarrow> string \<Rightarrow> (url_error, string) result" where
  "unescape mode [] = Inr []"
| "unescape mode (c # s) =
     (if c = CHR ''%'' then
        (case escaped_byte s of
           None \<Rightarrow> Inl (BadEscape (take 3 (c # s)))
         | Some n \<Rightarrow>
             (if mode = EncodeHost \<and> n < 128 \<and> take 2 s \<noteq> ''25'' then Inl (BadEscape (take 3 (c # s)))
              else if mode = EncodeZone \<and> take 2 s \<noteq> ''25'' \<and> n \<noteq> 32 \<and> shouldEscape (char_of n) EncodeHost
              then Inl (BadEscape (take 3 (c # s)))
              else map_sum id (\<lambda>t. char_of n # t) (unescape mode (drop 2 s))))
      else if mode \<in> {EncodeHost, EncodeZone} \<and> (of_char c :: nat) < 128 \<and> shouldEscape c mode
      then Inl (BadHost [c])
      else map_sum id (\<lambda>t. (if c = CHR ''+'' \<and> mode = EncodeQueryComponent then CHR '' '' else c) # t)
             (unescape mode s))"

section \<open>Queries\<close>

text \<open>
  \<open>url.Values\<close>: its pairs of key and value, of which only the order of the values of one key counts.
\<close>

type_synonym query = "(string \<times> string) list"

definition query_values :: "query \<Rightarrow> string \<Rightarrow> string list" where
  "query_values q k = map snd (filter (\<lambda>p. fst p = k) q)"

definition query_get :: "query \<Rightarrow> string \<Rightarrow> string" where
  "query_get q k = (case query_values q k of [] \<Rightarrow> [] | v # _ \<Rightarrow> v)"

definition query_set :: "string \<Rightarrow> string \<Rightarrow> query \<Rightarrow> query" where
  "query_set k v q = filter (\<lambda>p. fst p \<noteq> k) q @ [(k, v)]"

text \<open>What one part of a query between two \<open>&\<close> contributes.\<close>

definition parse_setting :: "string \<Rightarrow> query" where
  "parse_setting part =
     (if CHR '';'' \<in> set part \<or> part = [] then []
      else (case cut (CHR ''='') part of (key, value, found) \<Rightarrow>
        (case unescape EncodeQueryComponent key of
           Inl e \<Rightarrow> []
         | Inr k \<Rightarrow>
             (case unescape EncodeQueryComponent value of
                Inl e \<Rightarrow> []
              | Inr v \<Rightarrow> [(k, v)]))))"

definition parse_query :: "string \<Rightarrow> query" where
  "parse_query s = concat (map parse_setting (split_on (CHR ''&'') s))"

definition encode_setting :: "string \<times> string \<Rightarrow> string" where
  "encode_setting p =
     url_escape EncodeQueryComponent (fst p) @ ''='' @ url_escape EncodeQueryComponent (snd p)"

fun join_settings :: "string list \<Rightarrow> string" where
  "join_settings [] = []"
| "join_settings [w] = w"
| "join_settings (w # ws) = w @ ''&'' @ join_settings ws"

definition query_encode :: "query \<Rightarrow> string" where
  "query_encode q = join_settings (map encode_setting (sort_key fst q))"

section \<open>URLs\<close>

record url =
  u_scheme :: string
  u_opaque :: string
  u_user :: "(string \<times> string option) option"
  u_host :: string
  u_path :: string
  u_raw_path :: string
  u_omit_host :: bool
  u_force_query :: bool
  u_raw_query :: string
  u_fragment :: string
  u_raw_fragment :: string

definition empty_url :: url where
  "empty_url =
     \<lparr>u_scheme = [], u_opaque = [], u_user = None, u_host = [], u_path = [], u_raw_path = [],
      u_omit_host = False, u_force_query = False, u_raw_query = [], u_fragment = [],
      u_raw_fragment = []\<rparr>"

text \<open>The scheme and the rest; \<open>seen\<close> is what was read, in reverse.\<close>

fun get_scheme :: "string \<Rightarrow> string \<Rightarrow> string \<Rightarrow> (url_error, string \<times> string) result" where
  "get_scheme raw seen [] = Inr ([], raw)"
| "get_scheme raw seen (c # s) =
     (let n = of_char c :: nat
      in if 97 \<le> n \<and> n \<le> 122 \<or> 65 \<le> n \<and> n \<le> 90 then get_scheme raw (c # seen) s
         else if 48 \<le> n \<and> n \<le> 57 \<or> c \<in> set ''+-.'' then
           (if seen = [] then Inr ([], raw) else get_scheme raw (c # seen) s)
         else if c = CHR '':'' then (if seen = [] then Inl MissingScheme else Inr (rev seen, s))
         else Inr ([], raw))"

text \<open>\<open>strings.LastIndex\<close> as a split: what stands before and after the last occurrence.\<close>

definition cut_last :: "char \<Rightarrow> string \<Rightarrow> (string \<times> string) option" where
  "cut_last sep s =
     (case cut sep (rev s) of
        (after, before, True) \<Rightarrow> Some (rev before, rev after)
      | (_, _, False) \<Rightarrow> None)"

definition valid_optional_port :: "string \<Rightarrow> bool" where
  "valid_optional_port p \<longleftrightarrow>
     p = [] \<or> hd p = CHR '':'' \<and> (\<forall>c \<in> set (tl p). 48 \<le> (of_char c :: nat) \<and> (of_char c :: nat) \<le> 57)"

text \<open>What stands before and from the first \<open>%25\<close> on.\<close>

fun cut_zone :: "string \<Rightarrow> (string \<times> string) option" where
  "cut_zone [] = None"
| "cut_zone (c # s) =
     (if has_prefix (c # s) ''%25'' then Some ([], c # s)
      else map_option (\<lambda>(a, b). (c # a, b)) (cut_zone s))"

definition bind_result :: "('e, 'a) result \<Rightarrow> ('a \<Rightarrow> ('e, 'b) result) \<Rightarrow> ('e, 'b) result" where
  "bind_result r f = (case r of Inl e \<Rightarrow> Inl e | Inr x \<Rightarrow> f x)"

definition parse_host :: "string \<Rightarrow> (url_error, string) result" where
  "parse_host host =
     (if has_prefix host ''['' then
        (case cut_last (CHR '']'') host of
           None \<Rightarrow> Inl MissingBracket
         | Some (inner, port) \<Rightarrow>
             (if \<not> valid_optional_port port then Inl (BadPort port)
              else (case cut_zone inner of
                 Some (address, zone) \<Rightarrow>
                   bind_result (unescape EncodeHost address) (\<lambda>h1.
                     bind_result (unescape EncodeZone zone) (\<lambda>h2.
                       bind_result (unescape EncodeHost (CHR '']'' # port)) (\<lambda>h3.
                         Inr (h1 @ h2 @ h3))))
               | None \<Rightarrow> unescape EncodeHost host)))
      else (case cut_last (CHR '':'') host of
         Some (name, port) \<Rightarrow>
           (if \<not> valid_optional_port (CHR '':'' # port) then Inl (BadPort (CHR '':'' # port))
            else unescape EncodeHost host)
       | None \<Rightarrow> unescape EncodeHost host))"

definition valid_userinfo :: "string \<Rightarrow> bool" where
  "valid_userinfo s \<longleftrightarrow>
     (\<forall>c \<in> set s. alphanumeric c \<or> c \<in> set ''-._:~!$&()*+,;=%@'' \<or> c = CHR 0x27)"

definition parse_userinfo :: "string \<Rightarrow> (url_error, string \<times> string option) result" where
  "parse_userinfo s =
     (if \<not> valid_userinfo s then Inl BadUserinfo
      else (case cut (CHR '':'') s of
         (name, password, found) \<Rightarrow>
           bind_result (unescape EncodeUserPassword name) (\<lambda>n.
             if found then
               bind_result (unescape EncodeUserPassword password) (\<lambda>p. Inr (n, Some p))
             else Inr (n, None))))"

definition parse_authority ::
    "string \<Rightarrow> (url_error, (string \<times> string option) option \<times> string) result" where
  "parse_authority s =
     (case cut_last (CHR ''@'') s of
        None \<Rightarrow> bind_result (parse_host s) (\<lambda>h. Inr (None, h))
      | Some (userinfo, host) \<Rightarrow>
          bind_result (parse_host host) (\<lambda>h.
            bind_result (parse_userinfo userinfo) (\<lambda>u. Inr (Some u, h))))"

text \<open>The raw form is kept only where escaping the decoded form would not give it back.\<close>

definition set_path :: "string \<Rightarrow> url \<Rightarrow> (url_error, url) result" where
  "set_path p u =
     bind_result (unescape EncodePath p) (\<lambda>path.
       Inr (u\<lparr>u_path := path, u_raw_path := (if p = url_escape EncodePath path then [] else p)\<rparr>))"

definition set_fragment :: "string \<Rightarrow> url \<Rightarrow> (url_error, url) result" where
  "set_fragment f u =
     bind_result (unescape EncodeFragment f) (\<lambda>fragment.
       Inr (u\<lparr>u_fragment := fragment,
              u_raw_fragment := (if f = url_escape EncodeFragment fragment then [] else f)\<rparr>))"

text \<open>What follows the query is settled: an opaque URL, or an authority and a path.\<close>

definition parse_hierarchy :: "string \<Rightarrow> url \<Rightarrow> (url_error, url) result" where
  "parse_hierarchy rest u =
     (if \<not> has_prefix rest ''/'' \<and> u_scheme u \<noteq> [] then Inr (u\<lparr>u_opaque := rest\<rparr>)
      else if \<not> has_prefix rest ''/'' \<and> CHR '':'' \<in> set (fst (cut (CHR ''/'') rest))
      then Inl ColonInFirstSegment
      else if (u_scheme u \<noteq> [] \<or> \<not> has_prefix rest ''///'') \<and> has_prefix rest ''//'' then
        (case cut (CHR ''/'') (drop 2 rest) of
           (authority, path, found) \<Rightarrow>
             bind_result (parse_authority authority) (\<lambda>(user, host).
               set_path (if found then CHR ''/'' # path else []) (u\<lparr>u_user := user, u_host := host\<rparr>)))
      else set_path rest
        (if u_scheme u \<noteq> [] \<and> has_prefix rest ''/'' then u\<lparr>u_omit_host := True\<rparr> else u))"

definition parse_part :: "string \<Rightarrow> (url_error, url) result" where
  "parse_part raw =
     (if \<exists>c \<in> set raw. (of_char c :: nat) < 32 \<or> (of_char c :: nat) = 127 then Inl ControlCharacter
      else if raw = ''*'' then Inr (empty_url\<lparr>u_path := ''*''\<rparr>)
      else bind_result (get_scheme raw [] raw) (\<lambda>(scheme, rest).
        let u = empty_url\<lparr>u_scheme := to_lower scheme\<rparr>
        in if rest \<noteq> [] \<and> last rest = CHR ''?'' \<and> count_list rest (CHR ''?'') = 1 then
             parse_hierarchy (butlast rest) (u\<lparr>u_force_query := True\<rparr>)
           else (case cut (CHR ''?'') rest of
             (front, query, found) \<Rightarrow> parse_hierarchy front (u\<lparr>u_raw_query := query\<rparr>))))"

definition url_parse :: "string \<Rightarrow> (url_error, url) result" where
  "url_parse raw =
     (case cut (CHR ''#'') raw of
        (front, fragment, found) \<Rightarrow>
          bind_result (parse_part front) (\<lambda>u.
            if fragment = [] then Inr u else set_fragment fragment u))"

section \<open>Printing\<close>

definition valid_encoded :: "escape_mode \<Rightarrow> string \<Rightarrow> bool" where
  "valid_encoded mode s \<longleftrightarrow>
     (\<forall>c \<in> set s. c \<in> set ''!$&()*+,;=:@[]%'' \<or> c = CHR 0x27 \<or> \<not> shouldEscape c mode)"

text \<open>The raw form if it is a proper encoding of the decoded one.\<close>

definition kept_raw :: "escape_mode \<Rightarrow> string \<Rightarrow> string \<Rightarrow> bool" where
  "kept_raw mode raw decoded \<longleftrightarrow> raw \<noteq> [] \<and> valid_encoded mode raw \<and> unescape mode raw = Inr decoded"

definition escaped_path :: "url \<Rightarrow> string" where
  "escaped_path u =
     (if kept_raw EncodePath (u_raw_path u) (u_path u) then u_raw_path u
      else if u_path u = ''*'' then ''*''
      else url_escape EncodePath (u_path u))"

definition escaped_fragment :: "url \<Rightarrow> string" where
  "escaped_fragment u =
     (if kept_raw EncodeFragment (u_raw_fragment u) (u_fragment u) then u_raw_fragment u
      else url_escape EncodeFragment (u_fragment u))"

definition show_user :: "(string \<times> string option) option \<Rightarrow> string" where
  "show_user user =
     (case user of
        None \<Rightarrow> []
      | Some (name, password) \<Rightarrow>
          url_escape EncodeUserPassword name @
          (case password of None \<Rightarrow> [] | Some p \<Rightarrow> '':'' @ url_escape EncodeUserPassword p) @ ''@'')"

definition show_authority :: "url \<Rightarrow> string" where
  "show_authority u =
     (if (u_scheme u \<noteq> [] \<or> u_host u \<noteq> [] \<or> u_user u \<noteq> None) \<and>
         \<not> (u_omit_host u \<and> u_host u = [] \<and> u_user u = None)
      then (if u_host u \<noteq> [] \<or> u_path u \<noteq> [] \<or> u_user u \<noteq> None then ''//'' else []) @
           show_user (u_user u) @ url_escape EncodeHost (u_host u)
      else [])"

text \<open>All that comes before the query.\<close>

definition show_front :: "url \<Rightarrow> string" where
  "show_front u =
     (let scheme = (if u_scheme u \<noteq> [] then u_scheme u @ '':'' else []);
          path = escaped_path u;
          front = scheme @ show_authority u @
            (if path \<noteq> [] \<and> hd path \<noteq> CHR ''/'' \<and> u_host u \<noteq> [] then ''/'' else [])
      in if u_opaque u \<noteq> [] then scheme @ u_opaque u
         else front @
           (if front = [] \<and> CHR '':'' \<in> set (fst (cut (CHR ''/'') path)) then ''./'' else []) @ path)"

definition show_query :: "url \<Rightarrow> string" where
  "show_query u = (if u_force_query u \<or> u_raw_query u \<noteq> [] then ''?'' @ u_raw_query u else [])"

definition url_string :: "url \<Rightarrow> string" where
  "url_string u =
     show_front u @ show_query u @ (if u_fragment u \<noteq> [] then ''#'' @ escaped_fragment u else [])"

definition redacted :: "url \<Rightarrow> string" where
  "redacted u =
     url_string (case u_user u of
        Some (name, Some password) \<Rightarrow> u\<lparr>u_user := Some (name, Some ''xxxxx'')\<rparr>
      | _ \<Rightarrow> u)"

section \<open>A query survives its encoding\<close>

lemma hex_digits: "n < 16 \<Longrightarrow> unhex (upper_hex n) = Some n"
  by (auto simp: unhex_def upper_hex_def Let_def)

lemma escaped_byte_char [simp]:
  "escaped_byte (upper_hex (of_char c div 16) # upper_hex (of_char c mod 16) # s) = Some (of_char c)"
proof -
  have "of_char c div 16 < (16 :: nat)" using nat_of_char_less_256 [of c] by linarith
  then show ?thesis by (simp add: hex_digits)
qed

lemma unescape_hex:
  "unescape EncodeQueryComponent
     (CHR ''%'' # upper_hex (of_char c div 16) # upper_hex (of_char c mod 16) # s) =
   map_sum id (\<lambda>t. c # t) (unescape EncodeQueryComponent s)"
  by (simp del: escaped_byte.simps)

lemma plain_char: "\<not> shouldEscape c EncodeQueryComponent \<Longrightarrow> c \<noteq> CHR ''%'' \<and> c \<noteq> CHR ''+''"
  by (auto simp: shouldEscape_def alphanumeric_def)

lemma unescape_char:
  "unescape EncodeQueryComponent (escape_char EncodeQueryComponent c @ s) =
     map_sum id (\<lambda>t. c # t) (unescape EncodeQueryComponent s)"
proof (cases "c = CHR '' ''")
  case False
  then show ?thesis
    using plain_char [of c] unescape_hex [of c s]
    by (simp add: escape_char_def del: unescape.simps) simp
qed (simp add: escape_char_def)

lemma unescape_escape [simp]:
  "unescape EncodeQueryComponent (url_escape EncodeQueryComponent s) = Inr s"
  by (induction s) (simp_all add: url_escape_def unescape_char)

text \<open>Escaped text contains none of the characters that separate.\<close>

lemma upper_hex_plain: "n < 16 \<Longrightarrow> upper_hex n \<notin> set ''&=;''"
proof -
  assume "n < 16"
  then have "unhex (upper_hex n) \<noteq> None" by (simp add: hex_digits)
  then show ?thesis by (auto simp: unhex_def Let_def)
qed

lemma escape_char_plain: "set (escape_char EncodeQueryComponent c) \<inter> set ''&=;'' = {}"
proof -
  have "of_char c div 16 < (16 :: nat)" "of_char c mod 16 < (16 :: nat)"
    using nat_of_char_less_256 [of c] by linarith+
  from this [THEN upper_hex_plain]
  have "set [CHR ''%'', upper_hex (of_char c div 16), upper_hex (of_char c mod 16)] \<inter> set ''&=;'' = {}"
    by simp
  moreover have "\<not> shouldEscape c EncodeQueryComponent \<Longrightarrow> c \<notin> set ''&=;''"
    by (auto simp: shouldEscape_def alphanumeric_def)
  ultimately show ?thesis by (simp only: escape_char_def split: if_split) simp
qed

lemma escape_plain: "set (url_escape EncodeQueryComponent s) \<inter> set ''&=;'' = {}"
  using escape_char_plain unfolding url_escape_def by (induction s) auto

lemma parse_encoded_setting: "parse_setting (encode_setting (k, v)) = [(k, v)]"
proof -
  let ?e = "url_escape EncodeQueryComponent"
  have sep: "CHR ''='' \<notin> set (?e k)" "CHR '';'' \<notin> set (?e k)" "CHR '';'' \<notin> set (?e v)"
    using escape_plain [of k] escape_plain [of v] by auto
  then have "cut (CHR ''='') (?e k @ CHR ''='' # ?e v) = (?e k, ?e v, True)"
    by (intro cut_char)
  with sep show ?thesis by (simp add: parse_setting_def encode_setting_def)
qed

lemma encode_setting_plain: "CHR ''&'' \<notin> set (encode_setting p)" "encode_setting p \<noteq> []"
  using escape_plain [of "fst p"] escape_plain [of "snd p"] by (auto simp: encode_setting_def)

lemma parse_joined:
  "parse_query (join_settings (map encode_setting q)) = q"
proof (induction q)
  case Nil
  show ?case by (simp add: parse_query_def parse_setting_def)
next
  case (Cons p q)
  have p: "parse_setting (encode_setting p) = [p]"
    using parse_encoded_setting [of "fst p" "snd p"] by simp
  show ?case
  proof (cases q)
    case Nil
    with p show ?thesis
      by (simp add: parse_query_def split_on_none [OF encode_setting_plain(1)])
  next
    case (Cons p' q')
    with p Cons.IH show ?thesis
      by (simp add: parse_query_def split_on_first [OF encode_setting_plain(1)])
  qed
qed

lemma parse_query_encode: "parse_query (query_encode q) = sort_key fst q"
  unfolding query_encode_def by (rule parse_joined)

lemma sorted_values [simp]: "query_values (sort_key fst q) = query_values q"
  by (rule ext) (simp add: query_values_def sort_key_stable)

lemma values_set: "query_values (query_set k v q) = (query_values q)(k := [v])"
proof (rule ext)
  fix x
  show "query_values (query_set k v q) x = ((query_values q)(k := [v])) x"
  proof (cases "x = k")
    case False
    then have "(\<lambda>p. fst p \<noteq> k \<and> fst p = x) = (\<lambda>p :: string \<times> string. fst p = x)" by auto
    with False show ?thesis by (simp add: query_values_def query_set_def)
  qed (simp add: query_values_def query_set_def)
qed

end
