(* ===== verification/Dial_Url.thy ===== *)
theory Dial_Url
  imports Net_Url Ws_Client Config
begin

text \<open>
  The URL that the WebSocket client dials and what of it gets into the log
  (\<open>buildDialURL\<close>, \<open>redactURL\<close> and the request of \<open>connect\<close> in \<open>pkg/websocket/client.go\<close>).
\<close>

section \<open>The code\<close>

text \<open>The error is wrapped as an invalid backend URL; its cause is kept.\<close>

datatype dial_error = InvalidBackendURL url_error

definition buildDialURL :: "string \<Rightarrow> string \<Rightarrow> (dial_error, string) result" where
  "buildDialURL rawURL token =
     (case url_parse rawURL of
        Inl err \<Rightarrow> Inl (InvalidBackendURL err)
      | Inr u \<Rightarrow>
          (let q = parse_query (u_raw_query u);
               q' = (if query_get q ''api_key'' = [] \<and> query_get q ''token'' = []
                     then query_set ''api_key'' token q else q)
           in Inr (url_string (u\<lparr>u_raw_query := query_encode q'\<rparr>))))"

text \<open>One round of the loop of \<open>redactURL\<close>.\<close>

definition redact_key :: "string \<Rightarrow> query \<Rightarrow> query" where
  "redact_key k q = (if query_get q k \<noteq> [] then query_set k ''***'' q else q)"

definition redactURL :: "string \<Rightarrow> string" where
  "redactURL rawURL =
     (case url_parse rawURL of
        Inl err \<Rightarrow> rawURL
      | Inr u \<Rightarrow>
          (let q = fold redact_key [''api_key'', ''token''] (parse_query (u_raw_query u))
           in redacted (u\<lparr>u_raw_query := query_encode q\<rparr>)))"

text \<open>What \<open>connect\<close> asks the dialer for: the URL and the headers.\<close>

definition dial_request :: "client_config \<Rightarrow> (dial_error, string \<times> (string \<times> string) list) result" where
  "dial_request cfg =
     (case buildDialURL (cc_url cfg) (cc_api_token cfg) of
        Inl err \<Rightarrow> Inl err
      | Inr dialURL \<Rightarrow> Inr (dialURL, [(''Authorization'', ''Bearer '' @ cc_api_token cfg)]))"

section \<open>What is dialled\<close>

abbreviation values_of :: "url \<Rightarrow> string \<Rightarrow> string list" where
  "values_of u \<equiv> query_values (parse_query (u_raw_query u))"

text \<open>C32. The URL that is dialled is the configured one with nothing but its query changed, and in the
query nothing but the key: the token is added as \<open>api_key\<close> exactly if neither an \<open>api_key\<close> nor a
\<open>token\<close> is there already, every other parameter keeps its values in their order, and the text that
is sent decodes to just that. Only a URL that does not parse is refused.\<close>

theorem dial_url:
  "case (url_parse raw, buildDialURL raw token) of
     (Inl e, r) \<Rightarrow> r = Inl (InvalidBackendURL e)
   | (Inr u, r) \<Rightarrow>
       \<exists>v. r = Inr (url_string v) \<and> v = u\<lparr>u_raw_query := u_raw_query v\<rparr> \<and>
         values_of v = (if query_get (parse_query (u_raw_query u)) ''api_key'' = [] \<and>
                           query_get (parse_query (u_raw_query u)) ''token'' = []
                        then (values_of u)(''api_key'' := [token]) else values_of u)"
proof (cases "url_parse raw")
  case (Inl e)
  then show ?thesis by (simp add: buildDialURL_def)
next
  case (Inr u)
  let ?q = "parse_query (u_raw_query u)"
  let ?q' = "if query_get ?q ''api_key'' = [] \<and> query_get ?q ''token'' = []
    then query_set ''api_key'' token ?q else ?q"
  let ?v = "u\<lparr>u_raw_query := query_encode ?q'\<rparr>"
  have "buildDialURL raw token = Inr (url_string ?v)"
    using Inr by (simp add: buildDialURL_def Let_def)
  moreover have "values_of ?v = query_values ?q'"
    by (simp add: parse_query_encode)
  ultimately show ?thesis
    using Inr by (auto simp: values_set intro!: exI [of _ ?v])
qed

section \<open>What is logged\<close>

lemma values_redact_key:
  "query_values (redact_key k q) =
     (if query_get q k \<noteq> [] then (query_values q)(k := [''***'']) else query_values q)"
  by (simp add: redact_key_def values_set)

lemma get_values: "query_values q k = query_values r k \<Longrightarrow> query_get q k = query_get r k"
  by (simp add: query_get_def)

text \<open>C33. In the URL that is logged an \<open>api_key\<close> and a \<open>token\<close> whose first value is not empty have
three stars as their only value, and every other parameter is left as it was; the password of a user
is replaced by the printer. A URL that does not parse is logged as it is.\<close>

theorem redacted_url:
  "case url_parse raw of
     Inl e \<Rightarrow> redactURL raw = raw
   | Inr u \<Rightarrow>
       \<exists>v. redactURL raw = redacted v \<and> v = u\<lparr>u_raw_query := u_raw_query v\<rparr> \<and>
         (\<forall>k. values_of v k =
            (if k \<in> {''api_key'', ''token''} \<and> query_get (parse_query (u_raw_query u)) k \<noteq> []
             then [''***''] else values_of u k))"
proof (cases "url_parse raw")
  case (Inl e)
  then show ?thesis by (simp add: redactURL_def)
next
  case (Inr u)
  let ?q = "parse_query (u_raw_query u)"
  let ?q' = "redact_key ''token'' (redact_key ''api_key'' ?q)"
  let ?v = "u\<lparr>u_raw_query := query_encode ?q'\<rparr>"
  have "query_get (redact_key ''api_key'' ?q) ''token'' = query_get ?q ''token''"
    by (rule get_values) (simp add: values_redact_key)
  then have "query_values ?q' k = (if k \<in> {''api_key'', ''token''} \<and> query_get ?q k \<noteq> []
      then [''***''] else query_values ?q k)" for k
    by (auto simp: values_redact_key)
  moreover have "redactURL raw = redacted ?v"
    using Inr by (simp add: redactURL_def Let_def)
  ultimately show ?thesis
    using Inr by (auto simp: parse_query_encode intro!: exI [of _ ?v])
qed

section \<open>A URL without a query\<close>

lemma escape_api_key: "url_escape EncodeQueryComponent ''api_key'' = ''api_key''"
  by code_simp

lemma only_api_key:
  "query_encode (query_set ''api_key'' token (parse_query [])) =
     ''api_key='' @ url_escape EncodeQueryComponent token"
proof -
  have "encode_setting (''api_key'', token) = ''api_key='' @ url_escape EncodeQueryComponent token"
    by (simp only: encode_setting_def fst_conv snd_conv escape_api_key) simp
  then show ?thesis
    by (simp add: parse_query_def parse_setting_def query_set_def query_encode_def)
qed

lemma other_fields:
  "u_scheme (u\<lparr>u_raw_query := q\<rparr>) = u_scheme u" "u_opaque (u\<lparr>u_raw_query := q\<rparr>) = u_opaque u"
  "u_user (u\<lparr>u_raw_query := q\<rparr>) = u_user u" "u_host (u\<lparr>u_raw_query := q\<rparr>) = u_host u"
  "u_path (u\<lparr>u_raw_query := q\<rparr>) = u_path u" "u_raw_path (u\<lparr>u_raw_query := q\<rparr>) = u_raw_path u"
  "u_omit_host (u\<lparr>u_raw_query := q\<rparr>) = u_omit_host u"
  by simp_all

text \<open>A URL that prints as it was written and has neither query nor fragment gets the key at its end.\<close>

lemma plain_dial:
  assumes "url_parse raw = Inr u" and "url_string u = raw"
    and "u_raw_query u = []" and "\<not> u_force_query u" and "u_fragment u = []"
  shows "buildDialURL raw token = Inr (raw @ ''?api_key='' @ url_escape EncodeQueryComponent token)"
proof -
  let ?q = "query_encode (query_set ''api_key'' token (parse_query []))"
  have "query_get (parse_query []) k = []" for k
    by (simp add: query_get_def query_values_def parse_query_def parse_setting_def)
  then have "buildDialURL raw token = Inr (url_string (u\<lparr>u_raw_query := ?q\<rparr>))"
    using assms(1,3) by (simp only: buildDialURL_def sum.case Let_def simp_thms if_True)
  moreover have "show_front (u\<lparr>u_raw_query := q\<rparr>) = show_front u" for q
    by (simp only: show_front_def show_authority_def escaped_path_def other_fields)
  moreover from assms(2-5) have "show_front u = raw"
    by (simp only: url_string_def show_query_def) simp
  moreover have "show_query (u\<lparr>u_raw_query := ?q\<rparr>) = ''?api_key='' @ url_escape EncodeQueryComponent token"
    by (simp add: show_query_def only_api_key)
  ultimately show ?thesis
    using assms(5) by (simp add: url_string_def)
qed

lemma parse_default:
  "url_parse (cf_backend_url DefaultConfig) =
     Inr (empty_url\<lparr>u_scheme := ''wss'', u_host := ''gpuconduit.io'', u_path := ''/api/kubelet/ws''\<rparr>)"
  unfolding DefaultConfig_def by code_simp

lemma print_default:
  "url_string (empty_url\<lparr>u_scheme := ''wss'', u_host := ''gpuconduit.io'', u_path := ''/api/kubelet/ws''\<rparr>) =
     cf_backend_url DefaultConfig"
  unfolding DefaultConfig_def by code_simp

text \<open>At the default platform.\<close>

lemma default_dial:
  "buildDialURL (cf_backend_url DefaultConfig) token =
     Inr (cf_backend_url DefaultConfig @ ''?api_key='' @ url_escape EncodeQueryComponent token)"
  by (rule plain_dial [OF parse_default print_default]) (simp_all add: empty_url_def)

text \<open>An empty first value hides a second one from the redaction.\<close>

lemma redaction_gap:
  "redactURL ''ws://h/p?token=&token=s3cret'' = ''ws://h/p?token=&token=s3cret''"
  by code_simp

lemma redacted_stars:
  "redactURL ''ws://u:pw@h/p?token=s3cret&x=1'' = ''ws://u:xxxxx@h/p?token=%2A%2A%2A&x=1''"
  by code_simp

end
