(* ===== verification/Resumptions.thy ===== *)
theory Resumptions
  imports Prelude "HOL-Library.Multiset"
begin

text \<open>
  Calls that other goroutines can interrupt: a program is a sequence of atomic sections on a shared
  store and of sends on a channel, and between any two of them the store may change. Running one
  without interruption, and what holds of every interleaving of several of them (a rely-guarantee
  argument, as a locale).
\<close>

section \<open>Programs\<close>

text \<open>
  \<open>Atomic f\<close>: a section under a mutex, or one read or write outside of one. \<open>Send m k\<close>: a message
  is about to be sent; \<open>k\<close> continues with what the sender is told.
\<close>

datatype ('s, 'm, 'r, 'a) program =
    Return 'a
  | Atomic "'s \<Rightarrow> 's \<times> ('s, 'm, 'r, 'a) program"
  | Send 'm "'r \<Rightarrow> ('s, 'm, 'r, 'a) program"

text \<open>
  A goroutine runs a program, or is inside a send: it has passed the check and not yet used the
  channel.
\<close>

datatype ('s, 'm, 'r, 'a) task =
    Run "('s, 'm, 'r, 'a) program"
  | Passed 'm "'r \<Rightarrow> ('s, 'm, 'r, 'a) program"

text \<open>A read of the store.\<close>

definition reading :: "('s \<Rightarrow> 'b) \<Rightarrow> ('b \<Rightarrow> ('s, 'm, 'r, 'a) program) \<Rightarrow> ('s, 'm, 'r, 'a) program" where
  "reading g k = Atomic (\<lambda>s. (s, k (g s)))"

text \<open>A change of the store.\<close>

definition writing :: "('s \<Rightarrow> 's) \<Rightarrow> ('s, 'm, 'r, 'a) program \<Rightarrow> ('s, 'm, 'r, 'a) program" where
  "writing g k = Atomic (\<lambda>s. (g s, k))"

section \<open>Running without interruption\<close>

text \<open>\<open>send\<close> says what sending does to the channel's state when nothing comes between.\<close>

primrec uninterrupted ::
    "('m \<Rightarrow> 'c \<Rightarrow> 'r \<times> 'c) \<Rightarrow> ('s, 'm, 'r, 'a) program \<Rightarrow> 's \<Rightarrow> 'c \<Rightarrow> 'a \<times> 's \<times> 'c" where
  "uninterrupted send (Return x) = (\<lambda>s c. (x, s, c))"
| "uninterrupted send (Atomic f) =
     (\<lambda>s c. case map_prod id (uninterrupted send) (f s) of (t, g) \<Rightarrow> g t c)"
| "uninterrupted send (Send m k) =
     (\<lambda>s c. case send m c of (r, c') \<Rightarrow> uninterrupted send (k r) s c')"

lemma uninterrupted_reading [simp]:
  "uninterrupted send (reading g k) s c = uninterrupted send (k (g s)) s c"
  by (simp add: reading_def)

lemma uninterrupted_writing [simp]:
  "uninterrupted send (writing g k) s c = uninterrupted send k (g s) c"
  by (simp add: writing_def)

section \<open>How long a program runs\<close>

text \<open>
  \<open>ends_in n p\<close>: whatever happens between its sections, \<open>p\<close> ends after at most \<open>n\<close> steps of its own;
  a send takes two, the check and the channel.
\<close>

inductive ends_in :: "nat \<Rightarrow> ('s, 'm, 'r, 'a) program \<Rightarrow> bool" where
  ends_return: "ends_in n (Return x)"
| ends_atomic: "(\<And>s. ends_in n (snd (f s))) \<Longrightarrow> ends_in (Suc n) (Atomic f)"
| ends_send: "(\<And>r. ends_in n (k r)) \<Longrightarrow> ends_in (Suc (Suc n)) (Send m k)"

inductive_cases ends_AtomicE: "ends_in n (Atomic f)"
inductive_cases ends_SendE: "ends_in n (Send m k)"

fun task_ends :: "nat \<Rightarrow> ('s, 'm, 'r, 'a) task \<Rightarrow> bool" where
  "task_ends n (Run p) \<longleftrightarrow> ends_in n p"
| "task_ends n (Passed m k) \<longleftrightarrow> (\<exists>i. n = Suc i \<and> (\<forall>r. ends_in i (k r)))"

lemma ends_mono: "ends_in n p \<Longrightarrow> n \<le> m \<Longrightarrow> ends_in m p"
proof (induction arbitrary: m rule: ends_in.induct)
  case (ends_atomic n f)
  then obtain i where "m = Suc i" "n \<le> i" by (cases m) auto
  with ends_atomic.IH show ?case by (auto intro: ends_in.ends_atomic)
next
  case (ends_send n k msg)
  then obtain i where "m = Suc (Suc i)" "n \<le> i" by (metis Suc_le_D Suc_le_mono)
  with ends_send.IH show ?case by (auto intro: ends_in.ends_send)
qed (rule ends_in.ends_return)

lemma ends_reading: "(\<And>b. ends_in n (k b)) \<Longrightarrow> ends_in (Suc n) (reading g k)"
  unfolding reading_def by (rule ends_atomic) simp

lemma ends_writing: "ends_in n k \<Longrightarrow> ends_in (Suc n) (writing g k)"
  unfolding writing_def by (rule ends_atomic) simp

text \<open>The least such bound.\<close>

definition remaining :: "('s, 'm, 'r, 'a) task \<Rightarrow> nat" where
  "remaining p = (LEAST n. task_ends n p)"

lemma remaining_ends: "task_ends n p \<Longrightarrow> task_ends (remaining p) p \<and> remaining p \<le> n"
  unfolding remaining_def by (meson LeastI Least_le)

section \<open>Every interleaving\<close>

text \<open>
  \<open>inv\<close> is an invariant of the store, \<open>change s t\<close> how any goroutine may change it. An assertion is
  stable when no such change can falsify it. A program is safe from an assertion when each of its
  sections keeps the invariant and changes the store only in the agreed way, and its messages and
  results satisfy \<open>message\<close> and \<open>result\<close>.
\<close>

locale rely_guarantee =
  fixes inv :: "'s \<Rightarrow> bool"
    and change :: "'s \<Rightarrow> 's \<Rightarrow> bool"
    and message :: "'m \<Rightarrow> bool"
    and result :: "'a \<Rightarrow> bool"
  assumes change_refl: "change s s"
begin

definition stable :: "('s \<Rightarrow> bool) \<Rightarrow> bool" where
  "stable P \<longleftrightarrow> (\<forall>s t. inv s \<longrightarrow> P s \<longrightarrow> change s t \<longrightarrow> P t)"

inductive safe :: "('s \<Rightarrow> bool) \<Rightarrow> ('s, 'm, 'r, 'a) program \<Rightarrow> bool" where
  safe_return: "(\<And>s. inv s \<Longrightarrow> P s \<Longrightarrow> result x) \<Longrightarrow> safe P (Return x)"
| safe_atomic:
    "(\<And>s. inv s \<Longrightarrow> P s \<Longrightarrow>
        inv (fst (f s)) \<and> change s (fst (f s)) \<and>
        (\<exists>P'. stable P' \<and> P' (fst (f s)) \<and> safe P' (snd (f s)))) \<Longrightarrow>
     safe P (Atomic f)"
| safe_send: "message m \<Longrightarrow> (\<And>r. safe P (k r)) \<Longrightarrow> safe P (Send m k)"

inductive_simps safe_Send [simp]: "safe P (Send m k)"

text \<open>A goroutine that can go on from a state of the store.\<close>

definition ready :: "'s \<Rightarrow> ('s, 'm, 'r, 'a) program \<Rightarrow> bool" where
  "ready s p \<longleftrightarrow> (\<exists>P. stable P \<and> P s \<and> safe P p)"

lemma stable_True [simp]: "stable (\<lambda>_. True)"
  by (simp add: stable_def)

lemma safe_at: "stable P \<Longrightarrow> P s \<Longrightarrow> safe P p \<Longrightarrow> \<exists>P. stable P \<and> P s \<and> safe P p"
  by blast

lemma safe_reading:
  assumes "\<And>s. inv s \<Longrightarrow> P s \<Longrightarrow> \<exists>P'. stable P' \<and> P' s \<and> safe P' (k (g s))"
  shows "safe P (reading g k)"
  unfolding reading_def using assms change_refl by (intro safe_atomic) auto

lemma safe_reading_any:
  assumes "\<And>b. safe (\<lambda>_. True) (k b)"
  shows "safe P (reading g k)"
  using assms by (intro safe_reading exI [of _ "\<lambda>_. True"]) simp

lemma safe_writing:
  assumes "\<And>s. inv s \<Longrightarrow> P s \<Longrightarrow> inv (g s) \<and> change s (g s)" and "safe (\<lambda>_. True) k"
  shows "safe P (writing g k)"
  unfolding writing_def using assms stable_True by (intro safe_atomic) fastforce

lemma ready_begin: "safe (\<lambda>_. True) p \<Longrightarrow> ready s p"
  unfolding ready_def using stable_True by blast

lemma ready_other: "ready s p \<Longrightarrow> inv s \<Longrightarrow> change s t \<Longrightarrow> ready t p"
  unfolding ready_def stable_def by blast

lemma ready_return: "ready s (Return x) \<Longrightarrow> inv s \<Longrightarrow> result x"
  unfolding ready_def by (auto elim: safe.cases)

lemma ready_atomic:
  assumes "ready s (Atomic f)" and "inv s" and "f s = (t, p)"
  shows "inv t \<and> change s t \<and> ready t p"
proof -
  obtain P where "P s" and "safe P (Atomic f)"
    using assms(1) unfolding ready_def by blast
  from this(2) show ?thesis
    using \<open>P s\<close> assms(2,3) unfolding ready_def by cases force
qed

lemma ready_send: "ready s (Send m k) \<Longrightarrow> message m \<and> ready s (k r)"
  unfolding ready_def by auto

text \<open>The same for a goroutine that may be inside a send.\<close>

fun task_ready :: "'s \<Rightarrow> ('s, 'm, 'r, 'a) task \<Rightarrow> bool" where
  "task_ready s (Run p) \<longleftrightarrow> ready s p"
| "task_ready s (Passed m k) \<longleftrightarrow> message m \<and> (\<forall>r. ready s (k r))"

lemma task_ready_other: "task_ready s p \<Longrightarrow> inv s \<Longrightarrow> change s t \<Longrightarrow> task_ready t p"
  by (cases p) (auto intro: ready_other)

end

end
