(* ===== verification/Kubelet_Calls.thy ===== *)
theory Kubelet_Calls
  imports Kubelet_System Resumptions
begin

text \<open>
  The operations of the kubelet as the interruptible calls they are
  (\<open>pkg/virtual_kubelet/kubelet.go\<close>): each section under \<open>podsMutex\<close> or \<open>notifyMutex\<close>, each read
  or write that the code performs outside of a mutex, the provider call of a command and each send
  is a step of its own. Cached pods and instance records are objects that the maps point to, so a
  call may go on reading or mutating an object that is no longer cached.
\<close>

section \<open>The shared store\<close>

text \<open>
  \<open>st_base\<close> holds the fields of the provider other than its connection, pods and records;
  \<open>st_pods\<close> and \<open>st_infos\<close> are its maps, to addresses; addresses from \<open>st_fresh\<close> on are unused.
\<close>

record 'w store =
  st_base :: "'w kubelet"
  st_world :: 'w
  st_pods :: "string \<rightharpoonup> nat"
  st_infos :: "string \<rightharpoonup> nat"
  st_pod_at :: "nat \<Rightarrow> pod"
  st_info_at :: "nat \<Rightarrow> instance_info"
  st_fresh :: nat

text \<open>The kubelet that a store and a connection make up, with the objects in place of addresses.\<close>

definition view :: "'w store \<Rightarrow> connection \<Rightarrow> 'w kubelet" where
  "view s c =
     (st_base s)\<lparr>kb_conn := c,
       kb_pods := (\<lambda>key. map_option (st_pod_at s) (st_pods s key)),
       kb_status := (\<lambda>key. map_option (st_info_at s) (st_infos s key))\<rparr>"

text \<open>What a call returns to its caller; \<open>Answered\<close> when it returns nothing but a nil error.\<close>

datatype answer =
    Answered
  | PodAnswer string string "(go_error, pod) result"
  | StatusAnswer string string "pod_status outcome"

type_synonym 'w call = "('w store, outgoing, send_error option, answer) program"

section \<open>Shared steps\<close>

definition store_pod :: "string \<Rightarrow> pod \<Rightarrow> 'w store \<Rightarrow> 'w store" where
  "store_pod key p s =
     s\<lparr>st_pods := (st_pods s)(key \<mapsto> st_fresh s), st_pod_at := (st_pod_at s)(st_fresh s := p),
       st_fresh := Suc (st_fresh s)\<rparr>"

definition store_info :: "string \<Rightarrow> instance_info \<Rightarrow> 'w store \<Rightarrow> 'w store" where
  "store_info key info s =
     s\<lparr>st_infos := (st_infos s)(key \<mapsto> st_fresh s), st_info_at := (st_info_at s)(st_fresh s := info),
       st_fresh := Suc (st_fresh s)\<rparr>"

definition change_info :: "nat \<Rightarrow> (instance_info \<Rightarrow> instance_info) \<Rightarrow> 'w store \<Rightarrow> 'w store" where
  "change_info a f s = s\<lparr>st_info_at := (st_info_at s)(a := f (st_info_at s a))\<rparr>"

definition notify_of :: "pod \<Rightarrow> 'w store \<Rightarrow> 'w store" where
  "notify_of p s = s\<lparr>st_base := (st_base s)\<lparr>kb_notified := kb_notified (st_base s) @ [p]\<rparr>\<rparr>"

definition with_status :: "string \<Rightarrow> string \<Rightarrow> string \<Rightarrow> pod \<Rightarrow> pod" where
  "with_status phase reason message p = p\<lparr>p_phase := phase, p_reason := reason, p_message := message\<rparr>"

text \<open>
  \<open>updatePodStatus\<close> on a pod of the caller's and on a cached one; the callback is read under
  \<open>notifyMutex\<close>, the pod is written outside.
\<close>

definition update_own ::
    "pod \<Rightarrow> string \<Rightarrow> string \<Rightarrow> string \<Rightarrow> 'w call \<Rightarrow> 'w call" where
  "update_own p phase reason message k =
     reading (\<lambda>s. kb_notify (st_base s)) (\<lambda>notify.
       if notify then writing (notify_of (with_status phase reason message p)) k else k)"

definition update_cached ::
    "nat \<Rightarrow> string \<Rightarrow> string \<Rightarrow> string \<Rightarrow> 'w call \<Rightarrow> 'w call" where
  "update_cached a phase reason message k =
     reading (\<lambda>s. kb_notify (st_base s)) (\<lambda>notify.
       if notify then
         writing (\<lambda>s. let p = with_status phase reason message (st_pod_at s a)
                      in notify_of p (s\<lparr>st_pod_at := (st_pod_at s)(a := p)\<rparr>)) k
       else k)"

section \<open>The calls of the controllers\<close>

text \<open>\<open>kid\<close> is the kubelet id of the client, which never changes.\<close>

definition create_call :: "string \<Rightarrow> string \<Rightarrow> instant \<Rightarrow> pod \<Rightarrow> 'w call" where
  "create_call kid uuid now p =
     writing (store_info (getPodKey p) (new_instance_info p now) \<circ> store_pod (getPodKey p) p)
       (Send (NewEnvelope uuid now (EventPayload (pod_created p)) kid) (\<lambda>err.
          update_own p PhasePending [] ''Pod creation event sent to backend'' (Return Answered)))"

definition update_call :: "pod \<Rightarrow> 'w call" where
  "update_call p = writing (store_pod (getPodKey p) p) (Return Answered)"

definition read_instance :: "string \<Rightarrow> 'w store \<Rightarrow> string" where
  "read_instance key s =
     (case st_infos s key of Some a \<Rightarrow> ii_provider_pod_id (st_info_at s a) | None \<Rightarrow> [])"

definition drop_pod :: "string \<Rightarrow> 'w store \<Rightarrow> 'w store" where
  "drop_pod key s =
     s\<lparr>st_pods := (st_pods s)(key := None), st_infos := (st_infos s)(key := None)\<rparr>"

definition delete_call :: "string \<Rightarrow> string \<Rightarrow> instant \<Rightarrow> pod \<Rightarrow> 'w call" where
  "delete_call kid uuid now p =
     reading (read_instance (getPodKey p)) (\<lambda>provider_pod_id.
       Send (NewEnvelope uuid now (EventPayload (pod_deleted p provider_pod_id)) kid) (\<lambda>err.
         writing (drop_pod (getPodKey p)) (Return Answered)))"

text \<open>The pod is looked up under the mutex and copied afterwards.\<close>

definition get_pod_call :: "string \<Rightarrow> string \<Rightarrow> 'w call" where
  "get_pod_call ns name =
     reading (\<lambda>s. st_pods s (ns @ ''/'' @ name)) (\<lambda>found.
       case found of
         None \<Rightarrow> Return (PodAnswer ns name (Inl (ErrText ''pod not found'')))
       | Some a \<Rightarrow> reading (\<lambda>s. st_pod_at s a) (\<lambda>p. Return (PodAnswer ns name (Inr p))))"

definition status_pending :: pod_status where
  "status_pending =
     \<lparr>ps_phase = ''Pending'', ps_reason = [], ps_message = [],
      ps_conditions = [(''PodScheduled'', ''True'')], ps_container_statuses = []\<rparr>"

text \<open>
  The pod and its record are looked up under the mutex; the record's fields are read afterwards,
  one after the other: the code to see whether the pod is rejected, and again for the reason.
\<close>

definition rejected_answer :: "nat \<Rightarrow> (pod_status outcome \<Rightarrow> 'w call) \<Rightarrow> 'w call" where
  "rejected_answer b answer =
     reading (\<lambda>s. ii_reject_code (st_info_at s b)) (\<lambda>reason.
       reading (\<lambda>s. ii_reject_message (st_info_at s b)) (\<lambda>message.
         answer (Returns (status_pending\<lparr>ps_phase := ''Failed'', ps_reason := reason,
                                         ps_message := message\<rparr>))))"

text \<open>Once a status result is there, the remaining reads are taken together.\<close>

definition result_answer ::
    "nat \<Rightarrow> nat \<Rightarrow> status_result \<Rightarrow> (pod_status outcome \<Rightarrow> 'w call) \<Rightarrow> 'w call" where
  "result_answer a b sr answer =
     reading (\<lambda>s. (st_info_at s b, p_containers (st_pod_at s a))) (\<lambda>(info, containers).
       case containers of
         [] \<Rightarrow> answer Panics
       | c # _ \<Rightarrow>
           answer (Returns (status_pending\<lparr>ps_phase := phase_of_result sr,
             ps_conditions := ps_conditions status_pending @
               (if phase_of_result sr = ''Running'' then [(''Ready'', ''True'')] else []),
             ps_container_statuses := [container_status_of c info sr]\<rparr>)))"

definition record_answer :: "nat \<Rightarrow> nat \<Rightarrow> (pod_status outcome \<Rightarrow> 'w call) \<Rightarrow> 'w call" where
  "record_answer a b answer =
     reading (\<lambda>s. ii_reject_code (st_info_at s b)) (\<lambda>code.
       if code \<noteq> [] then rejected_answer b answer
       else reading (\<lambda>s. ii_status_result (st_info_at s b)) (\<lambda>result.
         case result of
           None \<Rightarrow> answer (Returns status_pending)
         | Some sr \<Rightarrow> result_answer a b sr answer))"

definition get_status_call :: "string \<Rightarrow> string \<Rightarrow> 'w call" where
  "get_status_call ns name =
     (let key = ns @ ''/'' @ name; answer = (\<lambda>st. Return (StatusAnswer ns name st))
      in reading (\<lambda>s. (st_pods s key, st_infos s key)) (\<lambda>(pod_found, info_found).
        case pod_found of
          None \<Rightarrow> answer (Fails (ErrText ''pod not found''))
        | Some a \<Rightarrow>
            (case info_found of
               None \<Rightarrow> answer (Returns status_pending)
             | Some b \<Rightarrow> record_answer a b answer)))"

definition notify_call :: "'w call" where
  "notify_call =
     writing (\<lambda>s. s\<lparr>st_base := (st_base s)\<lparr>kb_notify := True\<rparr>\<rparr>) (Return Answered)"

section \<open>The command goroutine\<close>

text \<open>\<open>handleDeploymentSuccess\<close>: the section under the mutex yields the cached pod.\<close>

definition record_deployment ::
    "instant \<Rightarrow> deploy_params \<Rightarrow> deploy_result \<Rightarrow> instance_info \<Rightarrow> instance_info" where
  "record_deployment now params result info =
     info\<lparr>ii_provider_pod_id := dr_provider_pod_id result,
          ii_provider := (if dr_provider result = [] then dp_provider params
                          else dr_provider result),
          ii_status := dr_status result, ii_cost_per_hour := dr_cost_per_hour result,
          ii_machine_id := dr_machine_id result, ii_location := dr_datacenter_id result,
          ii_last_status_check := now\<rparr>"

definition change_record ::
    "string \<Rightarrow> (instance_info \<Rightarrow> instance_info) \<Rightarrow> 'w store \<Rightarrow> 'w store" where
  "change_record key f s =
     (case st_infos s key of
        None \<Rightarrow> s
      | Some b \<Rightarrow> s\<lparr>st_info_at := (st_info_at s)(b := f (st_info_at s b))\<rparr>)"

definition deployed_call ::
    "instant \<Rightarrow> deploy_params \<Rightarrow> deploy_result \<Rightarrow> 'w call \<Rightarrow> 'w call" where
  "deployed_call now params result k =
     (let key = PodKey (dp_namespace params) (dp_pod_name params)
      in Atomic (\<lambda>s.
        (change_record key (record_deployment now params result) s,
         case st_pods s key of
           None \<Rightarrow> k
         | Some a \<Rightarrow> update_cached a PhasePending [] ''Instance deployed, waiting for startup'' k)))"

definition record_rejection :: "reject_params \<Rightarrow> instance_info \<Rightarrow> instance_info" where
  "record_rejection params info =
     info\<lparr>ii_reject_code := rp_code params, ii_reject_message := rp_message params,
          ii_status := ''REJECTED''\<rparr>"

text \<open>\<open>handleReject\<close>; \<open>k\<close> goes on with the error that it returns.\<close>

definition reject_call :: "reject_params \<Rightarrow> (go_error option \<Rightarrow> 'w call) \<Rightarrow> 'w call" where
  "reject_call params k =
     (let key = PodKey (rp_namespace params) (rp_pod_name params)
      in Atomic (\<lambda>s.
        (change_record key (record_rejection params) s,
         case st_pods s key of
           None \<Rightarrow> k (Some (ErrText (''pod '' @ key @ '' not found'')))
         | Some a \<Rightarrow> update_cached a PhaseFailed (rp_code params) (rp_message params) (k None))))"

text \<open>What the handler answers, and the world it leaves, when the reject callback returns \<open>e\<close>.\<close>

definition execute_with ::
    "'w manager \<Rightarrow> go_error option \<Rightarrow> incoming \<Rightarrow> 'w \<Rightarrow> response \<times> 'w" where
  "execute_with m e env w =
     (case ExecuteCommand m (Some (\<lambda>params u. (e, u))) env ((), w) of (r, u, w') \<Rightarrow> (r, w'))"

definition respond_call :: "string \<Rightarrow> string \<Rightarrow> instant \<Rightarrow> response \<Rightarrow> 'w call" where
  "respond_call kid uuid now r =
     Send (NewEnvelope uuid now (ResponsePayload r) kid) (\<lambda>err. Return Answered)"

definition bookkeeping_call ::
    "string \<Rightarrow> string \<Rightarrow> instant \<Rightarrow> incoming \<Rightarrow> response \<Rightarrow> 'w call" where
  "bookkeeping_call kid uuid now env r =
     (if Success (Some r) then
        (case (rs_data r, deploy_params_of env) of
           (DeployData result, Some params) \<Rightarrow>
             deployed_call now params result (respond_call kid uuid now r)
         | _ \<Rightarrow> respond_call kid uuid now r)
      else respond_call kid uuid now r)"

text \<open>
  One round of \<open>processCommands\<close>. A reject command goes through the callback; every other one is
  a provider call, during which nothing is locked.
\<close>

definition command_call :: "string \<Rightarrow> string \<Rightarrow> instant \<Rightarrow> incoming \<Rightarrow> 'w call" where
  "command_call kid uuid now env =
     (case reject_params_of env of
        Some params \<Rightarrow>
          reject_call params (\<lambda>e.
            reading (\<lambda>s. fst (execute_with (kb_manager (st_base s)) e env (st_world s)))
              (bookkeeping_call kid uuid now env))
      | None \<Rightarrow>
          Atomic (\<lambda>s. case execute_with (kb_manager (st_base s)) None env (st_world s) of
            (r, w) \<Rightarrow> (s\<lparr>st_world := w\<rparr>, bookkeeping_call kid uuid now env r)))"

section \<open>Registration\<close>

definition register_call ::
    "string \<Rightarrow> string list \<Rightarrow> string \<times> instant \<Rightarrow> string \<times> instant \<Rightarrow> 'w kubelet \<Rightarrow> 'w call" where
  "register_call kid ord s1 s2 k =
     Send (NewEnvelope (fst s1) (snd s1)
         (RegistrationPayload (the_registration (GetAvailableProviders ord (kb_manager k)) k)) kid)
       (\<lambda>err. case err of
          Some e \<Rightarrow> Return Answered
        | None \<Rightarrow> Send (NewEnvelope (fst s2) (snd s2) (EventPayload (kubelet_ready k)) kid)
            (\<lambda>err. Return Answered))"

end
