(* ===== verification/Kubelet_Atomic.thy ===== *)
theory Kubelet_Atomic
  imports Kubelet_Calls
begin

text \<open>
  A call that nothing interrupts is the operation of theory \<open>Kubelet\<close>: the state passing there is
  what the objects, the pointers to them and the separate sections amount to.
\<close>

section \<open>Well-formed stores\<close>

definition injective :: "('k \<rightharpoonup> nat) \<Rightarrow> bool" where
  "injective m \<longleftrightarrow> (\<forall>j key a. m j = Some a \<longrightarrow> m key = Some a \<longrightarrow> j = key)"

text \<open>
  No two keys share an object, cached objects are allocated, a pod is cached under its own key,
  every record belongs to a cached pod and none has a status result.
\<close>

definition store_ok :: "'w store \<Rightarrow> bool" where
  "store_ok s \<longleftrightarrow>
     injective (st_pods s) \<and> injective (st_infos s) \<and>
     (\<forall>key a. st_pods s key = Some a \<longrightarrow> a < st_fresh s \<and> getPodKey (st_pod_at s a) = key) \<and>
     (\<forall>key b. st_infos s key = Some b \<longrightarrow>
        b < st_fresh s \<and> st_pods s key \<noteq> None \<and> ii_status_result (st_info_at s b) = None)"

lemma store_ok_view: "store_ok s \<Longrightarrow> pods_ok (view s c)"
  by (auto simp: store_ok_def pods_ok_def view_def dom_def)

lemma view_simps [simp]:
  "kb_conn (view s c) = c"
  "kb_pods (view s c) key = map_option (st_pod_at s) (st_pods s key)"
  "kb_status (view s c) key = map_option (st_info_at s) (st_infos s key)"
  "kb_notify (view s c) = kb_notify (st_base s)"
  "kb_manager (view s c) = kb_manager (st_base s)"
  by (simp_all add: view_def)

text \<open>Two kubelets with the same fields outside of the cache and equal caches are equal.\<close>

lemma kubelet_eqI:
  assumes "k\<lparr>kb_pods := Map.empty, kb_status := Map.empty\<rparr> = k'\<lparr>kb_pods := Map.empty, kb_status := Map.empty\<rparr>"
    and "\<And>key. kb_pods k key = kb_pods k' key" and "\<And>key. kb_status k key = kb_status k' key"
  shows "k = k'"
  using assms(1) ext [of "kb_pods k", OF assms(2)] ext [of "kb_status k", OF assms(3)]
  by (cases k; cases k') simp

lemma store_ok_uncached: "store_ok s \<Longrightarrow> st_pods s key = None \<Longrightarrow> st_infos s key = None"
  unfolding store_ok_def by (metis option.exhaust)

lemma injective_fresh:
  assumes "injective m" and "\<And>key a. m key = Some a \<Longrightarrow> a < n"
  shows "injective (m(key \<mapsto> n))"
  using assms by (fastforce simp: injective_def)

lemma injective_delete: "injective m \<Longrightarrow> injective (m(key := None))"
  by (auto simp: injective_def)

lemma store_pod_ok:
  assumes "store_ok s" and "getPodKey p = key"
  shows "store_ok (store_pod key p s)"
proof -
  have "injective ((st_pods s)(key \<mapsto> st_fresh s))"
    by (rule injective_fresh) (use assms(1) in \<open>auto simp: store_ok_def\<close>)
  then show ?thesis
    using assms by (auto simp: store_ok_def store_pod_def intro: less_SucI)
qed

lemma store_info_ok:
  assumes "store_ok s" and "st_pods s key \<noteq> None" and "ii_status_result info = None"
  shows "store_ok (store_info key info s)"
proof -
  have "injective ((st_infos s)(key \<mapsto> st_fresh s))"
    by (rule injective_fresh) (use assms(1) in \<open>auto simp: store_ok_def\<close>)
  then show ?thesis
    using assms by (auto simp: store_ok_def store_info_def intro: less_SucI)
qed

section \<open>Sending without interruption\<close>

definition send_now :: "outgoing \<Rightarrow> connection \<Rightarrow> send_error option \<times> connection" where
  "send_now e c =
     (case sendEnvelope e (cn_client c) of
        Inl err \<Rightarrow> (Some err, c)
      | Inr cl \<Rightarrow> (None, c\<lparr>cn_client := cl\<rparr>))"

abbreviation alone :: "'w call \<Rightarrow> 'w store \<Rightarrow> connection \<Rightarrow> answer \<times> 'w store \<times> connection" where
  "alone \<equiv> uninterrupted send_now"

abbreviation client_id :: "connection \<Rightarrow> string" where
  "client_id c \<equiv> KubeletID (cn_client c)"

lemma kb_send_view:
  "kb_send (sendEnvelope e) (view s c) =
     (fst (send_now e c), view s (snd (send_now e c)))"
  by (auto simp: kb_send_def send_now_def view_def split: sum.splits)

lemma send_now_id: "client_id (snd (send_now e c)) = client_id c"
  by (auto simp: send_now_def sendEnvelope_def KubeletID_def split: sum.splits option.splits)

section \<open>The shared steps on the view\<close>

lemma view_store_pod:
  assumes "store_ok s"
  shows "view (store_pod key p s) c = (view s c)\<lparr>kb_pods := (kb_pods (view s c))(key \<mapsto> p)\<rparr>"
proof (rule kubelet_eqI)
  have "st_pods s j = Some a \<Longrightarrow> a \<noteq> st_fresh s" for j a
    using assms by (auto simp: store_ok_def)
  then show "kb_pods (view (store_pod key p s) c) j =
      kb_pods ((view s c)\<lparr>kb_pods := (kb_pods (view s c))(key \<mapsto> p)\<rparr>) j" for j
    by (cases "st_pods s j") (auto simp: store_pod_def)
qed (simp_all add: view_def store_pod_def)

lemma view_store_info:
  assumes "store_ok s"
  shows "view (store_info key info s) c = (view s c)\<lparr>kb_status := (kb_status (view s c))(key \<mapsto> info)\<rparr>"
proof (rule kubelet_eqI)
  have "st_infos s j = Some a \<Longrightarrow> a \<noteq> st_fresh s" for j a
    using assms by (auto simp: store_ok_def)
  then show "kb_status (view (store_info key info s) c) j =
      kb_status ((view s c)\<lparr>kb_status := (kb_status (view s c))(key \<mapsto> info)\<rparr>) j" for j
    by (cases "st_infos s j") (auto simp: store_info_def)
qed (simp_all add: view_def store_info_def)

lemma view_drop_pod:
  "view (drop_pod key s) c =
     (view s c)\<lparr>kb_pods := (kb_pods (view s c))(key := None),
                kb_status := (kb_status (view s c))(key := None)\<rparr>"
  by (rule kubelet_eqI) (simp_all add: view_def drop_pod_def)

lemma view_change_record:
  assumes "store_ok s"
  shows "view (change_record key f s) c =
    (case kb_status (view s c) key of
       None \<Rightarrow> view s c
     | Some info \<Rightarrow> (view s c)\<lparr>kb_status := (kb_status (view s c))(key \<mapsto> f info)\<rparr>)"
proof (cases "st_infos s key")
  case (Some b)
  have key: "st_infos s j = Some b \<longleftrightarrow> j = key" for j
    using assms Some by (auto simp: store_ok_def injective_def)
  have status: "kb_status (view (change_record key f s) c) j =
      kb_status ((view s c)\<lparr>kb_status := (kb_status (view s c))(key \<mapsto> f (st_info_at s b))\<rparr>) j" for j
    using key [of j] Some by (cases "st_infos s j") (auto simp: change_record_def)
  have "view (change_record key f s) c =
      (view s c)\<lparr>kb_status := (kb_status (view s c))(key \<mapsto> f (st_info_at s b))\<rparr>"
    by (rule kubelet_eqI [OF _ _ status]) (simp_all add: view_def change_record_def Some)
  with Some show ?thesis by simp
qed (simp add: change_record_def)

lemma change_record_frame [simp]:
  "st_pods (change_record key f s) = st_pods s"
  "st_infos (change_record key f s) = st_infos s"
  "st_pod_at (change_record key f s) = st_pod_at s"
  "st_base (change_record key f s) = st_base s"
  "st_world (change_record key f s) = st_world s"
  "st_fresh (change_record key f s) = st_fresh s"
  by (simp_all add: change_record_def split: option.splits)

lemma alone_update_own:
  "alone (update_own p phase reason message k) s c =
     (if kb_notify (st_base s) then alone k (notify_of (with_status phase reason message p) s) c
      else alone k s c)"
  by (simp add: update_own_def)

lemma view_notify:
  "view (notify_of p s) c = (view s c)\<lparr>kb_notified := kb_notified (view s c) @ [p]\<rparr>"
  by (simp add: view_def notify_of_def)

lemma drop_pod_ok: "store_ok s \<Longrightarrow> store_ok (drop_pod key s)"
  by (auto simp: store_ok_def drop_pod_def intro: injective_delete)

lemma change_record_ok:
  assumes "store_ok s" and "\<And>info. ii_status_result (f info) = ii_status_result info"
  shows "store_ok (change_record key f s)"
  using assms unfolding store_ok_def by (auto simp: change_record_def split: option.splits)

lemma getPodKey_with_status [simp]: "getPodKey (with_status phase reason message p) = getPodKey p"
  by (simp add: getPodKey_def with_status_def)

lemma notify_frame [simp]:
  "st_pods (notify_of p s) = st_pods s"
  "st_infos (notify_of p s) = st_infos s"
  "st_pod_at (notify_of p s) = st_pod_at s"
  "st_info_at (notify_of p s) = st_info_at s"
  "st_fresh (notify_of p s) = st_fresh s"
  "st_world (notify_of p s) = st_world s"
  "kb_manager (st_base (notify_of p s)) = kb_manager (st_base s)"
  by (simp_all add: notify_of_def)

section \<open>The calls of the controllers\<close>

lemma create_alone:
  assumes "store_ok s"
  shows "case alone (create_call (client_id c) uuid now p) s c of (a, s', c') \<Rightarrow>
    a = Answered \<and> view s' c' = CreatePod uuid now p (view s c)"
proof -
  let ?key = "getPodKey p" and ?info = "new_instance_info p now"
  let ?s = "store_info ?key ?info (store_pod ?key p s)"
  let ?k = "(view s c)\<lparr>kb_pods := (kb_pods (view s c))(?key \<mapsto> p),
      kb_status := (kb_status (view s c))(?key \<mapsto> ?info)\<rparr>"
  let ?e = "NewEnvelope uuid now (EventPayload (pod_created p)) (client_id c)"
  have stored: "view ?s c' = (view s c')\<lparr>kb_pods := (kb_pods (view s c'))(?key \<mapsto> p),
      kb_status := (kb_status (view s c'))(?key \<mapsto> ?info)\<rparr>" for c'
    by (simp only: view_store_info [OF store_pod_ok [OF assms refl]] view_store_pod [OF assms]) simp
  have "kb_send (SendEvent uuid now (pod_created p)) ?k = kb_send (sendEnvelope ?e) (view ?s c)"
    by (simp add: kb_send_payload stored)
  then have "snd (kb_send (SendEvent uuid now (pod_created p)) ?k) = view ?s (snd (send_now ?e c))"
    by (simp add: kb_send_view)
  then show ?thesis
    by (simp add: create_call_def CreatePod_def Let_def alone_update_own updatePodStatus_def
        view_notify with_status_def split_beta) (simp add: store_info_def store_pod_def)
qed

lemma update_alone:
  "store_ok s \<Longrightarrow> case alone (update_call p) s c of (a, s', c') \<Rightarrow>
     a = Answered \<and> view s' c' = UpdatePod p (view s c)"
  by (simp add: update_call_def UpdatePod_def view_store_pod)

lemma delete_alone:
  "case alone (delete_call (client_id c) uuid now p) s c of (a, s', c') \<Rightarrow>
     a = Answered \<and> view s' c' = DeletePod uuid now p (view s c)"
proof -
  have "known_instance (getPodKey p) (view s c) = read_instance (getPodKey p) s"
    by (simp add: known_instance_def read_instance_def split: option.splits)
  moreover have "kb_ws (view s c) = cn_client c" by simp
  ultimately show ?thesis
    by (simp add: delete_call_def DeletePod_def Let_def kb_send_payload kb_send_view split_beta
        view_drop_pod)
qed

lemma get_pod_alone:
  "alone (get_pod_call ns name) s c = (PodAnswer ns name (GetPod ns name (view s c)), s, c)"
  by (simp add: get_pod_call_def GetPod_def split: option.splits)

lemma get_status_alone:
  "alone (get_status_call ns name) s c = (StatusAnswer ns name (GetPodStatus ns name (view s c)), s, c)"
  by (simp add: get_status_call_def GetPodStatus_def Let_def record_answer_def rejected_answer_def
      result_answer_def status_pending_def split: option.splits list.splits)

lemma notify_alone:
  "case alone notify_call s c of (a, s', c') \<Rightarrow> a = Answered \<and> view s' c' = NotifyPods (view s c)"
  by (simp add: notify_call_def NotifyPods_def view_def)

section \<open>Commands\<close>

definition cached_updated :: "nat \<Rightarrow> string \<Rightarrow> string \<Rightarrow> string \<Rightarrow> 'w store \<Rightarrow> 'w store" where
  "cached_updated a phase reason message s =
     (if kb_notify (st_base s)
      then let p = with_status phase reason message (st_pod_at s a)
           in notify_of p (s\<lparr>st_pod_at := (st_pod_at s)(a := p)\<rparr>)
      else s)"

lemma alone_update_cached:
  "alone (update_cached a phase reason message k) s c =
     alone k (cached_updated a phase reason message s) c"
  by (simp add: update_cached_def cached_updated_def Let_def)

lemma cached_updated_frame [simp]:
  "st_world (cached_updated a phase reason message s) = st_world s"
  "kb_manager (st_base (cached_updated a phase reason message s)) = kb_manager (st_base s)"
  by (simp_all add: cached_updated_def Let_def)

lemma cached_updated_ok: "store_ok s \<Longrightarrow> store_ok (cached_updated a phase reason message s)"
  unfolding cached_updated_def Let_def by (auto simp: store_ok_def)

lemma view_cached_updated:
  assumes "store_ok s" and "st_pods s key = Some a"
  shows "view (cached_updated a phase reason message s) c =
    (case updatePodStatus (st_pod_at s a) phase reason message (view s c) of
       (p, k) \<Rightarrow> k\<lparr>kb_pods := (kb_pods k)(key \<mapsto> p)\<rparr>)"
proof (cases "kb_notify (st_base s)")
  case True
  have key: "st_pods s j = Some a \<longleftrightarrow> j = key" for j
    using assms by (auto simp: store_ok_def injective_def)
  have pods: "kb_pods (view (s\<lparr>st_pod_at := (st_pod_at s)(a := p)\<rparr>) c) j =
      ((kb_pods (view s c))(key \<mapsto> p)) j" for p j
    using key [of j] assms(2) by (cases "st_pods s j") auto
  have changed: "view (s\<lparr>st_pod_at := (st_pod_at s)(a := p)\<rparr>) c =
      (view s c)\<lparr>kb_pods := (kb_pods (view s c))(key \<mapsto> p)\<rparr>" for p
  proof (rule kubelet_eqI)
    show "kb_pods (view (s\<lparr>st_pod_at := (st_pod_at s)(a := p)\<rparr>) c) j =
        kb_pods ((view s c)\<lparr>kb_pods := (kb_pods (view s c))(key \<mapsto> p)\<rparr>) j" for j
      using pods [of p j] by simp
  qed (simp_all add: view_def)
  show ?thesis
    by (simp only: cached_updated_def updatePodStatus_def view_notify Let_def changed True view_simps
        if_True prod.case) (simp only: with_status_def, simp)
next
  case False
  have "(view s c)\<lparr>kb_pods := (kb_pods (view s c))(key \<mapsto> st_pod_at s a)\<rparr> = view s c"
    by (rule kubelet_eqI) (use assms(2) in \<open>auto simp: view_def\<close>)
  with False show ?thesis
    by (simp add: cached_updated_def updatePodStatus_def)
qed

text \<open>What the two commands that change the cache leave behind.\<close>

definition deployed_store :: "instant \<Rightarrow> deploy_params \<Rightarrow> deploy_result \<Rightarrow> 'w store \<Rightarrow> 'w store" where
  "deployed_store now params result s =
     (let key = PodKey (dp_namespace params) (dp_pod_name params);
          s' = change_record key (record_deployment now params result) s
      in case st_pods s key of
           None \<Rightarrow> s'
         | Some a \<Rightarrow> cached_updated a PhasePending [] ''Instance deployed, waiting for startup'' s')"

definition rejected_store :: "reject_params \<Rightarrow> 'w store \<Rightarrow> 'w store" where
  "rejected_store params s =
     (let key = PodKey (rp_namespace params) (rp_pod_name params);
          s' = change_record key (record_rejection params) s
      in case st_pods s key of
           None \<Rightarrow> s'
         | Some a \<Rightarrow> cached_updated a PhaseFailed (rp_code params) (rp_message params) s')"

lemma alone_deployed:
  "alone (deployed_call now params result k) s c = alone k (deployed_store now params result s) c"
  by (simp add: deployed_call_def deployed_store_def Let_def alone_update_cached split: option.splits)

lemma view_deployed:
  assumes "store_ok s"
  shows "view (deployed_store now params result s) c = handleDeploymentSuccess now params result (view s c)"
proof -
  let ?key = "PodKey (dp_namespace params) (dp_pod_name params)"
  let ?s = "change_record ?key (record_deployment now params result) s"
  have ok: "store_ok ?s"
    using assms by (intro change_record_ok) (simp_all add: record_deployment_def)
  show ?thesis
  proof (cases "st_pods s ?key")
    case None
    moreover from this assms have "st_infos s ?key = None"
      by (simp add: store_ok_uncached)
    ultimately show ?thesis
      by (simp add: deployed_store_def handleDeploymentSuccess_def view_change_record [OF assms])
  next
    case (Some a)
    with view_cached_updated [OF ok, of ?key a] show ?thesis
      by (cases "st_infos s ?key")
        (simp_all add: deployed_store_def handleDeploymentSuccess_def view_change_record [OF assms]
          record_deployment_def Let_def)
  qed
qed

lemma view_rejected:
  assumes "store_ok s"
  shows "view (rejected_store params s) c = snd (kb_reject params (view s c))"
proof -
  let ?key = "PodKey (rp_namespace params) (rp_pod_name params)"
  let ?s = "change_record ?key (record_rejection params) s"
  have ok: "store_ok ?s"
    using assms by (intro change_record_ok) (simp_all add: record_rejection_def)
  show ?thesis
  proof (cases "st_pods s ?key")
    case None
    moreover from this assms have "st_infos s ?key = None"
      by (simp add: store_ok_uncached)
    ultimately show ?thesis
      by (simp add: rejected_store_def kb_reject_def view_change_record [OF assms])
  next
    case (Some a)
    with view_cached_updated [OF ok, of ?key a] show ?thesis
      by (cases "st_infos s ?key")
        (simp_all add: rejected_store_def kb_reject_def view_change_record [OF assms]
          record_rejection_def Let_def split_beta)
  qed
qed

lemma alone_reject:
  "alone (reject_call params k) s c =
     alone (k (fst (kb_reject params (view s c)))) (rejected_store params s) c"
  by (cases "st_infos s (PodKey (rp_namespace params) (rp_pod_name params))")
    (simp_all add: reject_call_def rejected_store_def kb_reject_def Let_def alone_update_cached
      split_beta split: option.splits)

text \<open>The handler with a callback whose answer is known is the handler with the kubelet's own.\<close>

lemma execute_with_callback:
  fixes k :: "'w kubelet"
  shows "execute_with m (case reject_params_of env of None \<Rightarrow> None | Some p \<Rightarrow> fst (kb_reject p k)) env w =
    (fst (ExecuteCommand m (Some kb_reject) env (k, w)),
     snd (snd (ExecuteCommand m (Some kb_reject) env (k, w))))"
proof (cases "DecodePayload command_fields zero_command env")
  case (Inl e)
  then show ?thesis by (simp add: execute_with_def ExecuteCommand_def HandleCommand_def)
next
  case (Inr cmd)
  then have "command_of env = Some cmd" by (simp add: command_of_def)
  with Inr show ?thesis
    by (simp add: execute_with_def ExecuteCommand_def HandleCommand_def Handle_def split_beta
        reject_params_of_def handleReject_def split: sum.split option.split)
qed

lemma respond_alone:
  "alone (respond_call (client_id c) uuid now r) s c =
     (Answered, s, snd (send_now (NewEnvelope uuid now (ResponsePayload r) (client_id c)) c))"
  by (simp add: respond_call_def split_beta)

lemma kb_send_response:
  "view s c = k \<Longrightarrow> snd (kb_send (SendResponse uuid now r) k) =
     view s (snd (send_now (NewEnvelope uuid now (ResponsePayload r) (client_id c)) c))"
  by (auto simp: kb_send_payload kb_send_view)

lemma reject_keeps_world:
  "reject_params_of env = Some p \<Longrightarrow> snd (snd (ExecuteCommand m (Some kb_reject) env (k, w))) = w"
  by (subst ExecuteCommand_cases)
    (auto simp: reject_params_of_def Handle_def split_beta command_type_defs
      split: option.splits if_splits)

lemma reject_no_deploy: "reject_params_of env = Some p \<Longrightarrow> deploy_params_of env = None"
  using deploy_not_reject by (cases "deploy_params_of env") auto

lemma deployed_store_world [simp]:
  "st_world (deployed_store now params result s) = st_world s"
  "st_world (rejected_store rp s) = st_world s"
  "kb_manager (st_base (rejected_store rp s)) = kb_manager (st_base s)"
  by (simp_all add: deployed_store_def rejected_store_def Let_def split: option.splits)

lemma bookkeeping_alone:
  assumes "store_ok s"
  shows "alone (bookkeeping_call (client_id c) uuid now env r) s c =
    (let s' = (if Success (Some r) then
                 (case (rs_data r, deploy_params_of env) of
                    (DeployData result, Some params) \<Rightarrow> deployed_store now params result s
                  | _ \<Rightarrow> s) else s)
     in (Answered, s', snd (send_now (NewEnvelope uuid now (ResponsePayload r) (client_id c)) c)))"
  by (simp add: bookkeeping_call_def respond_alone alone_deployed Let_def
      split: resp_data.split option.split)

lemma view_world [simp]: "view (s\<lparr>st_world := w\<rparr>) c = view s c"
  by (simp add: view_def)

lemma store_ok_world [simp]: "store_ok (s\<lparr>st_world := w\<rparr>) = store_ok s"
  by (simp add: store_ok_def)

lemma command_alone:
  assumes "store_ok s"
  shows "case alone (command_call (client_id c) uuid now env) s c of (a, s', c') \<Rightarrow>
    a = Answered \<and> (view s' c', st_world s') = process_command uuid now env (view s c, st_world s)"
proof -
  let ?m = "kb_manager (st_base s)" and ?k = "view s c" and ?w = "st_world s"
  let ?X = "ExecuteCommand ?m (Some kb_reject) env (?k, ?w)"
  have m: "kb_manager ?k = ?m" by simp
  note x = execute_with_callback [where m = ?m and env = env and k = ?k and w = ?w]
  show ?thesis
  proof (cases "reject_params_of env")
    case None
    with x have e: "execute_with ?m None env ?w = (fst ?X, snd (snd ?X))" by simp
    have k: "fst (snd ?X) = ?k" by (simp add: execute_kubelet None)
    let ?s = "s\<lparr>st_world := snd (snd ?X)\<rparr>"
    let ?s' = "if Success (Some (fst ?X)) then
                 (case (rs_data (fst ?X), deploy_params_of env) of
                    (DeployData result, Some params) \<Rightarrow> deployed_store now params result ?s
                  | _ \<Rightarrow> ?s) else ?s"
    have "alone (command_call (client_id c) uuid now env) s c =
        (Answered, ?s', snd (send_now (NewEnvelope uuid now (ResponsePayload (fst ?X)) (client_id c)) c))"
      using assms by (simp add: command_call_def None e bookkeeping_alone Let_def)
    moreover have "view ?s' c = after_command now env ?k ?w"
      using assms unfolding after_command_def Let_def m k
      by (simp add: view_deployed split: resp_data.split option.split)
    moreover have "st_world ?s' = snd (snd ?X)"
      by (simp split: resp_data.split option.split)
    ultimately show ?thesis
      unfolding process_command_eq m by (simp add: kb_send_response)
  next
    case (Some p)
    let ?s = "rejected_store p s"
    from Some x have e: "execute_with ?m (fst (kb_reject p ?k)) env ?w = (fst ?X, snd (snd ?X))" by simp
    have k: "fst (snd ?X) = snd (kb_reject p ?k)" by (simp add: execute_kubelet Some)
    have "snd (snd ?X) = ?w"
      by (rule reject_keeps_world [OF Some])
    moreover have "view ?s c = after_command now env ?k ?w"
      using reject_no_deploy [OF Some] unfolding after_command_def Let_def m k view_rejected [OF assms]
      by (simp split: resp_data.split)
    moreover have "alone (command_call (client_id c) uuid now env) s c =
        (Answered, ?s, snd (send_now (NewEnvelope uuid now (ResponsePayload (fst ?X)) (client_id c)) c))"
      using reject_no_deploy [OF Some]
      by (simp add: command_call_def Some alone_reject e bookkeeping_call_def respond_alone
          split: resp_data.split)
    ultimately show ?thesis
      unfolding process_command_eq m by (simp add: kb_send_response)
  qed
qed

lemma register_alone:
  assumes "k = view s c"
  shows "case alone (register_call (client_id c) ord s1 s2 k) s c of (a, s', c') \<Rightarrow>
    a = Answered \<and> view s' c' = registerWithBackend ord s1 s2 k"
  using assms
  by (simp add: register_call_def registerWithBackend_def Let_def kb_send_payload kb_send_view
      split_beta send_now_id split: option.split)

end
