(* ===== verification/Kubelet_Interleaving.thy ===== *)
theory Kubelet_Interleaving
  imports Kubelet_Atomic
begin

text \<open>
  The kubelet with its calls interrupting each other: any number of calls of the controllers and
  registrations, the command goroutine, and the goroutines of the WebSocket client, interleaved at
  every section, read and send; and what holds whatever the interleaving.
\<close>

section \<open>One step of a call\<close>

text \<open>A send is the client's: the check \<open>IsConnected\<close>, then the channel.\<close>

type_synonym 'w goroutine = "('w store, outgoing, send_error option, answer) task"

inductive move ::
    "'w store \<times> connection \<times> 'w goroutine \<Rightarrow> 'w store \<times> connection \<times> 'w goroutine \<Rightarrow> bool" where
  move_atomic: "f s = (t, p) \<Longrightarrow> move (s, c, Run (Atomic f)) (t, c, Run p)"
| move_check: "conn_step c (Checked m) d \<Longrightarrow> move (s, c, Run (Send m k)) (s, d, Passed m k)"
| move_refused:
    "\<not> IsConnected (cn_client c) \<Longrightarrow>
     move (s, c, Run (Send m k)) (s, c, Run (k (Some NotConnected)))"
| move_queue: "conn_step c (Queued m) d \<Longrightarrow> move (s, c, Passed m k) (s, d, Run (k None))"
| move_drop:
    "conn_step c (Dropped m) d \<Longrightarrow> move (s, c, Passed m k) (s, d, Run (k (Some OutboundFull)))"

section \<open>The system\<close>

text \<open>
  \<open>cc_worker\<close> is the command goroutine, \<open>None\<close> while it waits for a command.
\<close>

record 'w concurrent =
  cc_store :: "'w store"
  cc_conn :: connection
  cc_calls :: "'w goroutine list"
  cc_worker :: "'w goroutine option"
  cc_registered :: nat

text \<open>What the controllers ask of the kubelet.\<close>

datatype request =
    ReqCreate string instant pod
  | ReqUpdate pod
  | ReqDelete string instant pod
  | ReqPod string string
  | ReqStatus string string
  | ReqNotify

fun call_of :: "string \<Rightarrow> request \<Rightarrow> 'w call" where
  "call_of kid (ReqCreate uuid now p) = create_call kid uuid now p"
| "call_of kid (ReqUpdate p) = update_call p"
| "call_of kid (ReqDelete uuid now p) = delete_call kid uuid now p"
| "call_of kid (ReqPod ns name) = get_pod_call ns name"
| "call_of kid (ReqStatus ns name) = get_status_call ns name"
| "call_of kid ReqNotify = notify_call"

datatype call_label =
    Asked request
  | Registering "string list" "string \<times> instant" "string \<times> instant"
  | Took string instant incoming
  | Moved
  | Ended answer
  | Net conn_label
  | Stopping

inductive conc_step :: "'w concurrent \<Rightarrow> call_label \<Rightarrow> 'w concurrent \<Rightarrow> bool" where
  conc_asked:
    "conc_step s (Asked r) (s\<lparr>cc_calls := Run (call_of (client_id (cc_conn s)) r) # cc_calls s\<rparr>)"
| conc_register:
    "cc_registered s < cn_spawned (cc_conn s) \<Longrightarrow>
     enumerates ord (kb_manager (st_base (cc_store s))) \<Longrightarrow>
     conc_step s (Registering ord s1 s2)
       (s\<lparr>cc_calls := Run (register_call (client_id (cc_conn s)) ord s1 s2
                         (view (cc_store s) (cc_conn s))) # cc_calls s,
          cc_registered := Suc (cc_registered s)\<rparr>)"
| conc_took:
    "cc_worker s = None \<Longrightarrow> conn_step (cc_conn s) (Command env) c \<Longrightarrow>
     conc_step s (Took uuid now env)
       (s\<lparr>cc_conn := c, cc_worker := Some (Run (command_call (client_id c) uuid now env))\<rparr>)"
| conc_moved:
    "cc_calls s = ps @ p # qs \<Longrightarrow> move (cc_store s, cc_conn s, p) (t, c, q) \<Longrightarrow>
     conc_step s Moved (s\<lparr>cc_store := t, cc_conn := c, cc_calls := ps @ q # qs\<rparr>)"
| conc_worked:
    "cc_worker s = Some p \<Longrightarrow> move (cc_store s, cc_conn s, p) (t, c, q) \<Longrightarrow>
     conc_step s Moved (s\<lparr>cc_store := t, cc_conn := c, cc_worker := Some q\<rparr>)"
| conc_ended:
    "cc_calls s = ps @ Run (Return x) # qs \<Longrightarrow>
     conc_step s (Ended x) (s\<lparr>cc_calls := ps @ qs\<rparr>)"
| conc_responded:
    "cc_worker s = Some (Run (Return x)) \<Longrightarrow> conc_step s (Ended x) (s\<lparr>cc_worker := None\<rparr>)"
| conc_net:
    "background l \<Longrightarrow> conn_step (cc_conn s) l c \<Longrightarrow> conc_step s (Net l) (s\<lparr>cc_conn := c\<rparr>)"
| conc_cleanup:
    "conn_step (cc_conn s) StopCalled c \<Longrightarrow>
     conc_step s Stopping
       (s\<lparr>cc_conn := c,
          cc_store := (cc_store s)\<lparr>st_base := (st_base (cc_store s))\<lparr>kb_cancelled := True\<rparr>\<rparr>\<rparr>)"

text \<open>The start: a store that shows the kubelet \<open>NewProvider\<close> returns, and no call.\<close>

definition conc_init :: "'w concurrent \<Rightarrow> bool" where
  "conc_init s \<longleftrightarrow>
     (\<exists>tr env node os ip port cfg k.
        NewProvider tr env node os ip port cfg = Inr k \<and> st_base (cc_store s) = k \<and>
        cc_conn s = kb_conn k) \<and>
     st_pods (cc_store s) = Map.empty \<and> st_infos (cc_store s) = Map.empty \<and>
     cc_calls s = [] \<and> cc_worker s = None \<and> cc_registered s = 0"

section \<open>What the goroutines rely on\<close>

text \<open>The key of the pod that a rejection names; \<open>R\<close> are the rejections that were received.\<close>

definition pod_of :: "reject_params \<Rightarrow> string" where
  "pod_of r = PodKey (rp_namespace r) (rp_pod_name r)"

definition rejected_in :: "reject_params set \<Rightarrow> string \<Rightarrow> instance_info \<Rightarrow> bool" where
  "rejected_in R key info \<longleftrightarrow>
     (\<exists>r \<in> R. pod_of r = key \<and> ii_reject_code info = rp_code r \<and> ii_reject_message info = rp_message r)"

text \<open>A record says nothing of a rejection, or what one of the received rejections said.\<close>

definition record_ok :: "reject_params set \<Rightarrow> string \<Rightarrow> instance_info \<Rightarrow> bool" where
  "record_ok R key info \<longleftrightarrow>
     ii_status_result info = None \<and> (ii_reject_code info = [] \<or> rejected_in R key info)"

definition store_inv :: "reject_params set \<Rightarrow> 'w store \<Rightarrow> bool" where
  "store_inv R s \<longleftrightarrow>
     store_ok s \<and> (\<forall>key b. st_infos s key = Some b \<longrightarrow> record_ok R key (st_info_at s b))"

text \<open>
  How the store may change under a goroutine: an allocated pod keeps its name, an allocated record
  gets no new key, and changes only while it is cached, and then to a rejection that was received
  or without touching what is said of a rejection.
\<close>

definition record_change :: "reject_params set \<Rightarrow> string \<Rightarrow> instance_info \<Rightarrow> instance_info \<Rightarrow> bool" where
  "record_change R key i j \<longleftrightarrow>
     ii_status_result j = ii_status_result i \<and>
     (rejected_in R key j \<or>
      ii_reject_code j = ii_reject_code i \<and> ii_reject_message j = ii_reject_message i)"

definition change :: "reject_params set \<Rightarrow> 'w store \<Rightarrow> 'w store \<Rightarrow> bool" where
  "change R s t \<longleftrightarrow>
     st_fresh s \<le> st_fresh t \<and>
     (\<forall>a < st_fresh s. getPodKey (st_pod_at t a) = getPodKey (st_pod_at s a)) \<and>
     (\<forall>b < st_fresh s. \<forall>key. st_infos t key = Some b \<longrightarrow> st_infos s key = Some b) \<and>
     (\<forall>b < st_fresh s. st_info_at t b = st_info_at s b \<or>
        (\<exists>key. st_infos s key = Some b \<and> record_change R key (st_info_at s b) (st_info_at t b)))"

text \<open>What a call may return: a pod that was asked for, or Pending, or Failed as it was received.\<close>

fun answer_ok :: "reject_params set \<Rightarrow> answer \<Rightarrow> bool" where
  "answer_ok R Answered \<longleftrightarrow> True"
| "answer_ok R (PodAnswer ns name res) \<longleftrightarrow>
     (case res of Inl e \<Rightarrow> e = ErrText ''pod not found'' | Inr p \<Rightarrow> getPodKey p = ns @ ''/'' @ name)"
| "answer_ok R (StatusAnswer ns name st) \<longleftrightarrow>
     st = Fails (ErrText ''pod not found'') \<or> st = Returns status_pending \<or>
     (\<exists>r \<in> R. \<exists>r' \<in> R. pod_of r = ns @ ''/'' @ name \<and> pod_of r' = ns @ ''/'' @ name \<and>
        st = Returns (status_pending\<lparr>ps_phase := ''Failed'', ps_reason := rp_code r,
                                     ps_message := rp_message r'\<rparr>))"

text \<open>Calls send no heartbeats; those come from the client's own routine.\<close>

definition no_heartbeat :: "outgoing \<Rightarrow> bool" where
  "no_heartbeat e \<longleftrightarrow> env_type e \<noteq> EnvelopeHeartbeat"

lemma calls_send_no_heartbeat [simp]:
  "no_heartbeat (NewEnvelope uuid now (ResponsePayload r) kid)"
  "no_heartbeat (NewEnvelope uuid now (EventPayload ev) kid)"
  "no_heartbeat (NewEnvelope uuid now (RegistrationPayload reg) kid)"
  by (simp_all add: no_heartbeat_def NewEnvelope_def NewEnvelopeWithID_def envelope_type_defs)

interpretation rg: rely_guarantee "store_inv R" "change R" no_heartbeat "answer_ok R" for R
  by unfold_locales (simp add: change_def)

section \<open>Every section keeps to it\<close>

lemma store_ok_record: "store_ok s \<Longrightarrow> st_infos s key = Some b \<Longrightarrow> b < st_fresh s"
  by (auto simp: store_ok_def)

lemma store_pod_keeps:
  "store_inv R s \<Longrightarrow> getPodKey p = key \<Longrightarrow>
     store_inv R (store_pod key p s) \<and> change R s (store_pod key p s)"
  unfolding store_inv_def by (auto intro: store_pod_ok) (auto simp: store_pod_def change_def)

lemma create_keeps:
  assumes "store_inv R s"
  shows "store_inv R (store_info (getPodKey p) (new_instance_info p now) (store_pod (getPodKey p) p s)) \<and>
    change R s (store_info (getPodKey p) (new_instance_info p now) (store_pod (getPodKey p) p s))"
proof -
  let ?s = "store_pod (getPodKey p) p s"
  have "store_ok (store_info (getPodKey p) (new_instance_info p now) ?s)"
    using assms by (intro store_info_ok store_pod_ok)
      (auto simp: store_inv_def store_pod_def new_instance_info_def)
  moreover have "st_infos s key = Some b \<Longrightarrow> b \<noteq> Suc (st_fresh s)" for key b
    using assms store_ok_record [of s key b] by (auto simp: store_inv_def)
  ultimately show ?thesis
    using assms by (auto simp: store_inv_def record_ok_def new_instance_info_def change_def
        store_info_def store_pod_def)
qed

lemma drop_keeps: "store_inv R s \<Longrightarrow> store_inv R (drop_pod key s) \<and> change R s (drop_pod key s)"
  unfolding store_inv_def by (auto intro: drop_pod_ok) (auto simp: drop_pod_def change_def split: if_splits)

lemma record_change_ok: "record_ok R key i \<Longrightarrow> record_change R key i j \<Longrightarrow> record_ok R key j"
  by (auto simp: record_ok_def record_change_def rejected_in_def)

lemma change_record_keeps:
  assumes "store_inv R s" and "\<And>info. record_change R key info (f info)"
  shows "store_inv R (change_record key f s) \<and> change R s (change_record key f s)"
proof (cases "st_infos s key")
  case None
  with assms(1) show ?thesis by (simp add: change_record_def change_def)
next
  case (Some b)
  have "store_ok (change_record key f s)"
    using assms by (intro change_record_ok) (auto simp: store_inv_def record_change_def)
  moreover have key: "st_infos s j = Some b \<longleftrightarrow> j = key" for j
    using assms(1) Some by (auto simp: store_inv_def store_ok_def injective_def)
  have "record_ok R j (st_info_at (change_record key f s) b')" if "st_infos s j = Some b'" for j b'
  proof (cases "b' = b")
    case True
    with that key [of j] assms(1) have "record_ok R j (st_info_at s b)" and "j = key"
      by (simp_all add: store_inv_def)
    with True Some record_change_ok [OF _ assms(2)] show ?thesis by (simp add: change_record_def)
  next
    case False
    with that Some assms(1) show ?thesis by (simp add: store_inv_def change_record_def)
  qed
  moreover have "change R s (change_record key f s)"
    using Some assms(2) by (simp add: change_def) (auto simp: change_record_def)
  ultimately show ?thesis by (simp add: store_inv_def)
qed

lemma cached_keeps:
  assumes "store_inv R s" and "p = with_status phase reason message (st_pod_at s a)"
  shows "store_inv R (notify_of p (s\<lparr>st_pod_at := (st_pod_at s)(a := p)\<rparr>)) \<and>
    change R s (notify_of p (s\<lparr>st_pod_at := (st_pod_at s)(a := p)\<rparr>))"
  using assms by (auto simp: store_inv_def store_ok_def change_def)

lemma base_keeps:
  "store_inv R (s\<lparr>st_base := k\<rparr>) = store_inv R s" "change R s (s\<lparr>st_base := k\<rparr>)"
  "store_inv R (s\<lparr>st_world := w\<rparr>) = store_inv R s" "change R s (s\<lparr>st_world := w\<rparr>)"
  "store_inv R (notify_of p s) = store_inv R s" "change R s (notify_of p s)"
  by (simp_all add: store_inv_def store_ok_def change_def)

section \<open>Every call is safe\<close>

abbreviation anything :: "'w store \<Rightarrow> bool" where
  "anything \<equiv> \<lambda>s. True"

lemma safe_update_own:
  fixes k :: "'w call"
  assumes "rg.safe R anything k"
  shows "rg.safe R anything (update_own p phase reason message k)"
  unfolding update_own_def
proof (rule rg.safe_reading_any)
  have "rg.safe R anything (writing (notify_of (with_status phase reason message p)) k)"
    using assms by (intro rg.safe_writing) (simp_all add: base_keeps)
  with assms show "rg.safe R anything
      (if b then writing (notify_of (with_status phase reason message p)) k else k)" for b
    by simp
qed

lemma safe_update_cached:
  fixes k :: "'w call"
  assumes "rg.safe R anything k"
  shows "rg.safe R anything (update_cached a phase reason message k)"
  unfolding update_cached_def
proof (rule rg.safe_reading_any)
  let ?f = "\<lambda>s :: 'w store. let p = with_status phase reason message (st_pod_at s a)
      in notify_of p (s\<lparr>st_pod_at := (st_pod_at s)(a := p)\<rparr>)"
  have "rg.safe R anything (writing ?f k)"
    using assms by (intro rg.safe_writing) (simp_all only: Let_def cached_keeps [OF _ refl] simp_thms)
  with assms show "rg.safe R anything (if b then writing ?f k else k)" for b
    by simp
qed

lemma safe_answered [simp]: "rg.safe R anything (Return Answered)"
  by (rule rg.safe_return) simp

lemma safe_create: "rg.safe R anything (create_call kid uuid now p)"
  unfolding create_call_def
  by (intro rg.safe_writing) (simp_all add: create_keeps safe_update_own)

lemma safe_update: "rg.safe R anything (update_call p)"
  unfolding update_call_def by (intro rg.safe_writing) (simp_all add: store_pod_keeps)

lemma safe_delete: "rg.safe R anything (delete_call kid uuid now p)"
  unfolding delete_call_def
  by (intro rg.safe_reading_any rg.safe_send rg.safe_writing) (simp_all add: drop_keeps)

lemma safe_notify: "rg.safe R anything notify_call"
  unfolding notify_call_def by (intro rg.safe_writing) (simp_all add: base_keeps)

lemma safe_register: "rg.safe R anything (register_call kid ord s1 s2 k)"
  by (simp add: register_call_def split: option.split)

subsection \<open>Reading a pod and its status\<close>

text \<open>What a goroutine that holds the address of a pod, or of a record, may rely on.\<close>

definition holds_pod :: "string \<Rightarrow> nat \<Rightarrow> 'w store \<Rightarrow> bool" where
  "holds_pod key a s \<longleftrightarrow> a < st_fresh s \<and> getPodKey (st_pod_at s a) = key"

definition holds_record :: "reject_params set \<Rightarrow> string \<Rightarrow> nat \<Rightarrow> 'w store \<Rightarrow> bool" where
  "holds_record R key b s \<longleftrightarrow>
     b < st_fresh s \<and> (\<forall>j. st_infos s j = Some b \<longrightarrow> j = key) \<and> record_ok R key (st_info_at s b)"

definition holds_rejected :: "reject_params set \<Rightarrow> string \<Rightarrow> nat \<Rightarrow> 'w store \<Rightarrow> bool" where
  "holds_rejected R key b s \<longleftrightarrow> holds_record R key b s \<and> rejected_in R key (st_info_at s b)"

lemma stable_holds_pod: "rg.stable R (holds_pod key a)"
  unfolding rg.stable_def holds_pod_def change_def by auto

lemma change_info:
  assumes "change R s t" and "b < st_fresh s" and "\<forall>j. st_infos s j = Some b \<longrightarrow> j = key"
  shows "st_info_at t b = st_info_at s b \<or> record_change R key (st_info_at s b) (st_info_at t b)"
  using assms unfolding change_def by blast

lemma stable_holds_record: "rg.stable R (holds_record R key b)"
  unfolding rg.stable_def
proof (intro allI impI)
  fix s t :: "'w store"
  assume h: "holds_record R key b s" and ch: "change R s t"
  from change_info [OF ch, of b key] h record_change_ok [of R key] have "record_ok R key (st_info_at t b)"
    by (auto simp: holds_record_def)
  with h ch show "holds_record R key b t"
    by (auto simp: holds_record_def change_def)
qed

lemma stable_holds_rejected: "rg.stable R (holds_rejected R key b)"
  unfolding rg.stable_def
proof (intro allI impI)
  fix s t :: "'w store"
  assume inv: "store_inv R s" and h: "holds_rejected R key b s" and ch: "change R s t"
  from stable_holds_record [of R key b] inv h ch have "holds_record R key b t"
    by (auto simp: rg.stable_def holds_rejected_def)
  moreover from change_info [OF ch, of b key] h have "rejected_in R key (st_info_at t b)"
    by (auto simp: holds_rejected_def holds_record_def record_change_def rejected_in_def)
  ultimately show "holds_rejected R key b t" by (simp add: holds_rejected_def)
qed

lemma safe_get_pod: "rg.safe R anything (get_pod_call ns name)"
  unfolding get_pod_call_def
proof (rule rg.safe_reading)
  fix s :: "'w store"
  let ?key = "ns @ ''/'' @ name"
  let ?k = "\<lambda>found. case found of
         None \<Rightarrow> Return (PodAnswer ns name (Inl (ErrText ''pod not found'')))
       | Some a \<Rightarrow> reading (\<lambda>s. st_pod_at s a) (\<lambda>p. Return (PodAnswer ns name (Inr p)))"
  assume inv: "store_inv R s"
  show "\<exists>P. rg.stable R P \<and> P s \<and> rg.safe R P (?k (st_pods s ?key))"
  proof (cases "st_pods s ?key")
    case None
    then show ?thesis
      by (intro exI [of _ anything]) (auto intro: rg.safe_return)
  next
    case (Some a)
    with inv have "holds_pod ?key a s" by (auto simp: store_inv_def store_ok_def holds_pod_def)
    moreover have "rg.safe R (holds_pod ?key a)
        (reading (\<lambda>s. st_pod_at s a) (\<lambda>p. Return (PodAnswer ns name (Inr p))))"
      by (rule rg.safe_reading)
        (auto intro!: exI [of _ anything] rg.safe_return simp: holds_pod_def)
    ultimately show ?thesis using Some stable_holds_pod by auto
  qed
qed

lemma safe_status_answer:
  assumes "answer_ok R (StatusAnswer ns name st)"
  shows "rg.safe R P (Return (StatusAnswer ns name st))"
  using assms by (intro rg.safe_return)

lemma safe_rejected_answer:
  "rg.safe R (holds_rejected R (ns @ ''/'' @ name) b)
     (rejected_answer b (\<lambda>st. Return (StatusAnswer ns name st)))"
  unfolding rejected_answer_def
proof (rule rg.safe_reading)
  fix s :: "'w store"
  let ?key = "ns @ ''/'' @ name"
  let ?code = "ii_reject_code (st_info_at s b)"
  assume inv: "store_inv R s" and h: "holds_rejected R ?key b s"
  then obtain r where r: "r \<in> R" "pod_of r = ?key" "?code = rp_code r"
    by (auto simp: holds_rejected_def rejected_in_def)
  have "rg.safe R (holds_rejected R ?key b) (reading (\<lambda>s :: 'w store. ii_reject_message (st_info_at s b))
      (\<lambda>message. Return (StatusAnswer ns name (Returns (status_pending\<lparr>ps_phase := ''Failed'',
         ps_reason := ?code, ps_message := message\<rparr>)))))"
  proof (rule rg.safe_reading)
    fix t :: "'w store"
    assume "holds_rejected R ?key b t"
    then obtain r' where "r' \<in> R" "pod_of r' = ?key" "ii_reject_message (st_info_at t b) = rp_message r'"
      by (auto simp: holds_rejected_def rejected_in_def)
    with r have "answer_ok R (StatusAnswer ns name (Returns (status_pending\<lparr>ps_phase := ''Failed'',
        ps_reason := ?code, ps_message := ii_reject_message (st_info_at t b)\<rparr>)))"
      by auto
    then show "\<exists>P. rg.stable R P \<and> P t \<and> rg.safe R P (Return (StatusAnswer ns name (Returns
        (status_pending\<lparr>ps_phase := ''Failed'', ps_reason := ?code,
           ps_message := ii_reject_message (st_info_at t b)\<rparr>))))"
      by (intro rg.safe_at [where P = anything] safe_status_answer) simp_all
  qed
  with h show "\<exists>P. rg.stable R P \<and> P s \<and> rg.safe R P
      (reading (\<lambda>s. ii_reject_message (st_info_at s b)) (\<lambda>message. Return (StatusAnswer ns name
        (Returns (status_pending\<lparr>ps_phase := ''Failed'', ps_reason := ?code, ps_message := message\<rparr>)))))"
    by (intro rg.safe_at [OF stable_holds_rejected])
qed

lemma safe_record_answer:
  "rg.safe R (holds_record R (ns @ ''/'' @ name) b)
     (record_answer a b (\<lambda>st. Return (StatusAnswer ns name st)))"
  unfolding record_answer_def
proof (rule rg.safe_reading)
  fix s :: "'w store"
  let ?key = "ns @ ''/'' @ name" and ?answer = "\<lambda>st. Return (StatusAnswer ns name st) :: 'w call"
  let ?rest = "reading (\<lambda>s. ii_status_result (st_info_at s b)) (\<lambda>result.
         case result of None \<Rightarrow> ?answer (Returns status_pending)
         | Some sr \<Rightarrow> result_answer a b sr ?answer)"
  assume h: "holds_record R ?key b s"
  show "\<exists>P. rg.stable R P \<and> P s \<and> rg.safe R P
      (if ii_reject_code (st_info_at s b) \<noteq> [] then rejected_answer b ?answer else ?rest)"
  proof (cases "ii_reject_code (st_info_at s b) = []")
    case True
    have "rg.safe R (holds_record R ?key b) ?rest"
      by (rule rg.safe_reading)
        (auto intro!: exI [of _ anything] rg.safe_return simp: holds_record_def record_ok_def)
    then show ?thesis
      unfolding True simp_thms if_False by (rule rg.safe_at [OF stable_holds_record h])
  next
    case False
    with h have "holds_rejected R ?key b s"
      by (auto simp: holds_rejected_def holds_record_def record_ok_def)
    then show ?thesis
      unfolding if_P [OF False] by (rule rg.safe_at [OF stable_holds_rejected _ safe_rejected_answer])
  qed
qed

lemma safe_get_status: "rg.safe R anything (get_status_call ns name)"
  unfolding get_status_call_def Let_def
proof (rule rg.safe_reading)
  fix s :: "'w store"
  let ?key = "ns @ ''/'' @ name" and ?answer = "\<lambda>st. Return (StatusAnswer ns name st) :: 'w call"
  let ?k = "\<lambda>(pod_found, info_found). case pod_found of
      None \<Rightarrow> ?answer (Fails (ErrText ''pod not found''))
    | Some a \<Rightarrow> (case info_found of None \<Rightarrow> ?answer (Returns status_pending)
                | Some b \<Rightarrow> record_answer a b ?answer)"
  assume inv: "store_inv R s"
  show "\<exists>P. rg.stable R P \<and> P s \<and> rg.safe R P (?k (st_pods s ?key, st_infos s ?key))"
  proof (cases "st_pods s ?key = None \<or> st_infos s ?key = None")
    case True
    then show ?thesis
      by (intro exI [of _ anything]) (auto intro: rg.safe_return split: option.split)
  next
    case False
    then obtain a b where ab: "st_pods s ?key = Some a" "st_infos s ?key = Some b" by auto
    with inv have "holds_record R ?key b s"
      by (auto simp: store_inv_def store_ok_def holds_record_def injective_def)
    then show ?thesis
      unfolding ab prod.case option.case by (rule rg.safe_at [OF stable_holds_record _ safe_record_answer])
  qed
qed

lemma safe_changing:
  fixes k :: "nat option \<Rightarrow> 'w call"
  assumes "\<And>info. record_change R key info (f info)" and "\<And>found. rg.safe R anything (k found)"
  shows "rg.safe R anything (Atomic (\<lambda>s. (change_record key f s, k (st_pods s key))))"
proof (rule rg.safe_atomic)
  fix s :: "'w store"
  assume "store_inv R s"
  from change_record_keeps [OF this assms(1)] assms(2) show
    "store_inv R (fst (change_record key f s, k (st_pods s key))) \<and>
     change R s (fst (change_record key f s, k (st_pods s key))) \<and>
     (\<exists>P'. rg.stable R P' \<and> P' (fst (change_record key f s, k (st_pods s key))) \<and>
       rg.safe R P' (snd (change_record key f s, k (st_pods s key))))"
    by (auto intro!: exI [of _ anything])
qed

lemma safe_deployed:
  assumes "rg.safe R anything k"
  shows "rg.safe R anything (deployed_call now params result k)"
  unfolding deployed_call_def Let_def
  by (rule safe_changing) (auto simp: record_change_def record_deployment_def assms
      intro: safe_update_cached split: option.split)

lemma safe_reject:
  assumes "params \<in> R" and "\<And>e. rg.safe R anything (k e)"
  shows "rg.safe R anything (reject_call params k)"
  unfolding reject_call_def Let_def
proof (rule safe_changing)
  show "record_change R (PodKey (rp_namespace params) (rp_pod_name params)) info
      (record_rejection params info)" for info
    using assms(1) by (auto simp: record_change_def record_rejection_def rejected_in_def pod_of_def)
qed (auto simp: assms(2) intro: safe_update_cached split: option.split)

lemma safe_bookkeeping: "rg.safe R anything (bookkeeping_call kid uuid now env r)"
  by (simp add: bookkeeping_call_def respond_call_def safe_deployed split: resp_data.split option.split)

lemma safe_command:
  assumes "\<And>params. reject_params_of env = Some params \<Longrightarrow> params \<in> R"
  shows "rg.safe R anything (command_call kid uuid now env)"
proof (cases "reject_params_of env")
  case None
  have "rg.safe R anything (Atomic (\<lambda>s :: 'w store.
      case execute_with (kb_manager (st_base s)) None env (st_world s) of
        (r, w) \<Rightarrow> (s\<lparr>st_world := w\<rparr>, bookkeeping_call kid uuid now env r)))"
    by (rule rg.safe_atomic)
      (auto simp: base_keeps split_beta intro!: exI [of _ anything] safe_bookkeeping)
  with None show ?thesis by (simp add: command_call_def)
next
  case (Some params)
  with assms show ?thesis
    by (simp add: command_call_def safe_reject rg.safe_reading_any safe_bookkeeping)
qed

lemma safe_call_of: "rg.safe R anything (call_of kid r)"
  by (cases r) (simp_all add: safe_create safe_update safe_delete safe_get_pod safe_get_status safe_notify)

end
