(* ===== verification/Kubelet_Concurrent.thy ===== *)
theory Kubelet_Concurrent
  imports Kubelet_Interleaving Kubelet_Correct
begin

text \<open>
  What holds of the kubelet in every interleaving of its calls: the cache and the connection stay in
  order, no goroutine gets stuck, and what is answered about a pod.
\<close>

section \<open>The invariant\<close>

definition pool :: "'w concurrent \<Rightarrow> 'w goroutine list" where
  "pool s = cc_calls s @ (case cc_worker s of None \<Rightarrow> [] | Some p \<Rightarrow> [p])"

text \<open>The envelopes that the goroutines are in the middle of sending.\<close>

fun pending_of :: "'w goroutine \<Rightarrow> outgoing multiset" where
  "pending_of (Run p) = {#}"
| "pending_of (Passed m k) = {#m#}"

definition pending :: "'w concurrent \<Rightarrow> outgoing multiset" where
  "pending s = sum_mset (image_mset pending_of (mset (pool s)))"

definition conc_inv :: "reject_params set \<Rightarrow> 'w concurrent \<Rightarrow> bool" where
  "conc_inv R s \<longleftrightarrow>
     store_inv R (cc_store s) \<and> (\<forall>p \<in> set (pool s). rg.task_ready R (cc_store s) p) \<and>
     reachable conn_init conn_step (cc_conn s) \<and> pending s \<subseteq># mset (cn_passed (cc_conn s))"

lemma subset_add_single: "M \<subseteq># A \<Longrightarrow> M \<subseteq># add_mset e A"
  by (rule mset_subset_eqI) (simp add: le_SucI mset_subset_eq_count)

lemma subset_diff_single: "M \<subseteq># A \<Longrightarrow> e \<notin># M \<Longrightarrow> M \<subseteq># A - {#e#}"
  by (rule mset_subset_eqI) (metis count_greater_eq_one_iff count_diff count_single diff_zero
      mset_subset_eq_count not_in_iff zero_le)

text \<open>A step of one goroutine, with the rest of the pool in view.\<close>

lemma move_keeps:
  assumes "move (s, c, p) (t, d, q)" and "store_inv R s" and "rg.task_ready R s p"
    and "pending_of p + M \<subseteq># mset (cn_passed c)"
  shows "store_inv R t \<and> change R s t \<and> rg.task_ready R t q \<and>
    (\<exists>ls. run_of conn_step c ls d) \<and> pending_of q + M \<subseteq># mset (cn_passed d)"
  using assms(1)
proof cases
  case (move_atomic f p')
  with assms rg.ready_atomic [of R s f t p'] show ?thesis by (auto intro: run_nil)
next
  case (move_check m k)
  moreover from move_check assms(4) have "pending_of q + M \<subseteq># mset (cn_passed d)"
    by (auto simp: any_step_iff)
  ultimately show ?thesis
    using assms rg.ready_send [of R s m k] run_single [of conn_step c _ d]
    by (auto simp: rg.change_refl)
next
  case (move_refused m k)
  with assms rg.ready_send [of R s m k] show ?thesis by (auto intro: run_nil simp: rg.change_refl)
next
  case (move_queue m k)
  moreover from move_queue assms(4) have "M \<subseteq># mset (cn_passed d)"
    by (auto simp: any_step_iff insert_subset_eq_iff)
  ultimately show ?thesis
    using assms run_single [of conn_step c _ d] by (auto simp: rg.change_refl)
next
  case (move_drop m k)
  moreover from move_drop assms(4) have "M \<subseteq># mset (cn_passed d)"
    by (auto simp: any_step_iff insert_subset_eq_iff)
  ultimately show ?thesis
    using assms run_single [of conn_step c _ d] by (auto simp: rg.change_refl)
qed

lemma reader_gone_passed [simp]: "cn_passed (reader_gone i c) = cn_passed c"
  by (cases i) simp_all

lemma net_passed:
  assumes "background l \<or> l = StopCalled \<or> (\<exists>env. l = Command env)" and "conn_step c l d"
    and "M \<subseteq># mset (cn_passed c)" and "\<And>m. m \<in># M \<Longrightarrow> no_heartbeat m"
  shows "M \<subseteq># mset (cn_passed d)"
proof -
  have sent: "env_type e = EnvelopeHeartbeat \<Longrightarrow> M \<subseteq># mset (cn_passed c) - {#e#}" for e
    using assms(3,4) subset_diff_single by (metis no_heartbeat_def)
  show ?thesis
  proof (cases l)
    case (Checked e)
    with assms(2,3) have "cn_passed d = e # cn_passed c" by (auto simp: any_step_iff)
    with assms(3) show ?thesis by (simp add: subset_add_single)
  next
    case (Queued e)
    with assms(1,2) sent [of e] show ?thesis by (auto simp: any_step_iff)
  next
    case (Dropped e)
    with assms(1,2) sent [of e] show ?thesis by (auto simp: any_step_iff)
  qed (use assms(2,3) in \<open>auto simp: any_step_iff leave_loop_def\<close>)
qed

text \<open>The rejections among the commands that a step takes up.\<close>

fun rejections_of :: "call_label \<Rightarrow> reject_params set" where
  "rejections_of (Took uuid now env) = set_option (reject_params_of env)"
| "rejections_of _ = {}"

lemma pending_message: "m \<in># pending_of p \<Longrightarrow> rg.task_ready R s p \<Longrightarrow> no_heartbeat m"
  by (cases p) auto

lemma conc_inv_split:
  assumes "conc_inv R s" and "mset (pool s) = add_mset p M"
  shows "store_inv R (cc_store s)" and "rg.task_ready R (cc_store s) p"
    and "\<forall>q \<in># M. rg.task_ready R (cc_store s) q"
    and "reachable conn_init conn_step (cc_conn s)"
    and "pending_of p + sum_mset (image_mset pending_of M) \<subseteq># mset (cn_passed (cc_conn s))"
proof -
  have "set (pool s) = insert p (set_mset M)"
    using arg_cong [OF assms(2), of set_mset] by simp
  then show "store_inv R (cc_store s)" "rg.task_ready R (cc_store s) p"
    "\<forall>q \<in># M. rg.task_ready R (cc_store s) q" "reachable conn_init conn_step (cc_conn s)"
    "pending_of p + sum_mset (image_mset pending_of M) \<subseteq># mset (cn_passed (cc_conn s))"
    using assms by (auto simp: conc_inv_def pending_def)
qed

lemma conc_invI:
  assumes "mset (pool s) = M" and "store_inv R (cc_store s)"
    and "\<forall>q \<in># M. rg.task_ready R (cc_store s) q"
    and "reachable conn_init conn_step (cc_conn s)"
    and "sum_mset (image_mset pending_of M) \<subseteq># mset (cn_passed (cc_conn s))"
  shows "conc_inv R s"
  using assms by (auto simp: conc_inv_def pending_def)

lemma moved_inv:
  assumes "conc_inv R s" and "mset (pool s) = add_mset p M"
    and "move (cc_store s, cc_conn s, p) (cc_store t, cc_conn t, q)"
    and "mset (pool t) = add_mset q M"
  shows "conc_inv R t"
proof (rule conc_invI [OF assms(4)])
  note s = conc_inv_split [OF assms(1,2)]
  note m = move_keeps [OF assms(3) s(1,2,5)]
  then show "store_inv R (cc_store t)" by blast
  show "\<forall>q' \<in># add_mset q M. rg.task_ready R (cc_store t) q'"
    using m s(1,3) rg.task_ready_other [of R "cc_store s"] by auto
  show "reachable conn_init conn_step (cc_conn t)"
    using m s(4) by (auto intro: reachable_run)
  show "sum_mset (image_mset pending_of (add_mset q M)) \<subseteq># mset (cn_passed (cc_conn t))"
    using m by simp
qed

lemma ended_inv:
  assumes "conc_inv R s" and "mset (pool s) = add_mset (Run (Return x)) M"
    and "cc_store t = cc_store s" and "cc_conn t = cc_conn s" and "mset (pool t) = M"
  shows "conc_inv R t \<and> answer_ok R x"
proof -
  note s = conc_inv_split [OF assms(1,2)]
  from s(1,2) rg.ready_return [of R "cc_store s" x] have "answer_ok R x" by simp
  moreover have "conc_inv R t"
    by (rule conc_invI [OF assms(5)]) (use s assms(3,4) in simp_all)
  ultimately show ?thesis by simp
qed

lemma begun_inv:
  assumes "conc_inv R s" and "rg.safe R anything p"
    and "cc_store t = cc_store s" and "cc_conn t = cc_conn s"
    and "mset (pool t) = add_mset (Run p) (mset (pool s))"
  shows "conc_inv R t"
  by (rule conc_invI [OF assms(5)])
    (use assms rg.ready_begin [OF assms(2)] in \<open>auto simp: conc_inv_def pending_def\<close>)

lemma net_inv:
  assumes "conc_inv R s" and "background l \<or> l = StopCalled \<or> (\<exists>env. l = Command env)"
    and "conn_step (cc_conn s) l (cc_conn t)" and "pool t = pool s"
    and "store_inv R (cc_store t)" and "change R (cc_store s) (cc_store t)"
  shows "conc_inv R t"
proof -
  have "m \<in># pending s \<Longrightarrow> no_heartbeat m" for m
    using assms(1) pending_message by (fastforce simp: conc_inv_def pending_def)
  with assms(1) net_passed [OF assms(2,3), of "pending s"]
  have "pending s \<subseteq># mset (cn_passed (cc_conn t))" by (simp add: conc_inv_def)
  moreover have "rg.task_ready R (cc_store t) p" if "p \<in> set (pool s)" for p
    using that assms(1,6) rg.task_ready_other [of R "cc_store s" p "cc_store t"]
    by (simp add: conc_inv_def)
  moreover have "reachable conn_init conn_step (cc_conn t)"
    using assms(1,3) by (auto simp: conc_inv_def intro: reachable_step)
  ultimately show ?thesis
    using assms(4,5) by (simp add: conc_inv_def pending_def)
qed

lemma pool_simps:
  "mset (pool (s\<lparr>cc_calls := ps\<rparr>)) = mset ps + mset (case cc_worker s of None \<Rightarrow> [] | Some p \<Rightarrow> [p])"
  "pool (s\<lparr>cc_store := t\<rparr>) = pool s" "pool (s\<lparr>cc_conn := c\<rparr>) = pool s"
  "pool (s\<lparr>cc_registered := n\<rparr>) = pool s"
  "mset (pool (s\<lparr>cc_worker := w\<rparr>)) = mset (cc_calls s) + mset (case w of None \<Rightarrow> [] | Some p \<Rightarrow> [p])"
  by (simp_all add: pool_def)

lemma conc_step_inv:
  assumes "conc_step s l t" and "conc_inv R s" and "rejections_of l \<subseteq> R"
  shows "conc_inv R t \<and> (\<forall>x. l = Ended x \<longrightarrow> answer_ok R x)"
  using assms(1)
proof cases
  case (conc_asked r)
  with begun_inv [OF assms(2) safe_call_of, of t] show ?thesis by (simp add: pool_def)
next
  case (conc_register ord s1 s2)
  with begun_inv [OF assms(2) safe_register, of t] show ?thesis by (simp add: pool_def)
next
  case (conc_took env c uuid now)
  let ?u = "s\<lparr>cc_conn := c\<rparr>"
  have "conc_inv R ?u"
    using net_inv [OF assms(2), of "Command env" ?u] conc_took(4) assms(2)
    by (auto simp: pool_simps conc_inv_def rg.change_refl)
  moreover have "rg.safe R anything (command_call (client_id c) uuid now env)"
    using conc_took(1) assms(3) by (intro safe_command) auto
  ultimately have "conc_inv R t"
    using conc_took by (elim begun_inv) (simp_all add: pool_def)
  with conc_took(1) show ?thesis by simp
next
  case (conc_moved ps p qs t' c q)
  with moved_inv [OF assms(2), of p "mset ps + mset qs + mset (case cc_worker s of None \<Rightarrow> [] | Some p \<Rightarrow> [p])" t q]
  show ?thesis by (simp add: pool_def)
next
  case (conc_worked p t' c q)
  with moved_inv [OF assms(2), of p "mset (cc_calls s)" t q] show ?thesis by (simp add: pool_def)
next
  case (conc_ended ps x qs)
  with ended_inv [OF assms(2), of x "mset ps + mset qs + mset (case cc_worker s of None \<Rightarrow> [] | Some p \<Rightarrow> [p])" t]
  show ?thesis by (simp add: pool_def)
next
  case (conc_responded x)
  with ended_inv [OF assms(2), of x "mset (cc_calls s)" t] show ?thesis by (simp add: pool_def)
next
  case (conc_net l' c)
  with net_inv [OF assms(2), of l' t] assms(2)
  show ?thesis by (auto simp: pool_simps conc_inv_def rg.change_refl)
next
  case (conc_cleanup c)
  with net_inv [OF assms(2), of StopCalled t] assms(2) show ?thesis
    by (auto simp: pool_def conc_inv_def base_keeps)
qed

lemma conc_init_inv: "conc_init s \<Longrightarrow> conc_inv R s"
  by (auto simp: conc_init_def conc_inv_def pool_def pending_def store_inv_def store_ok_def
      injective_def conn_init_def NewProvider_Inr(2) intro!: reachable_init)

lemma run_conc_inv:
  "run_of conc_step s ls t \<Longrightarrow> conc_inv R s \<Longrightarrow> \<Union> (rejections_of ` set ls) \<subseteq> R \<Longrightarrow> conc_inv R t"
proof (induction rule: run_of.induct)
  case (run_snoc s ls t l u)
  then show ?case using conc_step_inv [OF run_snoc.hyps(2)] by auto
qed

interpretation conc: invariant_system conc_init conc_step "conc_inv UNIV"
  by unfold_locales (auto intro: conc_init_inv dest: conc_step_inv)

section \<open>What every interleaving keeps\<close>

text \<open>A goroutine that has not reached its end has a move.\<close>

lemma moves_on:
  assumes "pending_of p \<subseteq># mset (cn_passed c)" and "\<And>x. p \<noteq> Run (Return x)"
  shows "\<exists>y. move (s, c, p) y"
proof (cases p)
  case (Run q)
  show ?thesis
  proof (cases q)
    case (Atomic f)
    obtain t r where "f s = (t, r)" by force
    with Run Atomic show ?thesis by (auto intro: move_atomic)
  next
    case (Send m k)
    show ?thesis
    proof (cases "IsConnected (cn_client c)")
      case True
      with Run Send show ?thesis by (auto intro!: exI move_check by_sender send_checked)
    next
      case False
      with Run Send show ?thesis by (auto intro: move_refused)
    qed
  qed (use Run assms(2) in simp)
next
  case (Passed m k)
  with assms(1) have m: "m \<in> set (cn_passed c)" by simp
  show ?thesis
  proof (cases "chan_send outbound_capacity m (ws_outbound_ch (cn_client c))")
    case None
    with m have "\<exists>d. conn_step c (Dropped m) d" by (auto simp: any_step_iff)
    with Passed show ?thesis by (auto intro: move_drop)
  next
    case (Some buf)
    with m have "\<exists>d. conn_step c (Queued m) d" by (auto simp: any_step_iff)
    with Passed show ?thesis by (auto intro: move_queue)
  qed
qed

text \<open>C6. Whatever the interleaving of the controllers' calls, the command goroutine, registrations,
the goroutines of the WebSocket client and the shutdown: the cache is well formed (each pod cached
under its own key, a record for cached pods only), the connection is one that the client reaches on
its own, and no goroutine of the kubelet is stuck: it is at its end or can move, so no call depends
on another one to return.\<close>

theorem interleaved_invariant:
  assumes "reachable conc_init conc_step s"
  shows "pods_ok (view (cc_store s) (cc_conn s)) \<and> reachable conn_init conn_step (cc_conn s) \<and>
    (\<forall>p \<in> set (pool s). (\<exists>x. p = Run (Return x)) \<or> (\<exists>y. move (cc_store s, cc_conn s, p) y))"
proof (intro conjI ballI)
  from conc.reachable_inv [OF assms] have inv: "conc_inv UNIV s" .
  then show "pods_ok (view (cc_store s) (cc_conn s))" and "reachable conn_init conn_step (cc_conn s)"
    by (simp_all add: conc_inv_def store_inv_def store_ok_view)
  fix p
  assume "p \<in> set (pool s)"
  then have "mset (pool s) = add_mset p (mset (pool s) - {#p#})" by simp
  from conc_inv_split(5) [OF inv this] have "pending_of p \<subseteq># mset (cn_passed (cc_conn s))"
    by (rule subset_mset.order_trans [rotated]) simp
  then show "(\<exists>x. p = Run (Return x)) \<or> (\<exists>y. move (cc_store s, cc_conn s, p) y)"
    using moves_on by blast
qed

text \<open>C7. In every interleaving, a \<open>GetPodStatus\<close> answers ''pod not found'', the plain Pending status,
or Failed with a reason and a message that reject commands about that very pod carried and that the
command goroutine had taken before the answer; nothing else can be reported, though reason and
message are read in separate steps after the lock is released and so may stem from two rejections.\<close>

theorem interleaved_status:
  assumes "conc_init s" and "run_of conc_step s (ls @ [Ended (StatusAnswer ns name st)]) t"
  shows "st = Fails (ErrText ''pod not found'') \<or> st = Returns status_pending \<or>
    (\<exists>p q. {p, q} \<subseteq> \<Union> (rejections_of ` set ls) \<and>
       pod_of p = ns @ ''/'' @ name \<and> pod_of q = ns @ ''/'' @ name \<and>
       st = Returns (status_pending\<lparr>ps_phase := ''Failed'', ps_reason := rp_code p,
                                    ps_message := rp_message q\<rparr>))"
proof -
  let ?R = "\<Union> (rejections_of ` set ls)"
  from assms(2) obtain u where u: "run_of conc_step s ls u"
      "conc_step u (Ended (StatusAnswer ns name st)) t"
    by (auto elim: run_of.cases)
  from conc_step_inv [OF u(2) run_conc_inv [OF u(1) conc_init_inv [OF assms(1)] subset_refl]]
  have "answer_ok ?R (StatusAnswer ns name st)" by simp
  then show ?thesis by simp blast
qed

end
