(* ===== verification/Kubelet_Refinement.thy ===== *)
theory Kubelet_Refinement
  imports Kubelet_Concurrent
begin

text \<open>
  The steps of theory \<open>Kubelet_System\<close> are runs of the interleaved system in which each call goes
  from its start to its end before anything else happens: what is proved of those steps is proved of
  the calls that nothing interrupts.
\<close>

section \<open>Calls that nothing interrupts are the steps of the kubelet\<close>

text \<open>A call that is left alone gets to its end by moves of its own.\<close>

lemma send_moves:
  assumes "send_now m c = (r, d)"
  shows "rtranclp move (s, c, Run (Send m k)) (s, d, Run (k r))"
proof (cases "IsConnected (cn_client c)")
  case False
  with assms have "r = Some NotConnected" and "d = c"
    by (auto simp: send_now_def sendEnvelope_def)
  with False show ?thesis by (auto intro: move_refused)
next
  case True
  let ?c = "c\<lparr>cn_passed := m # cn_passed c\<rparr>"
  have check: "move (s, c, Run (Send m k)) (s, ?c, Passed m k)"
    using True by (intro move_check by_sender send_checked)
  show ?thesis
  proof (cases "chan_send outbound_capacity m (ws_outbound_ch (cn_client c))")
    case None
    with True assms have "r = Some OutboundFull" and "d = c"
      by (auto simp: send_now_def sendEnvelope_def)
    with None check move_drop [of ?c m c s k] show ?thesis
      by (auto simp: any_step_iff intro: rtranclp_trans)
  next
    case (Some buf)
    with True assms have "r = None" and "d = upd_client (ws_outbound_ch_update (\<lambda>_. buf)) c"
      by (auto simp: send_now_def sendEnvelope_def)
    with Some check move_queue [of ?c m d s k] show ?thesis
      by (auto simp: any_step_iff intro: rtranclp_trans)
  qed
qed

lemma alone_moves: "alone p s c = (x, t, d) \<Longrightarrow> rtranclp move (s, c, Run p) (t, d, Run (Return x))"
proof (induction p arbitrary: s c)
  case (Atomic f)
  obtain u q where f: "f s = (u, q)" by force
  with Atomic.prems have "alone q u c = (x, t, d)" by simp
  moreover have "f s \<in> range f" by simp
  ultimately have "rtranclp move (u, c, Run q) (t, d, Run (Return x))"
    using Atomic.IH [of "f s" q] f by (simp add: snds.simps)
  with move_atomic [of f, OF f] show ?case by (meson converse_rtranclp_into_rtranclp)
next
  case (Send m k)
  obtain r c' where send: "send_now m c = (r, c')" by force
  with Send.prems have "alone (k r) s c' = (x, t, d)" by simp
  with Send.IH have "rtranclp move (s, c', Run (k r)) (t, d, Run (Return x))" by blast
  then show ?case by (rule rtranclp_trans [OF send_moves [OF send]])
qed simp

text \<open>The states a call, and the command goroutine, pass through when nothing else runs.\<close>

definition calling :: "'w concurrent \<Rightarrow> 'w store \<times> connection \<times> 'w goroutine \<Rightarrow> 'w concurrent" where
  "calling s x = s\<lparr>cc_store := fst x, cc_conn := fst (snd x), cc_calls := [snd (snd x)]\<rparr>"

definition working :: "'w concurrent \<Rightarrow> 'w store \<times> connection \<times> 'w goroutine \<Rightarrow> 'w concurrent" where
  "working s x = s\<lparr>cc_store := fst x, cc_conn := fst (snd x), cc_worker := Some (snd (snd x))\<rparr>"

text \<open>The labels that start something, as opposed to going on with it.\<close>

fun begins :: "call_label \<Rightarrow> bool" where
  "begins Moved = False"
| "begins (Ended x) = False"
| "begins l = True"

lemma begins_moves [simp]: "filter begins (replicate n Moved) = []"
  by (induction n) simp_all

lemma moves_calling: "rtranclp move x y \<Longrightarrow> \<exists>n. run_of conc_step (calling s x) (replicate n Moved) (calling s y)"
proof (induction rule: rtranclp_induct)
  case base
  show ?case using run_nil by (metis replicate_0)
next
  case (step y z)
  obtain t d q where z: "z = (t, d, q)" by (metis prod_cases3)
  have "conc_step (calling s y) Moved ((calling s y)\<lparr>cc_store := t, cc_conn := d, cc_calls := [] @ q # []\<rparr>)"
    using step.hyps(2) z by (intro conc_moved [where p = "snd (snd y)"]) (simp_all add: calling_def)
  then have "conc_step (calling s y) Moved (calling s z)" by (simp add: calling_def z)
  with step.IH show ?case by (metis run_snoc replicate_append_same replicate_Suc)
qed

lemma moves_working: "rtranclp move x y \<Longrightarrow> \<exists>n. run_of conc_step (working s x) (replicate n Moved) (working s y)"
proof (induction rule: rtranclp_induct)
  case base
  show ?case using run_nil by (metis replicate_0)
next
  case (step y z)
  obtain t d q where z: "z = (t, d, q)" by (metis prod_cases3)
  have "conc_step (working s y) Moved ((working s y)\<lparr>cc_store := t, cc_conn := d, cc_worker := Some q\<rparr>)"
    using step.hyps(2) z by (intro conc_worked [where p = "snd (snd y)"]) (simp_all add: working_def)
  then have "conc_step (working s y) Moved (working s z)" by (simp add: working_def z)
  with step.IH show ?case by (metis run_snoc replicate_append_same replicate_Suc)
qed

lemma call_runs:
  assumes "conc_step s l (calling (s\<lparr>cc_registered := n\<rparr>) (cc_store s, cc_conn s, Run p))"
    and "alone p (cc_store s) (cc_conn s) = (x, t, d)" and "cc_calls s = []"
    and "begins l"
  shows "\<exists>ls. run_of conc_step s (ls @ [Ended x]) (s\<lparr>cc_store := t, cc_conn := d, cc_registered := n\<rparr>) \<and>
    filter begins ls = [l]"
proof -
  let ?s = "s\<lparr>cc_registered := n\<rparr>"
  obtain m where ms: "run_of conc_step (calling ?s (cc_store s, cc_conn s, Run p)) (replicate m Moved)
      (calling ?s (t, d, Run (Return x)))"
    using moves_calling [OF alone_moves [OF assms(2)]] by blast
  have "conc_step (calling ?s (t, d, Run (Return x))) (Ended x)
      ((calling ?s (t, d, Run (Return x)))\<lparr>cc_calls := [] @ []\<rparr>)"
    by (rule conc_ended [where x = x]) (simp add: calling_def)
  also have "(calling ?s (t, d, Run (Return x)))\<lparr>cc_calls := [] @ []\<rparr> =
      s\<lparr>cc_store := t, cc_conn := d, cc_registered := n\<rparr>"
    using assms(3) by (simp add: calling_def)
  finally have "run_of conc_step s (([l] @ replicate m Moved) @ [Ended x])
      (s\<lparr>cc_store := t, cc_conn := d, cc_registered := n\<rparr>)"
    using run_append [OF run_single [where step = conc_step, OF assms(1)] ms] by (rule run_snoc [rotated])
  moreover have "filter begins ([l] @ replicate m Moved) = [l]" using assms(4) by simp
  ultimately show ?thesis by blast
qed

lemma request_runs:
  assumes "alone (call_of (client_id (cc_conn s)) r) (cc_store s) (cc_conn s) = (x, t, d)"
    and "cc_calls s = []"
  shows "\<exists>ls. run_of conc_step s (ls @ [Ended x]) (s\<lparr>cc_store := t, cc_conn := d\<rparr>) \<and>
    filter begins ls = [Asked r]"
proof -
  have "conc_step s (Asked r) (calling (s\<lparr>cc_registered := cc_registered s\<rparr>)
      (cc_store s, cc_conn s, Run (call_of (client_id (cc_conn s)) r)))"
    using conc_asked [of s r] assms(2) by (simp add: calling_def)
  from call_runs [OF this assms] show ?thesis by simp
qed

lemma command_runs:
  assumes "cc_worker s = None" and "conn_step (cc_conn s) (Command env) c"
    and "alone (command_call (client_id c) uuid now env) (cc_store s) c = (x, t, d)"
  shows "\<exists>ls. run_of conc_step s ls (s\<lparr>cc_store := t, cc_conn := d\<rparr>) \<and>
    filter begins ls = [Took uuid now env]"
proof -
  let ?p = "Run (command_call (client_id c) uuid now env)"
  have took: "conc_step s (Took uuid now env) (working s (cc_store s, c, ?p))"
    using conc_took [OF assms(1,2)] by (simp add: working_def)
  obtain m where ms: "run_of conc_step (working s (cc_store s, c, ?p)) (replicate m Moved) (working s (t, d, Run (Return x)))"
    using moves_working [OF alone_moves [OF assms(3)]] by blast
  have "conc_step (working s (t, d, Run (Return x))) (Ended x)
      ((working s (t, d, Run (Return x)))\<lparr>cc_worker := None\<rparr>)"
    by (rule conc_responded) (simp add: working_def)
  also have "(working s (t, d, Run (Return x)))\<lparr>cc_worker := None\<rparr> = s\<lparr>cc_store := t, cc_conn := d\<rparr>"
    using assms(1) by (simp add: working_def)
  finally have "run_of conc_step s (([Took uuid now env] @ replicate m Moved) @ [Ended x])
      (s\<lparr>cc_store := t, cc_conn := d\<rparr>)"
    using run_append [OF run_single [where step = conc_step, OF took] ms] by (rule run_snoc [rotated])
  moreover have "filter begins (([Took uuid now env] @ replicate m Moved) @ [Ended x]) = [Took uuid now env]"
    by simp
  ultimately show ?thesis by blast
qed

section \<open>Runs of the kubelet\<close>

lemma world_requests:
  assumes "alone (call_of kid r) s c = (x, t, d)"
  shows "st_world t = st_world s"
  using assms
  by (cases r) (auto simp: create_call_def update_call_def delete_call_def get_pod_alone get_status_alone
      notify_call_def alone_update_own store_info_def store_pod_def drop_pod_def split_beta
      split: if_splits)

lemma world_register:
  assumes "alone (register_call kid ord s1 s2 k) s c = (x, t, d)"
  shows "st_world t = st_world s"
  using assms by (auto simp: register_call_def split_beta split: option.splits)

text \<open>
  \<open>quiet sy s\<close>: no call is running in \<open>s\<close>, and its store and connection make up the kubelet of \<open>sy\<close>.
\<close>

definition quiet :: "'w system \<Rightarrow> 'w concurrent \<Rightarrow> bool" where
  "quiet sy s \<longleftrightarrow>
     sy_kubelet sy = view (cc_store s) (cc_conn s) \<and> sy_world sy = st_world (cc_store s) \<and>
     sy_registered sy = cc_registered s \<and> cc_calls s = [] \<and> cc_worker s = None"

fun call_label_of :: "kb_label \<Rightarrow> call_label" where
  "call_label_of (KCreate uuid now p) = Asked (ReqCreate uuid now p)"
| "call_label_of (KUpdate p) = Asked (ReqUpdate p)"
| "call_label_of (KDelete uuid now p) = Asked (ReqDelete uuid now p)"
| "call_label_of KNotify = Asked ReqNotify"
| "call_label_of (KCommand uuid now env) = Took uuid now env"
| "call_label_of (KRegister ord s1 s2) = Registering ord s1 s2"
| "call_label_of (KNet l) = Net l"
| "call_label_of KCleanup = Stopping"

lemma quiet_request:
  assumes "quiet sy s"
    and "case alone (call_of (client_id (cc_conn s)) r) (cc_store s) (cc_conn s) of
           (x, t, d) \<Rightarrow> x = a \<and> view t d = g (view (cc_store s) (cc_conn s))"
  shows "\<exists>ls t. run_of conc_step s ls t \<and> filter begins ls = [Asked r] \<and> quiet (on_kubelet g sy) t"
proof -
  obtain x t d where run: "alone (call_of (client_id (cc_conn s)) r) (cc_store s) (cc_conn s) = (x, t, d)"
    by (metis prod_cases3)
  with assms(2) have "view t d = g (view (cc_store s) (cc_conn s))" by simp
  with assms(1) world_requests [OF run] have "quiet (on_kubelet g sy) (s\<lparr>cc_store := t, cc_conn := d\<rparr>)"
    by (simp add: quiet_def)
  moreover from request_runs [OF run] assms(1) obtain ls
    where "run_of conc_step s (ls @ [Ended x]) (s\<lparr>cc_store := t, cc_conn := d\<rparr>)"
      and "filter begins (ls @ [Ended x]) = [Asked r]"
    by (auto simp: quiet_def)
  ultimately show ?thesis by blast
qed

lemma quiet_status:
  assumes "quiet sy s"
  shows "\<exists>ls. run_of conc_step s (ls @ [Ended (StatusAnswer ns name (GetPodStatus ns name (sy_kubelet sy)))]) s"
proof -
  have "alone (call_of (client_id (cc_conn s)) (ReqStatus ns name)) (cc_store s) (cc_conn s) =
      (StatusAnswer ns name (GetPodStatus ns name (sy_kubelet sy)), cc_store s, cc_conn s)"
    using assms by (simp add: get_status_alone quiet_def)
  from request_runs [OF this] assms show ?thesis by (auto simp: quiet_def)
qed

lemma received_view:
  "received_command rest (view s c) = view s (upd_client (ws_command_ch_update (\<lambda>_. rest)) c)"
  by (simp add: received_command_def view_def)

lemma quiet_command:
  assumes "quiet sy s" and "store_ok (cc_store s)"
    and "chan_recv (ws_command_ch (kb_ws (sy_kubelet sy))) = Some (env, rest)"
    and "process_command uuid now env (received_command rest (sy_kubelet sy), sy_world sy) = (k, w)"
  shows "\<exists>ls t. run_of conc_step s ls t \<and> filter begins ls = [Took uuid now env] \<and>
    quiet (sy\<lparr>sy_kubelet := k, sy_world := w\<rparr>) t"
proof -
  let ?c = "upd_client (ws_command_ch_update (\<lambda>_. rest)) (cc_conn s)"
  have took: "conn_step (cc_conn s) (Command env) ?c"
    using assms(1,3) by (intro by_user take_command) (simp add: quiet_def)
  obtain x t d where run: "alone (command_call (client_id ?c) uuid now env) (cc_store s) ?c = (x, t, d)"
    by (metis prod_cases3)
  have "(view t d, st_world t) = (k, w)"
    using command_alone [OF assms(2), where c = ?c and uuid = uuid and now = now and env = env] run assms(1,4)
    by (simp add: received_view quiet_def)
  then have "quiet (sy\<lparr>sy_kubelet := k, sy_world := w\<rparr>) (s\<lparr>cc_store := t, cc_conn := d\<rparr>)"
    using assms(1) by (simp add: quiet_def)
  with command_runs [OF _ took run] assms(1) show ?thesis by (metis quiet_def)
qed

lemma calling_begins:
  "calling (s\<lparr>cc_registered := n\<rparr>) (cc_store s, cc_conn s, p) = s\<lparr>cc_calls := [p], cc_registered := n\<rparr>"
  by (cases s) (simp add: calling_def)

lemma quiet_register:
  assumes "quiet sy s" and "sy_registered sy < cn_spawned (kb_conn (sy_kubelet sy))"
    and "enumerates ord (kb_manager (sy_kubelet sy))"
  shows "\<exists>ls t. run_of conc_step s ls t \<and> filter begins ls = [Registering ord s1 s2] \<and>
    quiet (on_kubelet (registerWithBackend ord s1 s2) sy\<lparr>sy_registered := Suc (sy_registered sy)\<rparr>) t"
proof -
  let ?k = "view (cc_store s) (cc_conn s)"
  let ?p = "register_call (client_id (cc_conn s)) ord s1 s2 ?k" and ?n = "Suc (cc_registered s)"
  have begun: "conc_step s (Registering ord s1 s2)
      (calling (s\<lparr>cc_registered := ?n\<rparr>) (cc_store s, cc_conn s, Run ?p))"
    using conc_register [of s ord s1 s2] assms by (simp add: quiet_def calling_begins)
  obtain x t d where run: "alone ?p (cc_store s) (cc_conn s) = (x, t, d)"
    by (metis prod_cases3)
  have "view t d = registerWithBackend ord s1 s2 ?k"
    using register_alone [OF refl, where s = "cc_store s" and c = "cc_conn s" and ord = ord and ?s1.0 = s1 and ?s2.0 = s2] run by simp
  then have "quiet (on_kubelet (registerWithBackend ord s1 s2) sy\<lparr>sy_registered := Suc (sy_registered sy)\<rparr>)
      (s\<lparr>cc_store := t, cc_conn := d, cc_registered := ?n\<rparr>)"
    using assms(1) world_register [OF run] by (simp add: quiet_def)
  moreover from call_runs [OF begun run] assms(1) obtain ls
    where "run_of conc_step s (ls @ [Ended x]) (s\<lparr>cc_store := t, cc_conn := d, cc_registered := ?n\<rparr>)"
      and "filter begins (ls @ [Ended x]) = [Registering ord s1 s2]"
    by (auto simp: quiet_def)
  ultimately show ?thesis by blast
qed

lemma quiet_cleanup:
  assumes "quiet sy s" and "Cleanup (sy_kubelet sy) = Some k"
  shows "\<exists>t. conc_step s Stopping t \<and> quiet (sy\<lparr>sy_kubelet := k\<rparr>) t"
proof -
  obtain cl where cl: "stop_client (cn_client (cc_conn s)) = Some cl"
      and k: "k = (sy_kubelet sy)\<lparr>kb_cancelled := True, kb_conn := (cc_conn s)\<lparr>cn_client := cl\<rparr>\<rparr>"
    using assms by (auto simp: Cleanup_def quiet_def)
  let ?t = "s\<lparr>cc_conn := (cc_conn s)\<lparr>cn_client := cl\<rparr>,
      cc_store := (cc_store s)\<lparr>st_base := (st_base (cc_store s))\<lparr>kb_cancelled := True\<rparr>\<rparr>\<rparr>"
  have "conc_step s Stopping ?t"
    by (intro conc_cleanup by_user stop_called cl)
  moreover have "quiet (sy\<lparr>sy_kubelet := k\<rparr>) ?t"
    using assms(1) k by (simp add: quiet_def view_def)
  ultimately show ?thesis by blast
qed

lemma quiet_step:
  assumes "system_step sy l sy'" and "quiet sy s" and "store_ok (cc_store s)"
  shows "\<exists>ls t. run_of conc_step s ls t \<and> filter begins ls = [call_label_of l] \<and> quiet sy' t"
  using assms(1,2)
proof cases
  case (sys_create uuid now p)
  with quiet_request [OF assms(2), where r = "ReqCreate uuid now p" and a = Answered and g = "CreatePod uuid now p"] create_alone [OF assms(3), where c = "cc_conn s"]
  show ?thesis by simp
next
  case (sys_update p)
  with quiet_request [OF assms(2), where r = "ReqUpdate p" and a = Answered and g = "UpdatePod p"] update_alone [OF assms(3), where c = "cc_conn s"]
  show ?thesis by simp
next
  case (sys_delete uuid now p)
  with quiet_request [OF assms(2), where r = "ReqDelete uuid now p" and a = Answered and g = "DeletePod uuid now p"] delete_alone [where s = "cc_store s" and c = "cc_conn s"]
  show ?thesis by simp
next
  case sys_notify
  with quiet_request [OF assms(2), where r = ReqNotify and a = Answered and g = "NotifyPods"] notify_alone [where s = "cc_store s" and c = "cc_conn s"]
  show ?thesis by simp
next
  case (sys_command env rest uuid now k w)
  with quiet_command [OF assms(2,3)] show ?thesis by simp
next
  case (sys_register ord s1 s2)
  with quiet_register [OF assms(2)] show ?thesis by simp
next
  case (sys_net n c)
  let ?t = "s\<lparr>cc_conn := c\<rparr>"
  have "conc_step s (Net n) ?t"
    using sys_net assms(2) by (intro conc_net) (simp_all add: quiet_def)
  moreover have "quiet sy' ?t"
    using sys_net assms(2) by (simp add: quiet_def view_def)
  moreover have "begins (Net n)" by simp
  ultimately show ?thesis using sys_net(1) by (intro exI [of _ "[Net n]"] exI [of _ ?t]) (simp add: run_single)
next
  case (sys_cleanup k)
  with quiet_cleanup [OF assms(2)] obtain t where "conc_step s Stopping t" "quiet sy' t" by blast
  with sys_cleanup(1) show ?thesis by (intro exI [of _ "[Stopping]"] exI [of _ t]) (simp add: run_single)
qed

lemma quiet_run:
  assumes "run_of system_step sy ls sy'" and "quiet sy s" and "conc_inv UNIV s"
  shows "\<exists>ms t. run_of conc_step s ms t \<and> filter begins ms = map call_label_of ls \<and> quiet sy' t"
  using assms
proof (induction rule: run_of.induct)
  case (run_nil sy)
  then show ?case by (intro exI [of _ "[]"] exI [of _ s]) (simp add: run_of.run_nil)
next
  case (run_snoc sy ls sy1 l sy2)
  from run_snoc.IH [OF run_snoc.prems] obtain ms t where t: "run_of conc_step s ms t" "filter begins ms = map call_label_of ls" "quiet sy1 t"
    by blast
  from conc.run_inv [OF t(1) run_snoc.prems(2)] have "store_ok (cc_store t)"
    by (simp add: conc_inv_def store_inv_def)
  from quiet_step [OF run_snoc.hyps(2) t(3) this] obtain ns u
    where "run_of conc_step t ns u" "filter begins ns = [call_label_of l]" "quiet sy2 u" by blast
  with t run_append [OF t(1)] show ?case
    by (intro exI [of _ "ms @ ns"] exI [of _ u]) simp
qed

lemma quiet_init:
  assumes "system_init sy"
  shows "\<exists>s. conc_init s \<and> quiet sy s"
proof -
  let ?k = "sy_kubelet sy"
  obtain tr env node os ip port c where k: "NewProvider tr env node os ip port c = Inr ?k"
    using assms by (auto simp: system_init_def)
  let ?s = "\<lparr>cc_store = \<lparr>st_base = ?k, st_world = sy_world sy, st_pods = Map.empty, st_infos = Map.empty,
      st_pod_at = undefined, st_info_at = undefined, st_fresh = 0\<rparr>,
      cc_conn = kb_conn ?k, cc_calls = [], cc_worker = None, cc_registered = 0\<rparr>"
  have "view (cc_store ?s) (cc_conn ?s) = ?k"
    using NewProvider_Inr(3,4) [OF k] by (cases ?k) (simp add: view_def fun_eq_iff)
  moreover have "conc_init ?s"
    unfolding conc_init_def using k by (intro conjI exI [where x = ?k] exI) auto
  ultimately show ?thesis
    using assms by (intro exI [of _ ?s]) (simp add: quiet_def system_init_def)
qed

text \<open>C5. The interleaved system contains the one whose operations are atomic: every run of it, with
the same creations, updates, deletions, commands, registrations, network events and shutdown in the
same order, is a run of the interruptible calls that ends with no call running, in the same kubelet
(its maps read through the pointers) and the same state of the platforms.\<close>

theorem calls_refine:
  assumes "system_init sy" and "run_of system_step sy ls sy'"
  shows "\<exists>s ms t. conc_init s \<and> run_of conc_step s ms t \<and>
    filter begins ms = map call_label_of ls \<and> cc_calls t = [] \<and> cc_worker t = None \<and>
    sy_kubelet sy' = view (cc_store t) (cc_conn t) \<and> sy_world sy' = st_world (cc_store t)"
proof -
  from quiet_init [OF assms(1)] obtain s where s: "conc_init s" "quiet sy s" by blast
  from quiet_run [OF assms(2) s(2) conc_init_inv [OF s(1)]] s(1) show ?thesis
    unfolding quiet_def by blast
qed

end
