(* ===== verification/Kubelet_Progress.thy ===== *)
theory Kubelet_Progress
  imports Kubelet_Refinement
begin

text \<open>
  Every call of the kubelet comes to its end, however it is interleaved with others; and what a
  status call can answer when a command overtakes it.
\<close>

lemma move_ends:
  assumes "move (s, c, p) (t, d, q)" and "task_ends n p"
  shows "\<exists>i < n. task_ends i q"
  using assms
proof cases
  case (move_atomic f r)
  with assms(2) obtain i where "n = Suc i" "\<And>s. ends_in i (snd (f s))" by (auto elim: ends_AtomicE)
  with move_atomic show ?thesis by (metis lessI snd_conv task_ends.simps(1))
next
  case (move_check m k)
  with assms(2) obtain i where "n = Suc (Suc i)" "\<And>r. ends_in i (k r)" by (auto elim: ends_SendE)
  with move_check show ?thesis by (intro exI [of _ "Suc i"]) simp
next
  case (move_refused m k)
  with assms(2) obtain i where "n = Suc (Suc i)" "\<And>r. ends_in i (k r)" by (auto elim: ends_SendE)
  with move_refused show ?thesis by (intro exI [of _ i]) simp
next
  case (move_queue m k)
  with assms(2) show ?thesis by auto
next
  case (move_drop m k)
  with assms(2) show ?thesis by auto
qed

lemma move_remaining:
  assumes "move (s, c, p) (t, d, q)" and "task_ends n p"
  shows "remaining q < remaining p \<and> task_ends (remaining q) q"
proof -
  from remaining_ends [OF assms(2)] move_ends [OF assms(1)]
  obtain i where "i < remaining p" "task_ends i q" by blast
  with remaining_ends [of i q] show ?thesis by auto
qed

section \<open>How long the calls run\<close>

lemma ends_update_own: "ends_in n k \<Longrightarrow> ends_in (Suc (Suc n)) (update_own p phase reason message k)"
  unfolding update_own_def
  by (rule ends_reading) (auto intro: ends_writing ends_mono)

lemma ends_update_cached:
  "ends_in n k \<Longrightarrow> ends_in (Suc (Suc n)) (update_cached a phase reason message k)"
  unfolding update_cached_def
  by (rule ends_reading) (auto intro: ends_writing ends_mono)

lemma ends_call: "ends_in 5 (call_of kid r)"
proof -
  have 5: "(5 :: nat) = Suc (Suc (Suc (Suc (Suc 0))))" by simp
  note parts = ends_reading ends_writing ends_send ends_update_own
  show ?thesis
  proof (cases r)
    case (ReqCreate uuid now p)
    have "ends_in (Suc (Suc (Suc (Suc (Suc 0))))) (create_call kid uuid now p)"
      unfolding create_call_def by (intro parts ends_return)
    with ReqCreate show ?thesis by (simp add: 5)
  next
    case (ReqUpdate p)
    then show ?thesis by (simp add: 5 update_call_def) (intro parts ends_return)
  next
    case (ReqDelete uuid now p)
    then show ?thesis by (simp add: 5 delete_call_def) (intro parts ends_return)
  next
    case (ReqPod ns name)
    then show ?thesis
      by (auto simp: 5 get_pod_call_def intro!: ends_reading ends_return split: option.split)
  next
    case (ReqStatus ns name)
    then show ?thesis
      by (auto simp: 5 get_status_call_def record_answer_def rejected_answer_def result_answer_def Let_def
          intro!: ends_reading ends_return split: option.split list.split)
  next
    case ReqNotify
    then show ?thesis by (simp add: 5 notify_call_def) (intro parts ends_return)
  qed
qed

lemma ends_register: "ends_in 4 (register_call kid ord s1 s2 k)"
proof -
  have 4: "(4 :: nat) = Suc (Suc (Suc (Suc 0)))" by simp
  show ?thesis
    unfolding register_call_def 4 by (rule ends_send) (auto intro: ends_send ends_return split: option.split)
qed

lemma ends_respond: "ends_in (Suc (Suc n)) (respond_call kid uuid now r)"
  unfolding respond_call_def by (intro ends_send ends_return)

lemma ends_deployed:
  "ends_in (Suc (Suc n)) k \<Longrightarrow> ends_in (Suc (Suc (Suc (Suc (Suc n))))) (deployed_call now params result k)"
  unfolding deployed_call_def Let_def
  by (rule ends_atomic) (auto intro: ends_update_cached elim: ends_mono split: option.split)

lemma ends_bookkeeping: "ends_in 5 (bookkeeping_call kid uuid now env r)"
proof -
  have 5: "(5 :: nat) = Suc (Suc (Suc (Suc (Suc 0))))" by simp
  show ?thesis
    unfolding bookkeeping_call_def 5
    by (auto intro: ends_respond ends_deployed split: resp_data.split option.split)
qed

lemma ends_reject:
  "(\<And>e. ends_in n (k e)) \<Longrightarrow> ends_in (Suc (Suc (Suc n))) (reject_call params k)"
  unfolding reject_call_def Let_def
  by (rule ends_atomic) (auto intro: ends_update_cached ends_mono [of n] split: option.split)

lemma ends_command: "ends_in 9 (command_call kid uuid now env)"
proof (cases "reject_params_of env")
  case None
  have "ends_in (Suc 5) (command_call kid uuid now env)"
    using None by (simp only: command_call_def option.case)
      (rule ends_atomic, simp add: ends_bookkeeping split: prod.split)
  then show ?thesis by (rule ends_mono) simp
next
  case (Some params)
  have "ends_in (Suc (Suc (Suc (Suc 5)))) (command_call kid uuid now env)"
    using Some by (simp only: command_call_def option.case)
      (intro ends_reject ends_reading ends_bookkeeping)
  then show ?thesis by (rule ends_mono) simp
qed

section \<open>The whole kubelet\<close>

text \<open>The labels that begin a call.\<close>

fun begins_call :: "call_label \<Rightarrow> bool" where
  "begins_call (Asked r) = True"
| "begins_call (Registering ord s1 s2) = True"
| "begins_call (Took uuid now env) = True"
| "begins_call l = False"

text \<open>The steps that the goroutines of the pool may still take.\<close>

definition potential :: "'w concurrent \<Rightarrow> nat" where
  "potential s = sum_mset (image_mset remaining (mset (pool s)))"

definition all_end :: "'w concurrent \<Rightarrow> bool" where
  "all_end s \<longleftrightarrow> (\<forall>p \<in> set (pool s). \<exists>n. task_ends n p)"

lemma all_end_mset: "mset (pool s) = M \<Longrightarrow> all_end s = (\<forall>p \<in># M. \<exists>n. task_ends n p)"
  unfolding all_end_def by auto

lemma potential_mset: "mset (pool s) = M \<Longrightarrow> potential s = sum_mset (image_mset remaining M)"
  by (simp add: potential_def)

text \<open>How a step changes the pool.\<close>

lemma pool_step:
  assumes "conc_step s l t"
  obtains (begun) p where "begins_call l" "l \<noteq> Moved" "ends_in 9 p"
      "mset (pool t) = add_mset (Run p) (mset (pool s))"
    | (moved) p q M where "l = Moved" "mset (pool s) = add_mset p M" "mset (pool t) = add_mset q M"
        "move (cc_store s, cc_conn s, p) (cc_store t, cc_conn t, q)"
    | (ended) p where "\<not> begins_call l" "l \<noteq> Moved" "mset (pool s) = add_mset p (mset (pool t))"
    | (other) "\<not> begins_call l" "l \<noteq> Moved" "pool t = pool s"
  using assms
proof cases
  case (conc_asked r)
  have "ends_in 9 (call_of (client_id (cc_conn s)) r)" by (rule ends_mono [OF ends_call]) simp
  with conc_asked begun [of "call_of (client_id (cc_conn s)) r"] show ?thesis by (simp add: pool_def)
next
  case (conc_register ord s1 s2)
  have "ends_in 9 (register_call (client_id (cc_conn s)) ord s1 s2 (view (cc_store s) (cc_conn s)))"
    by (rule ends_mono [OF ends_register]) simp
  from conc_register begun [OF _ _ this] show ?thesis by (simp add: pool_def)
next
  case (conc_took env c uuid now)
  with begun [OF _ _ ends_command] show ?thesis by (simp add: pool_def)
next
  case (conc_moved ps p qs t' c q)
  with moved [of p "mset ps + mset qs + mset (case cc_worker s of None \<Rightarrow> [] | Some p \<Rightarrow> [p])" q]
  show ?thesis by (simp add: pool_def)
next
  case (conc_worked p t' c q)
  with moved [of p "mset (cc_calls s)" q] show ?thesis by (simp add: pool_def)
next
  case (conc_ended ps x qs)
  with ended show ?thesis by (simp add: pool_def)
next
  case (conc_responded x)
  with ended show ?thesis by (simp add: pool_def)
next
  case (conc_net n c)
  with other show ?thesis by (simp add: pool_def)
next
  case (conc_cleanup c)
  with other show ?thesis by (simp add: pool_def)
qed

lemma potential_step:
  assumes "conc_step s l t" and "all_end s"
  shows "all_end t \<and>
    (if l = Moved then 1 else 0) + potential t \<le> potential s + (if begins_call l then 9 else 0)"
  using assms(1)
proof (cases rule: pool_step)
  case (begun p)
  then have "task_ends 9 (Run p)" by simp
  from remaining_ends [OF this] begun assms(2) show ?thesis
    by (auto simp: all_end_mset [OF begun(4)] all_end_mset [OF refl] potential_def intro: exI [of _ "9 :: nat"])
next
  case (moved p q M)
  from assms(2) obtain n where "task_ends n p" by (auto simp: all_end_mset [OF moved(2)])
  from move_remaining [OF moved(4) this] moved(1) assms(2) show ?thesis
    by (auto simp: all_end_mset [OF moved(2)] all_end_mset [OF moved(3)] potential_mset [OF moved(2)]
        potential_mset [OF moved(3)])
next
  case (ended p)
  with assms(2) show ?thesis
    by (auto simp: all_end_mset [OF ended(3)] all_end_mset [OF refl] potential_mset [OF ended(3)] potential_def)
next
  case other
  with assms(2) show ?thesis by (simp add: all_end_def potential_def)
qed

lemma potential_run:
  assumes "run_of conc_step s ls t" and "all_end s"
  shows "all_end t \<and>
    count_list ls Moved + potential t \<le> potential s + 9 * length (filter begins_call ls)"
  using assms
proof (induction rule: run_of.induct)
  case (run_snoc s ls t l u)
  then have "all_end t" and "count_list ls Moved + potential t \<le> potential s + 9 * length (filter begins_call ls)"
    by auto
  with potential_step [OF run_snoc.hyps(2)] show ?case by (auto split: if_splits)
qed simp

text \<open>C8. No call of the kubelet runs forever or waits in a loop: in every interleaving of every number
of calls, with any network and any scheduling, the goroutines together take at most nine steps for
each call that was begun, be it a request of a controller, a registration or a command. With the
property that a goroutine that has not returned can always move, every call returns.\<close>

theorem calls_terminate:
  assumes "conc_init s" and "run_of conc_step s ls t"
  shows "count_list ls Moved \<le> 9 * length (filter begins_call ls)"
proof -
  from assms(1) have "pool s = []" by (auto simp: conc_init_def pool_def)
  then have "all_end s" and "potential s = 0" by (simp_all add: all_end_def potential_def)
  with potential_run [OF assms(2)] show ?thesis by simp
qed

section \<open>A status call that a command overtakes\<close>

text \<open>One call of a controller and the command goroutine, side by side.\<close>

definition both ::
    "'w concurrent \<Rightarrow> 'w store \<Rightarrow> connection \<Rightarrow> 'w call \<Rightarrow> 'w goroutine option \<Rightarrow> 'w concurrent" where
  "both s st c p w = s\<lparr>cc_store := st, cc_conn := c, cc_calls := [Run p], cc_worker := w\<rparr>"

lemma both_reads:
  assumes "k (g st) = p"
  shows "conc_step (both s st c (reading g k) w) Moved (both s st c p w)"
proof -
  let ?s = "both s st c (reading g k) w"
  have "conc_step ?s Moved (?s\<lparr>cc_store := st, cc_conn := c, cc_calls := [] @ Run p # []\<rparr>)"
    using assms by (intro conc_moved [where p = "Run (reading g k)"])
      (simp_all add: both_def reading_def move_atomic)
  also have "?s\<lparr>cc_store := st, cc_conn := c, cc_calls := [] @ Run p # []\<rparr> = both s st c p w"
    by (simp add: both_def)
  finally show ?thesis .
qed

lemma both_takes:
  assumes "conn_step c (Command env) d"
  shows "conc_step (both s st c p None) (Took uuid now env)
    (both s st d p (Some (Run (command_call (client_id d) uuid now env))))"
proof -
  let ?s = "both s st c p None" and ?q = "Run (command_call (client_id d) uuid now env)"
  have "conc_step ?s (Took uuid now env) (?s\<lparr>cc_conn := d, cc_worker := Some ?q\<rparr>)"
    using assms by (intro conc_took) (simp_all add: both_def)
  also have "?s\<lparr>cc_conn := d, cc_worker := Some ?q\<rparr> = both s st d p (Some ?q)"
    by (cases s) (simp add: both_def)
  finally show ?thesis .
qed

lemma both_works:
  assumes "move (st, c, q) (t, c, q')"
  shows "conc_step (both s st c p (Some q)) Moved (both s t c p (Some q'))"
proof -
  let ?s = "both s st c p (Some q)"
  have "conc_step ?s Moved (?s\<lparr>cc_store := t, cc_conn := c, cc_worker := Some q'\<rparr>)"
    using assms by (intro conc_worked) (simp_all add: both_def)
  also have "?s\<lparr>cc_store := t, cc_conn := c, cc_worker := Some q'\<rparr> = both s t c p (Some q')"
    by (cases s) (simp add: both_def)
  finally show ?thesis .
qed

definition failed_status :: "string \<Rightarrow> string \<Rightarrow> pod_status" where
  "failed_status reason message =
     status_pending\<lparr>ps_phase := ''Failed'', ps_reason := reason, ps_message := message\<rparr>"

lemma interrupted_status:
  assumes "cc_calls s = []" and "cc_worker s = None"
    and "st_pods (cc_store s) key = Some a" and "st_infos (cc_store s) key = Some b"
    and "ii_reject_code (st_info_at (cc_store s) b) = code" and "code \<noteq> []"
    and "conn_step (cc_conn s) (Command env) c"
    and "reject_params_of env = Some r" and "pod_of r = key" and "key = ns @ ''/'' @ name"
  shows "\<exists>ls t. run_of conc_step s
      (ls @ [Ended (StatusAnswer ns name (Returns (failed_status code (rp_message r))))]) t \<and>
    filter begins ls = [Asked (ReqStatus ns name), Took uuid now env]"
proof -
  let ?st = "cc_store s" and ?c = "cc_conn s"
  let ?answer = "\<lambda>st. Return (StatusAnswer ns name st) :: 'a call"
  let ?p = "reading (\<lambda>s. ii_reject_message (st_info_at s b))
    (\<lambda>message. ?answer (Returns (failed_status code message)))"
  let ?reply = "StatusAnswer ns name (Returns (failed_status code (rp_message r)))"
  let ?st' = "change_record key (record_rejection r) ?st"
  let ?command = "Run (command_call (client_id c) uuid now env)"
  obtain w where w: "move (?st, c, ?command) (?st', c, Run w)"
    using assms(8,9) by (auto simp: command_call_def reject_call_def Let_def pod_of_def intro: move_atomic)
  have "both s ?st ?c (get_status_call ns name) None = s\<lparr>cc_calls := [Run (get_status_call ns name)]\<rparr>"
    using assms(2) by (cases s) (simp add: both_def)
  then have "conc_step s (Asked (ReqStatus ns name)) (both s ?st ?c (get_status_call ns name) None)"
    using conc_asked [of s "ReqStatus ns name"] assms(1) by simp
  moreover have "conc_step (both s ?st ?c (get_status_call ns name) None) Moved
      (both s ?st ?c (record_answer a b ?answer) None)"
    unfolding get_status_call_def Let_def assms(10) [symmetric] by (rule both_reads) (simp add: assms(3,4))
  moreover have "conc_step (both s ?st ?c (record_answer a b ?answer) None) Moved
      (both s ?st ?c (rejected_answer b ?answer) None)"
    unfolding record_answer_def [of a b] by (rule both_reads) (simp add: assms(5,6))
  moreover have "conc_step (both s ?st ?c (rejected_answer b ?answer) None) Moved (both s ?st ?c ?p None)"
    unfolding rejected_answer_def failed_status_def by (rule both_reads) (simp add: assms(5))
  moreover note both_takes [OF assms(7), of s ?st ?p uuid now]
  moreover note both_works [OF w, of s ?p]
  moreover have "st_info_at ?st' b = record_rejection r (st_info_at ?st b)"
    using assms(4) by (simp add: change_record_def)
  then have "conc_step (both s ?st' c ?p (Some (Run w))) Moved (both s ?st' c (Return ?reply) (Some (Run w)))"
    by (intro both_reads) (simp add: record_rejection_def)
  moreover have "\<exists>t. conc_step (both s ?st' c (Return ?reply) (Some (Run w))) (Ended ?reply) t"
    by (rule exI, rule conc_ended [where ps = "[]" and qs = "[]"]) (simp add: both_def)
  ultimately have "\<exists>t. run_of conc_step s ([Asked (ReqStatus ns name), Moved, Moved, Moved, Took uuid now env, Moved, Moved] @
      [Ended ?reply]) t"
    by (simp only: append_Cons append_Nil) (blast intro: run_Cons run_nil)
  then show ?thesis
    by (intro exI [of _ "[Asked (ReqStatus ns name), Moved, Moved, Moved, Took uuid now env, Moved, Moved]"]) simp
qed

text \<open>
  A status call that a reject command overtakes reports the reason of an earlier rejection together
  with the message of the new one: the fields are read after the lock is released.
\<close>

theorem torn_rejection:
  fixes sy :: "'w system"
  assumes "system_init sy" and "run_of system_step sy ls sy'"
    and "kb_status (sy_kubelet sy') key = Some info" and "ii_reject_code info \<noteq> []"
    and "chan_recv (ws_command_ch (kb_ws (sy_kubelet sy'))) = Some (env, rest)"
    and "reject_params_of env = Some r" and "pod_of r = key" and "key = ns @ ''/'' @ name"
  shows "\<exists>(s :: 'w concurrent) ms t. conc_init s \<and>
    run_of conc_step s (ms @ [Ended (StatusAnswer ns name
      (Returns (failed_status (ii_reject_code info) (rp_message r))))]) t \<and>
    filter begins ms = map call_label_of ls @ [Asked (ReqStatus ns name), Took uuid now env]"
proof -
  from quiet_init [OF assms(1)] obtain s where s: "conc_init s" "quiet sy s" by blast
  from quiet_run [OF assms(2) s(2) conc_init_inv [OF s(1)]] obtain ms u
    where u: "run_of conc_step s ms u" "filter begins ms = map call_label_of ls" "quiet sy' u" by blast
  have "store_ok (cc_store u)"
    using conc.run_inv [OF u(1) conc_init_inv [OF s(1)]] by (simp add: conc_inv_def store_inv_def)
  moreover from assms(3) u(3) obtain b where b: "st_infos (cc_store u) key = Some b"
      "st_info_at (cc_store u) b = info" by (auto simp: quiet_def)
  ultimately obtain a where a: "st_pods (cc_store u) key = Some a"
    by (metis store_ok_uncached option.exhaust option.distinct(1))
  have "conn_step (cc_conn u) (Command env) (upd_client (ws_command_ch_update (\<lambda>_. rest)) (cc_conn u))"
    using assms(5) u(3) by (intro by_user take_command) (simp add: quiet_def)
  from interrupted_status [OF _ _ a b(1) _ assms(4) this assms(6-8), of uuid now] u(3) b(2)
  obtain ns' t where "run_of conc_step u (ns' @ [Ended (StatusAnswer ns name
      (Returns (failed_status (ii_reject_code info) (rp_message r))))]) t"
    and "filter begins ns' = [Asked (ReqStatus ns name), Took uuid now env]" by (auto simp: quiet_def)
  then have "run_of conc_step s ((ms @ ns') @ [Ended (StatusAnswer ns name
      (Returns (failed_status (ii_reject_code info) (rp_message r))))]) t"
    and "filter begins (ms @ ns') = map call_label_of ls @ [Asked (ReqStatus ns name), Took uuid now env]"
    using run_append [OF u(1)] u(2) by simp_all
  with s(1) show ?thesis by blast
qed

end
