(* ===== verification/Kubelet_Witness.thy ===== *)
theory Kubelet_Witness
  imports Kubelet_Startup
begin

text \<open>
  The kubelet's properties at concrete states: a kubelet with the default configuration starts,
  connects, is asked to create a pod, and the platform rejects it or deploys it.
\<close>

section \<open>A started system\<close>

definition sample_world :: "http_request list provider" where
  "sample_world = runpod_provider (recording no_answer) (\<lambda>_. []) (NewRunpodClient (\<lambda>_. []))"

definition sample_manager :: "http_request list manager" where
  "sample_manager = [''runpod'' \<mapsto> sample_world]"

definition started_kubelet :: "http_request list kubelet" where
  "started_kubelet =
     (sample_kubelet sample_manager)
       \<lparr>kb_conn := Start (SetOnConnect (NewClient (ws_client_config DefaultConfig))),
        kb_notify := False\<rparr>"

definition sys0 :: "http_request list system" where
  "sys0 = \<lparr>sy_kubelet = started_kubelet, sy_world = [], sy_registered = 0\<rparr>"

definition dialled :: "'w system \<Rightarrow> 'w system" where
  "dialled = on_kubelet (\<lambda>k. k\<lparr>kb_conn := the (exec_step (kb_conn k) DialOk)\<rparr>)"

definition sys1 :: "http_request list system" where "sys1 = dialled sys0"
definition sys2 :: "http_request list system" where "sys2 = on_kubelet NotifyPods sys1"
definition sys3 :: "http_request list system" where
  "sys3 = on_kubelet (CreatePod ''u1'' 1 sample_pod) sys2"

lemma started_kubelet_new:
  "NewProvider (recording no_answer) (\<lambda>_. []) ''conduit-node'' ''Linux'' ''127.0.0.1'' 10250
     DefaultConfig = Inr started_kubelet"
  by (simp add: NewProvider_def initializeProviders_def DefaultConfig_def IsProviderEnabled_def
      RegisterProvider_def runpod_provider_def NewManager_def started_kubelet_def sample_kubelet_def
      sample_manager_def sample_world_def Let_def)

lemma sys0_init: "system_init sys0"
  by (simp add: system_init_def sys0_def) (intro exI, rule started_kubelet_new)

lemma sys0_pc: "cn_pc (kb_conn (sy_kubelet sys0)) = AtTop"
  by (simp add: sys0_def started_kubelet_def Start_def)

lemma sys1_step: "system_step sys0 (KNet DialOk) sys1"
  unfolding sys1_def dialled_def
  by (rule sys_net, simp, simp add: conn_step_exec) (simp add: exec_step_def sys0_pc Let_def)

lemma sys2_step: "system_step sys1 KNotify sys2"
  unfolding sys2_def by (rule sys_notify)

lemma sys3_step: "system_step sys2 (KCreate ''u1'' 1 sample_pod) sys3"
  unfolding sys3_def by (rule sys_create)

lemma reach1: "reachable system_init system_step sys1"
  using reachable_init [of system_init, OF sys0_init] sys1_step by (rule reachable_step)

lemma reach2: "reachable system_init system_step sys2"
  using reach1 sys2_step by (rule reachable_step)

lemma reach3: "reachable system_init system_step sys3"
  using reach2 sys3_step by (rule reachable_step)

lemma sys3_pods:
  "kb_pods (sy_kubelet sys3) (getPodKey sample_pod) = Some sample_pod"
  "kb_status (sy_kubelet sys3) (getPodKey sample_pod) = Some (new_instance_info sample_pod 1)"
  by (simp_all add: sys3_def CreatePod_lookup)

lemma sample_key: "getPodKey sample_pod = ''default'' @ ''/'' @ ''gpu-job-1''"
  by (simp add: getPodKey_def sample_pod_def)

section \<open>The properties\<close>

definition other_pod :: pod where
  "other_pod = sample_pod\<lparr>p_name := ''gpu-job-2''\<rparr>"

theorem pods_isolated_witness:
  "GetPod ''default'' ''gpu-job-1'' (sy_kubelet (on_kubelet (CreatePod ''u2'' 2 other_pod) sys3)) =
     Inr sample_pod"
proof -
  have "GetPod ''default'' ''gpu-job-1'' (sy_kubelet sys3) = Inr sample_pod"
    using sys3_pods(1) by (simp add: GetPod_def sample_key)
  moreover have "run_of system_step sys3 [KCreate ''u2'' 2 other_pod]
      (on_kubelet (CreatePod ''u2'' 2 other_pod) sys3)"
    by (rule run_single) (rule sys_create)
  ultimately show ?thesis
    using pods_isolated [of sys3 "[KCreate ''u2'' 2 other_pod]"
        "on_kubelet (CreatePod ''u2'' 2 other_pod) sys3" "''default''" "''gpu-job-1''"]
    by (simp add: other_pod_def sample_pod_def)
qed

theorem reported_status_witness:
  "GetPodStatus ''default'' ''gpu-job-1'' (sy_kubelet sys3) = Returns pending_status"
  using reported_status [OF reach3, of "''default''" "''gpu-job-1''"] sys3_pods
  by (simp add: GetPod_def sample_key new_instance_info_def)

theorem system_connection_witness:
  "reachable conn_init conn_step (kb_conn (sy_kubelet sys3))"
  using system_connection [OF reach3] by blast

definition sample_rejection :: "string \<Rightarrow> reject_params" where
  "sample_rejection code =
     \<lparr>rp_pod_name = ''gpu-job-1'', rp_namespace = ''default'', rp_code = code,
      rp_message = ''upgrade your plan'', rp_upgrade_url = []\<rparr>"

lemma sample_names: "k8s_name ''default''" "k8s_name ''gpu-job-1''"
  by code_simp+

theorem rejection_without_code_witness:
  "GetPodStatus ''default'' ''gpu-job-1'' (snd (kb_reject (sample_rejection []) (sy_kubelet sys3))) =
     Returns pending_status"
proof -
  have key: "PodKey (rp_namespace (sample_rejection [])) (rp_pod_name (sample_rejection [])) =
      ''default'' @ ''/'' @ ''gpu-job-1''"
    using sample_names by (simp add: PodKey_def sample_rejection_def k8s_name_def)
  moreover have "kb_notify (sy_kubelet sys3)"
    by (simp add: sys3_def CreatePod_def Let_def sys2_def NotifyPods_def)
  ultimately show ?thesis
    using rejection_without_code [OF reach3 refl, of "sample_rejection []" "''default''" "''gpu-job-1''"]
      sys3_pods(1) by (simp add: sample_key sample_rejection_def)
qed

definition rejecting :: incoming where
  "rejecting = command_envelope ''c1'' CommandReject (enc_reject_params (sample_rejection ''plan_limit''))"

definition sys4 :: "http_request list system" where
  "sys4 = sys3\<lparr>sy_kubelet := fst (process_command ''u3'' 3 rejecting (sy_kubelet sys3, []))\<rparr>"

theorem rejection_lasts_witness:
  "GetPodStatus ''default'' ''gpu-job-1'' (sy_kubelet (on_kubelet (UpdatePod sample_pod) sys4)) =
     Returns (rejected_status ''plan_limit'' ''upgrade your plan'')"
proof -
  have r: "run_of system_step sys4 [KUpdate sample_pod] (on_kubelet (UpdatePod sample_pod) sys4)"
    by (rule run_single) (rule sys_update)
  have c: "process_command ''u3'' 3
        (command_envelope ''c1'' CommandReject (enc_reject_params (sample_rejection ''plan_limit'')))
        (sy_kubelet sys3, []) =
      (sy_kubelet sys4, snd (process_command ''u3'' 3 rejecting (sy_kubelet sys3, [])))"
    by (simp add: sys4_def rejecting_def)
  have f: "rp_namespace (sample_rejection x) = ''default''" "rp_pod_name (sample_rejection x) = ''gpu-job-1''"
      "rp_code (sample_rejection x) = x" "rp_message (sample_rejection x) = ''upgrade your plan''" for x
    by (simp_all add: sample_rejection_def)
  show ?thesis
    using rejection_lasts [OF _ _ _ _ _ c r] sys3_pods sample_names
    by (simp add: f sample_key)
qed

definition stub_provider :: "unit provider" where
  "stub_provider =
     \<lparr>pv_name = ''stub'',
      pv_deploy = (\<lambda>p w. (Inr \<lparr>dr_provider_pod_id = ''inst-7'', dr_provider = [], dr_status = ''STARTING'',
        dr_cost_per_hour = 1 / 2, dr_gpu_type = [], dr_machine_id = [], dr_datacenter_id = [],
        dr_ports = None\<rparr>, w)),
      pv_get_status = (\<lambda>p w. (Inl (ErrText ''unused''), w)),
      pv_terminate = (\<lambda>p w. (None, w)), pv_ping = (\<lambda>w. (None, w))\<rparr>"

definition stub_params :: deploy_params where
  "stub_params = zero_deploy_params\<lparr>dp_pod_name := ''gpu-job-1'', dp_namespace := ''default'',
     dp_provider := ''stub''\<rparr>"

definition stub_kubelet :: "unit kubelet" where
  "stub_kubelet = CreatePod ''u1'' 1 sample_pod (sample_kubelet [''stub'' \<mapsto> stub_provider])"

definition deploying :: incoming where
  "deploying = command_envelope ''d1'' CommandDeploy (enc_deploy_params stub_params)"

definition stub_system :: "unit system" where
  "stub_system = \<lparr>sy_kubelet = fst (process_command ''u2'' 2 deploying (stub_kubelet, ())),
     sy_world = (), sy_registered = 0\<rparr>"

theorem deploy_until_delete_witness:
  "ws_outbound_ch (kb_ws (DeletePod ''u4'' 4 sample_pod (sy_kubelet (on_kubelet NotifyPods stub_system)))) =
     ws_outbound_ch (kb_ws (sy_kubelet (on_kubelet NotifyPods stub_system))) @
     sent (kb_ws (sy_kubelet (on_kubelet NotifyPods stub_system))) (NewEnvelope ''u4'' 4
       (EventPayload (pod_deleted sample_pod ''inst-7''))
       (KubeletID (kb_ws (sy_kubelet (on_kubelet NotifyPods stub_system)))))"
proof -
  let ?d = "\<lparr>dr_provider_pod_id = ''inst-7'', dr_provider = [], dr_status = ''STARTING'',
        dr_cost_per_hour = 1 / 2, dr_gpu_type = [], dr_machine_id = [], dr_datacenter_id = [],
        dr_ports = None\<rparr>"
  have p: "deploy_params_ok stub_params"
    by (simp add: deploy_params_ok_def stub_params_def zero_deploy_params_def entries_of_def
        gomap_ok_def)
  have names: "dp_namespace stub_params = ''default''" "dp_pod_name stub_params = ''gpu-job-1''"
    by (simp_all add: stub_params_def)
  have d: "ManagerDeploy (kb_manager stub_kubelet) (dp_provider stub_params) stub_params () = (Inr ?d, ())"
    by (simp add: ManagerDeploy_def GetProvider_def stub_kubelet_def CreatePod_def Let_def
        stub_params_def sample_kubelet_def stub_provider_def kb_send_def updatePodStatus_def
        split: sum.splits)
  have k: "kb_status stub_kubelet (getPodKey sample_pod) \<noteq> None"
    by (simp add: stub_kubelet_def CreatePod_lookup)
  have c: "process_command ''u2'' 2 (command_envelope ''d1'' CommandDeploy (enc_deploy_params stub_params))
      (stub_kubelet, ()) = (sy_kubelet stub_system, ())"
    by (simp add: stub_system_def deploying_def prod_eq_iff)
  have r: "run_of system_step stub_system [KNotify] (on_kubelet NotifyPods stub_system)"
    by (rule run_single) (rule sys_notify)
  show ?thesis
    using deploy_until_delete [OF p _ _ _ k d c refl r, of "''u4''" 4] sample_names
    by (simp add: names sample_key)
qed

definition stamp :: "string \<times> instant" where "stamp = (''r1'', 5)"

theorem registration_content_witness:
  "\<exists>t. system_step sys1 (KRegister [''runpod''] stamp stamp) t \<and>
     length (ws_outbound_ch (kb_ws (sy_kubelet t))) = 2"
proof -
  have conn: "IsConnected (kb_ws (sy_kubelet sys1))" "ws_outbound_ch (kb_ws (sy_kubelet sys1)) = []"
      "cn_spawned (kb_conn (sy_kubelet sys1)) = 1" "sy_registered sys1 = 0"
    by (simp_all add: sys1_def dialled_def exec_step_def sys0_pc Let_def IsConnected_def)
      (simp_all add: sys0_def started_kubelet_def Start_def SetOnConnect_def NewClient_def)
  have "kb_manager (sy_kubelet sys1) = sample_manager"
    by (simp add: sys1_def dialled_def sys0_def started_kubelet_def sample_kubelet_def)
  then have "enumerates [''runpod''] (kb_manager (sy_kubelet sys1))"
    by (simp add: enumerates_def sample_manager_def)
  with conn have "\<exists>t. system_step sys1 (KRegister [''runpod''] stamp stamp) t"
    using sys_register [of sys1 "[''runpod'']" stamp stamp] by auto
  then obtain t where t: "system_step sys1 (KRegister [''runpod''] stamp stamp) t" ..
  from registration_content [OF reach1 t conn(1)] conn(2) t show ?thesis
    by (auto simp: Let_def)
qed

end
