(* ===== verification/Kubelet_Frames.thy ===== *)
theory Kubelet_Frames
  imports Kubelet_Correct
begin

text \<open>
  A command on its whole way: the text of a frame is read by the client, queued, taken up by the
  command goroutine, carried out and answered.
\<close>

lemma process_command_cong:
  assumes "\<And>m rf sw. ExecuteCommand m rf env' sw = ExecuteCommand m rf env (sw :: 'w kubelet \<times> 'w)"
    and "command_of env' = command_of env"
  shows "process_command uuid now env' = (process_command uuid now env :: 'w kubelet \<times> 'w \<Rightarrow> _)"
proof (rule ext)
  fix kw :: "'w kubelet \<times> 'w"
  have "deploy_params_of env' = deploy_params_of env"
    by (simp add: deploy_params_of_command assms(2))
  then show "process_command uuid now env' kw = process_command uuid now env kw"
    by (cases kw) (simp add: process_command_eq after_command_def assms(1) Let_def cong: if_cong resp_data.case_cong)
qed

text \<open>What the reader makes of the text of a command.\<close>

lemma read_command:
  fixes e :: "json option envelope"
  assumes "env_type e = EnvelopeCommand" and "four_digit_year (env_timestamp e)"
    and "four_digit_year now" and "env_payload e \<noteq> None"
  obtains env where "ParseEnvelope (Some (ToJSON now e)) = Inr env" and "env_type env = EnvelopeCommand"
    and "command_of env = command_of e"
    and "\<And>uuid clock. process_command uuid clock env = (process_command uuid clock e :: 'w kubelet \<times> 'w \<Rightarrow> _)"
proof -
  obtain env where env: "ParseEnvelope (Some (ToJSON now e)) = Inr env" "env_type env = env_type e"
      "command_of env = command_of e"
    by (rule execute_read_envelope [OF assms]) blast
  have "ExecuteCommand m rf env sw = ExecuteCommand m rf e (sw :: 'w kubelet \<times> 'w)" for m rf sw
  proof -
    obtain env'' where "ParseEnvelope (Some (ToJSON now e)) = Inr env''"
        "ExecuteCommand m rf env'' sw = ExecuteCommand m rf e sw"
      by (rule execute_read_envelope [OF assms, of m rf sw]) blast
    with env(1) show ?thesis by simp
  qed
  from process_command_cong [OF this env(3)]
  have "process_command uuid clock env = (process_command uuid clock e :: 'w kubelet \<times> 'w \<Rightarrow> _)"
    for uuid clock .
  moreover from env(2) assms(1) have "env_type env = EnvelopeCommand" by simp
  ultimately show ?thesis using env(1,3) that by blast
qed

lemma frame_step:
  assumes "cn_reader (kb_conn (sy_kubelet s))" and "ws_command_ch (kb_ws (sy_kubelet s)) = []"
    and "ParseEnvelope m = Inr env" and "env_type env = EnvelopeCommand"
  shows "system_step s (KNet (Frame CurrentReader m)) (on_kubelet (received_command [env]) s)"
proof -
  have "conn_step (kb_conn (sy_kubelet s)) (Frame CurrentReader m)
      (upd_client (handleIncomingMessage env) (kb_conn (sy_kubelet s)))"
    using assms(1,3) by (intro by_reader reader_parsed) simp_all
  moreover have "handleIncomingMessage env (kb_ws (sy_kubelet s)) =
      (kb_ws (sy_kubelet s))\<lparr>ws_command_ch := [env]\<rparr>"
    using assms(2,4) by (simp add: handleIncomingMessage_def chan_send_def command_capacity_def)
  ultimately show ?thesis
    using sys_net [of "Frame CurrentReader m" s] by (simp add: received_command_def)
qed

lemma received_nothing:
  "ws_command_ch (kb_ws k) = [] \<Longrightarrow> received_command [] (received_command [env] k) = k"
  by (simp add: received_command_def)

text \<open>The reject command of the platform, as it comes over the socket.\<close>

lemma process_command_frame:
  "cn_reader (kb_conn (fst (process_command uuid now env (k, w)))) = cn_reader (kb_conn k)"
  "ws_command_ch (kb_ws (fst (process_command uuid now env (k, w)))) = ws_command_ch (kb_ws k)"
proof -
  have "kb_conn (after_command now env k w) = kb_conn k" by (simp add: after_command_frame)
  then show "cn_reader (kb_conn (fst (process_command uuid now env (k, w)))) = cn_reader (kb_conn k)"
    "ws_command_ch (kb_ws (fst (process_command uuid now env (k, w)))) = ws_command_ch (kb_ws k)"
    by (auto simp: process_command_eq kb_send_def send_is_envelope sendEnvelope_Inr split: sum.split)
qed

lemma process_rejected:
  assumes "PodKey (rp_namespace r) (rp_pod_name r) = key"
    and "kb_pods k key \<noteq> None" and "kb_status k key \<noteq> None"
  shows "rejected_as key (rp_code r) (rp_message r)
    (fst (process_command uuid now (command_envelope i CommandReject (enc_reject_params r)) (k, w)))"
proof -
  have "rejected_as key (rp_code r) (rp_message r) (snd (kb_reject r k))"
    using assms by (auto simp: rejected_as_def reject_pods reject_status)
  then show ?thesis
    by (simp add: process_reject rejected_as_def split_beta split: option.split)
qed

lemma reject_envelope:
  "reject_params_of (command_envelope i CommandReject (enc_reject_params r)) = Some r"
  "env_type (command_envelope i CommandReject (enc_reject_params r)) = EnvelopeCommand"
  "four_digit_year (env_timestamp (command_envelope i CommandReject (enc_reject_params r)))"
  "env_payload (command_envelope i CommandReject (enc_reject_params r)) \<noteq> None"
proof -
  have "DecodePayload command_fields zero_command
      (command_envelope i CommandReject (enc_reject_params r)) = Inr (NewCommand CommandReject (enc_reject_params r))"
    unfolding command_envelope_def by (rule codec.through_envelope [OF reject_codec.codec_axioms])
  moreover have "DecodeData reject_params_fields zero_reject_params
      (NewCommand CommandReject (enc_reject_params r)) = Inr r"
    by (rule reject_codec.decode_data) simp
  ultimately show "reject_params_of (command_envelope i CommandReject (enc_reject_params r)) = Some r"
    by (simp add: reject_params_of_def command_of_def NewCommand_def)
qed (simp_all add: command_envelope_def NewEnvelopeWithID_def four_digit_year_def)

definition reject_message :: "reject_params \<Rightarrow> json option envelope" where
  "reject_message r = command_envelope ''c1'' CommandReject (enc_reject_params r)"

definition reject_frame :: "reject_params \<Rightarrow> conn_label" where
  "reject_frame r = Frame CurrentReader (Some (ToJSON 1 (reject_message r)))"

lemma reject_arrives:
  fixes s :: "'w system"
  assumes "cn_reader (kb_conn (sy_kubelet s))" and "ws_command_ch (kb_ws (sy_kubelet s)) = []"
  obtains t env where "system_step s (KNet (reject_frame r)) t"
    and "t = on_kubelet (received_command [env]) s" and "reject_params_of env = Some r"
    and "\<And>uuid clock. process_command uuid clock env =
           (process_command uuid clock (reject_message r) :: 'w kubelet \<times> 'w \<Rightarrow> _)"
proof -
  have "four_digit_year 1" by (simp add: four_digit_year_def)
  then obtain env where env: "ParseEnvelope (Some (ToJSON 1 (reject_message r))) = Inr env"
      "env_type env = EnvelopeCommand" "command_of env = command_of (reject_message r)"
      "\<And>uuid clock. process_command uuid clock env =
         (process_command uuid clock (reject_message r) :: 'w kubelet \<times> 'w \<Rightarrow> _)"
    using read_command [of "reject_message r" 1] reject_envelope(2-4) [of "''c1''" r]
    unfolding reject_message_def by metis
  have "reject_params_of env = Some r"
    using reject_envelope(1) [of "''c1''" r] env(3) by (simp add: reject_params_of_def reject_message_def)
  with frame_step [OF assms env(1,2)] env(4) that show ?thesis
    unfolding reject_frame_def by blast
qed

lemma command_taken:
  assumes "ws_command_ch (kb_ws (sy_kubelet s)) = []"
  shows "system_step (on_kubelet (received_command [env]) s) (KCommand uuid clock env)
    (s\<lparr>sy_kubelet := fst (process_command uuid clock env (sy_kubelet s, sy_world s)),
       sy_world := snd (process_command uuid clock env (sy_kubelet s, sy_world s))\<rparr>)"
  using sys_command [of "on_kubelet (received_command [env]) s" env "[]" uuid clock] received_nothing [OF assms]
  by (simp add: received_command_def)

text \<open>C19. From the text to the effect: while a session runs and no command waits, a frame with the
text of a command can be read and taken up, and what then happens to the kubelet, to the platforms
and to the outbound queue is exactly what processing that command does; nothing is lost or changed
between the text and the handler.\<close>

theorem command_end_to_end:
  assumes "cn_reader (kb_conn (sy_kubelet s))" and "ws_command_ch (kb_ws (sy_kubelet s)) = []"
    and "env_type e = EnvelopeCommand" and "four_digit_year (env_timestamp e)"
    and "four_digit_year now" and "env_payload e \<noteq> None"
  shows "\<exists>t u env. system_step s (KNet (Frame CurrentReader (Some (ToJSON now e)))) t \<and>
    system_step t (KCommand uuid clock env) u \<and> sy_registered u = sy_registered s \<and>
    (sy_kubelet u, sy_world u) = process_command uuid clock e (sy_kubelet s, sy_world s)"
proof -
  obtain env where env: "ParseEnvelope (Some (ToJSON now e)) = Inr env" "env_type env = EnvelopeCommand"
      "process_command uuid clock env = (process_command uuid clock e :: 'a kubelet \<times> 'a \<Rightarrow> _)"
    by (rule read_command [OF assms(3-6)]) blast
  let ?t = "on_kubelet (received_command [env]) s"
  obtain k w where kw: "process_command uuid clock e (sy_kubelet s, sy_world s) = (k, w)" by force
  have "process_command uuid clock env (received_command [] (sy_kubelet ?t), sy_world ?t) = (k, w)"
    using kw env(3) received_nothing [OF assms(2)] by simp
  then have "system_step ?t (KCommand uuid clock env) (?t\<lparr>sy_kubelet := k, sy_world := w\<rparr>)"
    by (intro sys_command) (simp_all add: received_command_def)
  with frame_step [OF assms(1,2) env(1,2)] kw show ?thesis
    by (intro exI [of _ ?t] exI [of _ "?t\<lparr>sy_kubelet := k, sy_world := w\<rparr>"] exI [of _ env]) simp
qed

end
