(* ===== verification/Kubelet_Schedules.thy ===== *)
theory Kubelet_Schedules
  imports Kubelet_Progress Kubelet_Witness Kubelet_Frames
begin

text \<open>The properties of interleaved calls at concrete runs.\<close>

definition sample_labels :: "kb_label list" where
  "sample_labels = [KNet DialOk, KNotify, KCreate ''u1'' 1 sample_pod]"

lemma sample_run: "run_of system_step sys0 sample_labels sys3"
  unfolding sample_labels_def
  by (rule run_Cons, rule sys1_step, rule run_Cons, rule sys2_step, rule run_Cons, rule sys3_step, rule run_nil)

theorem calls_refine_witness:
  "\<exists>(s :: http_request list concurrent) ms t. conc_init s \<and> run_of conc_step s ms t \<and>
     filter begins ms = [Net DialOk, Asked ReqNotify, Asked (ReqCreate ''u1'' 1 sample_pod)] \<and>
     sy_kubelet sys3 = view (cc_store t) (cc_conn t)"
  using calls_refine [OF sys0_init sample_run] by (auto simp: sample_labels_def)

text \<open>A run of interruptible calls up to the created pod.\<close>

lemma sample_interleaving:
  obtains s ms t where "conc_init s" and "run_of conc_step s ms t" and "quiet sys3 t"
    and "filter begins ms = [Net DialOk, Asked ReqNotify, Asked (ReqCreate ''u1'' 1 sample_pod)]"
proof -
  from quiet_init [OF sys0_init] obtain s :: "http_request list concurrent"
    where s: "conc_init s" "quiet sys0 s" by blast
  from quiet_run [OF sample_run s(2) conc_init_inv [OF s(1)]] that s(1) show ?thesis
    by (auto simp: sample_labels_def)
qed

theorem interleaved_invariant_witness:
  "\<exists>s :: http_request list concurrent. view (cc_store s) (cc_conn s) = sy_kubelet sys3 \<and>
     pods_ok (view (cc_store s) (cc_conn s))"
proof -
  obtain s ms t where t: "conc_init s" "run_of conc_step s ms t" "quiet sys3 t"
    by (rule sample_interleaving)
  have "reachable conc_init conc_step t"
    using reachable_run [OF reachable_init [of conc_init, OF t(1)] t(2)] .
  from interleaved_invariant [OF this] t(3) show ?thesis by (auto simp: quiet_def)
qed

theorem interleaved_status_witness:
  "\<exists>st. st = GetPodStatus ''default'' ''gpu-job-1'' (sy_kubelet sys3) \<and>
     (st = Fails (ErrText ''pod not found'') \<or> st = Returns status_pending \<or>
      (\<exists>p q. st = Returns (status_pending\<lparr>ps_phase := ''Failed'', ps_reason := p, ps_message := q\<rparr>)))"
proof -
  let ?st = "GetPodStatus ''default'' ''gpu-job-1'' (sy_kubelet sys3)"
  obtain s ms t where t: "conc_init s" "run_of conc_step s ms t" "quiet sys3 t"
    by (rule sample_interleaving)
  from quiet_status [OF t(3), of "''default''" "''gpu-job-1''"] obtain ls
    where "run_of conc_step t (ls @ [Ended (StatusAnswer ''default'' ''gpu-job-1'' ?st)]) t" by blast
  from run_append [OF t(2) this]
  have "run_of conc_step s ((ms @ ls) @ [Ended (StatusAnswer ''default'' ''gpu-job-1'' ?st)]) t" by simp
  from interleaved_status [OF t(1) this] show ?thesis by blast
qed

theorem calls_terminate_witness:
  "\<exists>(s :: http_request list concurrent) ms t. run_of conc_step s ms t \<and>
     filter begins_call ms = [Asked ReqNotify, Asked (ReqCreate ''u1'' 1 sample_pod)] \<and>
     count_list ms Moved \<le> 18"
proof -
  obtain s ms t where t: "conc_init s" "run_of conc_step s ms t" "quiet sys3 t"
      "filter begins ms = [Net DialOk, Asked ReqNotify, Asked (ReqCreate ''u1'' 1 sample_pod)]"
    by (rule sample_interleaving)
  have "begins_call l \<Longrightarrow> begins l" for l by (cases l) simp_all
  then have "filter begins_call ms = filter begins_call (filter begins ms)"
    unfolding filter_filter by metis
  with t calls_terminate [OF t(1,2)] show ?thesis by auto
qed

definition second_rejection :: reject_params where
  "second_rejection = (sample_rejection ''quota_exceeded'')\<lparr>rp_message := ''no quota left''\<rparr>"

lemma sample_rejection_key:
  "pod_of (sample_rejection code) = ''default'' @ ''/'' @ ''gpu-job-1''"
  "pod_of second_rejection = ''default'' @ ''/'' @ ''gpu-job-1''"
  using sample_names by (simp_all add: pod_of_def PodKey_def sample_rejection_def second_rejection_def k8s_name_def)

lemma sys3_session:
  "cn_reader (kb_conn (sy_kubelet sys3))" "ws_command_ch (kb_ws (sy_kubelet sys3)) = []"
proof -
  have "cn_reader (kb_conn (sy_kubelet sys2))" "ws_command_ch (kb_ws (sy_kubelet sys2)) = []"
    by (simp_all add: sys2_def NotifyPods_def sys1_def dialled_def exec_step_def sys0_pc Let_def)
      (simp add: sys0_def started_kubelet_def Start_def SetOnConnect_def NewClient_def)
  then show "cn_reader (kb_conn (sy_kubelet sys3))" "ws_command_ch (kb_ws (sy_kubelet sys3)) = []"
    by (auto simp: sys3_def CreatePod_def Let_def split_beta kb_send_def send_is_envelope sendEnvelope_Inr
        updatePodStatus_def split: sum.split)
qed

theorem command_end_to_end_witness:
  "\<exists>t u env. system_step sys3 (KNet (reject_frame (sample_rejection ''plan_limit''))) t \<and>
     system_step t (KCommand ''u3'' 3 env) u \<and>
     (sy_kubelet u, sy_world u) = process_command ''u3'' 3 (reject_message (sample_rejection ''plan_limit''))
        (sy_kubelet sys3, sy_world sys3)"
proof -
  have "four_digit_year 1" by (simp add: four_digit_year_def)
  from command_end_to_end [OF sys3_session
      reject_envelope(2,3) [of "''c1''" "sample_rejection ''plan_limit''"] this reject_envelope(4),
      where uuid = "''u3''" and clock = 3]
  show ?thesis unfolding reject_frame_def reject_message_def by blast
qed

text \<open>
  Two reject messages of the platform and a status call between them: the answer combines the code
  of the first with the message of the second, and no message of the platform said that.
\<close>

theorem mixed_rejection:
  "\<exists>(s :: http_request list concurrent) ms t. conc_init s \<and>
     run_of conc_step s (ms @ [Ended (StatusAnswer ''default'' ''gpu-job-1''
       (Returns (failed_status ''plan_limit'' ''no quota left'')))]) t \<and>
     (\<nexists>p. p \<in> \<Union> (rejections_of ` set ms) \<and> rp_code p = ''plan_limit'' \<and> rp_message p = ''no quota left'')"
proof -
  let ?r = "sample_rejection ''plan_limit''" and ?key = "''default'' @ ''/'' @ ''gpu-job-1''"
  obtain t1 env1 where 1: "system_step sys3 (KNet (reject_frame ?r)) t1"
      "t1 = on_kubelet (received_command [env1]) sys3" "reject_params_of env1 = Some ?r"
      "\<And>uuid clock. process_command uuid clock env1 =
         (process_command uuid clock (reject_message ?r) :: http_request list kubelet \<times> _ \<Rightarrow> _)"
    by (rule reject_arrives [OF sys3_session, where r = ?r]) blast
  define u where "u = sys3\<lparr>sy_kubelet := fst (process_command ''u3'' 3 env1 (sy_kubelet sys3, sy_world sys3)),
      sy_world := snd (process_command ''u3'' 3 env1 (sy_kubelet sys3, sy_world sys3))\<rparr>"
  have 2: "system_step t1 (KCommand ''u3'' 3 env1) u"
    unfolding u_def 1(2) by (rule command_taken [OF sys3_session(2)])
  have "rejected_as ?key ''plan_limit'' ''upgrade your plan'' (sy_kubelet u)"
    using process_rejected [of ?r ?key "sy_kubelet sys3"] sys3_pods sample_rejection_key(1) 1(4)
    by (simp add: u_def reject_message_def pod_of_def sample_key sample_rejection_def)
  then obtain info where info: "kb_status (sy_kubelet u) ?key = Some info"
      "ii_reject_code info = ''plan_limit''" by (auto simp: rejected_as_def)
  have session: "cn_reader (kb_conn (sy_kubelet u))" "ws_command_ch (kb_ws (sy_kubelet u)) = []"
    using sys3_session by (simp_all add: u_def process_command_frame)
  obtain t2 env2 where 3: "system_step u (KNet (reject_frame second_rejection)) t2"
      "t2 = on_kubelet (received_command [env2]) u" "reject_params_of env2 = Some second_rejection"
    by (rule reject_arrives [OF session, where r = second_rejection]) blast
  let ?ls = "sample_labels @ [KNet (reject_frame ?r), KCommand ''u3'' 3 env1, KNet (reject_frame second_rejection)]"
  have run: "run_of system_step sys0 ?ls t2"
    using run_append [OF sample_run] 1(1) 2 3(1) by (blast intro: run_Cons run_nil)
  obtain s :: "http_request list concurrent" and ms t where s: "conc_init s"
      "run_of conc_step s (ms @ [Ended (StatusAnswer ''default'' ''gpu-job-1''
         (Returns (failed_status ''plan_limit'' ''no quota left'')))]) t"
      "filter begins ms = map call_label_of ?ls @ [Asked (ReqStatus ''default'' ''gpu-job-1''), Took ''u4'' 4 env2]"
    using torn_rejection [OF sys0_init run _ _ _ 3(3) sample_rejection_key(2) refl, of info "[]" "''u4''" 4]
      info 3(2) by (auto simp: received_command_def second_rejection_def)
  have "rejections_of l \<noteq> {} \<Longrightarrow> begins l" for l by (cases l) simp_all
  then have "\<Union> (rejections_of ` set ms) = \<Union> (rejections_of ` set (filter begins ms))" by fastforce
  also have "\<dots> = {?r, second_rejection}"
    using 1(3) 3(3) by (simp add: s(3) sample_labels_def insert_commute)
  finally have both: "\<Union> (rejections_of ` set ms) = {?r, second_rejection}" .
  have "\<nexists>p. p \<in> \<Union> (rejections_of ` set ms) \<and> rp_code p = ''plan_limit'' \<and> rp_message p = ''no quota left''"
    unfolding both by (auto simp: sample_rejection_def second_rejection_def)
  with s(1,2) show ?thesis by blast
qed

end
