(* ===== verification/Spec2Isabelle.thy ===== *)
theory Spec2Isabelle
  imports Gpu_Selection Ws_Correct Command_Line Informers Dial_Url Kubelet_Schedules
begin

text \<open>
  \<^bold>\<open>The conduit kubelet\<close>

  The program is a virtual kubelet: Kubernetes schedules pods on the virtual node it registers, it
  tells a platform about them over one WebSocket, and carries out the platform's commands (deploy,
  terminate, status, ping, reject) by calling a GPU provider's API. This development models the Go
  code under \<open>cmd/\<close> and \<open>pkg/\<close> and proves what each part promises.

  \<^bold>\<open>Parts and theories\<close>, in the order in which they build on each other:

  \<^item> \<open>Prelude\<close>: integers at their width, errors as values, and the generic lemmas on transition
    systems (reachability, runs, inductive invariants, simulation by a specification automaton).
  \<^item> \<open>Go_Strings\<close>, \<open>Json_Tree\<close>: what the code uses of \<open>strings\<close>, \<open>fmt\<close> and \<open>encoding/json\<close>. JSON
    is a tree; \<open>decode_struct\<close> is \<open>json.Unmarshal\<close> into a struct given by its tags, and the encoders
    write a struct field by field.
  \<^item> \<open>Timestamp\<close>: the wire format of a time: the calendar, the layouts of \<open>time.Format\<close> and
    \<open>time.Parse\<close> that the code names, \<open>MarshalJSON\<close> and \<open>UnmarshalJSON\<close> with its fallbacks.
  \<^item> \<open>Protocol\<close>, \<open>Outbound\<close>, \<open>Wire\<close> (\<open>pkg/websocket/protocol.go\<close>): envelopes, commands, parameters,
    results, responses, events, registration, heartbeat, and what they look like on the wire; the
    locale \<open>codec\<close> states that a parameter struct survives the trip through an envelope and is
    interpreted for every parameter type.
  \<^item> \<open>Providers\<close> (\<open>pkg/providers\<close>): provider errors, status vocabulary, the provider interface as a
    record of functions on the outside world with its contract as the locale \<open>provider_contract\<close>,
    and the manager.
  \<^item> \<open>Runpod\<close>, \<open>Runpod_Correct\<close>, \<open>Gpu_Selection\<close> (\<open>pkg/providers/runpod/client.go\<close>): the RunPod
    provider over an abstract HTTP transport. The transport is a parameter; \<open>runpod_provider\<close>
    interprets \<open>provider_contract\<close>. The selection of GPU types, which no other code calls, is proved
    for every sort with the contract of \<open>sort.Slice\<close>.
  \<^item> \<open>Handler\<close> (\<open>pkg/command/handler.go\<close>): decoding and dispatch of commands.
  \<^item> \<open>Channels\<close>: buffered channels with non-blocking sends, as the locale \<open>bounded_channel\<close>,
    interpreted for the client's two channels.
  \<^item> \<open>Ws_Client\<close>, \<open>Ws_Connection\<close>, \<open>Ws_Reconnect\<close>, \<open>Ws_Policy\<close>, \<open>Ws_Exec\<close>, \<open>Ws_Correct\<close>
    (\<open>pkg/websocket/client.go\<close>): the client's data and operations; its goroutines as step relations
    over one state, whose union \<open>conn_step\<close> is the client; its invariant and the order of delivery;
    the reconnection policy as an automaton over unbounded integers that every run follows; the
    steps as a function, for evaluation; the properties of whole runs.
  \<^item> \<open>Net_Url\<close>, \<open>Dial_Url\<close>: Go's \<open>net/url\<close> (parsing, queries, printing); \<open>buildDialURL\<close>,
    \<open>redactURL\<close> and the request of \<open>connect\<close>.
  \<^item> \<open>Config\<close> (\<open>pkg/config/config.go\<close> and the configuration part of \<open>cmd/virtual_kubelet/main.go\<close>).
  \<^item> \<open>Kubelet\<close>, \<open>Kubelet_Ops\<close>, \<open>Kubelet_System\<close>, \<open>Kubelet_Correct\<close>, \<open>Kubelet_Startup\<close>,
    \<open>Kubelet_Frames\<close>, \<open>Kubelet_Witness\<close> (\<open>pkg/virtual_kubelet/kubelet.go\<close>): the operations on the
    pod cache; the contract they share as the locale \<open>pod_operation\<close>, interpreted five times; the
    kubelet as a transition system that contains the WebSocket client; what it promises; a command
    from the text of its frame to its effect.
  \<^item> \<open>Resumptions\<close>, \<open>Kubelet_Calls\<close>, \<open>Kubelet_Atomic\<close>, \<open>Kubelet_Interleaving\<close>,
    \<open>Kubelet_Concurrent\<close>, \<open>Kubelet_Refinement\<close>, \<open>Kubelet_Progress\<close>, \<open>Kubelet_Schedules\<close>: the same
    operations as calls that interrupt each other. A call is a program of atomic sections and sends
    (\<open>create_call\<close> for \<open>CreatePod\<close> and so on) on a store in which pods and instance records have
    addresses, as the pointers of the code; \<open>conc_step\<close> interleaves any number of them with the
    command goroutine, registrations and the WebSocket client. \<open>Kubelet_Atomic\<close> shows that a call
    which nothing interrupts is the operation of \<open>Kubelet\<close>; the locale \<open>rely_guarantee\<close>,
    interpreted on the store, carries the invariant through every interleaving; then the refinement,
    the bound on the steps of a call, and concrete schedules.
  \<^item> \<open>Node_Health\<close>: the virtual node and the health endpoints (\<open>pkg/virtual_kubelet/health.go\<close>).
  \<^item> \<open>Program_Main\<close> (\<open>cmd/virtual_kubelet/main.go\<close>): the Kubernetes client, the controllers, the
    order of the start, the deferred clean-up and the exit code (\<open>main_program\<close>).
    \<open>Command_Line\<close>: the flags, how \<open>flag\<close> and \<open>strconv\<close> read them, and the program from its
    arguments (\<open>run_program\<close>). \<open>Informers\<close>: the informers and their resync interval.

  \<^bold>\<open>How they interact.\<close> The controllers call \<open>CreatePod\<close>, \<open>UpdatePod\<close>, \<open>DeletePod\<close>; those queue
  events on the client's outbound channel (\<open>kb_send\<close>). Its message loop writes them. Its reader puts
  command envelopes into the command channel, from which \<open>process_command\<close> takes them, calls the
  handler, which calls a provider through the manager or the kubelet's \<open>kb_reject\<close>, and queues the
  response. After each connect a goroutine runs \<open>registerWithBackend\<close>. In \<open>Kubelet_System\<close> these are
  the labels of \<open>system_step\<close>; the lemma \<open>system_step_conn\<close> says that each of them is, for the
  connection, a run of the client's own steps, so everything proved of the client holds inside the
  kubelet.

  \<^bold>\<open>What is a parameter.\<close> The HTTP transport, the environment, the clock and the ids of \<open>uuid\<close>, the
  order in which Go ranges over a map, \<open>sort.Slice\<close> (the locale \<open>slice_sort\<close>), the constructors of
  client-go and virtual-kubelet that \<open>main\<close> calls, the text of a field selector, and, as labels of
  the steps, what the network, the timers and the scheduler do.

  \<^bold>\<open>Bounds.\<close> Integers and durations are 64-bit words; the backoff policy needs the two configured
  durations to be positive and below 2 to the 62 nanoseconds (146 years), and
  \<open>connection_timing\<close> shows that the program's are. A call of the kubelet takes at most nine steps
  of its own (\<open>calls_terminate\<close>). Every function is total, no fuel is used.

  \<^bold>\<open>Granularity.\<close> In the client, a step is one \<open>select\<close>, one critical section or one channel
  operation. In \<open>Kubelet_System\<close> a call of the controllers and a command are one step each. In
  \<open>conc_step\<close> a step is one section under \<open>podsMutex\<close> or \<open>notifyMutex\<close>, one read or write that the
  code performs outside of a mutex, the provider call of a command, the check or the channel
  operation of a send. Three things are coarser than the code: \<open>Stop\<close> cancels the context and closes
  the channel of the client in one step, once \<open>GetPodStatus\<close> has found a status
  result it takes its remaining reads together, and \<open>updatePodStatus\<close> writes the three fields of a
  pod's status and notifies in one step. Memory is sequentially consistent, as Go promises only for
  programs without data races. After the context is cancelled the command goroutine may still take
  commands, as a \<open>select\<close> with two ready cases may.

  \<^bold>\<open>Not modelled.\<close> Logging apart from its level; the concrete syntax of JSON texts and of WebSocket
  frames; what client-go does with the informers and the event recorder; the help text of the flags;
  the HTTP servers themselves; the wording of URL errors; deployment files.
\<close>

end
